(* ===== verification/Prelude.thy ===== *)
theory Prelude
  imports Main "HOL-Library.Word"
begin

text \<open>
  What every component of the development shares: Rust's outcomes (\<open>Ok\<close>, \<open>Err\<close>
  and a panic), effects on an explicit state, slices of byte buffers with the bounds
  checks Rust makes, little-endian integers, and a weakest-precondition calculus
  (\<open>wp\<close>) with which the component theories prove invariants and the absence of
  panics.  A \<open>usize\<close> is a \<open>nat\<close>; the fixed-width integers are words.
\<close>

unbundle bit_operations_syntax

named_theorems wp_simps \<open>weakest preconditions of the combinators\<close>
named_theorems layout \<open>byte layouts of the packed structs\<close>
named_theorems enum_defs \<open>discriminants and conversions of the protocol's enums\<close>

type_synonym u8 = "8 word"
type_synonym u16 = "16 word"
type_synonym u32 = "32 word"
type_synonym u64 = "64 word"
type_synonym bytes = "u8 list"

section \<open>Outcomes\<close>

text \<open>
  A Rust function that returns \<open>Result<T, E>\<close> has three outcomes: a value, an error,
  or a panic (an index out of range, an \<open>unwrap\<close> of \<open>None\<close>, an arithmetic
  overflow in a build with overflow checks).  A panic is never confused with an error.
\<close>

datatype (dead 'a, dead 'e) outcome = Ok 'a | Err 'e | Panic

fun rbind :: "('a, 'e) outcome \<Rightarrow> ('a \<Rightarrow> ('b, 'e) outcome) \<Rightarrow> ('b, 'e) outcome" where
  "rbind (Ok x) f = f x"
| "rbind (Err e) f = Err e"
| "rbind Panic f = Panic"

fun map_err :: "('e \<Rightarrow> 'f) \<Rightarrow> ('a, 'e) outcome \<Rightarrow> ('a, 'f) outcome" where
  "map_err f (Ok x) = Ok x"
| "map_err f (Err e) = Err (f e)"
| "map_err f Panic = Panic"

fun map_ok :: "('a \<Rightarrow> 'b) \<Rightarrow> ('a, 'e) outcome \<Rightarrow> ('b, 'e) outcome" where
  "map_ok f (Ok x) = Ok (f x)"
| "map_ok f (Err e) = Err e"
| "map_ok f Panic = Panic"

fun ok_or :: "'e \<Rightarrow> 'a option \<Rightarrow> ('a, 'e) outcome" where
  "ok_or e None = Err e"
| "ok_or e (Some x) = Ok x"

fun expect :: "'a option \<Rightarrow> ('a, 'e) outcome" where
  "expect None = Panic"
| "expect (Some x) = Ok x"

fun unwrap :: "('a, 'f) outcome \<Rightarrow> ('a, 'e) outcome" where
  "unwrap (Ok x) = Ok x"
| "unwrap (Err e) = Panic"
| "unwrap Panic = Panic"

lemma rbind_eq_Ok [simp]: "rbind r f = Ok y \<longleftrightarrow> (\<exists>x. r = Ok x \<and> f x = Ok y)"
  by (cases r) auto

lemma rbind_eq_Panic: "rbind r f = Panic \<longleftrightarrow> r = Panic \<or> (\<exists>x. r = Ok x \<and> f x = Panic)"
  by (cases r) auto

lemma ok_or_not_Panic [simp]: "ok_or e x \<noteq> Panic"
  by (cases x) auto

lemma ok_or_eq_Ok [simp]: "ok_or e x = Ok y \<longleftrightarrow> x = Some y"
  by (cases x) auto

lemma map_err_eq_Ok [simp]: "map_err f r = Ok x \<longleftrightarrow> r = Ok x"
  by (cases r) auto

lemma map_err_eq_Panic [simp]: "map_err f r = Panic \<longleftrightarrow> r = Panic"
  by (cases r) auto

lemma map_ok_simps [simp]:
  "map_ok f r = Ok y \<longleftrightarrow> (\<exists>x. r = Ok x \<and> y = f x)"
  "map_ok f r = Panic \<longleftrightarrow> r = Panic"
  by (cases r; auto)+

section \<open>Effects\<close>

text \<open>
  A method with \<open>&mut\<close> arguments maps the state before it to its outcome and the
  state after it; the state reached before an early return or an error is kept, because
  the caller sees it.
\<close>

type_synonym ('s, 'a, 'e) act = "'s \<Rightarrow> ('a, 'e) outcome \<times> 's"

definition ret :: "'a \<Rightarrow> ('s, 'a, 'e) act" where
  "ret x = (\<lambda>s. (Ok x, s))"

definition fail :: "'e \<Rightarrow> ('s, 'a, 'e) act" where
  "fail e = (\<lambda>s. (Err e, s))"

definition lift :: "('a, 'e) outcome \<Rightarrow> ('s, 'a, 'e) act" where
  "lift r = (\<lambda>s. (r, s))"

definition abind :: "('s, 'a, 'e) act \<Rightarrow> ('a \<Rightarrow> ('s, 'b, 'e) act) \<Rightarrow> ('s, 'b, 'e) act" where
  "abind m f = (\<lambda>s. case m s of (Ok x, s') \<Rightarrow> f x s' | (Err e, s') \<Rightarrow> (Err e, s') | (Panic, s') \<Rightarrow> (Panic, s'))"

definition gets :: "('s \<Rightarrow> 'a) \<Rightarrow> ('s, 'a, 'e) act" where
  "gets f = (\<lambda>s. (Ok (f s), s))"

definition modify :: "('s \<Rightarrow> 's) \<Rightarrow> ('s, unit, 'e) act" where
  "modify f = (\<lambda>s. (Ok (), f s))"

text \<open>
  \<open>match r { Ok(x) => rest, Err(e) => return handler }\<close>: the handler's outcome is
  the outcome of the whole method.
\<close>

fun or_return :: "('a, 'e) outcome \<Rightarrow> ('e \<Rightarrow> ('s, 'b, 'f) act) \<Rightarrow> ('a \<Rightarrow> ('s, 'b, 'f) act) \<Rightarrow> ('s, 'b, 'f) act" where
  "or_return (Ok x) h k = k x"
| "or_return (Err e) h k = h e"
| "or_return Panic h k = (\<lambda>s. (Panic, s))"

text \<open>Recover from an error of an effectful call, keeping the state it left.\<close>

definition or_else :: "('s, 'a, 'e) act \<Rightarrow> ('e \<Rightarrow> ('s, 'b, 'f) act) \<Rightarrow> ('a \<Rightarrow> ('s, 'b, 'f) act) \<Rightarrow> ('s, 'b, 'f) act" where
  "or_else m h k = (\<lambda>s. case m s of (Ok x, s') \<Rightarrow> k x s' | (Err e, s') \<Rightarrow> h e s' | (Panic, s') \<Rightarrow> (Panic, s'))"

subsection \<open>Weakest preconditions\<close>

text \<open>
  \<open>wp m Q E s\<close>: run from \<open>s\<close>, \<open>m\<close> does not panic, a value satisfies \<open>Q\<close> and
  an error satisfies \<open>E\<close>, each together with the state reached.
\<close>

definition wp :: "('s, 'a, 'e) act \<Rightarrow> ('a \<Rightarrow> 's \<Rightarrow> bool) \<Rightarrow> ('e \<Rightarrow> 's \<Rightarrow> bool) \<Rightarrow> 's \<Rightarrow> bool" where
  "wp m Q E s = (case m s of (Ok x, s') \<Rightarrow> Q x s' | (Err e, s') \<Rightarrow> E e s' | (Panic, s') \<Rightarrow> False)"

lemma wp_ret [wp_simps]: "wp (ret x) Q E s = Q x s"
  by (simp add: wp_def ret_def)

lemma wp_fail [wp_simps]: "wp (fail e) Q E s = E e s"
  by (simp add: wp_def fail_def)

lemma wp_gets [wp_simps]: "wp (gets f) Q E s = Q (f s) s"
  by (simp add: wp_def gets_def)

lemma wp_modify [wp_simps]: "wp (modify f) Q E s = Q () (f s)"
  by (simp add: wp_def modify_def)

lemma wp_lift [wp_simps]:
  "wp (lift r) Q E s = (case r of Ok x \<Rightarrow> Q x s | Err e \<Rightarrow> E e s | Panic \<Rightarrow> False)"
  by (simp add: wp_def lift_def split: outcome.split)

lemma wp_abind [wp_simps]: "wp (abind m f) Q E s = wp m (\<lambda>x. wp (f x) Q E) E s"
  by (simp add: wp_def abind_def split: outcome.split prod.split)

lemma wp_or_else [wp_simps]: "wp (or_else m h k) Q E s = wp m (\<lambda>x. wp (k x) Q E) (\<lambda>e. wp (h e) Q E) s"
  by (simp add: wp_def or_else_def split: outcome.split prod.split)

lemma wp_or_return [wp_simps]:
  "wp (or_return r h k) Q E s =
     (case r of Ok x \<Rightarrow> wp (k x) Q E s | Err e \<Rightarrow> wp (h e) Q E s | Panic \<Rightarrow> False)"
  by (cases r) (simp_all add: wp_def)

lemma wp_if [wp_simps]:
  "wp (if b then m1 else m2) Q E s = (if b then wp m1 Q E s else wp m2 Q E s)"
  by simp

lemma wp_mono:
  assumes "wp m Q E s"
    and "\<And>x s'. Q x s' \<Longrightarrow> Q' x s'"
    and "\<And>e s'. E e s' \<Longrightarrow> E' e s'"
  shows "wp m Q' E' s"
  using assms by (auto simp: wp_def split: prod.splits outcome.splits)

lemma wp_conj:
  "wp m Q E s \<Longrightarrow> wp m Q' E' s \<Longrightarrow> wp m (\<lambda>x s. Q x s \<and> Q' x s) (\<lambda>e s. E e s \<and> E' e s) s"
  by (auto simp: wp_def split: prod.splits outcome.splits)

lemma wp_Ok: "wp m Q E s \<Longrightarrow> m s = (Ok x, s') \<Longrightarrow> Q x s'"
  by (simp add: wp_def)

lemma wp_Err: "wp m Q E s \<Longrightarrow> m s = (Err e, s') \<Longrightarrow> E e s'"
  by (simp add: wp_def)

lemma wp_no_panic: "wp m Q E s \<Longrightarrow> fst (m s) \<noteq> Panic"
  by (auto simp: wp_def split: prod.splits outcome.splits)

lemma wp_state: "wp m (\<lambda>_. P) (\<lambda>_. P) s \<Longrightarrow> P (snd (m s))"
  by (auto simp: wp_def split: prod.splits outcome.splits)

section \<open>Slices\<close>

text \<open>\<open>buffer.get(off..off + n)\<close>\<close>

definition get_range :: "nat \<Rightarrow> nat \<Rightarrow> 'a list \<Rightarrow> 'a list option" where
  "get_range off n buf = (if off + n \<le> length buf then Some (take n (drop off buf)) else None)"

text \<open>\<open>&buffer[off..off + n]\<close>, \<open>&buffer[off..]\<close> and \<open>buffer[i]\<close> panic out of range.\<close>

definition slice :: "nat \<Rightarrow> nat \<Rightarrow> 'a list \<Rightarrow> ('a list, 'e) outcome" where
  "slice off n buf = expect (get_range off n buf)"

definition slice_from :: "nat \<Rightarrow> 'a list \<Rightarrow> ('a list, 'e) outcome" where
  "slice_from off buf = (if off \<le> length buf then Ok (drop off buf) else Panic)"

definition index_at :: "nat \<Rightarrow> 'a list \<Rightarrow> ('a, 'e) outcome" where
  "index_at i buf = (if i < length buf then Ok (buf ! i) else Panic)"

text \<open>\<open>buffer[off..off + bs.len()].copy_from_slice(bs)\<close>\<close>

definition splice :: "nat \<Rightarrow> 'a list \<Rightarrow> 'a list \<Rightarrow> 'a list" where
  "splice off bs buf = take off buf @ bs @ drop (off + length bs) buf"

text \<open>
  The encoders write field after field: each field's bytes go to
  \<open>buffer[offset..offset + len]\<close> and \<open>offset\<close> advances by \<open>len\<close>.  A chunk is
  \<open>None\<close> where taking the source slice (for example \<open>&str_data[..len]\<close> with
  \<open>len\<close> beyond the array) panics.  The result is the final offset.
\<close>

fun put_all :: "'a list option list \<Rightarrow> nat \<Rightarrow> 'a list \<Rightarrow> (nat, 'e) outcome \<times> 'a list" where
  "put_all [] off buf = (Ok off, buf)"
| "put_all (None # cs) off buf = (Panic, buf)"
| "put_all (Some bs # cs) off buf =
     (if off + length bs \<le> length buf then put_all cs (off + length bs) (splice off bs buf)
      else (Panic, buf))"

text \<open>\<open>&array[..n]\<close> as a source chunk\<close>

definition prefix_chunk :: "nat \<Rightarrow> 'a list \<Rightarrow> 'a list option" where
  "prefix_chunk n xs = get_range 0 n xs"

text \<open>\<open>arr[..bs.len()].copy_from_slice(bs)\<close> into a zeroed array of \<open>n\<close> bytes\<close>

definition pad_to :: "nat \<Rightarrow> bytes \<Rightarrow> bytes" where
  "pad_to n bs = bs @ replicate (n - length bs) 0"

lemma get_range_Some [simp]:
  "get_range off n buf = Some bs \<longleftrightarrow> off + n \<le> length buf \<and> bs = take n (drop off buf)"
  by (auto simp: get_range_def)

lemma get_range_None [simp]: "get_range off n buf = None \<longleftrightarrow> length buf < off + n"
  by (auto simp: get_range_def)

lemma get_range_append_left: "off + n \<le> length xs \<Longrightarrow> get_range off n (xs @ ys) = get_range off n xs"
  by (simp add: get_range_def)

lemma get_range_exact: "length xs = off \<Longrightarrow> length ys = n \<Longrightarrow> get_range off n (xs @ ys @ zs) = Some ys"
  by (simp add: get_range_def)

lemma get_range_zero: "length xs = n \<Longrightarrow> get_range 0 n (xs @ ys) = Some xs"
  by (simp add: get_range_def)

lemma slice_Ok [simp]:
  "slice off n buf = Ok bs \<longleftrightarrow> off + n \<le> length buf \<and> bs = take n (drop off buf)"
  by (auto simp: slice_def get_range_def)

lemma slice_in_range: "off + n \<le> length buf \<Longrightarrow> slice off n buf = Ok (take n (drop off buf))"
  by simp

lemma slice_Panic [simp]: "slice off n buf = Panic \<longleftrightarrow> length buf < off + n"
  by (auto simp: slice_def get_range_def)

lemma slice_from_in_range: "off \<le> length buf \<Longrightarrow> slice_from off buf = Ok (drop off buf)"
  by (simp add: slice_from_def)

lemma index_at_in_range: "i < length buf \<Longrightarrow> index_at i buf = Ok (buf ! i)"
  by (simp add: index_at_def)

lemma length_splice [simp]: "off + length bs \<le> length buf \<Longrightarrow> length (splice off bs buf) = length buf"
  by (simp add: splice_def)

lemma length_pad_to [simp]: "length bs \<le> n \<Longrightarrow> length (pad_to n bs) = n"
  by (simp add: pad_to_def)

lemma take_pad_to [simp]: "take (length bs) (pad_to n bs) = bs"
  by (simp add: pad_to_def)

lemma prefix_chunk_in_range [simp]: "n \<le> length xs \<Longrightarrow> prefix_chunk n xs = Some (take n xs)"
  by (simp add: prefix_chunk_def get_range_def)

lemma prefix_chunk_None [simp]: "prefix_chunk n xs = None \<longleftrightarrow> length xs < n"
  by (simp add: prefix_chunk_def get_range_def)

text \<open>
  When every chunk exists and the buffer is long enough, the writes replace exactly the
  bytes they cover.  The running offset is generalised to a prefix already written.
\<close>

lemma put_all_prefix:
  "length xs + length (concat bss) \<le> length (xs @ buf) \<Longrightarrow>
   put_all (map Some bss) (length xs) (xs @ buf) =
     (Ok (length xs + length (concat bss)), xs @ concat bss @ drop (length (concat bss)) buf)"
proof (induction bss arbitrary: xs buf)
  case Nil
  then show ?case by simp
next
  case (Cons bs bss)
  let ?rest = "drop (length bs) buf"
  have sp: "splice (length xs) bs (xs @ buf) = (xs @ bs) @ ?rest"
    by (simp add: splice_def)
  have "length (xs @ bs) + length (concat bss) \<le> length ((xs @ bs) @ ?rest)"
    using Cons.prems by simp
  from Cons.IH [OF this] show ?case
    using Cons.prems by (simp add: sp add.commute [of _ "length bs"] add.left_commute)
qed

lemma put_all_fits:
  "length (concat bss) \<le> length buf \<Longrightarrow>
   put_all (map Some bss) 0 buf = (Ok (length (concat bss)), concat bss @ drop (length (concat bss)) buf)"
  using put_all_prefix [of "[]" bss buf] by simp

lemma put_all_length: "put_all cs off buf = (r, buf') \<Longrightarrow> length buf' = length buf"
  by (induction cs off buf rule: put_all.induct) (auto split: if_splits)

lemma put_all_not_Err: "put_all cs off buf \<noteq> (Err e, buf')"
  by (induction cs off buf rule: put_all.induct) auto

section \<open>Little-endian integers\<close>

definition byte_at :: "nat \<Rightarrow> 'a::len word \<Rightarrow> u8" where
  "byte_at i w = ucast (drop_bit (8 * i) w)"

definition le16 :: "u16 \<Rightarrow> bytes" where
  "le16 w = [byte_at 0 w, byte_at 1 w]"

definition le32 :: "u32 \<Rightarrow> bytes" where
  "le32 w = [byte_at 0 w, byte_at 1 w, byte_at 2 w, byte_at 3 w]"

definition le64 :: "u64 \<Rightarrow> bytes" where
  "le64 w = [byte_at 0 w, byte_at 1 w, byte_at 2 w, byte_at 3 w,
             byte_at 4 w, byte_at 5 w, byte_at 6 w, byte_at 7 w]"

fun le_word :: "bytes \<Rightarrow> 'a::len word" where
  "le_word [] = 0"
| "le_word (b # bs) = ucast b OR push_bit 8 (le_word bs)"

text \<open>The recursion stays folded; \<open>bit_le_word\<close> and the inverse laws below reason about it.\<close>

declare le_word.simps [simp del]

lemma bit_byte_at: "bit (byte_at i (w :: 'a::len word)) k \<longleftrightarrow> k < 8 \<and> bit w (8 * i + k)"
  by (auto simp: byte_at_def bit_simps)

lemma bit_le_word:
  "bit (le_word bs :: 'a::len word) k \<longleftrightarrow>
     k < LENGTH('a) \<and> k div 8 < length bs \<and> bit (bs ! (k div 8)) (k mod 8)"
proof (induction bs arbitrary: k)
  case Nil
  then show ?case by (simp add: le_word.simps)
next
  case (Cons b bs)
  show ?case
  proof (cases "k < 8")
    case True
    then show ?thesis by (auto simp: bit_simps le_word.simps)
  next
    case False
    then have "k div 8 = Suc ((k - 8) div 8)" and "k mod 8 = (k - 8) mod 8"
      by (simp_all add: le_div_geq le_mod_geq)
    with False show ?thesis
      by (auto simp: bit_simps le_word.simps Cons.IH dest: bit_imp_le_length)
  qed
qed

lemma nth_byte_list: "k < n \<Longrightarrow> map (\<lambda>i. byte_at i w) [0..<n] ! k = byte_at k w"
  by simp

lemma le_word_bytes:
  "LENGTH('a) = 8 * n \<Longrightarrow> le_word (map (\<lambda>i. byte_at i w) [0..<n]) = (w :: 'a::len word)"
  by (rule bit_word_eqI) (auto simp: bit_le_word bit_byte_at)

lemma le_word_le16 [simp]: "le_word (le16 w) = w"
  using le_word_bytes [of 2 w] by (simp add: le16_def upt_rec numeral_2_eq_2)

lemma le_word_le32 [simp]: "le_word (le32 w) = w"
  using le_word_bytes [of 4 w] by (simp add: le32_def upt_rec numeral_eq_Suc)

lemma le_word_le64 [simp]: "le_word (le64 w) = w"
  using le_word_bytes [of 8 w] by (simp add: le64_def upt_rec numeral_eq_Suc)

lemma length_le [simp]: "length (le16 a) = 2" "length (le32 b) = 4" "length (le64 c) = 8"
  by (simp_all add: le16_def le32_def le64_def)

text \<open>Reading back: the fields of a packed struct at fixed offsets.\<close>

definition u16_at :: "nat \<Rightarrow> bytes \<Rightarrow> u16" where
  [layout]: "u16_at i bs = le_word [bs ! i, bs ! (i + 1)]"

definition u32_at :: "nat \<Rightarrow> bytes \<Rightarrow> u32" where
  [layout]: "u32_at i bs = le_word [bs ! i, bs ! (i + 1), bs ! (i + 2), bs ! (i + 3)]"

definition u64_at :: "nat \<Rightarrow> bytes \<Rightarrow> u64" where
  [layout]: "u64_at i bs = le_word [bs ! i, bs ! (i + 1), bs ! (i + 2), bs ! (i + 3),
     bs ! (i + 4), bs ! (i + 5), bs ! (i + 6), bs ! (i + 7)]"

definition bytes_at :: "nat \<Rightarrow> nat \<Rightarrow> bytes \<Rightarrow> bytes" where
  [layout]: "bytes_at i n bs = take n (drop i bs)"

declare le16_def [layout] le32_def [layout] le64_def [layout]

text \<open>A byte array of which only the first \<open>k\<close> bytes are in use, the rest zero.\<close>

definition padded :: "nat \<Rightarrow> nat \<Rightarrow> bytes \<Rightarrow> bool" where
  "padded n k xs \<longleftrightarrow> length xs = n \<and> k \<le> n \<and> drop k xs = replicate (n - k) 0"

lemma pad_take: "length xs = n \<Longrightarrow> k \<le> n \<Longrightarrow> drop k xs = replicate (n - k) 0 \<Longrightarrow> pad_to n (take k xs) = xs"
  by (metis append_take_drop_id length_take min.absorb2 pad_to_def)

lemma padded_pad_take: "padded n k xs \<Longrightarrow> pad_to n (take k xs) = xs"
  by (simp add: padded_def pad_take)

lemma padded_length: "padded n k xs \<Longrightarrow> length xs = n \<and> k \<le> n"
  by (simp add: padded_def)

lemma padded_pad_to: "length bs = k \<Longrightarrow> k \<le> n \<Longrightarrow> padded n k (pad_to n bs)"
  by (simp add: padded_def pad_to_def)

lemma splice_splice:
  "length xs \<le> length buf \<Longrightarrow>
   splice (length xs) ys (splice 0 xs buf) = splice 0 (xs @ ys) buf"
  by (simp add: splice_def add.commute)

text \<open>The writes of an encoder, folded: what the component theories use instead of unfolding.\<close>

lemma put_fields:
  "cs = map Some bss \<Longrightarrow> concat bss = out \<Longrightarrow> length out \<le> length buf \<Longrightarrow>
   put_all cs 0 buf = (Ok (length out), splice 0 out buf)"
  using put_all_fits [of bss buf] by (simp add: splice_def)

declare put_all.simps [simp del]

end
