(* ===== verification/Codec.thy ===== *)
theory Codec
  imports Prelude
begin

text \<open>
  The codec layer, \<open>pldm-common/src/codec.rs\<close>: the error type, the blanket
  implementation of \<open>PldmCodec\<close> for the types that derive zerocopy's \<open>FromBytes\<close> and
  \<open>IntoBytes\<close>, and the contracts of the layer as locales.  The blanket implementation
  is generic in the derived conversions, which are its arguments here as they are its
  trait bounds there; for each \<open>repr(C, packed)\<close> struct the conversions are the
  struct's declared layout, its fields in order with no padding, integers
  little-endian.  \<open>wire_enum\<close> is the contract of an enum with a checked conversion
  from its discriminant, \<open>packed_struct\<close> that of a fixed layout and \<open>codec\<close> that of
  an encoder and decoder pair.
\<close>

section \<open>Errors\<close>

datatype codec_error = BufferTooShort | Unsupported | InvalidData

section \<open>The blanket implementation\<close>

text \<open>\<open>write_to_prefix\<close> fails on a short buffer and leaves it as it was.\<close>

definition blanket_encode ::
  "nat \<Rightarrow> ('a \<Rightarrow> bytes) \<Rightarrow> 'a \<Rightarrow> bytes \<Rightarrow> (nat, codec_error) outcome \<times> bytes" where
  "blanket_encode sz to_bytes x buf =
     (if length buf < sz then (Err BufferTooShort, buf)
      else (Ok sz, splice 0 (to_bytes x) buf))"

definition blanket_decode :: "nat \<Rightarrow> (bytes \<Rightarrow> 'a) \<Rightarrow> bytes \<Rightarrow> ('a, codec_error) outcome" where
  "blanket_decode sz of_bytes buf =
     (if length buf < sz then Err BufferTooShort else Ok (of_bytes (take sz buf)))"

text \<open>
  \<open>T::read_from_bytes(buffer.get(off..off + size).ok_or(BufferTooShort)?).unwrap()\<close>, the
  first step of the hand-written decoders: the slice has the size of \<open>T\<close>, so the
  \<open>unwrap\<close> succeeds.
\<close>

definition read_at :: "nat \<Rightarrow> nat \<Rightarrow> (bytes \<Rightarrow> 'a) \<Rightarrow> bytes \<Rightarrow> ('a, codec_error) outcome" where
  "read_at off sz of_bytes buf =
     rbind (ok_or BufferTooShort (get_range off sz buf)) (\<lambda>bs. Ok (of_bytes bs))"

lemma blanket_decode_not_Panic [simp]: "blanket_decode sz f buf \<noteq> Panic"
  by (simp add: blanket_decode_def)

lemma blanket_decode_eq_Err:
  "blanket_decode sz f buf = Err e \<longleftrightarrow> length buf < sz \<and> e = BufferTooShort"
  by (auto simp: blanket_decode_def)

lemma blanket_encode_not_Panic [simp]: "blanket_encode sz f x buf \<noteq> (Panic, buf')"
  by (simp add: blanket_encode_def)

lemma read_at_fits [simp]:
  "off + sz \<le> length buf \<Longrightarrow> read_at off sz f buf = Ok (f (take sz (drop off buf)))"
  by (simp add: read_at_def get_range_def)

lemma read_at_short [simp]: "length buf < off + sz \<Longrightarrow> read_at off sz f buf = Err BufferTooShort"
  by (simp add: read_at_def get_range_def)

lemma read_at_not_Panic [simp]: "read_at off sz f buf \<noteq> Panic"
  by (simp add: read_at_def get_range_def)

lemma read_at_exact:
  "length xs = off \<Longrightarrow> length ys = sz \<Longrightarrow> read_at off sz f (xs @ ys @ zs) = Ok (f ys)"
  by simp

text \<open>\<open>sound_enc m\<close>: encoding does not panic and keeps the buffer's length.\<close>

definition sound_enc :: "(bytes \<Rightarrow> (nat, codec_error) outcome \<times> bytes) \<Rightarrow> bool" where
  "sound_enc m \<longleftrightarrow> (\<forall>buf. fst (m buf) \<noteq> Panic \<and> length (snd (m buf)) = length buf)"

lemma sound_enc_blanket:
  assumes "length (f x) = sz"
  shows "sound_enc (blanket_encode sz f x)"
  using assms by (simp add: sound_enc_def blanket_encode_def splice_def)

section \<open>Contracts\<close>

subsection \<open>Enums with a checked conversion\<close>

locale wire_enum =
  fixes to_wire :: "'a \<Rightarrow> 'w::len word"
    and try_from :: "'w word \<Rightarrow> ('a, 'e) outcome"
  assumes decode_encode: "try_from (to_wire x) = Ok x"
    and encode_decode: "try_from w = Ok x \<Longrightarrow> to_wire x = w"
    and no_panic: "try_from w \<noteq> Panic"
begin

lemma inj: "inj to_wire"
  by (rule injI) (metis decode_encode outcome.inject(1))

lemma eq_iff: "to_wire x = to_wire y \<longleftrightarrow> x = y"
  using inj by (auto simp: inj_eq)

lemma accepts_iff: "(\<exists>x. try_from w = Ok x) \<longleftrightarrow> w \<in> range to_wire"
  by (metis decode_encode encode_decode rangeE rangeI)

lemma unwrap_safe: "unwrap (try_from (to_wire x)) = Ok x"
  by (simp add: decode_encode)

lemma rejects: "w \<notin> range to_wire \<Longrightarrow> \<exists>e. try_from w = Err e"
  using accepts_iff no_panic by (metis outcome.exhaust)

end

subsection \<open>Encoders and decoders\<close>

text \<open>
  \<open>ser x\<close> is the message on the wire.  The encoder writes it at the start of the buffer
  or reports \<open>BufferTooShort\<close> and leaves the buffer alone; the decoder reads it back
  and never panics, whatever the bytes.
\<close>

locale codec_exact =
  fixes enc :: "'a \<Rightarrow> bytes \<Rightarrow> (nat, codec_error) outcome \<times> bytes"
    and dec :: "bytes \<Rightarrow> ('a, codec_error) outcome"
    and ser :: "'a \<Rightarrow> bytes"
    and wf :: "'a \<Rightarrow> bool"
  assumes enc_fits: "wf x \<Longrightarrow> length (ser x) \<le> length buf \<Longrightarrow>
      enc x buf = (Ok (length (ser x)), splice 0 (ser x) buf)"
    and enc_short: "wf x \<Longrightarrow> length buf < length (ser x) \<Longrightarrow> enc x buf = (Err BufferTooShort, buf)"
    and dec_ser: "wf x \<Longrightarrow> dec (ser x) = Ok x"
    and dec_no_panic: "dec bs \<noteq> Panic"
begin

lemma enc_cases:
  "wf x \<Longrightarrow> enc x buf =
     (if length (ser x) \<le> length buf then (Ok (length (ser x)), splice 0 (ser x) buf)
      else (Err BufferTooShort, buf))"
  by (simp add: enc_fits enc_short)

lemma enc_no_panic: "wf x \<Longrightarrow> fst (enc x buf) \<noteq> Panic"
  by (simp add: enc_cases)

lemma enc_length: "wf x \<Longrightarrow> length (snd (enc x buf)) = length buf"
  by (simp add: enc_cases splice_def)

lemma sound: "wf x \<Longrightarrow> sound_enc (enc x)"
  by (simp add: sound_enc_def enc_no_panic enc_length)

lemma roundtrip: "wf x \<Longrightarrow> enc x buf = (Ok n, buf') \<Longrightarrow> dec (take n buf') = Ok x"
  by (auto simp: enc_cases splice_def dec_ser split: if_splits)

lemma enc_frame: "wf x \<Longrightarrow> enc x buf = (Ok n, buf') \<Longrightarrow> drop n buf' = drop n buf"
  by (auto simp: enc_cases splice_def split: if_splits)

lemma ser_inj: "wf x \<Longrightarrow> wf y \<Longrightarrow> ser x = ser y \<Longrightarrow> x = y"
  by (metis dec_ser outcome.inject(1))

end

text \<open>Decoders that stop at the end of the message ignore what follows it.\<close>

locale codec = codec_exact +
  assumes dec_prefix: "wf x \<Longrightarrow> dec (ser x @ rest) = Ok x"
begin

lemma roundtrip_whole: "wf x \<Longrightarrow> enc x buf = (Ok n, buf') \<Longrightarrow> dec buf' = Ok x"
  by (auto simp: enc_cases splice_def dec_prefix split: if_splits)

end

subsection \<open>Packed structs\<close>

locale packed_struct =
  fixes sz :: nat
    and to_bytes :: "'a \<Rightarrow> bytes"
    and of_bytes :: "bytes \<Rightarrow> 'a"
    and wf :: "'a \<Rightarrow> bool"
  assumes length_to_bytes: "wf x \<Longrightarrow> length (to_bytes x) = sz"
    and of_to_bytes: "wf x \<Longrightarrow> of_bytes (to_bytes x) = x"
    and to_of_bytes: "length bs = sz \<Longrightarrow> to_bytes (of_bytes bs) = bs \<and> wf (of_bytes bs)"
begin

lemma decode_total: "sz \<le> length buf \<Longrightarrow> \<exists>x. blanket_decode sz of_bytes buf = Ok x \<and> wf x"
  using to_of_bytes [of "take sz buf"] by (auto simp: blanket_decode_def)

lemma decode_encode_bytes:
  "blanket_decode sz of_bytes buf = Ok x \<Longrightarrow> to_bytes x = take sz buf \<and> wf x"
  using to_of_bytes [of "take sz buf"] by (auto simp: blanket_decode_def split: if_splits)

end

sublocale packed_struct \<subseteq>
  codec "blanket_encode sz to_bytes" "blanket_decode sz of_bytes" to_bytes wf
  by unfold_locales
     (auto simp: blanket_encode_def blanket_decode_def length_to_bytes of_to_bytes)

section \<open>Sequences of encoded parts\<close>

text \<open>
  \<open>x.encode(&mut buffer[offset..])?; offset += bytes\<close>, once and in a loop, and the
  decoding loops.  A decoder takes the rest of its input by \<open>&buffer[offset..]\<close>, which
  panics, or by \<open>buffer.get(offset..)\<close>, which does not: \<open>rest\<close> is the accessor.
\<close>

definition encode_at ::
  "('a \<Rightarrow> bytes \<Rightarrow> (nat, codec_error) outcome \<times> bytes) \<Rightarrow> 'a \<Rightarrow> nat \<Rightarrow> (bytes, nat, codec_error) act" where
  "encode_at enc x offset buffer =
     (case slice_from offset buffer of
        Ok sub \<Rightarrow>
          (case enc x sub of (r, sub') \<Rightarrow> (map_ok (\<lambda>bytes. offset + bytes) r, take offset buffer @ sub'))
      | Err e \<Rightarrow> (Err e, buffer)
      | Panic \<Rightarrow> (Panic, buffer))"

fun encode_list ::
  "('a \<Rightarrow> bytes \<Rightarrow> (nat, codec_error) outcome \<times> bytes) \<Rightarrow> 'a list \<Rightarrow> nat \<Rightarrow> (bytes, nat, codec_error) act" where
  "encode_list enc [] offset = ret offset"
| "encode_list enc (x # xs) offset = abind (encode_at enc x offset) (encode_list enc xs)"

definition get_from :: "nat \<Rightarrow> bytes \<Rightarrow> (bytes, codec_error) outcome" where
  "get_from off buf = (if off \<le> length buf then Ok (drop off buf) else Err BufferTooShort)"

fun decode_list ::
  "(nat \<Rightarrow> bytes \<Rightarrow> (bytes, codec_error) outcome) \<Rightarrow> (bytes \<Rightarrow> ('a, codec_error) outcome) \<Rightarrow> ('a \<Rightarrow> nat)
     \<Rightarrow> nat \<Rightarrow> nat \<Rightarrow> bytes \<Rightarrow> ('a list \<times> nat, codec_error) outcome" where
  "decode_list rest dec codec_size 0 offset buffer = Ok ([], offset)"
| "decode_list rest dec codec_size (Suc n) offset buffer =
     rbind (rest offset buffer) (\<lambda>sub.
     rbind (dec sub) (\<lambda>x.
     rbind (decode_list rest dec codec_size n (offset + codec_size x) buffer) (\<lambda>(xs, off). Ok (x # xs, off))))"

context codec_exact begin

lemma encode_at_fits:
  "wf x \<Longrightarrow> length (pre @ ser x) \<le> length buf \<Longrightarrow>
   encode_at enc x (length pre) (splice 0 pre buf)
     = (Ok (length (pre @ ser x)), splice 0 (pre @ ser x) buf)"
  by (simp add: encode_at_def slice_from_def enc_fits splice_def add.commute)

lemma encode_list_fits:
  "list_all wf xs \<Longrightarrow> length (pre @ concat (map ser xs)) \<le> length buf \<Longrightarrow>
   encode_list enc xs (length pre) (splice 0 pre buf)
     = (Ok (length (pre @ concat (map ser xs))), splice 0 (pre @ concat (map ser xs)) buf)"
proof (induction xs arbitrary: pre)
  case Nil
  then show ?case by (simp add: ret_def)
next
  case (Cons x xs)
  from Cons.prems have "encode_at enc x (length pre) (splice 0 pre buf)
      = (Ok (length (pre @ ser x)), splice 0 (pre @ ser x) buf)"
    by (intro encode_at_fits) auto
  with Cons.IH [of "pre @ ser x"] Cons.prems show ?case
    by (simp add: abind_def)
qed

end

context codec begin

lemma decode_list_ser:
  assumes rest: "\<And>off buf. off \<le> length buf \<Longrightarrow> rest off buf = Ok (drop off buf)"
    and codec_size: "\<And>x. wf x \<Longrightarrow> codec_size x = length (ser x)"
  shows "list_all wf xs \<Longrightarrow>
    decode_list rest dec codec_size (length xs) (length pre) (pre @ concat (map ser xs) @ post)
      = Ok (xs, length pre + length (concat (map ser xs)))"
proof (induction xs arbitrary: pre)
  case Nil
  then show ?case by simp
next
  case (Cons x xs)
  have "decode_list rest dec codec_size (length xs) (length (pre @ ser x))
      ((pre @ ser x) @ concat (map ser xs) @ post)
      = Ok (xs, length (pre @ ser x) + length (concat (map ser xs)))"
    using Cons.prems by (intro Cons.IH) simp
  with Cons.prems show ?case by (simp add: rest codec_size dec_prefix add.assoc)
qed

end

lemma get_from_in_range: "off \<le> length buf \<Longrightarrow> get_from off buf = Ok (drop off buf)"
  by (simp add: get_from_def)

lemma decode_list_get_no_panic:
  "(\<And>bs. dec bs \<noteq> Panic) \<Longrightarrow> decode_list get_from dec codec_size n off buf \<noteq> Panic"
  by (induction n arbitrary: off) (auto simp: rbind_eq_Panic get_from_def split: if_splits)

text \<open>With \<open>&buffer[offset..]\<close> the loop is safe because each decoded part lies in its input.\<close>

lemma decode_list_slice_no_panic:
  assumes "\<And>bs. dec bs \<noteq> Panic" and "\<And>bs x. dec bs = Ok x \<Longrightarrow> codec_size x \<le> length bs"
  shows "off \<le> length buf \<Longrightarrow> decode_list slice_from dec codec_size n off buf \<noteq> Panic"
proof (induction n arbitrary: off)
  case (Suc n)
  have "off + codec_size x \<le> length buf" if "dec (drop off buf) = Ok x" for x
    using assms(2) [OF that] Suc.prems by (simp add: le_diff_conv2 add.commute)
  with Suc assms(1) show ?case by (auto simp: rbind_eq_Panic slice_from_def)
qed simp

lemma decode_list_length: "decode_list rest dec codec_size n off buf = Ok (xs, off') \<Longrightarrow> length xs = n"
  by (induction n arbitrary: off xs off') auto

section \<open>Evaluating layouts\<close>

lemma length_eq_Cons:
  "length bs = numeral n \<longleftrightarrow> (\<exists>b bs'. bs = b # bs' \<and> length bs' = pred_numeral n)"
  by (simp add: numeral_eq_Suc length_Suc_conv)

lemma length_eq_Suc_Cons: "length bs = Suc n \<longleftrightarrow> (\<exists>b bs'. bs = b # bs' \<and> length bs' = n)"
  by (simp add: length_Suc_conv)

lemma byte_at_le_word [simp]:
  "i < length bs \<Longrightarrow> 8 * length bs = LENGTH('a) \<Longrightarrow> byte_at i (le_word bs :: 'a::len word) = bs ! i"
  by (rule bit_word_eqI) (auto simp: bit_byte_at bit_le_word)

lemma le16_le_word [simp]: "le16 (le_word [a, b]) = [a, b]"
  by (simp add: le16_def byte_at_le_word)

lemma le32_le_word [simp]: "le32 (le_word [a, b, c, d]) = [a, b, c, d]"
  by (simp add: le32_def byte_at_le_word)

lemma le64_le_word [simp]: "le64 (le_word [a, b, c, d, e, f, g, h]) = [a, b, c, d, e, f, g, h]"
  by (simp add: le64_def byte_at_le_word)

lemma le_word_byte_at16 [simp]: "le_word [byte_at 0 w, byte_at (Suc 0) w] = (w :: u16)"
  using le_word_le16 [of w] by (simp add: le16_def)

lemma le_word_byte_at32 [simp]:
  "le_word [byte_at 0 w, byte_at (Suc 0) w, byte_at 2 w, byte_at 3 w] = (w :: u32)"
  using le_word_le32 [of w] by (simp add: le32_def)

lemma le_word_byte_at64 [simp]:
  "le_word [byte_at 0 w, byte_at (Suc 0) w, byte_at 2 w, byte_at 3 w,
            byte_at 4 w, byte_at 5 w, byte_at 6 w, byte_at 7 w] = (w :: u64)"
  using le_word_le64 [of w] by (simp add: le64_def)

end
