(* ===== verification/Base.thy ===== *)
theory Base
  imports Codec
begin

text \<open>
  The base protocol, \<open>pldm-common/src/protocol/base.rs\<close>, and the library's error types,
  \<open>pldm-common/src/error.rs\<close>: the enums with their discriminants and checked
  conversions, the message header with the bit fields its \<open>bitfield!\<close> declaration names,
  and the failure response.  An accessor \<open>name: msb, lsb\<close> reads bits \<open>lsb..msb\<close>, counted
  from the low bit of byte 0, and its setter replaces them by the low bits of the value.
\<close>

section \<open>Errors\<close>

datatype pldm_error =
    PE_InvalidData | PE_InvalidLength | PE_InvalidMsgType | PE_InvalidProtocolVersion
  | PE_UnsupportedCmd | PE_UnsupportedPldmType | PE_InvalidCompletionCode
  | PE_InvalidTransferOpFlag | PE_InvalidTransferRespFlag
  | PE_InvalidVersionStringType | PE_InvalidVersionStringLength | PE_InvalidFdState
  | PE_InvalidDescriptorType | PE_InvalidDescriptorLength | PE_InvalidDescriptorCount
  | PE_InvalidComponentClassification | PE_InvalidComponentResponseCode
  | PE_InvalidComponentCompatibilityResponse | PE_InvalidComponentCompatibilityResponseCode
  | PE_InvalidTransferResult | PE_InvalidVerifyResult | PE_InvalidApplyResult
  | PE_InvalidGetStatusReasonCode | PE_InvalidAuxStateStatus

datatype util_error = InvalidMctpPayloadLength | InvalidMctpMsgType

section \<open>Enums\<close>

definition PLDM_MSG_HEADER_LEN :: nat where
  "PLDM_MSG_HEADER_LEN = 3"

definition PLDM_FAILURE_RESP_LEN :: nat where
  "PLDM_FAILURE_RESP_LEN = 4"

datatype pldm_supported_type =
    TypeBase
  | TypePlatform
  | TypeBios
  | TypeFru
  | TypeFwUpdate
  | TypeOem

fun pldm_supported_type_disc :: "pldm_supported_type \<Rightarrow> u8" where
  "pldm_supported_type_disc TypeBase = 0x00"
| "pldm_supported_type_disc TypePlatform = 0x02"
| "pldm_supported_type_disc TypeBios = 0x03"
| "pldm_supported_type_disc TypeFru = 0x04"
| "pldm_supported_type_disc TypeFwUpdate = 0x05"
| "pldm_supported_type_disc TypeOem = 0x3F"

definition pldm_supported_type_try_from :: "u8 \<Rightarrow> (pldm_supported_type, pldm_error) outcome" where
  "pldm_supported_type_try_from value =
    (if value = 0x00 then Ok TypeBase
     else if value = 0x02 then Ok TypePlatform
     else if value = 0x03 then Ok TypeBios
     else if value = 0x04 then Ok TypeFru
     else if value = 0x05 then Ok TypeFwUpdate
     else if value = 0x3F then Ok TypeOem
     else Err PE_UnsupportedPldmType)"

interpretation pldm_supported_type: wire_enum pldm_supported_type_disc pldm_supported_type_try_from
proof
  fix x show "pldm_supported_type_try_from (pldm_supported_type_disc x) = Ok x"
    by (cases x) (simp_all add: pldm_supported_type_try_from_def)
next
  fix w x assume "pldm_supported_type_try_from w = Ok x"
  then show "pldm_supported_type_disc x = w"
    by (auto simp: pldm_supported_type_try_from_def split: if_splits)
next
  fix w show "pldm_supported_type_try_from w \<noteq> Panic"
    by (simp add: pldm_supported_type_try_from_def)
qed

datatype pldm_control_cmd =
    SetTid
  | GetTid
  | GetPldmVersion
  | GetPldmTypes
  | GetPldmCommands

fun pldm_control_cmd_disc :: "pldm_control_cmd \<Rightarrow> u8" where
  "pldm_control_cmd_disc SetTid = 0x1"
| "pldm_control_cmd_disc GetTid = 0x2"
| "pldm_control_cmd_disc GetPldmVersion = 0x3"
| "pldm_control_cmd_disc GetPldmTypes = 0x4"
| "pldm_control_cmd_disc GetPldmCommands = 0x5"

definition pldm_control_cmd_try_from :: "u8 \<Rightarrow> (pldm_control_cmd, pldm_error) outcome" where
  "pldm_control_cmd_try_from value =
    (if value = 0x1 then Ok SetTid
     else if value = 0x2 then Ok GetTid
     else if value = 0x3 then Ok GetPldmVersion
     else if value = 0x4 then Ok GetPldmTypes
     else if value = 0x5 then Ok GetPldmCommands
     else Err PE_UnsupportedCmd)"

interpretation pldm_control_cmd: wire_enum pldm_control_cmd_disc pldm_control_cmd_try_from
proof
  fix x show "pldm_control_cmd_try_from (pldm_control_cmd_disc x) = Ok x"
    by (cases x) (simp_all add: pldm_control_cmd_try_from_def)
next
  fix w x assume "pldm_control_cmd_try_from w = Ok x"
  then show "pldm_control_cmd_disc x = w"
    by (auto simp: pldm_control_cmd_try_from_def split: if_splits)
next
  fix w show "pldm_control_cmd_try_from w \<noteq> Panic"
    by (simp add: pldm_control_cmd_try_from_def)
qed

datatype pldm_msg_type =
    MsgResponse
  | MsgReserved
  | MsgRequest
  | MsgAsyncRequestNotify

fun pldm_msg_type_disc :: "pldm_msg_type \<Rightarrow> u8" where
  "pldm_msg_type_disc MsgResponse = 0x00"
| "pldm_msg_type_disc MsgReserved = 0x01"
| "pldm_msg_type_disc MsgRequest = 0x02"
| "pldm_msg_type_disc MsgAsyncRequestNotify = 0x03"

definition pldm_msg_type_try_from :: "u8 \<Rightarrow> (pldm_msg_type, pldm_error) outcome" where
  "pldm_msg_type_try_from value =
    (if value = 0x00 then Ok MsgResponse
     else if value = 0x01 then Ok MsgReserved
     else if value = 0x02 then Ok MsgRequest
     else if value = 0x03 then Ok MsgAsyncRequestNotify
     else Err PE_InvalidMsgType)"

interpretation pldm_msg_type: wire_enum pldm_msg_type_disc pldm_msg_type_try_from
proof
  fix x show "pldm_msg_type_try_from (pldm_msg_type_disc x) = Ok x"
    by (cases x) (simp_all add: pldm_msg_type_try_from_def)
next
  fix w x assume "pldm_msg_type_try_from w = Ok x"
  then show "pldm_msg_type_disc x = w"
    by (auto simp: pldm_msg_type_try_from_def split: if_splits)
next
  fix w show "pldm_msg_type_try_from w \<noteq> Panic"
    by (simp add: pldm_msg_type_try_from_def)
qed

text \<open>\<open>PldmHeaderVersion\<close> has the single value \<open>Version0\<close>.\<close>

definition HDR_VERSION0 :: u8 where
  "HDR_VERSION0 = 0x00"

datatype base_cc =
    CC_Success
  | CC_Error
  | CC_InvalidData
  | CC_InvalidLength
  | CC_NotReady
  | CC_UnsupportedPldmCmd
  | CC_InvalidPldmType

fun base_cc_disc :: "base_cc \<Rightarrow> u8" where
  "base_cc_disc CC_Success = 0x00"
| "base_cc_disc CC_Error = 0x01"
| "base_cc_disc CC_InvalidData = 0x02"
| "base_cc_disc CC_InvalidLength = 0x03"
| "base_cc_disc CC_NotReady = 0x04"
| "base_cc_disc CC_UnsupportedPldmCmd = 0x05"
| "base_cc_disc CC_InvalidPldmType = 0x20"

definition base_cc_try_from :: "u8 \<Rightarrow> (base_cc, pldm_error) outcome" where
  "base_cc_try_from value =
    (if value = 0x00 then Ok CC_Success
     else if value = 0x01 then Ok CC_Error
     else if value = 0x02 then Ok CC_InvalidData
     else if value = 0x03 then Ok CC_InvalidLength
     else if value = 0x04 then Ok CC_NotReady
     else if value = 0x05 then Ok CC_UnsupportedPldmCmd
     else if value = 0x20 then Ok CC_InvalidPldmType
     else Err PE_InvalidCompletionCode)"

interpretation base_cc: wire_enum base_cc_disc base_cc_try_from
proof
  fix x show "base_cc_try_from (base_cc_disc x) = Ok x"
    by (cases x) (simp_all add: base_cc_try_from_def)
next
  fix w x assume "base_cc_try_from w = Ok x"
  then show "base_cc_disc x = w"
    by (auto simp: base_cc_try_from_def split: if_splits)
next
  fix w show "base_cc_try_from w \<noteq> Panic"
    by (simp add: base_cc_try_from_def)
qed

datatype control_cc =
    CC_InvalidDataTransferHandle
  | CC_InvalidTransferOperationFlag
  | CC_InvalidPldmTypeInRequestData
  | CC_InvalidPldmVersionInRequestData

fun control_cc_disc :: "control_cc \<Rightarrow> u8" where
  "control_cc_disc CC_InvalidDataTransferHandle = 0x80"
| "control_cc_disc CC_InvalidTransferOperationFlag = 0x81"
| "control_cc_disc CC_InvalidPldmTypeInRequestData = 0x83"
| "control_cc_disc CC_InvalidPldmVersionInRequestData = 0x84"

definition control_cc_try_from :: "u8 \<Rightarrow> (control_cc, pldm_error) outcome" where
  "control_cc_try_from value =
    (if value = 0x80 then Ok CC_InvalidDataTransferHandle
     else if value = 0x81 then Ok CC_InvalidTransferOperationFlag
     else if value = 0x83 then Ok CC_InvalidPldmTypeInRequestData
     else if value = 0x84 then Ok CC_InvalidPldmVersionInRequestData
     else Err PE_InvalidCompletionCode)"

interpretation control_cc: wire_enum control_cc_disc control_cc_try_from
proof
  fix x show "control_cc_try_from (control_cc_disc x) = Ok x"
    by (cases x) (simp_all add: control_cc_try_from_def)
next
  fix w x assume "control_cc_try_from w = Ok x"
  then show "control_cc_disc x = w"
    by (auto simp: control_cc_try_from_def split: if_splits)
next
  fix w show "control_cc_try_from w \<noteq> Panic"
    by (simp add: control_cc_try_from_def)
qed

datatype transfer_operation_flag =
    GetNextPart
  | GetFirstPart

fun transfer_operation_flag_disc :: "transfer_operation_flag \<Rightarrow> u8" where
  "transfer_operation_flag_disc GetNextPart = 0"
| "transfer_operation_flag_disc GetFirstPart = 1"

definition transfer_operation_flag_try_from :: "u8 \<Rightarrow> (transfer_operation_flag, pldm_error) outcome" where
  "transfer_operation_flag_try_from value =
    (if value = 0 then Ok GetNextPart
     else if value = 1 then Ok GetFirstPart
     else Err PE_InvalidTransferOpFlag)"

interpretation transfer_operation_flag: wire_enum transfer_operation_flag_disc transfer_operation_flag_try_from
proof
  fix x show "transfer_operation_flag_try_from (transfer_operation_flag_disc x) = Ok x"
    by (cases x) (simp_all add: transfer_operation_flag_try_from_def)
next
  fix w x assume "transfer_operation_flag_try_from w = Ok x"
  then show "transfer_operation_flag_disc x = w"
    by (auto simp: transfer_operation_flag_try_from_def split: if_splits)
next
  fix w show "transfer_operation_flag_try_from w \<noteq> Panic"
    by (simp add: transfer_operation_flag_try_from_def)
qed

datatype transfer_resp_flag =
    FlagStart
  | FlagMiddle
  | FlagEnd
  | FlagStartAndEnd

fun transfer_resp_flag_disc :: "transfer_resp_flag \<Rightarrow> u8" where
  "transfer_resp_flag_disc FlagStart = 0x01"
| "transfer_resp_flag_disc FlagMiddle = 0x02"
| "transfer_resp_flag_disc FlagEnd = 0x04"
| "transfer_resp_flag_disc FlagStartAndEnd = 0x05"

definition transfer_resp_flag_try_from :: "u8 \<Rightarrow> (transfer_resp_flag, pldm_error) outcome" where
  "transfer_resp_flag_try_from value =
    (if value = 0x01 then Ok FlagStart
     else if value = 0x02 then Ok FlagMiddle
     else if value = 0x04 then Ok FlagEnd
     else if value = 0x05 then Ok FlagStartAndEnd
     else Err PE_InvalidTransferRespFlag)"

interpretation transfer_resp_flag: wire_enum transfer_resp_flag_disc transfer_resp_flag_try_from
proof
  fix x show "transfer_resp_flag_try_from (transfer_resp_flag_disc x) = Ok x"
    by (cases x) (simp_all add: transfer_resp_flag_try_from_def)
next
  fix w x assume "transfer_resp_flag_try_from w = Ok x"
  then show "transfer_resp_flag_disc x = w"
    by (auto simp: transfer_resp_flag_try_from_def split: if_splits)
next
  fix w show "transfer_resp_flag_try_from w \<noteq> Panic"
    by (simp add: transfer_resp_flag_try_from_def)
qed

section \<open>Bit fields\<close>

definition get_bits :: "nat \<Rightarrow> nat \<Rightarrow> 'a::len word \<Rightarrow> 'a word" where
  "get_bits msb lsb w = take_bit (Suc msb - lsb) (drop_bit lsb w)"

definition set_bits :: "nat \<Rightarrow> nat \<Rightarrow> 'a::len word \<Rightarrow> 'a word \<Rightarrow> 'a word" where
  "set_bits msb lsb v w =
     (w AND NOT (push_bit lsb (mask (Suc msb - lsb)))) OR push_bit lsb (take_bit (Suc msb - lsb) v)"

lemma bit_get_bits:
  "lsb \<le> msb \<Longrightarrow> bit (get_bits msb lsb (w :: 'a::len word)) k \<longleftrightarrow> k + lsb \<le> msb \<and> bit w (k + lsb)"
  by (auto simp: get_bits_def bit_simps add.commute dest: bit_imp_le_length)

lemma bit_set_bits:
  "lsb \<le> msb \<Longrightarrow> bit (set_bits msb lsb v (w :: 'a::len word)) k \<longleftrightarrow>
     k < LENGTH('a) \<and> (if lsb \<le> k \<and> k \<le> msb then bit v (k - lsb) else bit w k)"
  by (auto simp: set_bits_def bit_simps dest: bit_imp_le_length)

lemma get_set_bits:
  assumes "lsb \<le> msb" and "msb < LENGTH('a)"
  shows "get_bits msb lsb (set_bits msb lsb v (w :: 'a::len word)) = take_bit (Suc msb - lsb) v"
  using assms by (intro bit_word_eqI) (auto simp: bit_get_bits bit_set_bits bit_simps)

lemma get_set_bits_other:
  assumes "lsb \<le> msb" and "l \<le> m" and "msb < l \<or> m < lsb"
  shows "get_bits m l (set_bits msb lsb v (w :: 'a::len word)) = get_bits m l w"
  using assms by (intro bit_word_eqI) (auto simp: bit_get_bits bit_set_bits dest: bit_imp_le_length)

section \<open>The message header\<close>

datatype pldm_msg_header = PldmMsgHeader u8 u8 u8

fun hdr_bytes :: "pldm_msg_header \<Rightarrow> bytes" where
  "hdr_bytes (PldmMsgHeader a b c) = [a, b, c]"

definition hdr_of :: "bytes \<Rightarrow> pldm_msg_header" where
  "hdr_of bs = PldmMsgHeader (bs ! 0) (bs ! 1) (bs ! 2)"

fun instance_id :: "pldm_msg_header \<Rightarrow> u8" where
  "instance_id (PldmMsgHeader a b c) = get_bits 4 0 a"

fun hdr_reserved :: "pldm_msg_header \<Rightarrow> u8" where
  "hdr_reserved (PldmMsgHeader a b c) = get_bits 5 5 a"

fun datagram :: "pldm_msg_header \<Rightarrow> u8" where
  "datagram (PldmMsgHeader a b c) = get_bits 6 6 a"

fun rq :: "pldm_msg_header \<Rightarrow> u8" where
  "rq (PldmMsgHeader a b c) = get_bits 7 7 a"

fun hdr_pldm_type :: "pldm_msg_header \<Rightarrow> u8" where
  "hdr_pldm_type (PldmMsgHeader a b c) = get_bits 5 0 b"

fun hdr_ver :: "pldm_msg_header \<Rightarrow> u8" where
  "hdr_ver (PldmMsgHeader a b c) = get_bits 7 6 b"

fun cmd_code :: "pldm_msg_header \<Rightarrow> u8" where
  "cmd_code (PldmMsgHeader a b c) = get_bits 7 0 c"

fun set_instance_id :: "u8 \<Rightarrow> pldm_msg_header \<Rightarrow> pldm_msg_header" where
  "set_instance_id v (PldmMsgHeader a b c) = PldmMsgHeader (set_bits 4 0 v a) b c"

fun set_datagram :: "u8 \<Rightarrow> pldm_msg_header \<Rightarrow> pldm_msg_header" where
  "set_datagram v (PldmMsgHeader a b c) = PldmMsgHeader (set_bits 6 6 v a) b c"

fun set_rq :: "u8 \<Rightarrow> pldm_msg_header \<Rightarrow> pldm_msg_header" where
  "set_rq v (PldmMsgHeader a b c) = PldmMsgHeader (set_bits 7 7 v a) b c"

fun set_pldm_type :: "u8 \<Rightarrow> pldm_msg_header \<Rightarrow> pldm_msg_header" where
  "set_pldm_type v (PldmMsgHeader a b c) = PldmMsgHeader a (set_bits 5 0 v b) c"

fun set_hdr_ver :: "u8 \<Rightarrow> pldm_msg_header \<Rightarrow> pldm_msg_header" where
  "set_hdr_ver v (PldmMsgHeader a b c) = PldmMsgHeader a (set_bits 7 6 v b) c"

fun set_command_code :: "u8 \<Rightarrow> pldm_msg_header \<Rightarrow> pldm_msg_header" where
  "set_command_code v (PldmMsgHeader a b c) = PldmMsgHeader a b (set_bits 7 0 v c)"

text \<open>\<open>DATAGRAM_MASK\<close> is bit 0 and \<open>REQUEST_MASK\<close> bit 1 of the message type.\<close>

definition header_new :: "u8 \<Rightarrow> pldm_msg_type \<Rightarrow> pldm_supported_type \<Rightarrow> u8 \<Rightarrow> pldm_msg_header" where
  "header_new inst msg_type ptype cmd =
    (let h = PldmMsgHeader 0 0 0;
         h = set_instance_id inst h;
         h = set_datagram (pldm_msg_type_disc msg_type AND 0x01) h;
         h = set_rq (drop_bit 1 (pldm_msg_type_disc msg_type AND push_bit 1 0x01)) h;
         h = set_pldm_type (pldm_supported_type_disc ptype) h;
         h = set_hdr_ver HDR_VERSION0 h
     in set_command_code cmd h)"

definition is_request :: "pldm_msg_header \<Rightarrow> bool" where
  "is_request h \<longleftrightarrow> rq h = drop_bit 1 (pldm_msg_type_disc MsgRequest)"

definition is_hdr_ver_valid :: "pldm_msg_header \<Rightarrow> bool" where
  "is_hdr_ver_valid h \<longleftrightarrow> hdr_ver h = HDR_VERSION0"

definition into_response :: "pldm_msg_header \<Rightarrow> pldm_msg_header" where
  "into_response h = set_rq (pldm_msg_type_disc MsgResponse) h"

definition hdr_decode :: "bytes \<Rightarrow> (pldm_msg_header, codec_error) outcome" where
  "hdr_decode = blanket_decode 3 hdr_of"

interpretation header: packed_struct 3 hdr_bytes hdr_of "\<lambda>_. True"
proof
  fix x show "length (hdr_bytes x) = 3" by (cases x) simp
  show "hdr_of (hdr_bytes x) = x" by (cases x) (simp add: hdr_of_def)
next
  fix bs :: bytes assume "length bs = 3"
  then show "hdr_bytes (hdr_of bs) = bs \<and> True"
    by (auto simp: hdr_of_def length_eq_Cons length_eq_Suc_Cons)
qed

lemma hdr_bytes_length [simp]: "length (hdr_bytes h) = 3"
  by (cases h) simp

lemma hdr_of_bytes [simp]: "hdr_of (hdr_bytes h) = h"
  by (cases h) (simp add: hdr_of_def)

lemma hdr_of_append [simp]: "hdr_of (hdr_bytes h @ bs) = h"
  by (cases h) (simp add: hdr_of_def)

lemma hdr_of_Cons [simp]: "hdr_of (a # b # c # bs) = PldmMsgHeader a b c"
  by (simp add: hdr_of_def)

subsection \<open>What the constructor and the conversion put on the wire\<close>

lemma header_new_eq:
  "header_new inst mt pt cmd =
     PldmMsgHeader
       (set_bits 7 7 (drop_bit 1 (pldm_msg_type_disc mt AND 2))
         (set_bits 6 6 (pldm_msg_type_disc mt AND 1) (set_bits 4 0 inst 0)))
       (set_bits 7 6 HDR_VERSION0 (set_bits 5 0 (pldm_supported_type_disc pt) 0))
       (set_bits 7 0 cmd 0)"
  by (simp add: header_new_def)

lemma set_bits_full: "set_bits 7 0 v (w :: u8) = v"
  by (rule bit_word_eqI) (auto simp: bit_set_bits)

lemma get_bits_full: "get_bits 7 0 (w :: u8) = w"
  by (rule bit_word_eqI) (auto simp: bit_get_bits dest: bit_imp_le_length)

lemma header_new_instance_id [simp]: "instance_id (header_new inst mt pt cmd) = take_bit 5 inst"
  by (simp add: header_new_eq get_set_bits get_set_bits_other)

lemma header_new_cmd_code [simp]: "cmd_code (header_new inst mt pt cmd) = cmd"
  by (simp add: header_new_eq set_bits_full get_bits_full)

lemma header_new_pldm_type [simp]:
  "hdr_pldm_type (header_new inst mt pt cmd) = pldm_supported_type_disc pt"
  by (cases pt) (simp_all add: header_new_eq get_set_bits get_set_bits_other)

lemma header_new_hdr_ver [simp]: "is_hdr_ver_valid (header_new inst mt pt cmd)"
  by (simp add: header_new_eq get_set_bits is_hdr_ver_valid_def HDR_VERSION0_def)

lemma header_new_is_request [simp]:
  "is_request (header_new inst mt pt cmd) \<longleftrightarrow> mt = MsgRequest \<or> mt = MsgAsyncRequestNotify"
  by (cases mt) (simp_all add: header_new_eq get_set_bits is_request_def)

lemma into_response_fields [simp]:
  "instance_id (into_response h) = instance_id h"
  "hdr_pldm_type (into_response h) = hdr_pldm_type h"
  "hdr_ver (into_response h) = hdr_ver h"
  "cmd_code (into_response h) = cmd_code h"
  "datagram (into_response h) = datagram h"
  "rq (into_response h) = 0"
  by (cases h; simp add: into_response_def get_set_bits_other get_set_bits)+

lemma into_response_not_request [simp]: "\<not> is_request (into_response h)"
  by (simp add: is_request_def)

section \<open>The failure response\<close>

record failure_response =
  fr_hdr :: pldm_msg_header
  fr_completion_code :: u8

definition failure_response_bytes :: "failure_response \<Rightarrow> bytes" where
  [layout]: "failure_response_bytes r = hdr_bytes (fr_hdr r) @ [fr_completion_code r]"

definition failure_response_of :: "bytes \<Rightarrow> failure_response" where
  [layout]: "failure_response_of bs = \<lparr>fr_hdr = hdr_of bs, fr_completion_code = bs ! 3\<rparr>"

definition failure_response_new ::
  "u8 \<Rightarrow> pldm_supported_type \<Rightarrow> u8 \<Rightarrow> u8 \<Rightarrow> failure_response" where
  "failure_response_new inst ptype cmd cc =
     \<lparr>fr_hdr = header_new inst MsgResponse ptype cmd, fr_completion_code = cc\<rparr>"

lemma nth_hdr_append [simp]: "n \<ge> 3 \<Longrightarrow> (hdr_bytes h @ bs) ! n = bs ! (n - 3)"
  by (simp add: nth_append)

lemma drop_hdr_append [simp]: "n \<ge> 3 \<Longrightarrow> drop n (hdr_bytes h @ bs) = drop (n - 3) bs"
  by simp

interpretation failure_response: packed_struct 4 failure_response_bytes failure_response_of "\<lambda>_. True"
  by unfold_locales (auto simp: layout length_eq_Cons length_eq_Suc_Cons)

end
