(* ===== verification/Responder.thy ===== *)
theory Responder
  imports Codec Base
begin

text \<open>
  What every request handler shares: the errors of \<open>pldm-interface/src/error.rs\<close>, the
  failure responses of \<open>pldm-interface/src/cmd_interface.rs\<close>, and the two shapes every
  handler is made of, decoding the request in the payload and encoding the response over
  it.  A handler runs on a pair of its context and the payload.
\<close>

datatype fd_ops_error =
    DeviceIdentifiersError
  | FirmwareParametersError
  | TransferSizeError
  | ComponentError
  | FwDownloadError
  | VerifyError
  | ApplyError
  | ActivateError
  | CancelUpdateError
  | SecurityRevisionError

datatype msg_handler_error =
    Codec codec_error
  | PldmCommon pldm_error
  | Util util_error
  | FdOps fd_ops_error
  | FdInitiatorModeError
  | NotReady
  | T1Timeout

type_synonym ('c, 'a) handler = "('c \<times> bytes, 'a, msg_handler_error) act"

section \<open>Running on a part of the state\<close>

definition on_payload :: "(bytes \<Rightarrow> ('a, 'e) outcome \<times> bytes) \<Rightarrow> ('c \<times> bytes, 'a, 'e) act" where
  "on_payload m = (\<lambda>(c, payload). case m payload of (r, payload') \<Rightarrow> (r, (c, payload')))"

definition on_ctx :: "('c \<Rightarrow> ('a, 'e) outcome \<times> 'c) \<Rightarrow> ('c \<times> bytes, 'a, 'e) act" where
  "on_ctx m = (\<lambda>(c, payload). case m c of (r, c') \<Rightarrow> (r, (c', payload)))"

definition coding :: "(bytes \<Rightarrow> (nat, codec_error) outcome \<times> bytes) \<Rightarrow> (bytes, nat, msg_handler_error) act" where
  "coding m = (\<lambda>payload. case m payload of (r, payload') \<Rightarrow> (map_err Codec r, payload'))"

section \<open>Failure responses\<close>

definition generate_failure_response :: "u8 \<Rightarrow> (bytes, nat, msg_handler_error) act" where
  "generate_failure_response completion_code =
     abind (gets hdr_decode) (\<lambda>hdr.
     abind (lift (map_err Codec hdr)) (\<lambda>header.
       coding (blanket_encode 4 failure_response_bytes
         \<lparr>fr_hdr = into_response header, fr_completion_code = completion_code\<rparr>)))"

fun decode_failure_code :: "codec_error \<Rightarrow> u8" where
  "decode_failure_code BufferTooShort = base_cc_disc CC_InvalidLength"
| "decode_failure_code InvalidData = base_cc_disc CC_InvalidData"
| "decode_failure_code Unsupported = base_cc_disc CC_InvalidData"

definition failure :: "u8 \<Rightarrow> ('c, nat) handler" where
  "failure cc = on_payload (generate_failure_response cc)"

section \<open>Decoding requests and encoding responses\<close>

text \<open>\<open>let req = match R::decode(payload) { Ok(req) => req, Err(e) => return
  generate_failure_response(payload, decode_failure_code(e)) }\<close>\<close>

definition with_request ::
  "(bytes \<Rightarrow> ('r, codec_error) outcome) \<Rightarrow> ('r \<Rightarrow> ('c, nat) handler) \<Rightarrow> ('c, nat) handler" where
  "with_request dec k = (\<lambda>s. or_return (dec (snd s)) (\<lambda>e. failure (decode_failure_code e)) k s)"

text \<open>\<open>resp.encode(payload).map_err(MsgHandlerError::Codec)\<close>\<close>

definition respond :: "(bytes \<Rightarrow> (nat, codec_error) outcome \<times> bytes) \<Rightarrow> ('c, nat) handler" where
  "respond m = on_payload (coding m)"

text \<open>\<open>match resp.encode(payload) { Ok(bytes) => { on_ok; Ok(bytes) }, Err(_) =>
  generate_failure_response(payload, InvalidLength) }\<close>\<close>

definition respond_then ::
  "(bytes \<Rightarrow> (nat, codec_error) outcome \<times> bytes) \<Rightarrow> ('c, unit) handler \<Rightarrow> ('c, nat) handler" where
  "respond_then m on_ok =
     or_else (on_payload m)
       (\<lambda>_. failure (base_cc_disc CC_InvalidLength))
       (\<lambda>n. abind on_ok (\<lambda>_. ret n))"

section \<open>Laws\<close>

lemma decode_failure_code_eq:
  "decode_failure_code e = (if e = BufferTooShort then 0x03 else 0x02)"
  by (cases e) auto

lemma wp_on_payload [wp_simps]:
  "wp (on_payload m) Q E s = wp m (\<lambda>x b. Q x (fst s, b)) (\<lambda>e b. E e (fst s, b)) (snd s)"
  by (cases s) (simp add: wp_def on_payload_def split: prod.split outcome.split)

lemma wp_on_ctx [wp_simps]:
  "wp (on_ctx m) Q E s = wp m (\<lambda>x c. Q x (c, snd s)) (\<lambda>e c. E e (c, snd s)) (fst s)"
  by (cases s) (simp add: wp_def on_ctx_def split: prod.split outcome.split)

lemma wp_coding [wp_simps]: "wp (coding m) Q E b = wp m Q (\<lambda>e. E (Codec e)) b"
  by (auto simp: wp_def coding_def split: prod.split outcome.split)

lemma wp_with_request [wp_simps]:
  "wp (with_request dec k) Q E s =
     (case dec (snd s) of Ok x \<Rightarrow> wp (k x) Q E s
      | Err e \<Rightarrow> wp (failure (decode_failure_code e)) Q E s | Panic \<Rightarrow> False)"
  by (cases "dec (snd s)") (simp_all add: with_request_def wp_def)

lemma wp_ret_fun: "wp (ret x) Q E = Q x"
  by (rule ext) (rule wp_ret)

lemma wp_sound_enc:
  assumes "sound_enc m"
    and "\<And>n b'. length b' = length b \<Longrightarrow> Q n b'" and "\<And>e b'. length b' = length b \<Longrightarrow> E e b'"
  shows "wp m Q E b"
proof -
  have "fst (m b) \<noteq> Panic" "length (snd (m b)) = length b"
    using assms(1) by (simp_all add: sound_enc_def)
  with assms(2,3) [of "snd (m b)"] show ?thesis
    by (auto simp: wp_def split: prod.split outcome.split)
qed

lemma sound_generate_failure_response:
  assumes "\<And>n b'. length b' = length b \<Longrightarrow> Q n b'" and "\<And>e b'. length b' = length b \<Longrightarrow> E (Codec e) b'"
  shows "wp (generate_failure_response cc) Q E b"
proof (cases "hdr_decode b")
  case (Ok h)
  have "sound_enc (blanket_encode 4 failure_response_bytes \<lparr>fr_hdr = into_response h, fr_completion_code = cc\<rparr>)"
    by (rule sound_enc_blanket) (simp add: layout)
  from wp_sound_enc [OF this] Ok assms show ?thesis
    by (simp add: generate_failure_response_def wp_simps)
qed (simp_all add: generate_failure_response_def wp_simps hdr_decode_def assms)

lemma wp_failureI:
  assumes "\<And>n b'. length b' = length (snd s) \<Longrightarrow> Q n (fst s, b')"
    and "\<And>e b'. length b' = length (snd s) \<Longrightarrow> E (Codec e) (fst s, b')"
  shows "wp (failure cc) Q E s"
  unfolding failure_def wp_on_payload by (rule sound_generate_failure_response) (simp_all add: assms)

lemma wp_respondI:
  assumes "sound_enc m"
    and "\<And>n b'. length b' = length (snd s) \<Longrightarrow> Q n (fst s, b')"
    and "\<And>e b'. length b' = length (snd s) \<Longrightarrow> E (Codec e) (fst s, b')"
  shows "wp (respond m) Q E s"
  unfolding respond_def wp_on_payload wp_coding by (rule wp_sound_enc) (simp_all add: assms)

lemma wp_respond_thenI:
  assumes "sound_enc m"
    and "\<And>n b'. length b' = length (snd s) \<Longrightarrow> wp on_ok (\<lambda>_. Q n) E (fst s, b')"
    and "\<And>n b'. length b' = length (snd s) \<Longrightarrow> Q n (fst s, b')"
    and "\<And>e b'. length b' = length (snd s) \<Longrightarrow> E (Codec e) (fst s, b')"
  shows "wp (respond_then m on_ok) Q E s"
  unfolding respond_then_def wp_or_else wp_on_payload
proof (rule wp_sound_enc [OF assms(1)])
  fix n and b' :: bytes assume b: "length b' = length (snd s)"
  show "wp (abind on_ok (\<lambda>_. ret n)) Q E (fst s, b')"
    using assms(2) [OF b] by (simp add: wp_simps wp_ret_fun)
next
  fix e and b' :: bytes assume b: "length b' = length (snd s)"
  show "wp (failure (base_cc_disc CC_InvalidLength)) Q E (fst s, b')"
    by (rule wp_failureI) (simp_all add: assms b)
qed

section \<open>Safe handlers\<close>

text \<open>
  \<open>safe I m\<close>: from any context that satisfies \<open>I\<close> and any payload, \<open>m\<close> does not
  panic, leaves a context that satisfies \<open>I\<close>, also on an error, and does not change the
  payload's length.  The rules follow the shapes handlers are written in.
\<close>

definition holds_at :: "('c \<Rightarrow> bool) \<Rightarrow> nat \<Rightarrow> 'c \<times> bytes \<Rightarrow> bool" where
  "holds_at I n s \<longleftrightarrow> I (fst s) \<and> length (snd s) = n"

definition safe :: "('c \<Rightarrow> bool) \<Rightarrow> ('c, 'a) handler \<Rightarrow> bool" where
  "safe I m \<longleftrightarrow> (\<forall>n s. holds_at I n s \<longrightarrow> wp m (\<lambda>_. holds_at I n) (\<lambda>_. holds_at I n) s)"

lemma safeI:
  "(\<And>n s. holds_at I n s \<Longrightarrow> wp m (\<lambda>_. holds_at I n) (\<lambda>_. holds_at I n) s) \<Longrightarrow> safe I m"
  by (simp add: safe_def)

lemma safeD: "safe I m \<Longrightarrow> holds_at I n s \<Longrightarrow> wp m (\<lambda>_. holds_at I n) (\<lambda>_. holds_at I n) s"
  unfolding safe_def by blast

named_theorems safe_rules \<open>safe handlers are built from safe parts\<close>

lemma safe_ret [safe_rules]: "safe I (ret x)"
  by (simp add: safe_def wp_simps)

lemma safe_fail [safe_rules]: "safe I (fail e)"
  by (simp add: safe_def wp_simps)

lemma safe_failure [safe_rules]: "safe I (failure cc)"
  by (rule safeI) (auto simp: holds_at_def intro!: wp_failureI)

lemma safe_respond [safe_rules]: "sound_enc m \<Longrightarrow> safe I (respond m)"
  by (rule safeI) (auto simp: holds_at_def intro!: wp_respondI)

lemma safe_respond_then [safe_rules]: "sound_enc m \<Longrightarrow> safe I on_ok \<Longrightarrow> safe I (respond_then m on_ok)"
proof (rule safeI, erule wp_respond_thenI)
  fix n s k and b' :: bytes
  assume "safe I on_ok" "holds_at I n s" "length b' = length (snd s)"
  then show "wp on_ok (\<lambda>_. holds_at I n) (\<lambda>_. holds_at I n) (fst s, b')"
    by (intro safeD) (simp_all add: holds_at_def)
qed (simp_all add: holds_at_def)

lemma safe_with_request [safe_rules]:
  assumes "\<And>bs. dec bs \<noteq> Panic" and "\<And>bs x. dec bs = Ok x \<Longrightarrow> safe I (k x)"
  shows "safe I (with_request dec k)"
proof (rule safeI)
  fix n s assume s: "holds_at I n s"
  show "wp (with_request dec k) (\<lambda>_. holds_at I n) (\<lambda>_. holds_at I n) s"
    using safeD [OF assms(2) s] safeD [OF safe_failure s] assms(1)
    by (auto simp: wp_with_request split: outcome.split)
qed

lemma safe_or_return [safe_rules]:
  "r \<noteq> Panic \<Longrightarrow> (\<And>e. safe I (h e)) \<Longrightarrow> (\<And>x. r = Ok x \<Longrightarrow> safe I (k x)) \<Longrightarrow> safe I (or_return r h k)"
  by (cases r) (simp_all add: safe_def)

lemma safe_if [safe_rules]:
  "(b \<Longrightarrow> safe I m1) \<Longrightarrow> (\<not> b \<Longrightarrow> safe I m2) \<Longrightarrow> safe I (if b then m1 else m2)"
  by simp

lemma safe_gets [safe_rules]:
  "(\<And>c. I c \<Longrightarrow> safe I (f c)) \<Longrightarrow> safe I (abind (gets fst) f)"
  by (simp add: safe_def wp_simps holds_at_def)

lemma safe_lift [safe_rules]:
  "r \<noteq> Panic \<Longrightarrow> (\<And>x. r = Ok x \<Longrightarrow> safe I (f x)) \<Longrightarrow> safe I (abind (lift r) f)"
  by (cases r) (simp_all add: safe_def wp_simps)

lemma safe_abind:
  "safe I m \<Longrightarrow> (\<And>x. safe I (f x)) \<Longrightarrow> safe I (abind m f)"
  by (intro safeI) (auto simp: wp_abind intro: wp_mono safeD)

lemma safe_on_ctx [safe_rules]:
  assumes "\<And>c. I c \<Longrightarrow> wp m (\<lambda>_. I) (\<lambda>_. I) c"
  shows "safe I (on_ctx m)"
  using assms by (intro safeI) (auto simp: holds_at_def wp_simps intro: wp_mono)

lemma safe_modify [safe_rules]:
  "(\<And>c. I c \<Longrightarrow> I (g c)) \<Longrightarrow> (\<And>x. safe I (f x)) \<Longrightarrow> safe I (abind (on_ctx (modify g)) f)"
  by (simp add: safe_def wp_simps holds_at_def)

lemma safe_no_panic:
  assumes "safe I m" "I (fst s)" shows "fst (m s) \<noteq> Panic"
  using wp_no_panic [OF safeD [OF assms(1)]] assms(2) by (simp add: holds_at_def)

lemma safe_state:
  assumes "safe I m" "I (fst s)"
  shows "I (fst (snd (m s))) \<and> length (snd (snd (m s))) = length (snd s)"
  using wp_state [OF safeD [OF assms(1)], of "length (snd s)" s] assms(2) by (simp add: holds_at_def)

section \<open>What the responses are\<close>

text \<open>What a failure response is on the wire: the request's own header turned into a response,
  and the completion code; the rest of the payload is untouched.\<close>

lemma generate_failure_response_fits:
  assumes "4 \<le> length payload"
  shows "generate_failure_response cc payload =
    (Ok 4, hdr_bytes (into_response (hdr_of (take 3 payload))) @ cc # drop 4 payload)"
  using assms
  by (simp add: generate_failure_response_def abind_def gets_def lift_def hdr_decode_def blanket_decode_def
      coding_def blanket_encode_def splice_def layout)

lemma generate_failure_response_short:
  assumes "length payload < 4"
  shows "generate_failure_response cc payload = (Err (Codec BufferTooShort), payload)"
  using assms
  by (cases "length payload < 3")
     (simp_all add: generate_failure_response_def abind_def gets_def lift_def hdr_decode_def
      blanket_decode_def coding_def blanket_encode_def)

lemma failure_eq:
  "failure cc (c, payload) =
     (if 4 \<le> length payload
      then (Ok 4, (c, hdr_bytes (into_response (hdr_of (take 3 payload))) @ cc # drop 4 payload))
      else (Err (Codec BufferTooShort), (c, payload)))"
  by (simp add: failure_def on_payload_def generate_failure_response_fits generate_failure_response_short)

lemma blanket_fits:
  "sz \<le> length buf \<Longrightarrow> blanket_encode sz f x buf = (Ok sz, splice 0 (f x) buf)"
  by (simp add: blanket_encode_def)

end
