(* ===== verification/Version.thy ===== *)
theory Version
  imports Base
begin

text \<open>
  Protocol versions, \<open>pldm-common/src/protocol/version.rs\<close>: the parser of version
  strings and the BCD encoding in \<open>Ver32\<close>.  Strings are ASCII, as the library's own
  version literals are, so a character is one byte and \<open>is_alphabetic\<close> means an ASCII
  letter.
\<close>

type_synonym ver32 = u32

record pldm_version =
  v_alpha :: u8
  v_update :: u8
  v_minor :: u8
  v_major :: u8

definition version_new :: "u8 \<Rightarrow> u8 \<Rightarrow> u8 \<Rightarrow> u8 \<Rightarrow> pldm_version" where
  "version_new alpha update minor major =
     \<lparr>v_alpha = alpha, v_update = update, v_minor = minor, v_major = major\<rparr>"

section \<open>Parsing\<close>

text \<open>\<open>str::split('.')\<close>: one part more than there are dots.\<close>

fun split_dot :: "string \<Rightarrow> string list" where
  "split_dot [] = [[]]"
| "split_dot (c # cs) =
     (if c = CHR ''.'' then [] # split_dot cs
      else (case split_dot cs of [] \<Rightarrow> [[c]] | p # ps \<Rightarrow> (c # p) # ps))"

definition is_digit :: "char \<Rightarrow> bool" where
  "is_digit c \<longleftrightarrow> 48 \<le> (of_char c :: nat) \<and> (of_char c :: nat) \<le> 57"

definition is_alphabetic :: "char \<Rightarrow> bool" where
  "is_alphabetic c \<longleftrightarrow>
     65 \<le> (of_char c :: nat) \<and> (of_char c :: nat) \<le> 90 \<or>
     97 \<le> (of_char c :: nat) \<and> (of_char c :: nat) \<le> 122"

fun digits_value :: "nat \<Rightarrow> string \<Rightarrow> nat" where
  "digits_value acc [] = acc"
| "digits_value acc (c # cs) = digits_value (10 * acc + (of_char c - 48)) cs"

text \<open>\<open>str::parse::<u8>\<close>: an optional plus sign, then one or more digits, at most 255.\<close>

definition parse_u8 :: "string \<Rightarrow> u8 option" where
  "parse_u8 s =
     (let ds = (case s of c # cs \<Rightarrow> if c = CHR ''+'' then cs else s | [] \<Rightarrow> [])
      in if ds = [] \<or> \<not> list_all is_digit ds \<or> 255 < digits_value 0 ds then None
         else Some (of_nat (digits_value 0 ds)))"

text \<open>
  Strip a trailing letter: the parser looks at the last character of the minor part and
  then at that of the update part; a letter found later replaces one found before.
\<close>

definition strip_alpha :: "u8 \<Rightarrow> string \<Rightarrow> u8 \<times> string" where
  "strip_alpha alpha s =
     (if s \<noteq> [] \<and> is_alphabetic (last s) then (of_char (last s), butlast s) else (alpha, s))"

definition version_try_from :: "string \<Rightarrow> (pldm_version, pldm_error) outcome" where
  "version_try_from version =
     (case split_dot version of
        major_str # minor_str # rest \<Rightarrow>
          (case rest of
             _ # _ # _ \<Rightarrow> Err PE_InvalidProtocolVersion
           | _ \<Rightarrow>
             (let update_str = (case rest of [] \<Rightarrow> ''FF'' | u # _ \<Rightarrow> u);
                  (alpha, minor_str) = strip_alpha 0 minor_str;
                  (alpha, update_str) =
                    (if update_str \<noteq> ''FF'' then strip_alpha alpha update_str
                     else (alpha, update_str))
              in rbind (ok_or PE_InvalidProtocolVersion (parse_u8 major_str)) (\<lambda>major.
                 rbind (ok_or PE_InvalidProtocolVersion (parse_u8 minor_str)) (\<lambda>minor.
                 rbind (if update_str = ''FF'' then Ok 0xFF
                        else ok_or PE_InvalidProtocolVersion (parse_u8 update_str)) (\<lambda>update.
                   Ok \<lparr>v_alpha = alpha, v_update = update, v_minor = minor, v_major = major\<rparr>)))))
      | _ \<Rightarrow> Err PE_InvalidProtocolVersion)"

definition PLDM_BASE_PROTOCOL_VERSION :: string where
  "PLDM_BASE_PROTOCOL_VERSION = ''1.1.0''"

definition PLDM_FW_UPDATE_PROTOCOL_VERSION :: string where
  "PLDM_FW_UPDATE_PROTOCOL_VERSION = ''1.3.0''"

section \<open>BCD\<close>

text \<open>A one-digit value is marked by \<open>0xF\<close> in the upper nibble.\<close>

definition bcd_byte :: "u8 \<Rightarrow> u8" where
  "bcd_byte x = (if x < 10 then 0xF0 OR x else push_bit 4 (x div 10) OR (x mod 10))"

definition unbcd_byte :: "u8 \<Rightarrow> u8" where
  "unbcd_byte b = (if drop_bit 4 b = 0xF then b AND 0x0F else drop_bit 4 b * 10 + (b AND 0x0F))"

definition ver32_of_bytes :: "u8 \<Rightarrow> u8 \<Rightarrow> u8 \<Rightarrow> u8 \<Rightarrow> ver32" where
  "ver32_of_bytes major_bcd minor_bcd update_bcd alpha_bcd =
     push_bit 24 (ucast major_bcd) OR push_bit 16 (ucast minor_bcd)
     OR push_bit 8 (ucast update_bcd) OR ucast alpha_bcd"

definition bcd_encode_to_ver32 :: "pldm_version \<Rightarrow> ver32" where
  "bcd_encode_to_ver32 v =
     (let major_bcd = bcd_byte (v_major v);
          minor_bcd = bcd_byte (v_minor v);
          update_bcd = (if v_update v = 0xFF then 0xFF else bcd_byte (v_update v));
          alpha_bcd = v_alpha v
      in ver32_of_bytes major_bcd minor_bcd update_bcd alpha_bcd)"

definition bcd_decode_from_ver32 :: "ver32 \<Rightarrow> pldm_version" where
  "bcd_decode_from_ver32 enc =
     (let major_bcd = ucast (drop_bit 24 enc AND 0xFF) :: u8;
          minor_bcd = ucast (drop_bit 16 enc AND 0xFF) :: u8;
          update_bcd = ucast (drop_bit 8 enc AND 0xFF) :: u8;
          alpha = ucast (enc AND 0xFF) :: u8
      in \<lparr>v_alpha = alpha,
          v_update = (if update_bcd = 0xFF then update_bcd else unbcd_byte update_bcd),
          v_minor = unbcd_byte minor_bcd,
          v_major = unbcd_byte major_bcd\<rparr>)"

lemma unbcd_bcd_table: "list_all (\<lambda>n. unbcd_byte (bcd_byte (of_nat n)) = of_nat n \<and> bcd_byte (of_nat n) \<noteq> 0xFF) [0..<100]"
  by code_simp

lemma unbcd_bcd: "x < 100 \<Longrightarrow> unbcd_byte (bcd_byte x) = x \<and> bcd_byte x \<noteq> 0xFF"
proof -
  assume "x < 100"
  then have "unat x \<in> set [0..<100]" by (simp add: word_less_nat_alt)
  with unbcd_bcd_table show ?thesis
    by (auto simp: list_all_iff dest: bspec [of _ _ "unat x"])
qed

lemma mask_byte: "(0xFF :: u32) = mask 8"
  by (simp add: mask_eq_exp_minus_1)

lemma ver32_bytes:
  "ucast (drop_bit 24 (ver32_of_bytes a b c d) AND 0xFF) = a"
  "ucast (drop_bit 16 (ver32_of_bytes a b c d) AND 0xFF) = b"
  "ucast (drop_bit 8 (ver32_of_bytes a b c d) AND 0xFF) = c"
  "ucast (ver32_of_bytes a b c d AND 0xFF) = d"
  unfolding mask_byte ver32_of_bytes_def
  by (rule bit_word_eqI; auto simp: bit_simps dest: bit_imp_le_length)+

definition version_ok :: "pldm_version \<Rightarrow> bool" where
  "version_ok v \<longleftrightarrow> v_major v < 100 \<and> v_minor v < 100 \<and> (v_update v < 100 \<or> v_update v = 0xFF)"

text \<open>A version whose numbers have at most two digits (or whose update field is
  absent, \<open>0xFF\<close>) survives the BCD encoding.\<close>

theorem version_bcd_roundtrip:
  assumes "version_ok v"
  shows "bcd_decode_from_ver32 (bcd_encode_to_ver32 v) = v"
  using assms
  by (auto simp: version_ok_def bcd_decode_from_ver32_def bcd_encode_to_ver32_def Let_def
      ver32_bytes unbcd_bcd)

theorem version_bcd_roundtrip_witness:
  "bcd_decode_from_ver32 (bcd_encode_to_ver32 (version_new 0x61 10 7 3)) = version_new 0x61 10 7 3"
  by (rule version_bcd_roundtrip) (simp add: version_ok_def version_new_def)

text \<open>The version literals of the configuration.\<close>

lemma ver32_1_1_0: "map_ok bcd_encode_to_ver32 (version_try_from ''1.1.0'') = Ok 0xF1F1F000"
  by code_simp

lemma ver32_1_3_0: "map_ok bcd_encode_to_ver32 (version_try_from ''1.3.0'') = Ok 0xF1F3F000"
  by code_simp

lemma ver32_3_7_10a: "map_ok bcd_encode_to_ver32 (version_try_from ''3.7.10a'') = Ok 0xF3F71061"
  by code_simp

lemma version_try_from_not_Panic: "version_try_from s \<noteq> Panic"
  by (auto simp: version_try_from_def Let_def rbind_eq_Panic split: list.splits prod.splits if_splits)

end
