(* ===== verification/Control_Msgs.thy ===== *)
theory Control_Msgs
  imports Codec Base Version
begin

text \<open>
  The discovery and control messages of \<open>pldm-common/src/message/control.rs\<close>: their
  packed layouts, their constructors and the bitmaps of PLDM types (8 bytes) and commands
  (32 bytes).  A constructor that can panic returns an option, \<open>None\<close> for the panic.
\<close>

definition PLDM_CMDS_BITMAP_LEN :: nat where [simp]: "PLDM_CMDS_BITMAP_LEN = 32"

definition PLDM_TYPES_BITMAP_LEN :: nat where [simp]: "PLDM_TYPES_BITMAP_LEN = 8"

section \<open>Bitmaps\<close>

text \<open>\<open>bitmap[byte_index] |= 1 << bit_index\<close> for each item; an index outside the bitmap
  panics.\<close>

fun set_items :: "u8 list \<Rightarrow> bytes \<Rightarrow> bytes option" where
  "set_items [] bitmap = Some bitmap"
| "set_items (item # items) bitmap =
     (let byte_index = unat (item div 8); bit_index = unat (item mod 8) in
      if byte_index < length bitmap
      then set_items items (bitmap[byte_index := bitmap ! byte_index OR push_bit bit_index 1])
      else None)"

definition construct_bitmap :: "nat \<Rightarrow> u8 list \<Rightarrow> bytes option" where
  "construct_bitmap n items = set_items (take (n * 8) items) (replicate n 0)"

definition is_bit_set :: "bytes \<Rightarrow> u8 \<Rightarrow> bool option" where
  "is_bit_set bitmap item =
     (let byte_index = unat (item div 8); bit_index = unat (item mod 8) in
      if byte_index < length bitmap
      then Some (bitmap ! byte_index AND push_bit bit_index 1 \<noteq> 0)
      else None)"

section \<open>Messages\<close>

record get_tid_request =
  gtq_hdr :: pldm_msg_header

definition get_tid_request_bytes :: "get_tid_request \<Rightarrow> bytes" where
  [layout]: "get_tid_request_bytes r = hdr_bytes (gtq_hdr r)"

definition get_tid_request_of :: "bytes \<Rightarrow> get_tid_request" where
  [layout]: "get_tid_request_of bs = \<lparr>gtq_hdr = hdr_of bs\<rparr>"

interpretation get_tid_request: packed_struct 3 get_tid_request_bytes get_tid_request_of "\<lambda>_. True"
  by unfold_locales (auto simp: layout length_eq_Cons length_eq_Suc_Cons)

definition get_tid_request_new :: "u8 \<Rightarrow> pldm_msg_type \<Rightarrow> get_tid_request" where
  "get_tid_request_new inst mt =
     \<lparr>gtq_hdr = header_new inst mt TypeBase (pldm_control_cmd_disc GetTid)\<rparr>"

record get_tid_response =
  gtr_hdr :: pldm_msg_header
  gtr_completion_code :: u8
  gtr_tid :: u8

definition get_tid_response_bytes :: "get_tid_response \<Rightarrow> bytes" where
  [layout]: "get_tid_response_bytes r = hdr_bytes (gtr_hdr r) @ [gtr_completion_code r] @ [gtr_tid r]"

definition get_tid_response_of :: "bytes \<Rightarrow> get_tid_response" where
  [layout]: "get_tid_response_of bs = \<lparr>gtr_hdr = hdr_of bs,
     gtr_completion_code = bs ! 3,
     gtr_tid = bs ! 4\<rparr>"

interpretation get_tid_response: packed_struct 5 get_tid_response_bytes get_tid_response_of "\<lambda>_. True"
  by unfold_locales (auto simp: layout length_eq_Cons length_eq_Suc_Cons)

definition get_tid_response_new :: "u8 \<Rightarrow> u8 \<Rightarrow> u8 \<Rightarrow> get_tid_response" where
  "get_tid_response_new inst tid cc =
     \<lparr>gtr_hdr = header_new inst MsgResponse TypeBase (pldm_control_cmd_disc GetTid),
      gtr_completion_code = cc,
      gtr_tid = tid\<rparr>"

record set_tid_request =
  stq_hdr :: pldm_msg_header
  stq_tid :: u8

definition set_tid_request_bytes :: "set_tid_request \<Rightarrow> bytes" where
  [layout]: "set_tid_request_bytes r = hdr_bytes (stq_hdr r) @ [stq_tid r]"

definition set_tid_request_of :: "bytes \<Rightarrow> set_tid_request" where
  [layout]: "set_tid_request_of bs = \<lparr>stq_hdr = hdr_of bs,
     stq_tid = bs ! 3\<rparr>"

interpretation set_tid_request: packed_struct 4 set_tid_request_bytes set_tid_request_of "\<lambda>_. True"
  by unfold_locales (auto simp: layout length_eq_Cons length_eq_Suc_Cons)

definition set_tid_request_new :: "u8 \<Rightarrow> pldm_msg_type \<Rightarrow> u8 \<Rightarrow> set_tid_request" where
  "set_tid_request_new inst mt tid =
     \<lparr>stq_hdr = header_new inst mt TypeBase (pldm_control_cmd_disc SetTid),
      stq_tid = tid\<rparr>"

record set_tid_response =
  str_hdr :: pldm_msg_header
  str_completion_code :: u8

definition set_tid_response_bytes :: "set_tid_response \<Rightarrow> bytes" where
  [layout]: "set_tid_response_bytes r = hdr_bytes (str_hdr r) @ [str_completion_code r]"

definition set_tid_response_of :: "bytes \<Rightarrow> set_tid_response" where
  [layout]: "set_tid_response_of bs = \<lparr>str_hdr = hdr_of bs,
     str_completion_code = bs ! 3\<rparr>"

interpretation set_tid_response: packed_struct 4 set_tid_response_bytes set_tid_response_of "\<lambda>_. True"
  by unfold_locales (auto simp: layout length_eq_Cons length_eq_Suc_Cons)

definition set_tid_response_new :: "u8 \<Rightarrow> u8 \<Rightarrow> set_tid_response" where
  "set_tid_response_new inst cc =
     \<lparr>str_hdr = header_new inst MsgResponse TypeBase (pldm_control_cmd_disc SetTid),
      str_completion_code = cc\<rparr>"

record get_pldm_commands_request =
  gcq_hdr :: pldm_msg_header
  gcq_pldm_type :: u8
  gcq_protocol_version :: u32

definition get_pldm_commands_request_bytes :: "get_pldm_commands_request \<Rightarrow> bytes" where
  [layout]: "get_pldm_commands_request_bytes r = hdr_bytes (gcq_hdr r) @ [gcq_pldm_type r] @ le32 (gcq_protocol_version r)"

definition get_pldm_commands_request_of :: "bytes \<Rightarrow> get_pldm_commands_request" where
  [layout]: "get_pldm_commands_request_of bs = \<lparr>gcq_hdr = hdr_of bs,
     gcq_pldm_type = bs ! 3,
     gcq_protocol_version = u32_at 4 bs\<rparr>"

interpretation get_pldm_commands_request: packed_struct 8 get_pldm_commands_request_bytes get_pldm_commands_request_of "\<lambda>_. True"
  by unfold_locales (auto simp: layout length_eq_Cons length_eq_Suc_Cons)

definition get_pldm_commands_request_new ::
  "u8 \<Rightarrow> pldm_msg_type \<Rightarrow> u8 \<Rightarrow> string \<Rightarrow> get_pldm_commands_request option" where
  "get_pldm_commands_request_new inst mt ptype version_str =
     (case version_try_from version_str of
        Ok v \<Rightarrow> Some \<lparr>gcq_hdr = header_new inst mt TypeBase (pldm_control_cmd_disc GetPldmCommands),
                      gcq_pldm_type = ptype, gcq_protocol_version = bcd_encode_to_ver32 v\<rparr>
      | _ \<Rightarrow> None)"

record get_pldm_commands_response =
  gcr_hdr :: pldm_msg_header
  gcr_completion_code :: u8
  gcr_supported_cmds :: bytes

definition get_pldm_commands_response_bytes :: "get_pldm_commands_response \<Rightarrow> bytes" where
  [layout]: "get_pldm_commands_response_bytes r = hdr_bytes (gcr_hdr r) @ [gcr_completion_code r] @ gcr_supported_cmds r"

definition get_pldm_commands_response_of :: "bytes \<Rightarrow> get_pldm_commands_response" where
  [layout]: "get_pldm_commands_response_of bs = \<lparr>gcr_hdr = hdr_of bs,
     gcr_completion_code = bs ! 3,
     gcr_supported_cmds = bytes_at 4 32 bs\<rparr>"

definition wf_get_pldm_commands_response :: "get_pldm_commands_response \<Rightarrow> bool" where
  [layout]: "wf_get_pldm_commands_response r \<longleftrightarrow> length (gcr_supported_cmds r) = 32"

interpretation get_pldm_commands_response: packed_struct 36 get_pldm_commands_response_bytes get_pldm_commands_response_of wf_get_pldm_commands_response
  by unfold_locales (auto simp: layout length_eq_Cons length_eq_Suc_Cons)

definition get_pldm_commands_response_new ::
  "u8 \<Rightarrow> u8 \<Rightarrow> u8 list \<Rightarrow> get_pldm_commands_response option" where
  "get_pldm_commands_response_new inst cc supported =
     map_option (\<lambda>bitmap.
       \<lparr>gcr_hdr = header_new inst MsgResponse TypeBase (pldm_control_cmd_disc GetPldmCommands),
        gcr_completion_code = cc, gcr_supported_cmds = bitmap\<rparr>)
       (construct_bitmap PLDM_CMDS_BITMAP_LEN supported)"

record get_pldm_type_request =
  gpq_hdr :: pldm_msg_header

definition get_pldm_type_request_bytes :: "get_pldm_type_request \<Rightarrow> bytes" where
  [layout]: "get_pldm_type_request_bytes r = hdr_bytes (gpq_hdr r)"

definition get_pldm_type_request_of :: "bytes \<Rightarrow> get_pldm_type_request" where
  [layout]: "get_pldm_type_request_of bs = \<lparr>gpq_hdr = hdr_of bs\<rparr>"

interpretation get_pldm_type_request: packed_struct 3 get_pldm_type_request_bytes get_pldm_type_request_of "\<lambda>_. True"
  by unfold_locales (auto simp: layout length_eq_Cons length_eq_Suc_Cons)

definition get_pldm_type_request_new :: "u8 \<Rightarrow> pldm_msg_type \<Rightarrow> get_pldm_type_request" where
  "get_pldm_type_request_new inst mt =
     \<lparr>gpq_hdr = header_new inst mt TypeBase (pldm_control_cmd_disc GetPldmTypes)\<rparr>"

record get_pldm_type_response =
  gpr_hdr :: pldm_msg_header
  gpr_completion_code :: u8
  gpr_pldm_types :: bytes

definition get_pldm_type_response_bytes :: "get_pldm_type_response \<Rightarrow> bytes" where
  [layout]: "get_pldm_type_response_bytes r = hdr_bytes (gpr_hdr r) @ [gpr_completion_code r] @ gpr_pldm_types r"

definition get_pldm_type_response_of :: "bytes \<Rightarrow> get_pldm_type_response" where
  [layout]: "get_pldm_type_response_of bs = \<lparr>gpr_hdr = hdr_of bs,
     gpr_completion_code = bs ! 3,
     gpr_pldm_types = bytes_at 4 8 bs\<rparr>"

definition wf_get_pldm_type_response :: "get_pldm_type_response \<Rightarrow> bool" where
  [layout]: "wf_get_pldm_type_response r \<longleftrightarrow> length (gpr_pldm_types r) = 8"

interpretation get_pldm_type_response: packed_struct 12 get_pldm_type_response_bytes get_pldm_type_response_of wf_get_pldm_type_response
  by unfold_locales (auto simp: layout length_eq_Cons length_eq_Suc_Cons)

definition get_pldm_type_response_new ::
  "u8 \<Rightarrow> u8 \<Rightarrow> u8 list \<Rightarrow> get_pldm_type_response option" where
  "get_pldm_type_response_new inst cc supported_types =
     map_option (\<lambda>bitmap.
       \<lparr>gpr_hdr = header_new inst MsgResponse TypeBase (pldm_control_cmd_disc GetPldmTypes),
        gpr_completion_code = cc, gpr_pldm_types = bitmap\<rparr>)
       (construct_bitmap PLDM_TYPES_BITMAP_LEN supported_types)"

record get_pldm_version_request =
  gvq_hdr :: pldm_msg_header
  gvq_data_transfer_handle :: u32
  gvq_transfer_op_flag :: u8
  gvq_pldm_type :: u8

definition get_pldm_version_request_bytes :: "get_pldm_version_request \<Rightarrow> bytes" where
  [layout]: "get_pldm_version_request_bytes r = hdr_bytes (gvq_hdr r) @ le32 (gvq_data_transfer_handle r) @ [gvq_transfer_op_flag r] @ [gvq_pldm_type r]"

definition get_pldm_version_request_of :: "bytes \<Rightarrow> get_pldm_version_request" where
  [layout]: "get_pldm_version_request_of bs = \<lparr>gvq_hdr = hdr_of bs,
     gvq_data_transfer_handle = u32_at 3 bs,
     gvq_transfer_op_flag = bs ! 7,
     gvq_pldm_type = bs ! 8\<rparr>"

interpretation get_pldm_version_request: packed_struct 9 get_pldm_version_request_bytes get_pldm_version_request_of "\<lambda>_. True"
  by unfold_locales (auto simp: layout length_eq_Cons length_eq_Suc_Cons)

definition get_pldm_version_request_new :: "u8 \<Rightarrow> pldm_msg_type \<Rightarrow> u32 \<Rightarrow> transfer_operation_flag \<Rightarrow> pldm_supported_type \<Rightarrow> get_pldm_version_request" where
  "get_pldm_version_request_new inst mt handle op ptype =
     \<lparr>gvq_hdr = header_new inst mt TypeBase (pldm_control_cmd_disc GetPldmVersion),
      gvq_data_transfer_handle = handle,
      gvq_transfer_op_flag = transfer_operation_flag_disc op,
      gvq_pldm_type = pldm_supported_type_disc ptype\<rparr>"

record get_pldm_version_response =
  gvr_hdr :: pldm_msg_header
  gvr_completion_code :: u8
  gvr_next_transfer_handle :: u32
  gvr_transfer_rsp_flag :: u8
  gvr_version_data :: u32

definition get_pldm_version_response_bytes :: "get_pldm_version_response \<Rightarrow> bytes" where
  [layout]: "get_pldm_version_response_bytes r = hdr_bytes (gvr_hdr r) @ [gvr_completion_code r] @ le32 (gvr_next_transfer_handle r) @ [gvr_transfer_rsp_flag r] @ le32 (gvr_version_data r)"

definition get_pldm_version_response_of :: "bytes \<Rightarrow> get_pldm_version_response" where
  [layout]: "get_pldm_version_response_of bs = \<lparr>gvr_hdr = hdr_of bs,
     gvr_completion_code = bs ! 3,
     gvr_next_transfer_handle = u32_at 4 bs,
     gvr_transfer_rsp_flag = bs ! 8,
     gvr_version_data = u32_at 9 bs\<rparr>"

interpretation get_pldm_version_response: packed_struct 13 get_pldm_version_response_bytes get_pldm_version_response_of "\<lambda>_. True"
  by unfold_locales (auto simp: layout length_eq_Cons length_eq_Suc_Cons)

definition get_pldm_version_response_new ::
  "u8 \<Rightarrow> u8 \<Rightarrow> u32 \<Rightarrow> transfer_resp_flag \<Rightarrow> string
    \<Rightarrow> (get_pldm_version_response, pldm_error) outcome" where
  "get_pldm_version_response_new inst cc handle flag version_str =
     rbind (map_err (\<lambda>_. PE_InvalidProtocolVersion) (version_try_from version_str)) (\<lambda>v.
       Ok \<lparr>gvr_hdr = header_new inst MsgResponse TypeBase (pldm_control_cmd_disc GetPldmVersion),
           gvr_completion_code = cc, gvr_next_transfer_handle = handle,
           gvr_transfer_rsp_flag = transfer_resp_flag_disc flag,
           gvr_version_data = bcd_encode_to_ver32 v\<rparr>)"

section \<open>What the bitmaps hold\<close>

lemma bit_div_mod_8:
  "unat (i div 8) = unat (j div 8) \<and> unat (i mod 8) = unat (j mod 8) \<longleftrightarrow> i = (j :: u8)"
proof
  assume "unat (i div 8) = unat (j div 8) \<and> unat (i mod 8) = unat (j mod 8)"
  then have "unat i div 8 = unat j div 8" "unat i mod 8 = unat j mod 8"
    by (simp_all add: unat_div unat_mod)
  then have "unat i = unat j" by (metis div_mult_mod_eq)
  then show "i = j" by (simp only: word_unat_eq_iff)
qed simp

lemma is_bit_set_iff:
  "unat (i div 8) < length bm \<Longrightarrow>
   is_bit_set bm i = Some (bit (bm ! unat (i div 8)) (unat (i mod 8)))"
  by (simp add: is_bit_set_def Let_def push_bit_eq_mult and_exp_eq_0_iff_not_bit)

lemma set_items_length: "set_items items bm = Some bm' \<Longrightarrow> length bm' = length bm"
  by (induction items arbitrary: bm) (auto simp: Let_def split: if_splits)

lemma set_items_ok:
  "set_items items bm \<noteq> None \<longleftrightarrow> (\<forall>i \<in> set items. unat (i div 8) < length bm)"
  by (induction items arbitrary: bm) (auto simp: Let_def)

lemma set_items_bits:
  assumes "set_items items bm = Some bm'" and "unat (i div 8) < length bm"
  shows "is_bit_set bm' i = Some (i \<in> set items \<or> is_bit_set bm i = Some True)"
  using assms
proof (induction items arbitrary: bm)
  case Nil
  then show ?case by (auto simp: is_bit_set_iff)
next
  case (Cons j items)
  let ?b = "unat (j div 8)" and ?k = "unat (j mod 8)"
  let ?bm = "bm[?b := bm ! ?b OR push_bit ?k 1]"
  from Cons.prems have b: "?b < length bm" and rest: "set_items items ?bm = Some bm'"
    by (simp_all add: Let_def split: if_splits)
  have k: "?k < 8" by (simp add: unat_mod)
  have "is_bit_set ?bm i = Some (i = j \<or> is_bit_set bm i = Some True)"
    using b Cons.prems(2) k bit_div_mod_8 [of i j]
    by (auto simp: is_bit_set_iff nth_list_update bit_or_iff bit_exp_iff push_bit_eq_mult)
  with Cons.IH [OF rest] Cons.prems(2) show ?case by auto
qed

lemma construct_bitmap_bits:
  assumes "length items \<le> n * 8" and "\<And>i. i \<in> set items \<Longrightarrow> unat i < 8 * n"
  shows "\<exists>bm. construct_bitmap n items = Some bm \<and> length bm = n \<and>
    (\<forall>i. unat i < 8 * n \<longrightarrow> is_bit_set bm i = Some (i \<in> set items))"
proof -
  have lt: "unat (i div 8) < n \<longleftrightarrow> unat i < 8 * n" for i :: u8
    by (auto simp: unat_div)
  obtain bm where bm: "set_items items (replicate n 0) = Some bm"
    using set_items_ok [of items "replicate n 0"] assms(2) lt by auto
  then show ?thesis
    using assms(1) set_items_length [OF bm] set_items_bits [OF bm] lt
    by (auto simp: construct_bitmap_def is_bit_set_iff)
qed

text \<open>A type or command bitmap has a bit set for exactly the listed items: every item below
  the bitmap's capacity reads back as listed or not, and construction panics exactly when an
  item lies outside the bitmap.\<close>

theorem bitmap_membership:
  assumes "length items \<le> n * 8"
  shows "(construct_bitmap n items = None \<longleftrightarrow> (\<exists>i \<in> set items. 8 * n \<le> unat i))
    \<and> (\<forall>bm i. construct_bitmap n items = Some bm \<longrightarrow> unat i < 8 * n \<longrightarrow>
          length bm = n \<and> is_bit_set bm i = Some (i \<in> set items))"
proof (intro conjI allI impI)
  have lt: "unat (i div 8) < n \<longleftrightarrow> unat i < 8 * n" for i :: u8
    by (auto simp: unat_div)
  show "construct_bitmap n items = None \<longleftrightarrow> (\<exists>i \<in> set items. 8 * n \<le> unat i)"
    using set_items_ok [of items "replicate n 0"] assms lt
    by (auto simp: construct_bitmap_def not_less [symmetric])
  fix bm i assume bm: "construct_bitmap n items = Some bm" and i: "unat (i :: u8) < 8 * n"
  then have s: "set_items items (replicate n 0) = Some bm" using assms by (simp add: construct_bitmap_def)
  show "length bm = n" using set_items_length [OF s] by simp
  show "is_bit_set bm i = Some (i \<in> set items)"
    using set_items_bits [OF s, of i] i lt [of i] by (simp add: is_bit_set_iff)
qed

theorem bitmap_membership_witness:
  "\<exists>bm. construct_bitmap 8 [0, 5] = Some bm \<and> is_bit_set bm 5 = Some True \<and> is_bit_set bm 4 = Some False"
proof -
  have "\<not> (\<exists>i \<in> set [0, 5 :: u8]. 8 * 8 \<le> unat i)" by simp
  then obtain bm where "construct_bitmap 8 [0, 5] = Some bm"
    using bitmap_membership [of "[0, 5]" 8] by auto
  then show ?thesis using bitmap_membership [of "[0, 5]" 8] by auto
qed

end
