(* ===== verification/Control_Context.thy ===== *)
theory Control_Context
  imports Responder Control_Msgs
begin

text \<open>
  The discovery and control responder, \<open>pldm-interface/src/control_context.rs\<close>: the
  terminus id, the capability table and the five control command handlers.
\<close>

record protocol_capability =
  cap_pldm_type :: pldm_supported_type
  cap_protocol_version :: ver32
  cap_supported_commands :: "u8 list"

definition protocol_capability_new ::
  "pldm_supported_type \<Rightarrow> string \<Rightarrow> u8 list \<Rightarrow> (protocol_capability, pldm_error) outcome" where
  "protocol_capability_new ptype version cmds =
     (case version_try_from version of
        Ok ver \<Rightarrow> Ok \<lparr>cap_pldm_type = ptype, cap_protocol_version = bcd_encode_to_ver32 ver,
                     cap_supported_commands = cmds\<rparr>
      | Err _ \<Rightarrow> Err PE_InvalidProtocolVersion
      | Panic \<Rightarrow> Panic)"

definition UNASSIGNED_TID :: u8 where
  "UNASSIGNED_TID = 0"

text \<open>The atomic terminus id is a \<open>usize\<close>; it holds what \<open>set_tid\<close> stored.\<close>

record control_context =
  ctl_tid :: nat
  ctl_capabilities :: "protocol_capability list"

definition control_context_new :: "protocol_capability list \<Rightarrow> control_context" where
  "control_context_new caps = \<lparr>ctl_tid = unat UNASSIGNED_TID, ctl_capabilities = caps\<rparr>"

definition get_tid :: "control_context \<Rightarrow> u8" where
  "get_tid ctx = of_nat (ctl_tid ctx)"

definition set_tid :: "u8 \<Rightarrow> control_context \<Rightarrow> control_context" where
  "set_tid tid ctx = ctx\<lparr>ctl_tid := unat tid\<rparr>"

definition get_supported_commands ::
  "control_context \<Rightarrow> pldm_supported_type \<Rightarrow> ver32 \<Rightarrow> u8 list option" where
  "get_supported_commands ctx ptype version =
     map_option cap_supported_commands
       (find (\<lambda>cap. cap_pldm_type cap = ptype \<and> cap_protocol_version cap = version) (ctl_capabilities ctx))"

fun protocol_versions_loop :: "protocol_capability list \<Rightarrow> ver32 list \<Rightarrow> nat \<Rightarrow> nat \<times> ver32 list" where
  "protocol_versions_loop [] versions count = (count, versions)"
| "protocol_versions_loop (cap # caps) versions count =
     (if count < length versions
      then protocol_versions_loop caps (versions[count := cap_protocol_version cap]) (count + 1)
      else (count, versions))"

definition get_protocol_versions ::
  "control_context \<Rightarrow> pldm_supported_type \<Rightarrow> ver32 list \<Rightarrow> nat \<times> ver32 list" where
  "get_protocol_versions ctx ptype versions =
     protocol_versions_loop (filter (\<lambda>cap. cap_pldm_type cap = ptype) (ctl_capabilities ctx)) versions 0"

fun supported_types_loop :: "protocol_capability list \<Rightarrow> u8 list \<Rightarrow> nat \<Rightarrow> nat \<times> u8 list" where
  "supported_types_loop [] types count = (count, types)"
| "supported_types_loop (cap # caps) types count =
     (let t = pldm_supported_type_disc (cap_pldm_type cap) in
      if t \<notin> set (take count types)
      then
        (if count < length types
         then supported_types_loop caps (types[count := t]) (count + 1)
         else (count, types))
      else supported_types_loop caps types count)"

definition get_supported_types :: "control_context \<Rightarrow> u8 list \<Rightarrow> nat \<times> u8 list" where
  "get_supported_types ctx types = supported_types_loop (ctl_capabilities ctx) types 0"

definition is_supported_type :: "control_context \<Rightarrow> pldm_supported_type \<Rightarrow> bool" where
  "is_supported_type ctx ptype \<longleftrightarrow> list_ex (\<lambda>cap. cap_pldm_type cap = ptype) (ctl_capabilities ctx)"

definition is_supported_version :: "control_context \<Rightarrow> pldm_supported_type \<Rightarrow> ver32 \<Rightarrow> bool" where
  "is_supported_version ctx ptype version \<longleftrightarrow>
     list_ex (\<lambda>cap. cap_pldm_type cap = ptype \<and> cap_protocol_version cap = version) (ctl_capabilities ctx)"

definition is_supported_command :: "control_context \<Rightarrow> pldm_supported_type \<Rightarrow> u8 \<Rightarrow> bool" where
  "is_supported_command ctx ptype cmd =
     (case find (\<lambda>cap. cap_pldm_type cap = ptype) (ctl_capabilities ctx) of
        None \<Rightarrow> False | Some cap \<Rightarrow> cmd \<in> set (cap_supported_commands cap))"

section \<open>The command handlers\<close>

type_synonym 'a ctl_handler = "(control_context, 'a) handler"

definition get_tid_rsp :: "nat ctl_handler" where
  "get_tid_rsp = with_request (blanket_decode 3 get_tid_request_of) (\<lambda>req.
     abind (gets fst) (\<lambda>self.
       respond (blanket_encode 5 get_tid_response_bytes
         (get_tid_response_new (instance_id (gtq_hdr req)) (get_tid self) (base_cc_disc CC_Success)))))"

definition set_tid_rsp :: "nat ctl_handler" where
  "set_tid_rsp = with_request (blanket_decode 4 set_tid_request_of) (\<lambda>req.
     abind (on_ctx (modify (set_tid (stq_tid req)))) (\<lambda>_.
       respond (blanket_encode 4 set_tid_response_bytes
         (set_tid_response_new (instance_id (stq_hdr req)) (base_cc_disc CC_Success)))))"

definition get_pldm_types_rsp :: "nat ctl_handler" where
  "get_pldm_types_rsp = with_request (blanket_decode 3 get_pldm_type_request_of) (\<lambda>req.
     abind (gets fst) (\<lambda>self.
       case get_supported_types self (replicate 6 0) of (num_types, types) \<Rightarrow>
       abind (lift (slice 0 num_types types)) (\<lambda>used.
       abind (lift (expect (get_pldm_type_response_new (instance_id (gpq_hdr req)) (base_cc_disc CC_Success) used)))
         (\<lambda>resp. respond (blanket_encode 12 get_pldm_type_response_bytes resp)))))"

definition get_pldm_commands_rsp :: "nat ctl_handler" where
  "get_pldm_commands_rsp = with_request (blanket_decode 8 get_pldm_commands_request_of) (\<lambda>req.
     or_return (pldm_supported_type_try_from (gcq_pldm_type req))
       (\<lambda>_. failure (control_cc_disc CC_InvalidPldmTypeInRequestData)) (\<lambda>pldm_type_in_req.
     abind (gets fst) (\<lambda>self.
       if \<not> is_supported_type self pldm_type_in_req
       then failure (control_cc_disc CC_InvalidPldmTypeInRequestData)
       else if \<not> is_supported_version self pldm_type_in_req (gcq_protocol_version req)
       then failure (control_cc_disc CC_InvalidPldmVersionInRequestData)
       else
         abind (lift (expect (get_supported_commands self pldm_type_in_req (gcq_protocol_version req)))) (\<lambda>cmds.
         abind (lift (expect (get_pldm_commands_response_new (instance_id (gcq_hdr req)) (base_cc_disc CC_Success) cmds)))
           (\<lambda>resp. respond_then (blanket_encode 36 get_pldm_commands_response_bytes resp) (ret ()))))))"

definition get_pldm_version_rsp :: "nat ctl_handler" where
  "get_pldm_version_rsp = with_request (blanket_decode 9 get_pldm_version_request_of) (\<lambda>req.
     or_return (pldm_supported_type_try_from (gvq_pldm_type req))
       (\<lambda>_. failure (control_cc_disc CC_InvalidPldmTypeInRequestData)) (\<lambda>pldm_type_in_req.
     abind (gets fst) (\<lambda>self.
       if \<not> is_supported_type self pldm_type_in_req
       then failure (control_cc_disc CC_InvalidPldmTypeInRequestData)
       else if gvq_transfer_op_flag req \<noteq> transfer_operation_flag_disc GetFirstPart
       then failure (control_cc_disc CC_InvalidTransferOperationFlag)
       else
         case get_protocol_versions self pldm_type_in_req (replicate 2 0) of (count, versions) \<Rightarrow>
         if count = 0 then failure (base_cc_disc CC_Error)
         else
           abind (lift (index_at 0 versions)) (\<lambda>version.
           respond_then (blanket_encode 13 get_pldm_version_response_bytes
             \<lparr>gvr_hdr = into_response (gvq_hdr req),
              gvr_completion_code = base_cc_disc CC_Success,
              gvr_next_transfer_handle = 0,
              gvr_transfer_rsp_flag = transfer_resp_flag_disc FlagStartAndEnd,
              gvr_version_data = version\<rparr>) (ret ())))))"

text \<open>\<open>process_control_cmd\<close> of \<open>cmd_interface.rs\<close> dispatches to them.\<close>

fun control_handler :: "pldm_control_cmd \<Rightarrow> nat ctl_handler" where
  "control_handler GetTid = get_tid_rsp"
| "control_handler SetTid = set_tid_rsp"
| "control_handler GetPldmTypes = get_pldm_types_rsp"
| "control_handler GetPldmCommands = get_pldm_commands_rsp"
| "control_handler GetPldmVersion = get_pldm_version_rsp"

definition process_control_cmd :: "u8 \<Rightarrow> nat ctl_handler" where
  "process_control_cmd cmd_opcode =
     or_return (pldm_control_cmd_try_from cmd_opcode)
       (\<lambda>_. failure (base_cc_disc CC_UnsupportedPldmCmd)) control_handler"

section \<open>The capability table\<close>

lemma supported_types_loop_spec:
  assumes "count \<le> length types" "distinct (take count types)" "finite S" "card S \<le> length types"
    and "set (take count types) \<union> (pldm_supported_type_disc \<circ> cap_pldm_type) ` set caps \<subseteq> S"
    and "supported_types_loop caps types count = (n, types')"
  shows "n \<le> length types' \<and> length types' = length types \<and> distinct (take n types') \<and>
    set (take n types') = set (take count types) \<union> (pldm_supported_type_disc \<circ> cap_pldm_type) ` set caps"
  using assms(1,2,5,6) assms(4)
proof (induction caps arbitrary: count types)
  case Nil
  then show ?case by simp
next
  case (Cons cap caps)
  let ?t = "pldm_supported_type_disc (cap_pldm_type cap)"
  show ?case
  proof (cases "?t \<in> set (take count types)")
    case True
    then have "supported_types_loop caps types count = (n, types')" using Cons.prems(4) by simp
    from Cons.IH [OF Cons.prems(1,2) _ this Cons.prems(5)] Cons.prems(3) True show ?thesis by auto
  next
    case False
    have "card (insert ?t (set (take count types))) \<le> card S"
      using Cons.prems(3) by (intro card_mono [OF assms(3)]) auto
    with False Cons.prems(1,2,5) have lt: "count < length types"
      by (simp add: distinct_card)
    have tk: "take (Suc count) (types[count := ?t]) = take count types @ [?t]"
      using lt by (simp add: take_Suc_conv_app_nth)
    have "supported_types_loop caps (types[count := ?t]) (Suc count) = (n, types')"
      using Cons.prems(4) False lt by simp
    from Cons.IH [OF _ _ _ this] Cons.prems(2,3,5) False lt show ?thesis
      by (simp add: tk)
  qed
qed

lemma type_discs: "range pldm_supported_type_disc = {0, 2, 3, 4, 5, 0x3F}"
proof -
  have "pldm_supported_type_disc t \<in> {0, 2, 3, 4, 5, 0x3F}" for t by (cases t) simp_all
  moreover have "w \<in> range pldm_supported_type_disc" if "w \<in> {0, 2, 3, 4, 5, 0x3F}" for w
    using that pldm_supported_type.accepts_iff [of w] by (auto simp: pldm_supported_type_try_from_def)
  ultimately show ?thesis by blast
qed

lemma get_supported_types_spec:
  assumes "get_supported_types ctx (replicate 6 0) = (n, types)"
  shows "n \<le> 6 \<and> length types = 6 \<and> distinct (take n types) \<and>
    set (take n types) = (pldm_supported_type_disc \<circ> cap_pldm_type) ` set (ctl_capabilities ctx)"
proof -
  have "card (range pldm_supported_type_disc) \<le> length (replicate 6 (0 :: u8))"
    by (simp add: type_discs)
  from supported_types_loop_spec [OF _ _ _ this _ assms [unfolded get_supported_types_def]]
  have "(pldm_supported_type_disc \<circ> cap_pldm_type) ` set (ctl_capabilities ctx) \<subseteq> range pldm_supported_type_disc \<Longrightarrow>
    n \<le> length types \<and> length types = 6 \<and> distinct (take n types) \<and>
    set (take n types) = (pldm_supported_type_disc \<circ> cap_pldm_type) ` set (ctl_capabilities ctx)"
    by simp
  moreover have "(pldm_supported_type_disc \<circ> cap_pldm_type) ` set (ctl_capabilities ctx) \<subseteq> range pldm_supported_type_disc"
    by auto
  ultimately show ?thesis by linarith
qed

lemma type_disc_lt: "unat (pldm_supported_type_disc t) < 64"
  by (cases t) simp_all

lemma supported_type_iff_disc:
  "is_supported_type ctx t \<longleftrightarrow>
   pldm_supported_type_disc t \<in> (pldm_supported_type_disc \<circ> cap_pldm_type) ` set (ctl_capabilities ctx)"
  by (auto simp: is_supported_type_def list_ex_iff pldm_supported_type.eq_iff)

lemma protocol_versions_first:
  assumes "0 < length versions"
  shows "fst (protocol_versions_loop caps versions 0) = 0 \<longleftrightarrow> caps = []"
    and "caps \<noteq> [] \<Longrightarrow> snd (protocol_versions_loop caps versions 0) ! 0 = cap_protocol_version (hd caps)"
    and "length (snd (protocol_versions_loop caps versions 0)) = length versions"
proof -
  have mono: "c \<le> fst (protocol_versions_loop cs vs c)" for cs vs c
    by (induction cs vs c rule: protocol_versions_loop.induct) auto
  have keep: "k < c \<Longrightarrow> snd (protocol_versions_loop cs vs c) ! k = vs ! k" for cs vs c k
    by (induction cs vs c rule: protocol_versions_loop.induct) simp_all
  have "length (snd (protocol_versions_loop cs vs c)) = length vs" for cs vs c
    by (induction cs vs c rule: protocol_versions_loop.induct) simp_all
  then show "length (snd (protocol_versions_loop caps versions 0)) = length versions" .
  show "fst (protocol_versions_loop caps versions 0) = 0 \<longleftrightarrow> caps = []"
    using assms mono [of 1 "tl caps" "versions[0 := cap_protocol_version (hd caps)]"] by (cases caps) simp_all
  show "caps \<noteq> [] \<Longrightarrow> snd (protocol_versions_loop caps versions 0) ! 0 = cap_protocol_version (hd caps)"
    using assms keep [of 0 1 "tl caps"] by (cases caps) simp_all
qed

section \<open>Bitmaps in the responses\<close>

lemma get_pldm_type_response_new_types:
  assumes "get_supported_types ctx (replicate 6 0) = (n, types)"
  shows "\<exists>bm. get_pldm_type_response_new inst cc (take n types) = Some
      \<lparr>gpr_hdr = header_new inst MsgResponse TypeBase (pldm_control_cmd_disc GetPldmTypes),
       gpr_completion_code = cc, gpr_pldm_types = bm\<rparr> \<and> length bm = 8 \<and>
     (\<forall>t. is_bit_set bm (pldm_supported_type_disc t) = Some (is_supported_type ctx t))"
proof -
  from get_supported_types_spec [OF assms] have n: "n \<le> 6" "length types = 6"
    and s: "set (take n types) = (pldm_supported_type_disc \<circ> cap_pldm_type) ` set (ctl_capabilities ctx)"
    by simp_all
  have "length (take n types) \<le> 64" using n by simp
  moreover have "unat i < 64" if "i \<in> set (take n types)" for i
    using that type_disc_lt unfolding s by auto
  ultimately obtain bm where "construct_bitmap 8 (take n types) = Some bm" "length bm = 8"
    "\<And>i. unat i < 64 \<Longrightarrow> is_bit_set bm i = Some (i \<in> set (take n types))"
    using construct_bitmap_bits [of "take n types" 8] by auto
  then show ?thesis
    unfolding s by (simp add: get_pldm_type_response_new_def type_disc_lt supported_type_iff_disc)
qed

lemma construct_bitmap_cmds: "\<exists>bm. construct_bitmap 32 cmds = Some bm \<and> length bm = 32 \<and>
  (\<forall>i. is_bit_set bm i = Some (i \<in> set (take 256 cmds)))"
proof -
  have lt: "unat (i :: u8) < 8 * 32" for i using unsigned_less [of i] by simp
  have eq: "construct_bitmap 32 cmds = construct_bitmap 32 (take 256 cmds)"
    by (simp add: construct_bitmap_def)
  show ?thesis
    using construct_bitmap_bits [of "take 256 cmds" 32] lt by (auto simp: eq)
qed

lemma get_supported_commands_Some:
  "is_supported_version ctx t v \<Longrightarrow> \<exists>cmds. get_supported_commands ctx t v = Some cmds"
  by (cases "get_supported_commands ctx t v")
     (auto simp: is_supported_version_def get_supported_commands_def list_ex_iff find_None_iff)

section \<open>The handlers are safe\<close>

lemma get_tid_rsp_safe: "safe I get_tid_rsp"
  unfolding get_tid_rsp_def by (intro safe_rules sound_enc_blanket) (simp_all add: layout)

lemma set_tid_rsp_safe: "(\<And>c t. I c \<Longrightarrow> I (set_tid t c)) \<Longrightarrow> safe I set_tid_rsp"
  unfolding set_tid_rsp_def by (intro safe_rules sound_enc_blanket) (simp_all add: layout)

lemma get_pldm_types_rsp_safe: "safe I get_pldm_types_rsp"
proof -
  have "safe I (case get_supported_types self (replicate 6 0) of (num_types, types) \<Rightarrow>
       abind (lift (slice 0 num_types types)) (\<lambda>used.
       abind (lift (expect (get_pldm_type_response_new inst cc used)))
         (\<lambda>resp. respond (blanket_encode 12 get_pldm_type_response_bytes resp))))" for self inst cc
  proof (cases "get_supported_types self (replicate 6 0)")
    case (Pair n types)
    from get_pldm_type_response_new_types [OF Pair, of inst cc] get_supported_types_spec [OF Pair]
    show ?thesis
      unfolding Pair prod.case by (intro safe_rules sound_enc_blanket) (auto simp: layout)
  qed
  then show ?thesis
    unfolding get_pldm_types_rsp_def by (intro safe_rules) simp_all
qed

lemma get_pldm_commands_rsp_safe: "safe I get_pldm_commands_rsp"
proof -
  have new: "\<exists>bm. get_pldm_commands_response_new inst cc cmds = Some
      \<lparr>gcr_hdr = header_new inst MsgResponse TypeBase (pldm_control_cmd_disc GetPldmCommands),
       gcr_completion_code = cc, gcr_supported_cmds = bm\<rparr> \<and> length bm = 32" for inst cc cmds
    using construct_bitmap_cmds [of cmds] by (auto simp: get_pldm_commands_response_new_def)
  have "expect (get_pldm_commands_response_new inst cc cmds) \<noteq> Panic"
    "expect (get_pldm_commands_response_new inst cc cmds) = Ok resp \<Longrightarrow> length (get_pldm_commands_response_bytes resp) = 36"
    for inst cc cmds resp using new [of inst cc cmds] by (auto simp: layout)
  moreover have "is_supported_version self t v \<Longrightarrow> expect (get_supported_commands self t v) \<noteq> Panic" for self t v
    using get_supported_commands_Some [of self t v] by auto
  ultimately show ?thesis
    unfolding get_pldm_commands_rsp_def
    by (intro safe_rules sound_enc_blanket) (simp_all add: pldm_supported_type.no_panic)
qed

lemma get_pldm_version_rsp_safe: "safe I get_pldm_version_rsp"
proof -
  have "safe I (case get_protocol_versions self t (replicate 2 0) of (count, versions) \<Rightarrow>
         if count = 0 then failure cc
         else
           abind (lift (index_at 0 versions)) (\<lambda>version.
           respond_then (blanket_encode 13 get_pldm_version_response_bytes (resp version)) (ret ())))" for self t cc resp
  proof (cases "get_protocol_versions self t (replicate 2 0)")
    case (Pair n versions)
    then have "length versions = 2"
      using protocol_versions_first(3) [of "replicate 2 0" "filter (\<lambda>cap. cap_pldm_type cap = t) (ctl_capabilities self)"]
      by (simp add: get_protocol_versions_def)
    then show ?thesis
      unfolding Pair prod.case
      by (intro safe_rules sound_enc_blanket) (simp_all add: layout index_at_def)
  qed
  then show ?thesis
    unfolding get_pldm_version_rsp_def
    by (intro safe_rules) (simp_all add: pldm_supported_type.no_panic)
qed

lemma process_control_cmd_safe: "(\<And>c t. I c \<Longrightarrow> I (set_tid t c)) \<Longrightarrow> safe I (process_control_cmd op)"
proof -
  assume I: "\<And>c t. I c \<Longrightarrow> I (set_tid t c)"
  have "safe I (control_handler cmd)" for cmd
    by (cases cmd) (simp_all add: get_tid_rsp_safe set_tid_rsp_safe I get_pldm_types_rsp_safe
        get_pldm_commands_rsp_safe get_pldm_version_rsp_safe)
  then show ?thesis
    unfolding process_control_cmd_def
    by (intro safe_rules) (simp_all add: pldm_control_cmd.no_panic)
qed

text \<open>No control request can panic the responder: whatever the command byte, the
  capability table and the payload, the dispatcher returns, the payload keeps its length
  and only the terminus id may have changed.\<close>

theorem control_cmd_total:
  "fst (process_control_cmd op (ctx, payload)) \<noteq> Panic
   \<and> ctl_capabilities (fst (snd (process_control_cmd op (ctx, payload)))) = ctl_capabilities ctx
   \<and> length (snd (snd (process_control_cmd op (ctx, payload)))) = length payload"
  using safe_no_panic [OF process_control_cmd_safe, of "\<lambda>c. ctl_capabilities c = ctl_capabilities ctx" "(ctx, payload)"]
    safe_state [OF process_control_cmd_safe, of "\<lambda>c. ctl_capabilities c = ctl_capabilities ctx" "(ctx, payload)"]
  by (simp add: set_tid_def)

section \<open>What the responses say\<close>

lemmas handler_simps = with_request_def respond_def respond_then_def on_payload_def on_ctx_def coding_def
  abind_def gets_def modify_def ret_def lift_def or_else_def blanket_decode_def

lemma hdr_of_take [simp]: "3 \<le> n \<Longrightarrow> hdr_of (take n bs) = hdr_of bs"
  by (simp add: hdr_of_def)

lemma find_Some_mem: "find P xs = Some x \<Longrightarrow> x \<in> set xs \<and> P x"
  by (auto simp: find_Some_iff)

lemma unat_of_u8 [simp]: "(of_nat (unat (w :: u8)) :: u8) = w"
  by simp

text \<open>After a \<open>SetTid\<close> request the terminus answers \<open>GetTid\<close> with the id it was given, and
  both responses carry the requests' instance ids.\<close>

theorem set_tid_then_get_tid:
  assumes "4 \<le> length p" and "5 \<le> length q"
  shows "\<exists>ctx'. set_tid_rsp (ctx, p) = (Ok 4, (ctx',
      hdr_bytes (header_new (instance_id (hdr_of p)) MsgResponse TypeBase (pldm_control_cmd_disc SetTid)) @ 0 # drop 4 p))
    \<and> get_tid_rsp (ctx', q) = (Ok 5, (ctx',
      hdr_bytes (header_new (instance_id (hdr_of q)) MsgResponse TypeBase (pldm_control_cmd_disc GetTid)) @ 0 # p ! 3 # drop 5 q))"
  using assms
  by (auto simp: set_tid_rsp_def get_tid_rsp_def handler_simps blanket_fits splice_def layout
      set_tid_response_new_def get_tid_response_new_def set_tid_def get_tid_def
      split: prod.split outcome.split)

theorem set_tid_then_get_tid_witness:
  "\<exists>ctx'. get_tid_rsp (ctx', [0x80, 0, 2, 0, 0]) = (Ok 5, (ctx', hdr_bytes (header_new
      (instance_id (hdr_of [0x80, 0, 2, 0, 0])) MsgResponse TypeBase (pldm_control_cmd_disc GetTid)) @ [0, 9]))"
  using set_tid_then_get_tid [of "[0x80, 0, 1, 9]" "[0x80, 0, 2, 0, 0]" "control_context_new []"] by auto

text \<open>The response to \<open>GetPLDMTypes\<close> has the bit of a type set exactly when the capability
  table has an entry of that type, however many entries and duplicates the table has.\<close>

theorem get_pldm_types_lists_capabilities:
  assumes "12 \<le> length payload"
  shows "\<exists>bm. get_pldm_types_rsp (ctx, payload) = (Ok 12, (ctx,
      hdr_bytes (header_new (instance_id (hdr_of payload)) MsgResponse TypeBase (pldm_control_cmd_disc GetPldmTypes))
      @ 0 # bm @ drop 12 payload))
    \<and> length bm = 8
    \<and> (\<forall>t. is_bit_set bm (pldm_supported_type_disc t) = Some (is_supported_type ctx t))"
proof (cases "get_supported_types ctx (replicate 6 0)")
  case (Pair n types)
  obtain bm where bm: "get_pldm_type_response_new (instance_id (hdr_of payload)) 0 (take n types) = Some
      \<lparr>gpr_hdr = header_new (instance_id (hdr_of payload)) MsgResponse TypeBase (pldm_control_cmd_disc GetPldmTypes),
       gpr_completion_code = 0, gpr_pldm_types = bm\<rparr>" "length bm = 8"
     "\<forall>t. is_bit_set bm (pldm_supported_type_disc t) = Some (is_supported_type ctx t)"
    using get_pldm_type_response_new_types [OF Pair] by blast
  have n: "n \<le> length types" using get_supported_types_spec [OF Pair] by simp
  have "get_pldm_types_rsp (ctx, payload) = (Ok 12, (ctx,
      hdr_bytes (header_new (instance_id (hdr_of payload)) MsgResponse TypeBase (pldm_control_cmd_disc GetPldmTypes))
      @ 0 # bm @ drop 12 payload))"
    using Pair bm(1,2) assms n
    by (simp add: get_pldm_types_rsp_def handler_simps blanket_fits splice_def slice_in_range
        get_pldm_type_request_of_def get_pldm_type_response_bytes_def)
  with bm show ?thesis by blast
qed

theorem get_pldm_types_lists_capabilities_witness:
  "\<exists>bm ctx'. get_pldm_types_rsp (control_context_new [\<lparr>cap_pldm_type = TypeFwUpdate, cap_protocol_version = 0,
      cap_supported_commands = []\<rparr>], replicate 12 0) = (Ok 12, ctx', hdr_bytes (header_new
      (instance_id (hdr_of (replicate 12 0))) MsgResponse TypeBase (pldm_control_cmd_disc GetPldmTypes)) @ 0 # bm)
    \<and> is_bit_set bm (pldm_supported_type_disc TypeFwUpdate) = Some True
    \<and> is_bit_set bm (pldm_supported_type_disc TypeBase) = Some False"
proof -
  let ?ctx = "control_context_new [\<lparr>cap_pldm_type = TypeFwUpdate, cap_protocol_version = 0, cap_supported_commands = []\<rparr>]"
  have s: "is_supported_type ?ctx TypeFwUpdate = True" "is_supported_type ?ctx TypeBase = False"
    by (simp_all add: is_supported_type_def control_context_new_def)
  have "12 \<le> length (replicate 12 (0 :: u8))" by simp
  from get_pldm_types_lists_capabilities [OF this, of ?ctx] obtain bm where bm:
    "get_pldm_types_rsp (?ctx, replicate 12 0) = (Ok 12, (?ctx, hdr_bytes (header_new
      (instance_id (hdr_of (replicate 12 0))) MsgResponse TypeBase (pldm_control_cmd_disc GetPldmTypes)) @ 0 # bm))"
    "\<And>t. is_bit_set bm (pldm_supported_type_disc t) = Some (is_supported_type ?ctx t)"
    by auto
  show ?thesis using bm(1) bm(2) [of TypeFwUpdate] bm(2) [of TypeBase] unfolding s by blast
qed

text \<open>C29: for a type byte that is that of a PLDM type, the response to \<open>GetPLDMCommands\<close> for a type and version in the table has a command's
  bit set exactly when that entry lists the command (a table entry of at most 256 commands);
  for a type or version not in the table the response is the prescribed failure.\<close>

theorem get_pldm_commands_answers:
  assumes "36 \<le> length payload" and "gcq = get_pldm_commands_request_of (take 8 payload)"
    and "pldm_supported_type_try_from (gcq_pldm_type gcq) = Ok t"
    and "\<And>cap. cap \<in> set (ctl_capabilities ctx) \<Longrightarrow> length (cap_supported_commands cap) \<le> 256"
  shows "(\<forall>cmds. get_supported_commands ctx t (gcq_protocol_version gcq) = Some cmds \<longrightarrow>
      (\<exists>bm. get_pldm_commands_rsp (ctx, payload) = (Ok 36, (ctx,
          hdr_bytes (header_new (instance_id (hdr_of payload)) MsgResponse TypeBase (pldm_control_cmd_disc GetPldmCommands))
          @ 0 # bm @ drop 36 payload))
        \<and> length bm = 32 \<and> (\<forall>c. is_bit_set bm c = Some (c \<in> set cmds))))
    \<and> (get_supported_commands ctx t (gcq_protocol_version gcq) = None \<longrightarrow>
      get_pldm_commands_rsp (ctx, payload) = failure
        (if is_supported_type ctx t then control_cc_disc CC_InvalidPldmVersionInRequestData
         else control_cc_disc CC_InvalidPldmTypeInRequestData) (ctx, payload))"
proof (intro conjI allI impI)
  fix cmds assume c: "get_supported_commands ctx t (gcq_protocol_version gcq) = Some cmds"
  then obtain cap where cap: "cap \<in> set (ctl_capabilities ctx)" "cap_pldm_type cap = t"
    "cap_protocol_version cap = gcq_protocol_version gcq" "cap_supported_commands cap = cmds"
    using find_Some_mem unfolding get_supported_commands_def by fastforce
  then have sup: "is_supported_type ctx t" "is_supported_version ctx t (gcq_protocol_version gcq)"
    by (auto simp: is_supported_type_def is_supported_version_def list_ex_iff)
  obtain bm where bm: "construct_bitmap 32 cmds = Some bm" "length bm = 32"
    "\<forall>i. is_bit_set bm i = Some (i \<in> set (take 256 cmds))"
    using construct_bitmap_cmds by blast
  with assms(4) [OF cap(1)] cap(4) have bits: "\<forall>i. is_bit_set bm i = Some (i \<in> set cmds)" by simp
  have h: "hdr_of payload = gcq_hdr gcq" using assms(1,2) by (simp add: layout)
  have "get_pldm_commands_rsp (ctx, payload) = (Ok 36, (ctx,
          hdr_bytes (header_new (instance_id (hdr_of payload)) MsgResponse TypeBase (pldm_control_cmd_disc GetPldmCommands))
          @ 0 # bm @ drop 36 payload))"
    using assms(1-3) c sup bm(1,2) unfolding h
    by (simp add: get_pldm_commands_rsp_def handler_simps blanket_fits splice_def get_pldm_commands_response_new_def
        get_pldm_commands_response_bytes_def)
  with bm(2) bits show "\<exists>bm. get_pldm_commands_rsp (ctx, payload) = (Ok 36, (ctx,
          hdr_bytes (header_new (instance_id (hdr_of payload)) MsgResponse TypeBase (pldm_control_cmd_disc GetPldmCommands))
          @ 0 # bm @ drop 36 payload))
        \<and> length bm = 32 \<and> (\<forall>c. is_bit_set bm c = Some (c \<in> set cmds))" by blast
next
  assume "get_supported_commands ctx t (gcq_protocol_version gcq) = None"
  then have "\<not> is_supported_version ctx t (gcq_protocol_version gcq)"
    using get_supported_commands_Some by force
  with assms(1-3) show "get_pldm_commands_rsp (ctx, payload) = failure
        (if is_supported_type ctx t then control_cc_disc CC_InvalidPldmVersionInRequestData
         else control_cc_disc CC_InvalidPldmTypeInRequestData) (ctx, payload)"
    by (simp add: get_pldm_commands_rsp_def with_request_def blanket_decode_def abind_def gets_def)
qed

theorem get_pldm_commands_answers_witness:
  "\<exists>bm ctx'. get_pldm_commands_rsp (control_context_new [\<lparr>cap_pldm_type = TypeBase, cap_protocol_version = 0,
      cap_supported_commands = [2]\<rparr>], replicate 36 0) = (Ok 36, ctx', hdr_bytes (header_new
      (instance_id (hdr_of (replicate 36 0))) MsgResponse TypeBase (pldm_control_cmd_disc GetPldmCommands)) @ 0 # bm)
    \<and> is_bit_set bm 2 = Some True \<and> is_bit_set bm 3 = Some False"
proof -
  let ?ctx = "control_context_new [\<lparr>cap_pldm_type = TypeBase, cap_protocol_version = 0, cap_supported_commands = [2]\<rparr>]"
  let ?q = "get_pldm_commands_request_of (take 8 (replicate 36 0))"
  have t: "pldm_supported_type_try_from (gcq_pldm_type ?q) = Ok TypeBase"
    and c: "get_supported_commands ?ctx TypeBase (gcq_protocol_version ?q) = Some [2]"
    by code_simp+
  have "length (cap_supported_commands cap) \<le> 256" if "cap \<in> set (ctl_capabilities ?ctx)" for cap
    using that by (simp add: control_context_new_def)
  from get_pldm_commands_answers [OF _ refl t this] c show ?thesis by fastforce
qed

text \<open>\<open>GetPLDMVersion\<close> of a type in the table, asking for the first part, is answered with the
  version of the type's first entry, as a single-part transfer; every other operation flag is
  refused as invalid.\<close>

theorem get_pldm_version_answers:
  assumes "13 \<le> length payload" and "gvq = get_pldm_version_request_of (take 9 payload)"
    and "pldm_supported_type_try_from (gvq_pldm_type gvq) = Ok t"
    and "filter (\<lambda>cap. cap_pldm_type cap = t) (ctl_capabilities ctx) = cap # caps"
  shows "get_pldm_version_rsp (ctx, payload) =
    (if gvq_transfer_op_flag gvq = transfer_operation_flag_disc GetFirstPart
     then (Ok 13, (ctx, hdr_bytes (into_response (hdr_of payload))
        @ [0] @ le32 0 @ [transfer_resp_flag_disc FlagStartAndEnd] @ le32 (cap_protocol_version cap) @ drop 13 payload))
     else failure (control_cc_disc CC_InvalidTransferOperationFlag) (ctx, payload))"
proof -
  have "cap \<in> set (filter (\<lambda>cap. cap_pldm_type cap = t) (ctl_capabilities ctx))"
    unfolding assms(4) by simp
  then have sup: "is_supported_type ctx t" by (auto simp: is_supported_type_def list_ex_iff)
  obtain n vs where nvs: "get_protocol_versions ctx t [0, 0] = (n, vs)" by fastforce
  have "n \<noteq> 0" "vs ! 0 = cap_protocol_version cap" "vs \<noteq> []"
    using protocol_versions_first [of "[0, 0]" "cap # caps"] nvs
    by (auto simp: get_protocol_versions_def assms(4))
  moreover have h: "hdr_of payload = gvq_hdr gvq" using assms(1,2) by (simp add: layout)
  ultimately show ?thesis
    using assms(1-3) sup nvs unfolding h
    by (simp add: get_pldm_version_rsp_def handler_simps blanket_fits splice_def index_at_def numeral_2_eq_2
        get_pldm_version_response_bytes_def)
qed

theorem get_pldm_version_answers_witness:
  "fst (get_pldm_version_rsp (control_context_new [\<lparr>cap_pldm_type = TypeBase, cap_protocol_version = 0xF1F1F000,
      cap_supported_commands = []\<rparr>], [0x80, 0, 3, 0, 0, 0, 0, 1, 0, 0, 0, 0, 0])) = Ok 13"
proof -
  let ?ctx = "control_context_new [\<lparr>cap_pldm_type = TypeBase, cap_protocol_version = 0xF1F1F000, cap_supported_commands = []\<rparr>]"
  let ?p = "[0x80, 0, 3, 0, 0, 0, 0, 1, 0, 0, 0, 0, 0] :: bytes"
  have t: "pldm_supported_type_try_from (gvq_pldm_type (get_pldm_version_request_of (take 9 ?p))) = Ok TypeBase"
    and f: "gvq_transfer_op_flag (get_pldm_version_request_of (take 9 ?p)) = transfer_operation_flag_disc GetFirstPart"
    by code_simp+
  have "filter (\<lambda>cap. cap_pldm_type cap = TypeBase) (ctl_capabilities ?ctx) =
      \<lparr>cap_pldm_type = TypeBase, cap_protocol_version = 0xF1F1F000, cap_supported_commands = []\<rparr> # []"
    by (simp add: control_context_new_def)
  from get_pldm_version_answers [OF _ refl t this] f show ?thesis by simp
qed

end
