(* ===== verification/Fw_Types.thy ===== *)
theory Fw_Types
  imports Base
begin

text \<open>
  The types of the firmware update protocol, \<open>pldm-common/src/protocol/firmware_update.rs\<close>:
  commands, completion codes, device states, flag words, descriptors, version strings and
  component parameter entries, with the hand-written codecs of the variable-length ones.
  A fixed-size array is a list; its length, which Rust's types fix, is part of the
  well-formedness predicate of the struct.  An enum variant without a discriminant has the
  one after its predecessor's, as in Rust.
\<close>

section \<open>Limits\<close>

definition PLDM_FWUP_COMPONENT_RELEASE_DATA_LEN :: nat where
  "PLDM_FWUP_COMPONENT_RELEASE_DATA_LEN = 8"

definition PLDM_FWUP_BASELINE_TRANSFER_SIZE :: nat where
  "PLDM_FWUP_BASELINE_TRANSFER_SIZE = 32"

definition PLDM_FWUP_MAX_PADDING_SIZE :: nat where
  "PLDM_FWUP_MAX_PADDING_SIZE = PLDM_FWUP_BASELINE_TRANSFER_SIZE"

definition PLDM_FWUP_IMAGE_SET_VER_STR_MAX_LEN :: nat where
  "PLDM_FWUP_IMAGE_SET_VER_STR_MAX_LEN = 32"

definition DESCRIPTOR_DATA_MAX_LEN :: nat where
  "DESCRIPTOR_DATA_MAX_LEN = 64"

definition MAX_COMPONENT_COUNT :: nat where
  "MAX_COMPONENT_COUNT = 8"

definition MAX_DESCRIPTORS_COUNT :: nat where
  "MAX_DESCRIPTORS_COUNT = 4"

type_synonym pldm_fd_time = u64

lemmas fw_limits [simp] = PLDM_FWUP_COMPONENT_RELEASE_DATA_LEN_def
  PLDM_FWUP_BASELINE_TRANSFER_SIZE_def PLDM_FWUP_MAX_PADDING_SIZE_def
  PLDM_FWUP_IMAGE_SET_VER_STR_MAX_LEN_def DESCRIPTOR_DATA_MAX_LEN_def
  MAX_COMPONENT_COUNT_def MAX_DESCRIPTORS_COUNT_def

section \<open>Commands, completion codes, states\<close>

datatype fw_update_cmd =
    QueryDeviceIdentifiers
  | GetFirmwareParameters
  | QueryDownstreamDevices
  | QueryDownstreamIdentifiers
  | GetDownstreamFirmwareParameters
  | RequestUpdate
  | GetPackageData
  | GetDeviceMetaData
  | PassComponentTable
  | UpdateComponent
  | RequestFirmwareData
  | TransferComplete
  | VerifyComplete
  | ApplyComplete
  | GetMetaData
  | ActivateFirmware
  | GetStatus
  | CancelUpdateComponent
  | CancelUpdate
  | ActivatePendingComponentImage
  | RequestDownstreamDeviceUpdate
  | UpdateSecurityRevision

fun fw_update_cmd_disc :: "fw_update_cmd \<Rightarrow> u8" where
  "fw_update_cmd_disc QueryDeviceIdentifiers = 0x01"
| "fw_update_cmd_disc GetFirmwareParameters = 0x02"
| "fw_update_cmd_disc QueryDownstreamDevices = 0x03"
| "fw_update_cmd_disc QueryDownstreamIdentifiers = 0x04"
| "fw_update_cmd_disc GetDownstreamFirmwareParameters = 0x05"
| "fw_update_cmd_disc RequestUpdate = 0x10"
| "fw_update_cmd_disc GetPackageData = 0x11"
| "fw_update_cmd_disc GetDeviceMetaData = 0x12"
| "fw_update_cmd_disc PassComponentTable = 0x13"
| "fw_update_cmd_disc UpdateComponent = 0x14"
| "fw_update_cmd_disc RequestFirmwareData = 0x15"
| "fw_update_cmd_disc TransferComplete = 0x16"
| "fw_update_cmd_disc VerifyComplete = 0x17"
| "fw_update_cmd_disc ApplyComplete = 0x18"
| "fw_update_cmd_disc GetMetaData = 0x19"
| "fw_update_cmd_disc ActivateFirmware = 0x1A"
| "fw_update_cmd_disc GetStatus = 0x1B"
| "fw_update_cmd_disc CancelUpdateComponent = 0x1C"
| "fw_update_cmd_disc CancelUpdate = 0x1D"
| "fw_update_cmd_disc ActivatePendingComponentImage = 0x1F"
| "fw_update_cmd_disc RequestDownstreamDeviceUpdate = 0x20"
| "fw_update_cmd_disc UpdateSecurityRevision = 0x22"

definition fw_update_cmd_try_from :: "u8 \<Rightarrow> (fw_update_cmd, pldm_error) outcome" where
  "fw_update_cmd_try_from value =
    (if value = 0x01 then Ok QueryDeviceIdentifiers
     else if value = 0x02 then Ok GetFirmwareParameters
     else if value = 0x03 then Ok QueryDownstreamDevices
     else if value = 0x04 then Ok QueryDownstreamIdentifiers
     else if value = 0x05 then Ok GetDownstreamFirmwareParameters
     else if value = 0x10 then Ok RequestUpdate
     else if value = 0x11 then Ok GetPackageData
     else if value = 0x12 then Ok GetDeviceMetaData
     else if value = 0x13 then Ok PassComponentTable
     else if value = 0x14 then Ok UpdateComponent
     else if value = 0x15 then Ok RequestFirmwareData
     else if value = 0x16 then Ok TransferComplete
     else if value = 0x17 then Ok VerifyComplete
     else if value = 0x18 then Ok ApplyComplete
     else if value = 0x19 then Ok GetMetaData
     else if value = 0x1A then Ok ActivateFirmware
     else if value = 0x1B then Ok GetStatus
     else if value = 0x1C then Ok CancelUpdateComponent
     else if value = 0x1D then Ok CancelUpdate
     else if value = 0x1F then Ok ActivatePendingComponentImage
     else if value = 0x20 then Ok RequestDownstreamDeviceUpdate
     else if value = 0x22 then Ok UpdateSecurityRevision
     else Err PE_UnsupportedCmd)"

interpretation fw_update_cmd: wire_enum fw_update_cmd_disc fw_update_cmd_try_from
proof
  fix x show "fw_update_cmd_try_from (fw_update_cmd_disc x) = Ok x"
    by (cases x) (simp_all add: fw_update_cmd_try_from_def)
next
  fix w x assume "fw_update_cmd_try_from w = Ok x"
  then show "fw_update_cmd_disc x = w"
    by (auto simp: fw_update_cmd_try_from_def split: if_splits)
next
  fix w show "fw_update_cmd_try_from w \<noteq> Panic"
    by (simp add: fw_update_cmd_try_from_def)
qed

datatype fw_cc =
    NotInUpdateMode
  | AlreadyInUpdateMode
  | DataOutOfRange
  | InvalidTransferLength
  | InvalidStateForCommand
  | IncompleteUpdate
  | BusyInBackground
  | CancelPending
  | CommandNotExpected
  | RetryRequestFwData
  | UnableToInitiateUpdate
  | ActivationNotRequired
  | SelfContainedActivationNotPermitted
  | NoDeviceMetadata
  | RetryRequestUpdate
  | NoPackageData
  | InvalidTransferHandle
  | InvalidTransferOperationFlag
  | ActivatePendingImageNotPermitted
  | PackageDataError
  | NoOpaqueData
  | UpdateSecurityRevisionNotPermitted
  | DownstreamDeviceListChanged

fun fw_cc_disc :: "fw_cc \<Rightarrow> u8" where
  "fw_cc_disc NotInUpdateMode = 0x80"
| "fw_cc_disc AlreadyInUpdateMode = 0x81"
| "fw_cc_disc DataOutOfRange = 0x82"
| "fw_cc_disc InvalidTransferLength = 0x83"
| "fw_cc_disc InvalidStateForCommand = 0x84"
| "fw_cc_disc IncompleteUpdate = 0x85"
| "fw_cc_disc BusyInBackground = 0x86"
| "fw_cc_disc CancelPending = 0x87"
| "fw_cc_disc CommandNotExpected = 0x88"
| "fw_cc_disc RetryRequestFwData = 0x89"
| "fw_cc_disc UnableToInitiateUpdate = 0x8A"
| "fw_cc_disc ActivationNotRequired = 0x8B"
| "fw_cc_disc SelfContainedActivationNotPermitted = 0x8C"
| "fw_cc_disc NoDeviceMetadata = 0x8D"
| "fw_cc_disc RetryRequestUpdate = 0x8E"
| "fw_cc_disc NoPackageData = 0x8F"
| "fw_cc_disc InvalidTransferHandle = 0x90"
| "fw_cc_disc InvalidTransferOperationFlag = 0x91"
| "fw_cc_disc ActivatePendingImageNotPermitted = 0x92"
| "fw_cc_disc PackageDataError = 0x93"
| "fw_cc_disc NoOpaqueData = 0x94"
| "fw_cc_disc UpdateSecurityRevisionNotPermitted = 0x95"
| "fw_cc_disc DownstreamDeviceListChanged = 0x96"

definition fw_cc_try_from :: "u8 \<Rightarrow> (fw_cc, pldm_error) outcome" where
  "fw_cc_try_from value =
    (if value = 0x80 then Ok NotInUpdateMode
     else if value = 0x81 then Ok AlreadyInUpdateMode
     else if value = 0x82 then Ok DataOutOfRange
     else if value = 0x83 then Ok InvalidTransferLength
     else if value = 0x84 then Ok InvalidStateForCommand
     else if value = 0x85 then Ok IncompleteUpdate
     else if value = 0x86 then Ok BusyInBackground
     else if value = 0x87 then Ok CancelPending
     else if value = 0x88 then Ok CommandNotExpected
     else if value = 0x89 then Ok RetryRequestFwData
     else if value = 0x8A then Ok UnableToInitiateUpdate
     else if value = 0x8B then Ok ActivationNotRequired
     else if value = 0x8C then Ok SelfContainedActivationNotPermitted
     else if value = 0x8D then Ok NoDeviceMetadata
     else if value = 0x8E then Ok RetryRequestUpdate
     else if value = 0x8F then Ok NoPackageData
     else if value = 0x90 then Ok InvalidTransferHandle
     else if value = 0x91 then Ok InvalidTransferOperationFlag
     else if value = 0x92 then Ok ActivatePendingImageNotPermitted
     else if value = 0x93 then Ok PackageDataError
     else Err PE_InvalidCompletionCode)"

text \<open>
  The conversion has no case for the last three codes, so it is not a \<open>wire_enum\<close>; the
  others round-trip.
\<close>

lemma fw_cc_encode_decode: "fw_cc_try_from w = Ok x \<Longrightarrow> fw_cc_disc x = w"
  by (auto simp: fw_cc_try_from_def split: if_splits)

lemma fw_cc_try_from_disc:
  "fw_cc_try_from (fw_cc_disc c) =
     (if c \<in> {NoOpaqueData, UpdateSecurityRevisionNotPermitted, DownstreamDeviceListChanged}
      then Err PE_InvalidCompletionCode else Ok c)"
  by (cases c) (simp_all add: fw_cc_try_from_def)

subsection \<open>The completion codes of one command\<close>

text \<open>
  \<open>pldm_completion_code!\<close> defines, for a command, an enum of the base codes and the listed
  firmware update codes; its conversions are those of the two enums.  The list of
  variants is the macro's argument.
\<close>

datatype cmd_cc = BaseCodes base_cc | FwCode fw_cc

fun cmd_cc_disc :: "cmd_cc \<Rightarrow> u8" where
  "cmd_cc_disc (BaseCodes c) = base_cc_disc c"
| "cmd_cc_disc (FwCode c) = fw_cc_disc c"

definition cmd_cc_try_from :: "fw_cc list \<Rightarrow> u8 \<Rightarrow> (cmd_cc, pldm_error) outcome" where
  "cmd_cc_try_from variants code =
     (case base_cc_try_from code of
        Ok base_code \<Rightarrow> Ok (BaseCodes base_code)
      | _ \<Rightarrow>
        (case fw_cc_try_from code of
           Ok v \<Rightarrow> if v \<in> set variants then Ok (FwCode v) else Err PE_InvalidCompletionCode
         | Err e \<Rightarrow> Err e
         | Panic \<Rightarrow> Panic))"

lemma base_fw_disjoint: "base_cc_try_from (fw_cc_disc c) = Err PE_InvalidCompletionCode"
  by (cases c) (simp_all add: base_cc_try_from_def)

datatype firmware_device_state =
    Idle
  | LearnComponents
  | ReadyXfer
  | Download
  | Verify
  | Apply
  | Activate

fun firmware_device_state_disc :: "firmware_device_state \<Rightarrow> u8" where
  "firmware_device_state_disc Idle = 0"
| "firmware_device_state_disc LearnComponents = 1"
| "firmware_device_state_disc ReadyXfer = 2"
| "firmware_device_state_disc Download = 3"
| "firmware_device_state_disc Verify = 4"
| "firmware_device_state_disc Apply = 5"
| "firmware_device_state_disc Activate = 6"

definition firmware_device_state_try_from :: "u8 \<Rightarrow> (firmware_device_state, pldm_error) outcome" where
  "firmware_device_state_try_from value =
    (if value = 0 then Ok Idle
     else if value = 1 then Ok LearnComponents
     else if value = 2 then Ok ReadyXfer
     else if value = 3 then Ok Download
     else if value = 4 then Ok Verify
     else if value = 5 then Ok Apply
     else if value = 6 then Ok Activate
     else Err PE_InvalidFdState)"

interpretation firmware_device_state: wire_enum firmware_device_state_disc firmware_device_state_try_from
proof
  fix x show "firmware_device_state_try_from (firmware_device_state_disc x) = Ok x"
    by (cases x) (simp_all add: firmware_device_state_try_from_def)
next
  fix w x assume "firmware_device_state_try_from w = Ok x"
  then show "firmware_device_state_disc x = w"
    by (auto simp: firmware_device_state_try_from_def split: if_splits)
next
  fix w show "firmware_device_state_try_from w \<noteq> Panic"
    by (simp add: firmware_device_state_try_from_def)
qed

section \<open>Flag words\<close>

text \<open>A one-bit accessor of a flag word is a \<open>bool\<close>.\<close>

definition flag :: "nat \<Rightarrow> 'a::len word \<Rightarrow> bool" where
  "flag n w = bit w n"

definition set_flag :: "nat \<Rightarrow> bool \<Rightarrow> 'a::len word \<Rightarrow> 'a word" where
  "set_flag n b w = (if b then Bit_Operations.set_bit n w else unset_bit n w)"

definition request_force_update :: "u32 \<Rightarrow> bool" where
  "request_force_update flags = flag 0 flags"

definition set_request_force_update :: "bool \<Rightarrow> u32 \<Rightarrow> u32" where
  "set_request_force_update b flags = set_flag 0 b flags"

definition component_opaque_data :: "u32 \<Rightarrow> bool" where
  "component_opaque_data flags = flag 1 flags"

definition set_component_opaque_data :: "bool \<Rightarrow> u32 \<Rightarrow> u32" where
  "set_component_opaque_data b flags = set_flag 1 b flags"

definition svn_delayed_update :: "u32 \<Rightarrow> bool" where
  "svn_delayed_update flags = flag 2 flags"

definition set_svn_delayed_update :: "bool \<Rightarrow> u32 \<Rightarrow> u32" where
  "set_svn_delayed_update b flags = set_flag 2 b flags"

text \<open>\<open>FirmwareDeviceCapability\<close>: the restriction of the update mode has four bits.\<close>

definition update_failure_recovery :: "u32 \<Rightarrow> bool" where
  "update_failure_recovery caps = flag 0 caps"

definition set_update_failure_recovery :: "bool \<Rightarrow> u32 \<Rightarrow> u32" where
  "set_update_failure_recovery b caps = set_flag 0 b caps"

definition update_failure_retry :: "u32 \<Rightarrow> bool" where
  "update_failure_retry caps = flag 1 caps"

definition set_update_failure_retry :: "bool \<Rightarrow> u32 \<Rightarrow> u32" where
  "set_update_failure_retry b caps = set_flag 1 b caps"

definition host_func_reduced :: "u32 \<Rightarrow> bool" where
  "host_func_reduced caps = flag 2 caps"

definition set_func_reduced :: "bool \<Rightarrow> u32 \<Rightarrow> u32" where
  "set_func_reduced b caps = set_flag 2 b caps"

definition update_mode_restriction :: "u32 \<Rightarrow> u32" where
  "update_mode_restriction caps = get_bits 7 4 caps"

definition set_update_mode_restriction :: "u32 \<Rightarrow> u32 \<Rightarrow> u32" where
  "set_update_mode_restriction v caps = set_bits 7 4 v caps"

definition downgrade_restriction :: "u32 \<Rightarrow> bool" where
  "downgrade_restriction caps = flag 8 caps"

definition set_downgrade_restriction :: "bool \<Rightarrow> u32 \<Rightarrow> u32" where
  "set_downgrade_restriction b caps = set_flag 8 b caps"

definition svn_update_support :: "u32 \<Rightarrow> bool" where
  "svn_update_support caps = flag 9 caps"

definition set_svn_update_support :: "bool \<Rightarrow> u32 \<Rightarrow> u32" where
  "set_svn_update_support b caps = set_flag 9 b caps"

text \<open>\<open>ComponentActivationMethods\<close>\<close>

definition automatic :: "u16 \<Rightarrow> bool" where
  "automatic methods = flag 0 methods"

definition set_automatic :: "bool \<Rightarrow> u16 \<Rightarrow> u16" where
  "set_automatic b methods = set_flag 0 b methods"

definition self_contained :: "u16 \<Rightarrow> bool" where
  "self_contained methods = flag 1 methods"

definition set_self_contained :: "bool \<Rightarrow> u16 \<Rightarrow> u16" where
  "set_self_contained b methods = set_flag 1 b methods"

definition medium_specific_reset :: "u16 \<Rightarrow> bool" where
  "medium_specific_reset methods = flag 2 methods"

definition set_medium_specific_reset :: "bool \<Rightarrow> u16 \<Rightarrow> u16" where
  "set_medium_specific_reset b methods = set_flag 2 b methods"

definition system_reboot :: "u16 \<Rightarrow> bool" where
  "system_reboot methods = flag 3 methods"

definition set_system_reboot :: "bool \<Rightarrow> u16 \<Rightarrow> u16" where
  "set_system_reboot b methods = set_flag 3 b methods"

definition dc_power_cycle :: "u16 \<Rightarrow> bool" where
  "dc_power_cycle methods = flag 4 methods"

definition set_dc_power_cycle :: "bool \<Rightarrow> u16 \<Rightarrow> u16" where
  "set_dc_power_cycle b methods = set_flag 4 b methods"

definition ac_power_cycle :: "u16 \<Rightarrow> bool" where
  "ac_power_cycle methods = flag 5 methods"

definition set_ac_power_cycle :: "bool \<Rightarrow> u16 \<Rightarrow> u16" where
  "set_ac_power_cycle b methods = set_flag 5 b methods"

definition activate_pending_image :: "u16 \<Rightarrow> bool" where
  "activate_pending_image methods = flag 6 methods"

definition set_activate_pending_image :: "bool \<Rightarrow> u16 \<Rightarrow> u16" where
  "set_activate_pending_image b methods = set_flag 6 b methods"

definition activate_pending_comp_image_set :: "u16 \<Rightarrow> bool" where
  "activate_pending_comp_image_set methods = flag 7 methods"

definition set_activate_pending_comp_image_set :: "bool \<Rightarrow> u16 \<Rightarrow> u16" where
  "set_activate_pending_comp_image_set b methods = set_flag 7 b methods"

text \<open>The fields of a flag word are independent: writing one leaves the others.\<close>

lemma flag_set_flag: "n < LENGTH('a) \<Longrightarrow> flag m (set_flag n b (w :: 'a::len word)) = (if m = n then b else flag m w)"
  by (auto simp: flag_def set_flag_def bit_simps)

section \<open>Version string types\<close>

datatype version_string_type = VstUnspecified | VstAscii | VstUtf8 | VstUtf16 | VstUtf16Le | VstUtf16Be

fun version_string_type_disc :: "version_string_type \<Rightarrow> u8" where
  "version_string_type_disc VstUnspecified = 0"
| "version_string_type_disc VstAscii = 1"
| "version_string_type_disc VstUtf8 = 2"
| "version_string_type_disc VstUtf16 = 3"
| "version_string_type_disc VstUtf16Le = 4"
| "version_string_type_disc VstUtf16Be = 5"

fun version_string_type_as_string :: "version_string_type \<Rightarrow> string" where
  "version_string_type_as_string VstAscii = ''ASCII''"
| "version_string_type_as_string VstUtf8 = ''UTF-8''"
| "version_string_type_as_string VstUtf16 = ''UTF-16''"
| "version_string_type_as_string VstUtf16Le = ''UTF-16LE''"
| "version_string_type_as_string VstUtf16Be = ''UTF-16BE''"
| "version_string_type_as_string VstUnspecified = ''UNSPECIFIED''"

definition version_string_type_try_from :: "string \<Rightarrow> (version_string_type, pldm_error) outcome" where
  "version_string_type_try_from input =
     (if input = ''ASCII'' \<or> input = ''ascii'' then Ok VstAscii
      else if input = ''UTF-8'' \<or> input = ''utf-8'' then Ok VstUtf8
      else if input = ''UTF-16'' \<or> input = ''utf-16'' then Ok VstUtf16
      else if input = ''UTF-16LE'' \<or> input = ''utf-16le'' then Ok VstUtf16Le
      else if input = ''UTF-16BE'' \<or> input = ''utf-16be'' then Ok VstUtf16Be
      else if input = ''UNSPECIFIED'' \<or> input = ''unspecified'' then Ok VstUnspecified
      else Err PE_InvalidVersionStringType)"

lemma version_string_type_names:
  "version_string_type_try_from (version_string_type_as_string t) = Ok t"
  by (cases t) (simp_all add: version_string_type_try_from_def)

section \<open>Descriptor types\<close>

datatype descriptor_type =
    PciVendorId
  | IanaEnterpriseId
  | Uuid
  | PnpVendorId
  | AcpiVendorId
  | IeeeAssignedCompanyId
  | ScsiVendorId
  | PciDeviceId
  | PciSubsystemVendorId
  | PciSubsystemId
  | PciRevisionId
  | PnpProductIdentifier
  | AcpiProductIdentifier
  | AsciiModelNumberLongString
  | AsciiModelNumberShortString
  | ScsiProductId
  | UbmControllerDeviceCode
  | DescVendorDefined

fun descriptor_type_disc :: "descriptor_type \<Rightarrow> u16" where
  "descriptor_type_disc PciVendorId = 0x0000"
| "descriptor_type_disc IanaEnterpriseId = 0x0001"
| "descriptor_type_disc Uuid = 0x0002"
| "descriptor_type_disc PnpVendorId = 0x0003"
| "descriptor_type_disc AcpiVendorId = 0x0004"
| "descriptor_type_disc IeeeAssignedCompanyId = 0x0005"
| "descriptor_type_disc ScsiVendorId = 0x0006"
| "descriptor_type_disc PciDeviceId = 0x0100"
| "descriptor_type_disc PciSubsystemVendorId = 0x0101"
| "descriptor_type_disc PciSubsystemId = 0x0102"
| "descriptor_type_disc PciRevisionId = 0x0103"
| "descriptor_type_disc PnpProductIdentifier = 0x0104"
| "descriptor_type_disc AcpiProductIdentifier = 0x0105"
| "descriptor_type_disc AsciiModelNumberLongString = 0x0106"
| "descriptor_type_disc AsciiModelNumberShortString = 0x0107"
| "descriptor_type_disc ScsiProductId = 0x0108"
| "descriptor_type_disc UbmControllerDeviceCode = 0x0109"
| "descriptor_type_disc DescVendorDefined = 0xFFFF"

definition descriptor_type_try_from :: "u16 \<Rightarrow> (descriptor_type, pldm_error) outcome" where
  "descriptor_type_try_from value =
    (if value = 0x0000 then Ok PciVendorId
     else if value = 0x0001 then Ok IanaEnterpriseId
     else if value = 0x0002 then Ok Uuid
     else if value = 0x0003 then Ok PnpVendorId
     else if value = 0x0004 then Ok AcpiVendorId
     else if value = 0x0005 then Ok IeeeAssignedCompanyId
     else if value = 0x0006 then Ok ScsiVendorId
     else if value = 0x0100 then Ok PciDeviceId
     else if value = 0x0101 then Ok PciSubsystemVendorId
     else if value = 0x0102 then Ok PciSubsystemId
     else if value = 0x0103 then Ok PciRevisionId
     else if value = 0x0104 then Ok PnpProductIdentifier
     else if value = 0x0105 then Ok AcpiProductIdentifier
     else if value = 0x0106 then Ok AsciiModelNumberLongString
     else if value = 0x0107 then Ok AsciiModelNumberShortString
     else if value = 0x0108 then Ok ScsiProductId
     else if value = 0x0109 then Ok UbmControllerDeviceCode
     else if value = 0xFFFF then Ok DescVendorDefined
     else Err PE_InvalidDescriptorType)"

interpretation descriptor_type: wire_enum descriptor_type_disc descriptor_type_try_from
proof
  fix x show "descriptor_type_try_from (descriptor_type_disc x) = Ok x"
    by (cases x) (simp_all add: descriptor_type_try_from_def)
next
  fix w x assume "descriptor_type_try_from w = Ok x"
  then show "descriptor_type_disc x = w"
    by (auto simp: descriptor_type_try_from_def split: if_splits)
next
  fix w show "descriptor_type_try_from w \<noteq> Panic"
    by (simp add: descriptor_type_try_from_def)
qed

fun get_descriptor_length :: "descriptor_type \<Rightarrow> nat" where
  "get_descriptor_length PciVendorId = 2"
| "get_descriptor_length IanaEnterpriseId = 4"
| "get_descriptor_length Uuid = 16"
| "get_descriptor_length PnpVendorId = 3"
| "get_descriptor_length AcpiVendorId = 5"
| "get_descriptor_length IeeeAssignedCompanyId = 3"
| "get_descriptor_length ScsiVendorId = 8"
| "get_descriptor_length PciDeviceId = 2"
| "get_descriptor_length PciSubsystemVendorId = 2"
| "get_descriptor_length PciSubsystemId = 2"
| "get_descriptor_length PciRevisionId = 1"
| "get_descriptor_length PnpProductIdentifier = 4"
| "get_descriptor_length AcpiProductIdentifier = 4"
| "get_descriptor_length AsciiModelNumberLongString = 40"
| "get_descriptor_length AsciiModelNumberShortString = 10"
| "get_descriptor_length ScsiProductId = 16"
| "get_descriptor_length UbmControllerDeviceCode = 4"
| "get_descriptor_length DescVendorDefined = DESCRIPTOR_DATA_MAX_LEN"

lemma get_descriptor_length_bound: "get_descriptor_length t \<le> DESCRIPTOR_DATA_MAX_LEN"
  by (cases t) simp_all

section \<open>Component classifications\<close>

datatype component_classification =
    ClassUnspecified
  | ClassOther
  | ClassDriver
  | ClassConfigurationSoftware
  | ClassApplicationSoftware
  | ClassInstrumentation
  | ClassFirmwareOrBios
  | ClassDiagnosticSoftware
  | ClassOperatingSystem
  | ClassMiddleware
  | ClassFirmware
  | ClassBiosOrFcode
  | ClassSupportOrServicePack
  | ClassSoftwareBundle
  | ClassDownstreamDevice

fun component_classification_disc :: "component_classification \<Rightarrow> u16" where
  "component_classification_disc ClassUnspecified = 0x0000"
| "component_classification_disc ClassOther = 0x0001"
| "component_classification_disc ClassDriver = 0x0002"
| "component_classification_disc ClassConfigurationSoftware = 0x0003"
| "component_classification_disc ClassApplicationSoftware = 0x0004"
| "component_classification_disc ClassInstrumentation = 0x0005"
| "component_classification_disc ClassFirmwareOrBios = 0x0006"
| "component_classification_disc ClassDiagnosticSoftware = 0x0007"
| "component_classification_disc ClassOperatingSystem = 0x0008"
| "component_classification_disc ClassMiddleware = 0x0009"
| "component_classification_disc ClassFirmware = 0x000A"
| "component_classification_disc ClassBiosOrFcode = 0x000B"
| "component_classification_disc ClassSupportOrServicePack = 0x000C"
| "component_classification_disc ClassSoftwareBundle = 0x000D"
| "component_classification_disc ClassDownstreamDevice = 0xFFFF"

definition component_classification_try_from :: "u16 \<Rightarrow> (component_classification, pldm_error) outcome" where
  "component_classification_try_from value =
    (if value = 0x0000 then Ok ClassUnspecified
     else if value = 0x0001 then Ok ClassOther
     else if value = 0x0002 then Ok ClassDriver
     else if value = 0x0003 then Ok ClassConfigurationSoftware
     else if value = 0x0004 then Ok ClassApplicationSoftware
     else if value = 0x0005 then Ok ClassInstrumentation
     else if value = 0x0006 then Ok ClassFirmwareOrBios
     else if value = 0x0007 then Ok ClassDiagnosticSoftware
     else if value = 0x0008 then Ok ClassOperatingSystem
     else if value = 0x0009 then Ok ClassMiddleware
     else if value = 0x000A then Ok ClassFirmware
     else if value = 0x000B then Ok ClassBiosOrFcode
     else if value = 0x000C then Ok ClassSupportOrServicePack
     else if value = 0x000D then Ok ClassSoftwareBundle
     else if value = 0xFFFF then Ok ClassDownstreamDevice
     else Err PE_InvalidComponentClassification)"

interpretation component_classification: wire_enum component_classification_disc component_classification_try_from
proof
  fix x show "component_classification_try_from (component_classification_disc x) = Ok x"
    by (cases x) (simp_all add: component_classification_try_from_def)
next
  fix w x assume "component_classification_try_from w = Ok x"
  then show "component_classification_disc x = w"
    by (auto simp: component_classification_try_from_def split: if_splits)
next
  fix w show "component_classification_try_from w \<noteq> Panic"
    by (simp add: component_classification_try_from_def)
qed

section \<open>Component response codes\<close>

datatype component_response = RespCompCanBeUpdated | RespCompCannotBeUpdated

fun component_response_disc :: "component_response \<Rightarrow> u8" where
  "component_response_disc RespCompCanBeUpdated = 0"
| "component_response_disc RespCompCannotBeUpdated = 1"

datatype component_response_code =
    CompCanBeUpdated
  | CompComparisonStampIdentical
  | CompComparisonStampLower
  | InvalidCompComparisonStamp
  | CompConflict
  | CompPrerequisitesNotMet
  | CompNotSupported
  | CompSecurityRestrictions
  | IncompleteCompImageSet
  | ActiveImageNotUpdateableSubsequently
  | CompVerStrIdentical
  | CompVerStrLower
  | CompVendorDefined

fun component_response_code_disc :: "component_response_code \<Rightarrow> u8" where
  "component_response_code_disc CompCanBeUpdated = 0x00"
| "component_response_code_disc CompComparisonStampIdentical = 0x01"
| "component_response_code_disc CompComparisonStampLower = 0x02"
| "component_response_code_disc InvalidCompComparisonStamp = 0x03"
| "component_response_code_disc CompConflict = 0x04"
| "component_response_code_disc CompPrerequisitesNotMet = 0x05"
| "component_response_code_disc CompNotSupported = 0x06"
| "component_response_code_disc CompSecurityRestrictions = 0x07"
| "component_response_code_disc IncompleteCompImageSet = 0x08"
| "component_response_code_disc ActiveImageNotUpdateableSubsequently = 0x09"
| "component_response_code_disc CompVerStrIdentical = 0x0a"
| "component_response_code_disc CompVerStrLower = 0x0b"
| "component_response_code_disc CompVendorDefined = 0x0c"

definition component_response_code_try_from :: "u8 \<Rightarrow> (component_response_code, pldm_error) outcome" where
  "component_response_code_try_from value =
    (if value = 0x00 then Ok CompCanBeUpdated
     else if value = 0x01 then Ok CompComparisonStampIdentical
     else if value = 0x02 then Ok CompComparisonStampLower
     else if value = 0x03 then Ok InvalidCompComparisonStamp
     else if value = 0x04 then Ok CompConflict
     else if value = 0x05 then Ok CompPrerequisitesNotMet
     else if value = 0x06 then Ok CompNotSupported
     else if value = 0x07 then Ok CompSecurityRestrictions
     else if value = 0x08 then Ok IncompleteCompImageSet
     else if value = 0x09 then Ok ActiveImageNotUpdateableSubsequently
     else if value = 0x0a then Ok CompVerStrIdentical
     else if value = 0x0b then Ok CompVerStrLower
     else if 0xd0 \<le> value \<and> value \<le> 0xef then Ok CompVendorDefined
     else Err PE_InvalidComponentResponseCode)"

datatype compat_response =
    CompatCanBeUpdated
  | CompatCannotBeUpdated

fun compat_response_disc :: "compat_response \<Rightarrow> u8" where
  "compat_response_disc CompatCanBeUpdated = 0"
| "compat_response_disc CompatCannotBeUpdated = 1"

definition compat_response_try_from :: "u8 \<Rightarrow> (compat_response, pldm_error) outcome" where
  "compat_response_try_from value =
    (if value = 0 then Ok CompatCanBeUpdated
     else if value = 1 then Ok CompatCannotBeUpdated
     else Err PE_InvalidComponentCompatibilityResponse)"

interpretation compat_response: wire_enum compat_response_disc compat_response_try_from
proof
  fix x show "compat_response_try_from (compat_response_disc x) = Ok x"
    by (cases x) (simp_all add: compat_response_try_from_def)
next
  fix w x assume "compat_response_try_from w = Ok x"
  then show "compat_response_disc x = w"
    by (auto simp: compat_response_try_from_def split: if_splits)
next
  fix w show "compat_response_try_from w \<noteq> Panic"
    by (simp add: compat_response_try_from_def)
qed

datatype compat_response_code =
    CompatNoResponseCode
  | CompatComparisonStampIdentical
  | CompatComparisonStampLower
  | CompatInvalidComparisonStamp
  | CompatConflict
  | CompatPrerequisitesNotMet
  | CompatNotSupported
  | CompatSecurityRestrictions
  | CompatIncompleteImageSet
  | CompatInfoNoMatch
  | CompatVerStrIdentical
  | CompatVerStrLower
  | CompatVendorDefined

fun compat_response_code_disc :: "compat_response_code \<Rightarrow> u8" where
  "compat_response_code_disc CompatNoResponseCode = 0x00"
| "compat_response_code_disc CompatComparisonStampIdentical = 0x01"
| "compat_response_code_disc CompatComparisonStampLower = 0x02"
| "compat_response_code_disc CompatInvalidComparisonStamp = 0x03"
| "compat_response_code_disc CompatConflict = 0x04"
| "compat_response_code_disc CompatPrerequisitesNotMet = 0x05"
| "compat_response_code_disc CompatNotSupported = 0x06"
| "compat_response_code_disc CompatSecurityRestrictions = 0x07"
| "compat_response_code_disc CompatIncompleteImageSet = 0x08"
| "compat_response_code_disc CompatInfoNoMatch = 0x09"
| "compat_response_code_disc CompatVerStrIdentical = 0x0a"
| "compat_response_code_disc CompatVerStrLower = 0x0b"
| "compat_response_code_disc CompatVendorDefined = 0x0c"

definition compat_response_code_try_from :: "u8 \<Rightarrow> (compat_response_code, pldm_error) outcome" where
  "compat_response_code_try_from value =
    (if value = 0x00 then Ok CompatNoResponseCode
     else if value = 0x01 then Ok CompatComparisonStampIdentical
     else if value = 0x02 then Ok CompatComparisonStampLower
     else if value = 0x03 then Ok CompatInvalidComparisonStamp
     else if value = 0x04 then Ok CompatConflict
     else if value = 0x05 then Ok CompatPrerequisitesNotMet
     else if value = 0x06 then Ok CompatNotSupported
     else if value = 0x07 then Ok CompatSecurityRestrictions
     else if value = 0x08 then Ok CompatIncompleteImageSet
     else if value = 0x09 then Ok CompatInfoNoMatch
     else if value = 0x0a then Ok CompatVerStrIdentical
     else if value = 0x0b then Ok CompatVerStrLower
     else if 0xd0 \<le> value \<and> value \<le> 0xef then Ok CompatVendorDefined
     else Err PE_InvalidComponentCompatibilityResponseCode)"

text \<open>
  \<open>update_component_rsp\<close> converts a response code into a compatibility code through its
  discriminant; every code but \<open>VendorDefined\<close>, whose discriminant \<open>0x0c\<close> the conversion
  does not accept, has a counterpart with the same discriminant.
\<close>

lemma compat_of_response_code:
  "c \<noteq> CompVendorDefined \<Longrightarrow>
   \<exists>d. compat_response_code_try_from (component_response_code_disc c) = Ok d \<and>
       compat_response_code_disc d = component_response_code_disc c"
  by (cases c) (simp_all add: compat_response_code_try_from_def)

lemma compat_of_vendor_defined:
  "compat_response_code_try_from (component_response_code_disc CompVendorDefined) =
     Err PE_InvalidComponentCompatibilityResponseCode"
  by (simp add: compat_response_code_try_from_def)

end
