(* ===== verification/Fw_Data.thy ===== *)
theory Fw_Data
  imports Fw_Types
begin

text \<open>
  The structured data of \<open>pldm-common/src/protocol/firmware_update.rs\<close>: descriptors,
  firmware version strings with their partial order, firmware versions and component
  parameter entries, each with its hand-written variable-length codec.
\<close>

section \<open>Descriptors\<close>

record descriptor =
  desc_type :: u16
  desc_length :: u16
  desc_data :: bytes

definition descriptor_default :: descriptor where
  "descriptor_default = \<lparr>desc_type = 0, desc_length = 0, desc_data = replicate DESCRIPTOR_DATA_MAX_LEN 0\<rparr>"

definition descriptor_new_empty :: descriptor where
  "descriptor_new_empty = \<lparr>desc_type = 0, desc_length = 0, desc_data = replicate DESCRIPTOR_DATA_MAX_LEN 0\<rparr>"

definition descriptor_new :: "descriptor_type \<Rightarrow> bytes \<Rightarrow> (descriptor, pldm_error) outcome" where
  "descriptor_new dt data =
     (let len = get_descriptor_length dt
      in if length data \<noteq> len then Err PE_InvalidDescriptorLength
         else Ok \<lparr>desc_type = descriptor_type_disc dt, desc_length = of_nat len,
                  desc_data = pad_to DESCRIPTOR_DATA_MAX_LEN data\<rparr>)"

definition descriptor_codec_size :: "descriptor \<Rightarrow> nat" where
  "descriptor_codec_size d = 2 * 2 + unat (desc_length d)"

definition descriptor_encode :: "descriptor \<Rightarrow> bytes \<Rightarrow> (nat, codec_error) outcome \<times> bytes" where
  "descriptor_encode d buffer =
     (if length buffer < descriptor_codec_size d then (Err BufferTooShort, buffer)
      else put_all
        [Some (le16 (desc_type d)),
         Some (le16 (desc_length d)),
         prefix_chunk (unat (desc_length d)) (desc_data d)] 0 buffer)"

definition descriptor_decode :: "bytes \<Rightarrow> (descriptor, codec_error) outcome" where
  "descriptor_decode buffer =
     rbind (read_at 0 2 (u16_at 0) buffer) (\<lambda>dtype.
     rbind (read_at 2 2 (u16_at 0) buffer) (\<lambda>dlen.
       if DESCRIPTOR_DATA_MAX_LEN < unat dlen then Err InvalidData
       else rbind (ok_or BufferTooShort (get_range 4 (unat dlen) buffer)) (\<lambda>data.
         Ok \<lparr>desc_type = dtype, desc_length = dlen,
             desc_data = pad_to DESCRIPTOR_DATA_MAX_LEN data\<rparr>)))"

text \<open>
  The loop of \<open>try_get_descriptor_length_from_blob\<close>: \<open>offset\<close> and \<open>total_len\<close> advance
  together, so one accumulator carries both.
\<close>

fun descriptor_length_loop :: "bytes \<Rightarrow> nat \<Rightarrow> nat \<Rightarrow> (nat, codec_error) outcome" where
  "descriptor_length_loop blob 0 offset = Ok offset"
| "descriptor_length_loop blob (Suc n) offset =
     rbind (slice_from offset blob) (\<lambda>rest.
     rbind (descriptor_decode rest) (\<lambda>d.
       descriptor_length_loop blob n (offset + descriptor_codec_size d)))"

definition try_get_descriptor_length_from_blob :: "bytes \<Rightarrow> nat \<Rightarrow> (nat, codec_error) outcome" where
  "try_get_descriptor_length_from_blob blob desc_count = descriptor_length_loop blob desc_count 0"

definition wf_descriptor :: "descriptor \<Rightarrow> bool" where
  "wf_descriptor d \<longleftrightarrow> padded 64 (unat (desc_length d)) (desc_data d)"

definition descriptor_ser :: "descriptor \<Rightarrow> bytes" where
  "descriptor_ser d = le16 (desc_type d) @ le16 (desc_length d) @ take (unat (desc_length d)) (desc_data d)"

lemma length_descriptor_ser [simp]: "wf_descriptor d \<Longrightarrow> length (descriptor_ser d) = descriptor_codec_size d"
  by (simp add: wf_descriptor_def padded_def descriptor_ser_def descriptor_codec_size_def)

lemma u16_at_le16 [simp]: "u16_at 0 (le16 w @ xs) = w" "u16_at 0 (le16 w) = w"
  by (simp_all add: u16_at_def le16_def)

lemma descriptor_decode_append:
  assumes "wf_descriptor d"
  shows "descriptor_decode (descriptor_ser d @ rest) = Ok d"
  using assms pad_take [of "desc_data d" 64 "unat (desc_length d)"]
  by (simp add: descriptor_decode_def descriptor_ser_def wf_descriptor_def padded_def get_range_def not_less)

lemma descriptor_decode_not_Panic [simp]: "descriptor_decode bs \<noteq> Panic"
  by (simp add: descriptor_decode_def rbind_eq_Panic)

interpretation descriptor: codec descriptor_encode descriptor_decode descriptor_ser wf_descriptor
proof
  fix x :: descriptor and buf :: bytes
  assume wf: "wf_descriptor x"
  let ?cs = "[le16 (desc_type x), le16 (desc_length x), take (unat (desc_length x)) (desc_data x)]"
  have cs: "[Some (le16 (desc_type x)), Some (le16 (desc_length x)),
      prefix_chunk (unat (desc_length x)) (desc_data x)] = map Some ?cs"
    using wf by (simp add: wf_descriptor_def padded_def)
  show "length (descriptor_ser x) \<le> length buf \<Longrightarrow>
      descriptor_encode x buf = (Ok (length (descriptor_ser x)), splice 0 (descriptor_ser x) buf)"
    using wf put_fields [OF cs, of "descriptor_ser x" buf]
    by (simp add: descriptor_encode_def) (simp add: descriptor_ser_def)
  show "length buf < length (descriptor_ser x) \<Longrightarrow> descriptor_encode x buf = (Err BufferTooShort, buf)"
    using wf by (simp add: descriptor_encode_def)
  show "descriptor_decode (descriptor_ser x) = Ok x"
    using descriptor_decode_append [OF wf, of "[]"] by simp
  show "descriptor_decode (descriptor_ser x @ rest) = Ok x" for rest
    by (rule descriptor_decode_append [OF wf])
qed simp

text \<open>Whatever decodes is well-formed and lies inside the buffer.\<close>

lemma descriptor_decode_Ok:
  "descriptor_decode bs = Ok d \<Longrightarrow> wf_descriptor d \<and> descriptor_codec_size d \<le> length bs"
  by (auto simp: descriptor_decode_def wf_descriptor_def padded_def descriptor_codec_size_def pad_to_def
      read_at_def min_def split: if_splits)

lemma descriptor_new_wf: "descriptor_new dt data = Ok d \<Longrightarrow> wf_descriptor d"
  using get_descriptor_length_bound [of dt]
  by (auto simp: descriptor_new_def wf_descriptor_def padded_def Let_def pad_to_def unat_of_nat split: if_splits)

lemma descriptor_length_loop_bounds:
  "descriptor_length_loop blob n off = Ok len \<Longrightarrow> off \<le> length blob \<Longrightarrow> off \<le> len \<and> len \<le> length blob"
proof (induction blob n off rule: descriptor_length_loop.induct)
  case (2 blob n off)
  then obtain d where d: "descriptor_decode (drop off blob) = Ok d"
    and rest: "descriptor_length_loop blob n (off + descriptor_codec_size d) = Ok len"
    by (auto simp: slice_from_def)
  from descriptor_decode_Ok [OF d] "2.prems"(2) have "off + descriptor_codec_size d \<le> length blob"
    by (simp add: le_diff_conv2 add.commute)
  with "2.IH" [OF rest] show ?case by simp
qed simp

lemma descriptor_length_loop_no_panic:
  "off \<le> length blob \<Longrightarrow> descriptor_length_loop blob n off \<noteq> Panic"
proof (induction blob n off rule: descriptor_length_loop.induct)
  case (2 blob n off)
  then show ?case
    using descriptor_decode_Ok [of "drop off blob"]
    by (fastforce simp: slice_from_def rbind_eq_Panic)
qed simp

text \<open>Walking a blob of descriptors never indexes outside it, whatever the bytes and the
  claimed count, and the length found never exceeds the blob.\<close>

theorem descriptor_blob_walk_safe:
  "try_get_descriptor_length_from_blob blob n \<noteq> Panic \<and>
   (\<forall>len. try_get_descriptor_length_from_blob blob n = Ok len \<longrightarrow> len \<le> length blob)"
  using descriptor_length_loop_no_panic [of 0 blob n] descriptor_length_loop_bounds [of blob n 0]
  by (auto simp: try_get_descriptor_length_from_blob_def)

theorem descriptor_blob_walk_safe_witness:
  "(7 :: nat) \<le> length ([0, 0, 2, 0, 0x11, 0x22, 9] :: bytes)
   \<and> try_get_descriptor_length_from_blob [0, 0, 2, 0, 0x11, 0x22, 9] 1 = Ok 6
   \<and> try_get_descriptor_length_from_blob [0, 0, 2, 0, 0x11, 0x22, 9] 2 \<noteq> Panic"
proof -
  have "try_get_descriptor_length_from_blob [0, 0, 2, 0, 0x11, 0x22, 9] 1 = Ok 6" by code_simp
  then show ?thesis
    using descriptor_blob_walk_safe [of "[0, 0, 2, 0, 0x11, 0x22, 9]" 2] by simp
qed

section \<open>Firmware version strings\<close>

record pldm_firmware_string =
  str_type :: u8
  str_len :: u8
  str_data :: bytes

definition firmware_string_default :: pldm_firmware_string where
  "firmware_string_default = \<lparr>str_type = 0, str_len = 0,
     str_data = replicate PLDM_FWUP_IMAGE_SET_VER_STR_MAX_LEN 0\<rparr>"

definition string_bytes :: "string \<Rightarrow> bytes" where
  "string_bytes s = map of_char s"

definition firmware_string_new :: "string \<Rightarrow> string \<Rightarrow> (pldm_firmware_string, pldm_error) outcome" where
  "firmware_string_new ty fw_str =
     rbind (version_string_type_try_from ty) (\<lambda>ty.
       if PLDM_FWUP_IMAGE_SET_VER_STR_MAX_LEN < length (string_bytes fw_str)
       then Err PE_InvalidVersionStringLength
       else Ok \<lparr>str_type = version_string_type_disc ty, str_len = of_nat (length (string_bytes fw_str)),
                str_data = pad_to PLDM_FWUP_IMAGE_SET_VER_STR_MAX_LEN (string_bytes fw_str)\<rparr>)"

definition firmware_string_encode ::
  "pldm_firmware_string \<Rightarrow> bytes \<Rightarrow> (nat, codec_error) outcome \<times> bytes" where
  "firmware_string_encode s buffer =
     (if length buffer < unat (str_len s) + 2 then (Err BufferTooShort, buffer)
      else put_all [Some [str_type s], Some [str_len s], prefix_chunk (unat (str_len s)) (str_data s)] 0 buffer)"

definition firmware_string_decode :: "bytes \<Rightarrow> (pldm_firmware_string, codec_error) outcome" where
  "firmware_string_decode buffer =
     rbind (read_at 0 1 hd buffer) (\<lambda>ty.
     rbind (read_at 1 1 hd buffer) (\<lambda>len.
       if PLDM_FWUP_IMAGE_SET_VER_STR_MAX_LEN < unat len then Err InvalidData
       else rbind (ok_or BufferTooShort (get_range 2 (unat len) buffer)) (\<lambda>data.
         Ok \<lparr>str_type = ty, str_len = len,
             str_data = pad_to PLDM_FWUP_IMAGE_SET_VER_STR_MAX_LEN data\<rparr>)))"

definition wf_firmware_string :: "pldm_firmware_string \<Rightarrow> bool" where
  "wf_firmware_string s \<longleftrightarrow> padded 32 (unat (str_len s)) (str_data s)"

definition firmware_string_ser :: "pldm_firmware_string \<Rightarrow> bytes" where
  "firmware_string_ser s = str_type s # str_len s # take (unat (str_len s)) (str_data s)"

lemma length_firmware_string_ser [simp]:
  "wf_firmware_string s \<Longrightarrow> length (firmware_string_ser s) = unat (str_len s) + 2"
  by (simp add: wf_firmware_string_def padded_def firmware_string_ser_def)

lemma firmware_string_decode_append:
  assumes "wf_firmware_string s"
  shows "firmware_string_decode (firmware_string_ser s @ rest) = Ok s"
  using assms pad_take [of "str_data s" 32 "unat (str_len s)"]
  by (simp add: firmware_string_decode_def firmware_string_ser_def wf_firmware_string_def padded_def
      get_range_def not_less)

lemma firmware_string_decode_not_Panic [simp]: "firmware_string_decode bs \<noteq> Panic"
  by (simp add: firmware_string_decode_def rbind_eq_Panic)

interpretation firmware_string:
  codec firmware_string_encode firmware_string_decode firmware_string_ser wf_firmware_string
proof
  fix x :: pldm_firmware_string and buf :: bytes
  assume wf: "wf_firmware_string x"
  have cs: "[Some [str_type x], Some [str_len x], prefix_chunk (unat (str_len x)) (str_data x)] =
      map Some [[str_type x], [str_len x], take (unat (str_len x)) (str_data x)]"
    using wf by (simp add: wf_firmware_string_def padded_def)
  show "length (firmware_string_ser x) \<le> length buf \<Longrightarrow> firmware_string_encode x buf =
      (Ok (length (firmware_string_ser x)), splice 0 (firmware_string_ser x) buf)"
    using wf put_fields [OF cs, of "firmware_string_ser x" buf]
    by (simp add: firmware_string_encode_def) (simp add: firmware_string_ser_def)
  show "length buf < length (firmware_string_ser x) \<Longrightarrow>
      firmware_string_encode x buf = (Err BufferTooShort, buf)"
    using wf by (simp add: firmware_string_encode_def)
  show "firmware_string_decode (firmware_string_ser x) = Ok x"
    using firmware_string_decode_append [OF wf, of "[]"] by simp
  show "firmware_string_decode (firmware_string_ser x @ rest) = Ok x" for rest
    by (rule firmware_string_decode_append [OF wf])
qed simp

lemma firmware_string_new_wf: "firmware_string_new ty s = Ok f \<Longrightarrow> wf_firmware_string f"
  by (auto simp: firmware_string_new_def wf_firmware_string_def padded_def pad_to_def unat_of_nat string_bytes_def
      split: if_splits)

text \<open>A version string built by \<open>PldmFirmwareString::new\<close> is what the peer decodes after it
  was encoded into any buffer that holds it, and the bytes behind it are untouched.\<close>

theorem firmware_string_wire_roundtrip:
  assumes "firmware_string_new ty s = Ok f" and "length s + 2 \<le> length buf"
  shows "\<exists>buf'. firmware_string_encode f buf = (Ok (length s + 2), buf') \<and>
           firmware_string_decode buf' = Ok f \<and> drop (length s + 2) buf' = drop (length s + 2) buf"
proof -
  have wf: "wf_firmware_string f" by (rule firmware_string_new_wf [OF assms(1)])
  have len: "length (firmware_string_ser f) = length s + 2"
    using assms(1) wf by (auto simp: firmware_string_new_def string_bytes_def unat_of_nat split: if_splits)
  have enc: "firmware_string_encode f buf = (Ok (length s + 2), splice 0 (firmware_string_ser f) buf)"
    using firmware_string.enc_fits [OF wf, of buf] assms(2) len by simp
  show ?thesis
    using enc firmware_string.roundtrip_whole [OF wf enc] firmware_string.enc_frame [OF wf enc] by blast
qed

theorem firmware_string_wire_roundtrip_witness:
  "\<exists>f buf'. firmware_string_new ''ASCII'' ''1.0'' = Ok f \<and>
     firmware_string_encode f [0, 0, 0, 0, 0, 7] = (Ok 5, buf') \<and>
     firmware_string_decode buf' = Ok f \<and> drop 5 buf' = [7]"
proof -
  have "\<exists>f. firmware_string_new ''ASCII'' ''1.0'' = Ok f"
    by (simp add: firmware_string_new_def version_string_type_try_from_def string_bytes_def)
  then obtain f where f: "firmware_string_new ''ASCII'' ''1.0'' = Ok f" by blast
  have five: "length ''1.0'' + 2 = (5 :: nat)" by simp
  show ?thesis
    using f firmware_string_wire_roundtrip [OF f, of "[0, 0, 0, 0, 0, 7]", unfolded five]
    by (simp only: f) auto
qed

subsection \<open>The partial order of version strings\<close>

datatype ordering = Less | Equal | Greater

fun slice_cmp :: "bytes \<Rightarrow> bytes \<Rightarrow> ordering" where
  "slice_cmp [] [] = Equal"
| "slice_cmp [] (y # ys) = Less"
| "slice_cmp (x # xs) [] = Greater"
| "slice_cmp (x # xs) (y # ys) = (if x < y then Less else if y < x then Greater else slice_cmp xs ys)"

text \<open>Strings of different types are incomparable; a length beyond the array panics.\<close>

definition firmware_string_partial_cmp ::
  "pldm_firmware_string \<Rightarrow> pldm_firmware_string \<Rightarrow> (ordering option, 'e) outcome" where
  "firmware_string_partial_cmp a b =
     (if str_type a \<noteq> str_type b then Ok None
      else rbind (slice 0 (unat (str_len a)) (str_data a)) (\<lambda>x.
           rbind (slice 0 (unat (str_len b)) (str_data b)) (\<lambda>y. Ok (Some (slice_cmp x y)))))"

definition firmware_string_lt :: "pldm_firmware_string \<Rightarrow> pldm_firmware_string \<Rightarrow> (bool, 'e) outcome" where
  "firmware_string_lt a b = map_ok (\<lambda>c. c = Some Less) (firmware_string_partial_cmp a b)"

lemma slice_cmp_Equal: "slice_cmp xs ys = Equal \<longleftrightarrow> xs = ys"
  by (induction xs ys rule: slice_cmp.induct) auto

lemma slice_cmp_swap: "slice_cmp xs ys = Less \<longleftrightarrow> slice_cmp ys xs = Greater"
  by (induction xs ys rule: slice_cmp.induct) auto

lemma slice_cmp_trans:
  "slice_cmp xs ys \<noteq> Greater \<Longrightarrow> slice_cmp ys zs \<noteq> Greater \<Longrightarrow> slice_cmp xs zs \<noteq> Greater"
proof (induction xs ys arbitrary: zs rule: slice_cmp.induct)
  case 1
  then show ?case by (cases zs) simp_all
next
  case (2 y ys)
  then show ?case by (cases zs) simp_all
next
  case (3 x xs)
  then show ?case by simp
next
  case (4 x xs y ys)
  show ?case
  proof (cases zs)
    case Nil
    with "4.prems" show ?thesis by simp
  next
    case (Cons z zs')
    with "4.prems" "4.IH" [of zs'] show ?thesis
      by (simp split: if_splits; fastforce)
  qed
qed

text \<open>
  The order as an instance of the library's \<open>preorder\<close>: \<open>a \<le> b\<close> when the comparison
  answers less or equal.  It is not antisymmetric, since bytes behind \<open>str_len\<close> do not
  count.
\<close>

definition ver_key :: "('a) pldm_firmware_string_scheme \<Rightarrow> u8 \<times> bytes" where
  "ver_key s = (str_type s, take (unat (str_len s)) (str_data s))"

instantiation pldm_firmware_string_ext :: (type) preorder
begin
definition less_eq_pldm_firmware_string_ext ::
  "'a pldm_firmware_string_scheme \<Rightarrow> 'a pldm_firmware_string_scheme \<Rightarrow> bool" where
  "less_eq_pldm_firmware_string_ext a b \<longleftrightarrow>
     fst (ver_key a) = fst (ver_key b) \<and> slice_cmp (snd (ver_key a)) (snd (ver_key b)) \<noteq> Greater"
definition less_pldm_firmware_string_ext ::
  "'a pldm_firmware_string_scheme \<Rightarrow> 'a pldm_firmware_string_scheme \<Rightarrow> bool" where
  "less_pldm_firmware_string_ext a b \<longleftrightarrow>
     fst (ver_key a) = fst (ver_key b) \<and> slice_cmp (snd (ver_key a)) (snd (ver_key b)) = Less"
instance
proof
  fix x y z :: "'a pldm_firmware_string_scheme"
  show "x < y \<longleftrightarrow> x \<le> y \<and> \<not> y \<le> x"
    using slice_cmp_swap [of "snd (ver_key x)" "snd (ver_key y)"]
    unfolding less_eq_pldm_firmware_string_ext_def less_pldm_firmware_string_ext_def
    by (cases "slice_cmp (snd (ver_key x)) (snd (ver_key y))") auto
  show "x \<le> x"
    using slice_cmp_Equal [of "snd (ver_key x)" "snd (ver_key x)"]
    by (simp add: less_eq_pldm_firmware_string_ext_def)
  show "x \<le> y \<Longrightarrow> y \<le> z \<Longrightarrow> x \<le> z"
    unfolding less_eq_pldm_firmware_string_ext_def
    using slice_cmp_trans [of "snd (ver_key x)" "snd (ver_key y)" "snd (ver_key z)"] by simp
qed
end

lemma firmware_string_lt_less:
  "length (str_data a) = 32 \<Longrightarrow> length (str_data b) = 32 \<Longrightarrow>
   unat (str_len a) \<le> 32 \<Longrightarrow> unat (str_len b) \<le> 32 \<Longrightarrow>
   firmware_string_lt a b = Ok (a < b)"
  by (simp add: firmware_string_lt_def firmware_string_partial_cmp_def slice_in_range
      less_pldm_firmware_string_ext_def ver_key_def)

text \<open>On well-formed strings \<open>PartialOrd\<close> agrees with \<open>PartialEq\<close> (the comparison answers
  \<open>Equal\<close> exactly for equal strings), and swapping the operands reverses its answer.\<close>

theorem firmware_string_cmp_consistent:
  assumes "wf_firmware_string a" and "wf_firmware_string b"
  shows "(firmware_string_partial_cmp a b = (Ok (Some Equal) :: (_, unit) outcome) \<longleftrightarrow> a = b) \<and>
         (firmware_string_partial_cmp a b = (Ok (Some Less) :: (_, unit) outcome) \<longleftrightarrow>
          firmware_string_partial_cmp b a = (Ok (Some Greater) :: (_, unit) outcome))"
proof -
  let ?da = "take (unat (str_len a)) (str_data a)" and ?db = "take (unat (str_len b)) (str_data b)"
  have len: "length ?da = unat (str_len a)" "length ?db = unat (str_len b)"
    using assms by (simp_all add: wf_firmware_string_def padded_def)
  have "a = b" if "str_type a = str_type b" "?da = ?db"
  proof -
    from that(2) len have l: "unat (str_len a) = unat (str_len b)" by metis
    have "str_data a = ?da @ drop (unat (str_len a)) (str_data a)" by simp
    also have "\<dots> = ?db @ drop (unat (str_len b)) (str_data b)"
      using that(2) l assms by (simp add: wf_firmware_string_def padded_def)
    finally have "str_data a = str_data b" by simp
    moreover from l have "str_len a = str_len b" by (simp only: word_unat_eq_iff)
    ultimately show "a = b" using that(1) by (cases a, cases b) simp
  qed
  with assms show ?thesis
    by (auto simp: firmware_string_partial_cmp_def slice_in_range wf_firmware_string_def padded_def
        slice_cmp_Equal slice_cmp_swap)
qed

theorem firmware_string_cmp_consistent_witness:
  "firmware_string_partial_cmp firmware_string_default firmware_string_default
     = (Ok (Some Equal) :: (_, unit) outcome)"
  using firmware_string_cmp_consistent [of firmware_string_default firmware_string_default]
  by (simp add: wf_firmware_string_def padded_def firmware_string_default_def)

end
