(* ===== verification/Fw_Params.thy ===== *)
theory Fw_Params
  imports Fw_Data
begin

text \<open>
  Firmware parameters: the component parameter entries of
  \<open>pldm-common/src/protocol/firmware_update.rs\<close> and the messages of
  \<open>pldm-common/src/message/firmware_update/get_fw_params.rs\<close>.
\<close>

section \<open>Firmware versions\<close>

record pldm_firmware_version =
  fv_comparison_stamp :: u32
  fv_str :: pldm_firmware_string
  fv_date :: bytes

definition firmware_version_default :: pldm_firmware_version where
  "firmware_version_default = \<lparr>fv_comparison_stamp = 0, fv_str = firmware_string_default,
     fv_date = replicate PLDM_FWUP_COMPONENT_RELEASE_DATA_LEN 0\<rparr>"

definition firmware_version_new ::
  "u32 \<Rightarrow> pldm_firmware_string \<Rightarrow> string option \<Rightarrow> pldm_firmware_version" where
  "firmware_version_new stamp s date_str =
     \<lparr>fv_comparison_stamp = stamp, fv_str = s,
      fv_date = (case date_str of
          None \<Rightarrow> replicate PLDM_FWUP_COMPONENT_RELEASE_DATA_LEN 0
        | Some d \<Rightarrow>
            (let len = min (length (string_bytes d)) PLDM_FWUP_COMPONENT_RELEASE_DATA_LEN
             in pad_to PLDM_FWUP_COMPONENT_RELEASE_DATA_LEN (take len (string_bytes d))))\<rparr>"

section \<open>Component parameter entries\<close>

record comp_entry_fixed =
  cef_classification :: u16
  cef_identifier :: u16
  cef_classification_index :: u8
  cef_active_stamp :: u32
  cef_active_str_type :: u8
  cef_active_str_len :: u8
  cef_active_date :: bytes
  cef_pending_stamp :: u32
  cef_pending_str_type :: u8
  cef_pending_str_len :: u8
  cef_pending_date :: bytes
  cef_activation_methods :: u16
  cef_capabilities :: u32

definition comp_entry_fixed_bytes :: "comp_entry_fixed \<Rightarrow> bytes" where
  [layout]: "comp_entry_fixed_bytes r = le16 (cef_classification r) @ le16 (cef_identifier r) @ [cef_classification_index r] @ le32 (cef_active_stamp r) @ [cef_active_str_type r] @ [cef_active_str_len r] @ cef_active_date r @ le32 (cef_pending_stamp r) @ [cef_pending_str_type r] @ [cef_pending_str_len r] @ cef_pending_date r @ le16 (cef_activation_methods r) @ le32 (cef_capabilities r)"

definition comp_entry_fixed_of :: "bytes \<Rightarrow> comp_entry_fixed" where
  [layout]: "comp_entry_fixed_of bs = \<lparr>cef_classification = u16_at 0 bs,
     cef_identifier = u16_at 2 bs,
     cef_classification_index = bs ! 4,
     cef_active_stamp = u32_at 5 bs,
     cef_active_str_type = bs ! 9,
     cef_active_str_len = bs ! 10,
     cef_active_date = bytes_at 11 8 bs,
     cef_pending_stamp = u32_at 19 bs,
     cef_pending_str_type = bs ! 23,
     cef_pending_str_len = bs ! 24,
     cef_pending_date = bytes_at 25 8 bs,
     cef_activation_methods = u16_at 33 bs,
     cef_capabilities = u32_at 35 bs\<rparr>"

definition wf_comp_entry_fixed :: "comp_entry_fixed \<Rightarrow> bool" where
  [layout]: "wf_comp_entry_fixed r \<longleftrightarrow> length (cef_active_date r) = 8 \<and> length (cef_pending_date r) = 8"

interpretation comp_entry_fixed: packed_struct 39 comp_entry_fixed_bytes comp_entry_fixed_of wf_comp_entry_fixed
  by unfold_locales (auto simp: layout length_eq_Cons length_eq_Suc_Cons)

record comp_entry =
  ce_fixed :: comp_entry_fixed
  ce_active_ver_str :: bytes
  ce_pending_ver_str :: "bytes option"

definition comp_entry_default :: comp_entry where
  "comp_entry_default = \<lparr>
     ce_fixed = \<lparr>cef_classification = 0, cef_identifier = 0, cef_classification_index = 0,
       cef_active_stamp = 0, cef_active_str_type = 0, cef_active_str_len = 0,
       cef_active_date = replicate 8 0, cef_pending_stamp = 0, cef_pending_str_type = 0,
       cef_pending_str_len = 0, cef_pending_date = replicate 8 0,
       cef_activation_methods = 0, cef_capabilities = 0\<rparr>,
     ce_active_ver_str = replicate PLDM_FWUP_IMAGE_SET_VER_STR_MAX_LEN 0,
     ce_pending_ver_str = None\<rparr>"

text \<open>Copying \<open>str_data[..str_len]\<close> into a fresh array panics when \<open>str_len\<close> exceeds it.\<close>

definition copy_ver_str :: "pldm_firmware_string \<Rightarrow> (bytes, 'e) outcome" where
  "copy_ver_str s =
     rbind (slice 0 (unat (str_len s)) (str_data s)) (\<lambda>bs.
       if PLDM_FWUP_IMAGE_SET_VER_STR_MAX_LEN < length bs then Panic
       else Ok (pad_to PLDM_FWUP_IMAGE_SET_VER_STR_MAX_LEN bs))"

definition comp_entry_new ::
  "component_classification \<Rightarrow> u16 \<Rightarrow> u8 \<Rightarrow> pldm_firmware_version \<Rightarrow> pldm_firmware_version \<Rightarrow> u16 \<Rightarrow> u32
     \<Rightarrow> (comp_entry, 'e) outcome" where
  "comp_entry_new classification identifier index active pending methods capabilities =
     rbind (copy_ver_str (fv_str active)) (\<lambda>active_str.
     rbind (if 0 < str_len (fv_str pending) then map_ok Some (copy_ver_str (fv_str pending)) else Ok None)
       (\<lambda>pending_str.
     Ok \<lparr>ce_fixed = \<lparr>
           cef_classification = component_classification_disc classification,
           cef_identifier = identifier,
           cef_classification_index = index,
           cef_active_stamp = fv_comparison_stamp active,
           cef_active_str_type = str_type (fv_str active),
           cef_active_str_len = str_len (fv_str active),
           cef_active_date = fv_date active,
           cef_pending_stamp = fv_comparison_stamp pending,
           cef_pending_str_type = str_type (fv_str pending),
           cef_pending_str_len = str_len (fv_str pending),
           cef_pending_date = fv_date pending,
           cef_activation_methods = methods,
           cef_capabilities = capabilities\<rparr>,
         ce_active_ver_str = active_str,
         ce_pending_ver_str = pending_str\<rparr>))"

definition comp_entry_codec_size :: "comp_entry \<Rightarrow> nat" where
  "comp_entry_codec_size e =
     39 + unat (cef_active_str_len (ce_fixed e))
     + (if ce_pending_ver_str e \<noteq> None then unat (cef_pending_str_len (ce_fixed e)) else 0)"

definition get_active_fw_ver :: "comp_entry \<Rightarrow> pldm_firmware_string" where
  "get_active_fw_ver e = \<lparr>str_type = cef_active_str_type (ce_fixed e),
     str_len = cef_active_str_len (ce_fixed e), str_data = ce_active_ver_str e\<rparr>"

definition comp_entry_encode :: "comp_entry \<Rightarrow> bytes \<Rightarrow> (nat, codec_error) outcome \<times> bytes" where
  "comp_entry_encode e buffer =
     (if length buffer < comp_entry_codec_size e then (Err BufferTooShort, buffer)
      else put_all
        ([Some (comp_entry_fixed_bytes (ce_fixed e)),
          prefix_chunk (unat (cef_active_str_len (ce_fixed e))) (ce_active_ver_str e)]
         @ (case ce_pending_ver_str e of None \<Rightarrow> []
            | Some s \<Rightarrow> [prefix_chunk (unat (cef_pending_str_len (ce_fixed e))) s])) 0 buffer)"

text \<open>A version string of claimed length \<open>len\<close> at \<open>offset\<close>, into a zeroed array.\<close>

definition read_ver_str :: "nat \<Rightarrow> nat \<Rightarrow> bytes \<Rightarrow> (bytes, codec_error) outcome" where
  "read_ver_str offset len buffer =
     (if PLDM_FWUP_IMAGE_SET_VER_STR_MAX_LEN < len then Err InvalidData
      else map_ok (pad_to PLDM_FWUP_IMAGE_SET_VER_STR_MAX_LEN)
             (ok_or BufferTooShort (get_range offset len buffer)))"

definition comp_entry_decode :: "bytes \<Rightarrow> (comp_entry, codec_error) outcome" where
  "comp_entry_decode buffer =
     rbind (read_at 0 39 comp_entry_fixed_of buffer) (\<lambda>fixed.
     rbind (read_ver_str 39 (unat (cef_active_str_len fixed)) buffer) (\<lambda>active.
     rbind (if 0 < cef_pending_str_len fixed
            then map_ok Some (read_ver_str (39 + unat (cef_active_str_len fixed))
                   (unat (cef_pending_str_len fixed)) buffer)
            else Ok None) (\<lambda>pending.
       Ok \<lparr>ce_fixed = fixed, ce_active_ver_str = active, ce_pending_ver_str = pending\<rparr>)))"

definition wf_comp_entry :: "comp_entry \<Rightarrow> bool" where
  "wf_comp_entry e \<longleftrightarrow> wf_comp_entry_fixed (ce_fixed e) \<and>
     padded 32 (unat (cef_active_str_len (ce_fixed e))) (ce_active_ver_str e) \<and>
     (case ce_pending_ver_str e of
        None \<Rightarrow> cef_pending_str_len (ce_fixed e) = 0
      | Some s \<Rightarrow> 0 < cef_pending_str_len (ce_fixed e) \<and> padded 32 (unat (cef_pending_str_len (ce_fixed e))) s)"

definition comp_entry_ser :: "comp_entry \<Rightarrow> bytes" where
  "comp_entry_ser e =
     comp_entry_fixed_bytes (ce_fixed e)
     @ take (unat (cef_active_str_len (ce_fixed e))) (ce_active_ver_str e)
     @ (case ce_pending_ver_str e of None \<Rightarrow> []
        | Some s \<Rightarrow> take (unat (cef_pending_str_len (ce_fixed e))) s)"

lemma read_ver_str_not_Panic [simp]: "read_ver_str off n buf \<noteq> Panic"
  by (cases "get_range off n buf") (auto simp add: read_ver_str_def)

lemma read_ver_str_padded:
  assumes "padded 32 n xs" and "length pre = off"
  shows "read_ver_str off n (pre @ take n xs @ post) = Ok xs"
  using assms padded_pad_take [OF assms(1)]
  by (auto simp: read_ver_str_def padded_def get_range_def)

lemma read_ver_str_Ok:
  "read_ver_str off n buf = Ok xs \<Longrightarrow> padded 32 n xs \<and> off + n \<le> length buf"
  by (auto simp: read_ver_str_def padded_pad_to split: if_splits)

lemma comp_entry_fixed_length [simp]:
  "wf_comp_entry_fixed f \<Longrightarrow> length (comp_entry_fixed_bytes f) = 39"
  by (rule comp_entry_fixed.length_to_bytes)

lemma length_comp_entry_ser [simp]:
  "wf_comp_entry e \<Longrightarrow> length (comp_entry_ser e) = comp_entry_codec_size e"
  by (auto simp: wf_comp_entry_def padded_def comp_entry_ser_def comp_entry_codec_size_def
      split: option.splits)

lemma comp_entry_decode_append:
  assumes wf: "wf_comp_entry e"
  shows "comp_entry_decode (comp_entry_ser e @ rest) = Ok e"
proof -
  let ?f = "ce_fixed e" and ?fb = "comp_entry_fixed_bytes (ce_fixed e)"
  let ?a = "take (unat (cef_active_str_len (ce_fixed e))) (ce_active_ver_str e)"
  have f: "read_at 0 39 comp_entry_fixed_of (?fb @ xs) = Ok ?f" for xs
    using wf comp_entry_fixed.of_to_bytes [of ?f] by (simp add: wf_comp_entry_def)
  have a: "read_ver_str 39 (unat (cef_active_str_len ?f)) (?fb @ ?a @ xs) = Ok (ce_active_ver_str e)" for xs
    using wf by (intro read_ver_str_padded) (simp_all add: wf_comp_entry_def)
  show ?thesis
  proof (cases "ce_pending_ver_str e")
    case None
    with wf have "cef_pending_str_len ?f = 0" by (simp add: wf_comp_entry_def)
    with None f a show ?thesis by (simp add: comp_entry_decode_def comp_entry_ser_def)
  next
    case (Some s)
    let ?p = "take (unat (cef_pending_str_len ?f)) s"
    have p: "read_ver_str (39 + unat (cef_active_str_len ?f)) (unat (cef_pending_str_len ?f))
        ((?fb @ ?a) @ ?p @ rest) = Ok s"
      using wf Some by (intro read_ver_str_padded) (auto simp: wf_comp_entry_def padded_def)
    have "0 < cef_pending_str_len ?f" using wf Some by (simp add: wf_comp_entry_def)
    with Some f a p show ?thesis by (simp add: comp_entry_decode_def comp_entry_ser_def)
  qed
qed

lemma comp_entry_decode_not_Panic [simp]: "comp_entry_decode bs \<noteq> Panic"
  by (auto simp: comp_entry_decode_def rbind_eq_Panic)

lemma comp_entry_decode_Ok:
  "comp_entry_decode bs = Ok e \<Longrightarrow> wf_comp_entry e \<and> comp_entry_codec_size e \<le> length bs"
  using comp_entry_fixed.to_of_bytes [of "take 39 bs"]
  by (auto simp: comp_entry_decode_def wf_comp_entry_def comp_entry_codec_size_def read_at_def
      word_gt_0 dest!: read_ver_str_Ok split: if_splits)

interpretation comp_entry: codec comp_entry_encode comp_entry_decode comp_entry_ser wf_comp_entry
proof
  fix x :: comp_entry and buf :: bytes
  assume wf: "wf_comp_entry x"
  let ?f = "ce_fixed x"
  have "put_all ([Some (comp_entry_fixed_bytes ?f), prefix_chunk (unat (cef_active_str_len ?f)) (ce_active_ver_str x)]
      @ (case ce_pending_ver_str x of None \<Rightarrow> [] | Some s \<Rightarrow> [prefix_chunk (unat (cef_pending_str_len ?f)) s])) 0 buf
      = (Ok (length (comp_entry_ser x)), splice 0 (comp_entry_ser x) buf)"
    if "length (comp_entry_ser x) \<le> length buf"
    by (rule put_fields [where bss = "[comp_entry_fixed_bytes ?f, take (unat (cef_active_str_len ?f)) (ce_active_ver_str x)]
        @ (case ce_pending_ver_str x of None \<Rightarrow> [] | Some s \<Rightarrow> [take (unat (cef_pending_str_len ?f)) s])"])
       (use wf that in \<open>auto simp: wf_comp_entry_def padded_def comp_entry_ser_def split: option.splits\<close>)
  then show "length (comp_entry_ser x) \<le> length buf \<Longrightarrow>
      comp_entry_encode x buf = (Ok (length (comp_entry_ser x)), splice 0 (comp_entry_ser x) buf)"
    using wf by (simp add: comp_entry_encode_def)
  show "length buf < length (comp_entry_ser x) \<Longrightarrow> comp_entry_encode x buf = (Err BufferTooShort, buf)"
    using wf by (simp add: comp_entry_encode_def)
  show "comp_entry_decode (comp_entry_ser x) = Ok x"
    using comp_entry_decode_append [OF wf, of "[]"] by simp
  show "comp_entry_decode (comp_entry_ser x @ rest) = Ok x" for rest
    by (rule comp_entry_decode_append [OF wf])
qed simp

end
