(* ===== verification/Get_Fw_Params.thy ===== *)
theory Get_Fw_Params
  imports Fw_Params
begin

text \<open>
  The messages of \<open>pldm-common/src/message/firmware_update/get_fw_params.rs\<close>.  The
  component table is an array of \<open>MAX_COMPONENT_COUNT\<close> entries of which \<open>comp_count\<close> are
  in use; encoding with a larger count indexes outside it and panics.
\<close>

record get_firmware_parameters_request =
  gfp_hdr :: pldm_msg_header

definition get_firmware_parameters_request_bytes :: "get_firmware_parameters_request \<Rightarrow> bytes" where
  [layout]: "get_firmware_parameters_request_bytes r = hdr_bytes (gfp_hdr r)"

definition get_firmware_parameters_request_of :: "bytes \<Rightarrow> get_firmware_parameters_request" where
  [layout]: "get_firmware_parameters_request_of bs = \<lparr>gfp_hdr = hdr_of bs\<rparr>"

interpretation get_firmware_parameters_request: packed_struct 3 get_firmware_parameters_request_bytes get_firmware_parameters_request_of "\<lambda>_. True"
  by unfold_locales (auto simp: layout length_eq_Cons length_eq_Suc_Cons)

definition get_firmware_parameters_request_new :: "u8 \<Rightarrow> pldm_msg_type \<Rightarrow> get_firmware_parameters_request" where
  "get_firmware_parameters_request_new inst mt =
     \<lparr>gfp_hdr = header_new inst mt TypeFwUpdate (fw_update_cmd_disc GetFirmwareParameters)\<rparr>"

record firmware_param_fixed =
  fp_capabilities :: u32
  fp_comp_count :: u16
  fp_active_str_type :: u8
  fp_active_str_len :: u8
  fp_pending_str_type :: u8
  fp_pending_str_len :: u8

definition firmware_param_fixed_bytes :: "firmware_param_fixed \<Rightarrow> bytes" where
  [layout]: "firmware_param_fixed_bytes r = le32 (fp_capabilities r) @ le16 (fp_comp_count r) @ [fp_active_str_type r] @ [fp_active_str_len r] @ [fp_pending_str_type r] @ [fp_pending_str_len r]"

definition firmware_param_fixed_of :: "bytes \<Rightarrow> firmware_param_fixed" where
  [layout]: "firmware_param_fixed_of bs = \<lparr>fp_capabilities = u32_at 0 bs,
     fp_comp_count = u16_at 4 bs,
     fp_active_str_type = bs ! 6,
     fp_active_str_len = bs ! 7,
     fp_pending_str_type = bs ! 8,
     fp_pending_str_len = bs ! 9\<rparr>"

interpretation firmware_param_fixed: packed_struct 10 firmware_param_fixed_bytes firmware_param_fixed_of "\<lambda>_. True"
  by unfold_locales (auto simp: layout length_eq_Cons length_eq_Suc_Cons)

record firmware_parameters =
  params_fixed :: firmware_param_fixed
  active_comp_image_set_ver_str :: bytes
  pending_comp_image_set_ver_str :: "bytes option"
  comp_param_table :: "comp_entry list"

definition firmware_parameters_default :: firmware_parameters where
  "firmware_parameters_default = \<lparr>
     params_fixed = \<lparr>fp_capabilities = 0, fp_comp_count = 0, fp_active_str_type = 0,
       fp_active_str_len = 0, fp_pending_str_type = 0, fp_pending_str_len = 0\<rparr>,
     active_comp_image_set_ver_str = replicate PLDM_FWUP_IMAGE_SET_VER_STR_MAX_LEN 0,
     pending_comp_image_set_ver_str = None,
     comp_param_table = replicate MAX_COMPONENT_COUNT comp_entry_default\<rparr>"

definition firmware_parameters_new ::
  "u32 \<Rightarrow> u16 \<Rightarrow> pldm_firmware_string \<Rightarrow> pldm_firmware_string \<Rightarrow> comp_entry list \<Rightarrow> firmware_parameters" where
  "firmware_parameters_new capabilities comp_count active pending table =
     \<lparr>params_fixed = \<lparr>fp_capabilities = capabilities, fp_comp_count = comp_count,
        fp_active_str_type = str_type active, fp_active_str_len = str_len active,
        fp_pending_str_type = str_type pending, fp_pending_str_len = str_len pending\<rparr>,
      active_comp_image_set_ver_str = str_data active,
      pending_comp_image_set_ver_str = (if 0 < str_len pending then Some (str_data pending) else None),
      comp_param_table =
        (let count = min (length table) MAX_COMPONENT_COUNT
         in map (\<lambda>i. if i < count then table ! i else comp_entry_default) [0..<MAX_COMPONENT_COUNT])\<rparr>"

text \<open>\<open>for i in 0..comp_count\<close> over \<open>comp_param_table[i]\<close>: the entries, or a panic.\<close>

definition used_entries :: "firmware_parameters \<Rightarrow> (comp_entry list, codec_error) outcome" where
  "used_entries p = slice 0 (unat (fp_comp_count (params_fixed p))) (comp_param_table p)"

definition firmware_parameters_codec_size :: "firmware_parameters \<Rightarrow> (nat, codec_error) outcome" where
  "firmware_parameters_codec_size p =
     rbind (used_entries p) (\<lambda>entries.
       Ok (10 + (if pending_comp_image_set_ver_str p \<noteq> None then unat (fp_pending_str_len (params_fixed p)) else 0)
           + unat (fp_active_str_len (params_fixed p))
           + sum_list (map comp_entry_codec_size entries)))"

definition firmware_parameters_encode ::
  "firmware_parameters \<Rightarrow> bytes \<Rightarrow> (nat, codec_error) outcome \<times> bytes" where
  "firmware_parameters_encode p =
     abind (lift (firmware_parameters_codec_size p)) (\<lambda>size.
     abind (gets length) (\<lambda>len.
       if len < size then fail BufferTooShort
       else
         abind (put_all
           ([Some (firmware_param_fixed_bytes (params_fixed p)),
             prefix_chunk (unat (fp_active_str_len (params_fixed p))) (active_comp_image_set_ver_str p)]
            @ (case pending_comp_image_set_ver_str p of None \<Rightarrow> []
               | Some s \<Rightarrow> [prefix_chunk (unat (fp_pending_str_len (params_fixed p))) s])) 0) (\<lambda>offset.
         abind (lift (used_entries p)) (\<lambda>entries.
           encode_list comp_entry_encode entries offset))))"

definition firmware_parameters_decode :: "bytes \<Rightarrow> (firmware_parameters, codec_error) outcome" where
  "firmware_parameters_decode buffer =
     rbind (read_at 0 10 firmware_param_fixed_of buffer) (\<lambda>fixed.
     rbind (read_ver_str 10 (unat (fp_active_str_len fixed)) buffer) (\<lambda>active.
     let offset = 10 + unat (fp_active_str_len fixed) in
     rbind (if 0 < fp_pending_str_len fixed
            then map_ok Some (read_ver_str offset (unat (fp_pending_str_len fixed)) buffer)
            else Ok None) (\<lambda>pending.
     let offset = offset + unat (fp_pending_str_len fixed);
         comp_count = unat (fp_comp_count fixed) in
     if MAX_COMPONENT_COUNT < comp_count then Err InvalidData
     else rbind (decode_list get_from comp_entry_decode comp_entry_codec_size comp_count offset buffer)
       (\<lambda>(entries, _).
         Ok \<lparr>params_fixed = fixed, active_comp_image_set_ver_str = active,
             pending_comp_image_set_ver_str = pending,
             comp_param_table =
               entries @ replicate (MAX_COMPONENT_COUNT - comp_count) comp_entry_default\<rparr>))))"

definition wf_firmware_parameters :: "firmware_parameters \<Rightarrow> bool" where
  "wf_firmware_parameters p \<longleftrightarrow>
     padded 32 (unat (fp_active_str_len (params_fixed p))) (active_comp_image_set_ver_str p) \<and>
     (case pending_comp_image_set_ver_str p of
        None \<Rightarrow> fp_pending_str_len (params_fixed p) = 0
      | Some s \<Rightarrow> 0 < fp_pending_str_len (params_fixed p) \<and> padded 32 (unat (fp_pending_str_len (params_fixed p))) s) \<and>
     unat (fp_comp_count (params_fixed p)) \<le> 8 \<and>
     (\<exists>entries. length entries = unat (fp_comp_count (params_fixed p)) \<and> list_all wf_comp_entry entries \<and>
        comp_param_table p = entries @ replicate (8 - unat (fp_comp_count (params_fixed p))) comp_entry_default)"

definition firmware_parameters_ser :: "firmware_parameters \<Rightarrow> bytes" where
  "firmware_parameters_ser p =
     firmware_param_fixed_bytes (params_fixed p)
     @ take (unat (fp_active_str_len (params_fixed p))) (active_comp_image_set_ver_str p)
     @ (case pending_comp_image_set_ver_str p of None \<Rightarrow> []
        | Some s \<Rightarrow> take (unat (fp_pending_str_len (params_fixed p))) s)
     @ concat (map comp_entry_ser (take (unat (fp_comp_count (params_fixed p))) (comp_param_table p)))"

lemma firmware_param_fixed_length [simp]: "length (firmware_param_fixed_bytes f) = 10"
  by (rule firmware_param_fixed.length_to_bytes) simp

lemma used_entries_wf:
  assumes "wf_firmware_parameters p"
  obtains entries where "used_entries p = Ok entries" "list_all wf_comp_entry entries"
    "length entries = unat (fp_comp_count (params_fixed p))"
    "comp_param_table p = entries @ replicate (8 - length entries) comp_entry_default"
  using assms by (auto simp: wf_firmware_parameters_def used_entries_def)

lemma sum_comp_entry_sizes:
  "list_all wf_comp_entry es \<Longrightarrow> length (concat (map comp_entry_ser es)) = sum_list (map comp_entry_codec_size es)"
  by (induction es) simp_all

lemma firmware_parameters_size:
  assumes "wf_firmware_parameters p"
  shows "firmware_parameters_codec_size p = Ok (length (firmware_parameters_ser p))"
proof -
  from assms obtain es where es: "used_entries p = Ok es" "list_all wf_comp_entry es"
    "length es = unat (fp_comp_count (params_fixed p))"
    "comp_param_table p = es @ replicate (8 - length es) comp_entry_default"
    by (rule used_entries_wf)
  show ?thesis
    using es assms sum_comp_entry_sizes [OF es(2)]
    by (auto simp: firmware_parameters_codec_size_def firmware_parameters_ser_def
        wf_firmware_parameters_def padded_def split: option.splits)
qed

lemma firmware_parameters_encode_fits:
  assumes wf: "wf_firmware_parameters p" and fits: "length (firmware_parameters_ser p) \<le> length buf"
  shows "firmware_parameters_encode p buf
    = (Ok (length (firmware_parameters_ser p)), splice 0 (firmware_parameters_ser p) buf)"
proof -
  let ?f = "params_fixed p"
  let ?bss = "[firmware_param_fixed_bytes ?f, take (unat (fp_active_str_len ?f)) (active_comp_image_set_ver_str p)]
      @ (case pending_comp_image_set_ver_str p of None \<Rightarrow> [] | Some s \<Rightarrow> [take (unat (fp_pending_str_len ?f)) s])"
  from wf obtain es where es: "used_entries p = Ok es" "list_all wf_comp_entry es"
    "length es = unat (fp_comp_count ?f)"
    "comp_param_table p = es @ replicate (8 - length es) comp_entry_default"
    by (rule used_entries_wf)
  have ser: "firmware_parameters_ser p = concat ?bss @ concat (map comp_entry_ser es)"
    using es by (simp add: firmware_parameters_ser_def split: option.split)
  have put: "put_all ([Some (firmware_param_fixed_bytes ?f),
        prefix_chunk (unat (fp_active_str_len ?f)) (active_comp_image_set_ver_str p)]
        @ (case pending_comp_image_set_ver_str p of None \<Rightarrow> []
           | Some s \<Rightarrow> [prefix_chunk (unat (fp_pending_str_len ?f)) s])) 0 buf
      = ((Ok (length (concat ?bss)) :: (nat, codec_error) outcome), splice 0 (concat ?bss) buf)"
    using wf fits unfolding ser
    by (intro put_fields [where bss = ?bss]) (auto simp: wf_firmware_parameters_def padded_def split: option.splits)
  have ents: "encode_list comp_entry_encode es (length (concat ?bss)) (splice 0 (concat ?bss) buf)
      = (Ok (length (firmware_parameters_ser p)), splice 0 (firmware_parameters_ser p) buf)"
    using comp_entry.encode_list_fits [OF es(2), of "concat ?bss" buf] fits unfolding ser by simp
  show ?thesis
    using firmware_parameters_size [OF wf] fits put ents es(1)
    by (simp add: firmware_parameters_encode_def abind_def lift_def gets_def)
qed

lemma read_pending_ver_str:
  assumes wf: "wf_firmware_parameters p" and pre: "length pre = n"
  shows "(if 0 < fp_pending_str_len (params_fixed p)
      then map_ok Some (read_ver_str n (unat (fp_pending_str_len (params_fixed p)))
        (pre @ (case pending_comp_image_set_ver_str p of None \<Rightarrow> []
           | Some s \<Rightarrow> take (unat (fp_pending_str_len (params_fixed p))) s) @ xs))
      else Ok None) = Ok (pending_comp_image_set_ver_str p)"
proof (cases "pending_comp_image_set_ver_str p")
  case None
  with wf show ?thesis by (simp add: wf_firmware_parameters_def)
next
  case (Some s)
  have "read_ver_str n (unat (fp_pending_str_len (params_fixed p)))
      (pre @ take (unat (fp_pending_str_len (params_fixed p))) s @ xs) = Ok s"
    using wf Some pre by (intro read_ver_str_padded) (auto simp: wf_firmware_parameters_def padded_def)
  with wf Some show ?thesis by (simp add: wf_firmware_parameters_def)
qed

lemma firmware_parameters_decode_append:
  assumes wf: "wf_firmware_parameters p"
  shows "firmware_parameters_decode (firmware_parameters_ser p @ rest) = Ok p"
proof -
  let ?f = "params_fixed p" and ?fb = "firmware_param_fixed_bytes (params_fixed p)"
  let ?a = "take (unat (fp_active_str_len ?f)) (active_comp_image_set_ver_str p)"
  let ?p = "case pending_comp_image_set_ver_str p of None \<Rightarrow> [] | Some s \<Rightarrow> take (unat (fp_pending_str_len ?f)) s"
  from wf obtain es where es: "used_entries p = Ok es" "list_all wf_comp_entry es"
    "length es = unat (fp_comp_count ?f)"
    "comp_param_table p = es @ replicate (8 - length es) comp_entry_default"
    by (rule used_entries_wf)
  let ?es = "concat (map comp_entry_ser es)"
  have ser: "firmware_parameters_ser p = ?fb @ ?a @ ?p @ ?es"
    using es by (simp add: firmware_parameters_ser_def)
  have f: "read_at 0 10 firmware_param_fixed_of (?fb @ xs) = Ok ?f" for xs
    using firmware_param_fixed.of_to_bytes [of ?f] by simp
  have a: "read_ver_str 10 (unat (fp_active_str_len ?f)) (?fb @ ?a @ xs)
      = Ok (active_comp_image_set_ver_str p)" for xs
    using wf by (intro read_ver_str_padded) (simp_all add: wf_firmware_parameters_def)
  have off_a: "length (?fb @ ?a) = 10 + unat (fp_active_str_len ?f)"
    using wf by (auto simp: wf_firmware_parameters_def padded_def)
  have off: "length (?fb @ ?a @ ?p) = 10 + unat (fp_active_str_len ?f) + unat (fp_pending_str_len ?f)"
    using wf by (auto simp: wf_firmware_parameters_def padded_def split: option.splits)
  have l: "decode_list get_from comp_entry_decode comp_entry_codec_size (length es)
      (length (?fb @ ?a @ ?p)) ((?fb @ ?a @ ?p) @ ?es @ rest)
      = Ok (es, length (?fb @ ?a @ ?p) + length ?es)"
    by (rule comp_entry.decode_list_ser [OF _ _ es(2)]) (simp_all add: get_from_in_range)
  define B where "B = ?fb @ ?a @ ?p @ ?es @ rest"
  have fB: "read_at 0 10 firmware_param_fixed_of B = Ok ?f"
    unfolding B_def by (rule f)
  have aB: "read_ver_str 10 (unat (fp_active_str_len ?f)) B = Ok (active_comp_image_set_ver_str p)"
    unfolding B_def by (rule a)
  have pB: "(if 0 < fp_pending_str_len ?f
      then map_ok Some (read_ver_str (10 + unat (fp_active_str_len ?f)) (unat (fp_pending_str_len ?f)) B)
      else Ok None) = Ok (pending_comp_image_set_ver_str p)"
    using read_pending_ver_str [OF wf, of "?fb @ ?a" "10 + unat (fp_active_str_len ?f)" "?es @ rest"] off_a
    unfolding B_def append_assoc by simp
  have lB: "decode_list get_from comp_entry_decode comp_entry_codec_size (unat (fp_comp_count ?f))
      (10 + unat (fp_active_str_len ?f) + unat (fp_pending_str_len ?f)) B
      = Ok (es, length (?fb @ ?a @ ?p) + length ?es)"
    using l unfolding B_def off es(3) append_assoc .
  have cnt: "\<not> MAX_COMPONENT_COUNT < unat (fp_comp_count ?f)" using wf by (simp add: wf_firmware_parameters_def)
  have "firmware_parameters_decode B = Ok p"
    unfolding firmware_parameters_decode_def Let_def fB rbind.simps aB pB lB if_not_P [OF cnt]
    using es(3,4) by simp
  then show ?thesis unfolding B_def ser by simp
qed

lemma firmware_parameters_decode_not_Panic [simp]: "firmware_parameters_decode bs \<noteq> Panic"
  by (auto simp: firmware_parameters_decode_def Let_def rbind_eq_Panic decode_list_get_no_panic)

interpretation firmware_parameters:
  codec firmware_parameters_encode firmware_parameters_decode firmware_parameters_ser wf_firmware_parameters
proof
  fix x :: firmware_parameters and buf rest :: bytes
  assume wf: "wf_firmware_parameters x"
  show "length (firmware_parameters_ser x) \<le> length buf \<Longrightarrow> firmware_parameters_encode x buf =
      (Ok (length (firmware_parameters_ser x)), splice 0 (firmware_parameters_ser x) buf)"
    by (rule firmware_parameters_encode_fits [OF wf])
  show "length buf < length (firmware_parameters_ser x) \<Longrightarrow>
      firmware_parameters_encode x buf = (Err BufferTooShort, buf)"
    using firmware_parameters_size [OF wf]
    by (simp add: firmware_parameters_encode_def abind_def lift_def gets_def fail_def)
  show "firmware_parameters_decode (firmware_parameters_ser x) = Ok x"
    using firmware_parameters_decode_append [OF wf, of "[]"] by simp
  show "firmware_parameters_decode (firmware_parameters_ser x @ rest) = Ok x"
    by (rule firmware_parameters_decode_append [OF wf])
qed simp

section \<open>The response\<close>

record get_firmware_parameters_response =
  gfpr_hdr :: pldm_msg_header
  gfpr_completion_code :: u8
  gfpr_parms :: firmware_parameters

definition get_firmware_parameters_response_new ::
  "u8 \<Rightarrow> u8 \<Rightarrow> firmware_parameters \<Rightarrow> get_firmware_parameters_response" where
  "get_firmware_parameters_response_new inst cc parms =
     \<lparr>gfpr_hdr = header_new inst MsgResponse TypeFwUpdate (fw_update_cmd_disc GetFirmwareParameters),
      gfpr_completion_code = cc, gfpr_parms = parms\<rparr>"

definition get_firmware_parameters_response_codec_size ::
  "get_firmware_parameters_response \<Rightarrow> (nat, codec_error) outcome" where
  "get_firmware_parameters_response_codec_size r =
     map_ok (\<lambda>n. PLDM_MSG_HEADER_LEN + 1 + n) (firmware_parameters_codec_size (gfpr_parms r))"

definition get_firmware_parameters_response_encode ::
  "get_firmware_parameters_response \<Rightarrow> bytes \<Rightarrow> (nat, codec_error) outcome \<times> bytes" where
  "get_firmware_parameters_response_encode r =
     abind (lift (get_firmware_parameters_response_codec_size r)) (\<lambda>size.
     abind (gets length) (\<lambda>len.
       if len < size then fail BufferTooShort
       else
         abind (put_all [Some (hdr_bytes (gfpr_hdr r)), Some [gfpr_completion_code r]] 0) (\<lambda>offset.
           encode_at firmware_parameters_encode (gfpr_parms r) offset)))"

definition get_firmware_parameters_response_decode ::
  "bytes \<Rightarrow> (get_firmware_parameters_response, codec_error) outcome" where
  "get_firmware_parameters_response_decode buffer =
     rbind (read_at 0 3 hdr_of buffer) (\<lambda>hdr.
     rbind (read_at 3 1 hd buffer) (\<lambda>cc.
     rbind (slice_from 4 buffer) (\<lambda>sub.
     rbind (firmware_parameters_decode sub) (\<lambda>parms.
       Ok \<lparr>gfpr_hdr = hdr, gfpr_completion_code = cc, gfpr_parms = parms\<rparr>))))"

definition get_firmware_parameters_response_ser :: "get_firmware_parameters_response \<Rightarrow> bytes" where
  "get_firmware_parameters_response_ser r =
     hdr_bytes (gfpr_hdr r) @ gfpr_completion_code r # firmware_parameters_ser (gfpr_parms r)"

lemma get_firmware_parameters_response_size:
  "wf_firmware_parameters (gfpr_parms r) \<Longrightarrow>
   get_firmware_parameters_response_codec_size r = Ok (length (get_firmware_parameters_response_ser r))"
  by (simp add: get_firmware_parameters_response_codec_size_def firmware_parameters_size
      get_firmware_parameters_response_ser_def PLDM_MSG_HEADER_LEN_def)

lemma get_firmware_parameters_response_encode_fits:
  assumes wf: "wf_firmware_parameters (gfpr_parms r)"
    and fits: "length (get_firmware_parameters_response_ser r) \<le> length buf"
  shows "get_firmware_parameters_response_encode r buf =
    (Ok (length (get_firmware_parameters_response_ser r)),
     splice 0 (get_firmware_parameters_response_ser r) buf)"
proof -
  let ?pre = "hdr_bytes (gfpr_hdr r) @ [gfpr_completion_code r]"
  have ser: "get_firmware_parameters_response_ser r = ?pre @ firmware_parameters_ser (gfpr_parms r)"
    by (simp add: get_firmware_parameters_response_ser_def)
  have put: "put_all [Some (hdr_bytes (gfpr_hdr r)), Some [gfpr_completion_code r]] 0 buf
      = ((Ok (length ?pre) :: (nat, codec_error) outcome), splice 0 ?pre buf)"
    using fits unfolding ser
    by (intro put_fields [where bss = "[hdr_bytes (gfpr_hdr r), [gfpr_completion_code r]]"]) simp_all
  show ?thesis
    using firmware_parameters.encode_at_fits [OF wf, of ?pre buf] put fits
      get_firmware_parameters_response_size [OF wf]
    unfolding ser by (simp add: get_firmware_parameters_response_encode_def abind_def lift_def gets_def)
qed

interpretation get_firmware_parameters_response:
  codec get_firmware_parameters_response_encode get_firmware_parameters_response_decode
    get_firmware_parameters_response_ser "\<lambda>r. wf_firmware_parameters (gfpr_parms r)"
proof
  fix x :: get_firmware_parameters_response and buf rest :: bytes
  assume wf: "wf_firmware_parameters (gfpr_parms x)"
  show "length (get_firmware_parameters_response_ser x) \<le> length buf \<Longrightarrow>
      get_firmware_parameters_response_encode x buf =
      (Ok (length (get_firmware_parameters_response_ser x)),
       splice 0 (get_firmware_parameters_response_ser x) buf)"
    by (rule get_firmware_parameters_response_encode_fits [OF wf])
  show "length buf < length (get_firmware_parameters_response_ser x) \<Longrightarrow>
      get_firmware_parameters_response_encode x buf = (Err BufferTooShort, buf)"
    using get_firmware_parameters_response_size [OF wf]
    by (simp add: get_firmware_parameters_response_encode_def abind_def lift_def gets_def fail_def)
  have dec: "get_firmware_parameters_response_decode (get_firmware_parameters_response_ser x @ ys) = Ok x" for ys
    using firmware_parameters.dec_prefix [OF wf, of ys]
    by (simp add: get_firmware_parameters_response_decode_def get_firmware_parameters_response_ser_def
        slice_from_def)
  from dec [of "[]"] show "get_firmware_parameters_response_decode (get_firmware_parameters_response_ser x) = Ok x"
    by simp
  from dec show "get_firmware_parameters_response_decode (get_firmware_parameters_response_ser x @ rest) = Ok x" .
next
  fix bs :: bytes
  show "get_firmware_parameters_response_decode bs \<noteq> Panic"
    by (auto simp: get_firmware_parameters_response_decode_def rbind_eq_Panic slice_from_def read_at_def)
qed

text \<open>C31: a \<open>GetFirmwareParameters\<close> response with at most eight well-formed components is what the
  Update Agent decodes from any buffer it was encoded into.\<close>

theorem get_firmware_parameters_roundtrip:
  assumes "wf_firmware_parameters parms"
    and "get_firmware_parameters_response_encode (get_firmware_parameters_response_new inst cc parms) buf = (Ok n, buf')"
  shows "get_firmware_parameters_response_decode buf' = Ok (get_firmware_parameters_response_new inst cc parms)
    \<and> length buf' = length buf \<and> drop n buf' = drop n buf"
  using assms get_firmware_parameters_response.roundtrip_whole [OF _ assms(2)]
    get_firmware_parameters_response.enc_frame [OF _ assms(2)]
    get_firmware_parameters_response.enc_length [of "get_firmware_parameters_response_new inst cc parms" buf]
  by (simp add: get_firmware_parameters_response_new_def)

lemma firmware_parameters_default_wf [simp]: "wf_firmware_parameters firmware_parameters_default"
  by (simp add: wf_firmware_parameters_def firmware_parameters_default_def padded_def)

text \<open>A device with one component whose active version is "v1" and that has no pending one.\<close>

definition one_component :: firmware_parameters where
  "one_component =
     (let v1 = \<lparr>str_type = 1, str_len = 2, str_data = [0x76, 0x31] @ replicate 30 0\<rparr> in
      firmware_parameters_new 0x10 1 v1 firmware_string_default
        [comp_entry_default\<lparr>ce_fixed := (ce_fixed comp_entry_default)\<lparr>cef_active_str_type := 1, cef_active_str_len := 2\<rparr>,
           ce_active_ver_str := str_data v1\<rparr>])"

lemma one_component_wf: "wf_firmware_parameters one_component"
proof -
  let ?e = "hd (comp_param_table one_component)"
  have "wf_comp_entry ?e" "comp_param_table one_component = [?e] @ replicate 7 comp_entry_default"
    "unat (fp_comp_count (params_fixed one_component)) = 1"
    "padded 32 (unat (fp_active_str_len (params_fixed one_component))) (active_comp_image_set_ver_str one_component)"
    "pending_comp_image_set_ver_str one_component = None" "fp_pending_str_len (params_fixed one_component) = 0"
    unfolding padded_def by code_simp+
  then show ?thesis unfolding wf_firmware_parameters_def by (intro conjI exI [of _ "[?e]"]) simp_all
qed

lemma one_component_length:
  "length (get_firmware_parameters_response_ser (get_firmware_parameters_response_new 1 0 one_component)) = 57"
  by code_simp

theorem get_firmware_parameters_roundtrip_witness:
  "\<exists>n buf'. get_firmware_parameters_response_encode
       (get_firmware_parameters_response_new 1 0 one_component) (replicate 64 0) = (Ok n, buf') \<and>
     get_firmware_parameters_response_decode buf' = Ok (get_firmware_parameters_response_new 1 0 one_component)"
proof -
  let ?r = "get_firmware_parameters_response_new 1 0 one_component"
  have wf: "wf_firmware_parameters (gfpr_parms ?r)"
    using one_component_wf by (simp add: get_firmware_parameters_response_new_def)
  have "length (get_firmware_parameters_response_ser ?r) \<le> length (replicate 64 (0 :: u8))"
    by (simp add: one_component_length)
  from get_firmware_parameters_response.enc_fits [OF wf this] show ?thesis
    using get_firmware_parameters_roundtrip [OF one_component_wf] by blast
qed

text \<open>No byte sequence makes the decoder of firmware parameters panic, and a component count
  above the table's size is refused.\<close>

theorem firmware_parameters_decode_guards:
  "firmware_parameters_decode bs \<noteq> Panic \<and>
   (\<forall>p. firmware_parameters_decode bs = Ok p \<longrightarrow>
      unat (fp_comp_count (params_fixed p)) \<le> MAX_COMPONENT_COUNT \<and>
      length (comp_param_table p) = MAX_COMPONENT_COUNT \<and>
      unat (fp_active_str_len (params_fixed p)) \<le> PLDM_FWUP_IMAGE_SET_VER_STR_MAX_LEN)"
  by (auto simp: firmware_parameters_decode_def Let_def rbind_eq_Panic decode_list_get_no_panic
      dest!: decode_list_length read_ver_str_Ok padded_length split: if_splits)

theorem firmware_parameters_decode_guards_witness:
  "\<exists>p. firmware_parameters_decode (replicate 10 0) = Ok p \<and>
     unat (fp_comp_count (params_fixed p)) \<le> MAX_COMPONENT_COUNT"
proof -
  have "\<exists>p. firmware_parameters_decode (replicate 10 0) = Ok p" by (rule exI) code_simp
  then show ?thesis using firmware_parameters_decode_guards [of "replicate 10 0"] by blast
qed

end
