(* ===== verification/Fw_Component.thy ===== *)
theory Fw_Component
  imports Get_Fw_Params
begin

text \<open>
  The component named by \<open>PassComponentTable\<close> and \<open>UpdateComponent\<close> and the decision
  whether it may be updated, \<open>pldm-common/src/util/fw_component.rs\<close>.
\<close>

record firmware_component =
  fc_classification :: u16
  fc_identifier :: u16
  fc_classification_index :: u8
  fc_comparison_stamp :: u32
  fc_version :: pldm_firmware_string
  fc_image_size :: "u32 option"
  fc_update_option_flags :: "u32 option"

definition firmware_component_default :: firmware_component where
  "firmware_component_default = \<lparr>fc_classification = 0, fc_identifier = 0, fc_classification_index = 0,
     fc_comparison_stamp = 0, fc_version = firmware_string_default, fc_image_size = None,
     fc_update_option_flags = None\<rparr>"

definition firmware_component_new ::
  "u16 \<Rightarrow> u16 \<Rightarrow> u8 \<Rightarrow> u32 \<Rightarrow> pldm_firmware_string \<Rightarrow> u32 option \<Rightarrow> u32 option \<Rightarrow> firmware_component" where
  "firmware_component_new cls ident idx stamp ver img_size flags =
     \<lparr>fc_classification = cls, fc_identifier = ident, fc_classification_index = idx,
      fc_comparison_stamp = stamp, fc_version = ver, fc_image_size = img_size,
      fc_update_option_flags = flags\<rparr>"

definition names_entry :: "firmware_component \<Rightarrow> comp_entry \<Rightarrow> bool" where
  "names_entry c entry \<longleftrightarrow>
     cef_classification (ce_fixed entry) = fc_classification c \<and>
     cef_identifier (ce_fixed entry) = fc_identifier c \<and>
     cef_classification_index (ce_fixed entry) = fc_classification_index c"

definition evaluate_update_eligibility ::
  "firmware_component \<Rightarrow> firmware_parameters \<Rightarrow> (component_response_code, pldm_error) outcome" where
  "evaluate_update_eligibility c fw_params =
     (case find (names_entry c) (comp_param_table fw_params) of
        Some entry \<Rightarrow>
          if fc_comparison_stamp c = cef_active_stamp (ce_fixed entry) then Ok CompComparisonStampIdentical
          else if fc_comparison_stamp c < cef_active_stamp (ce_fixed entry) then Ok CompComparisonStampLower
          else if fc_version c = get_active_fw_ver entry then Ok CompVerStrIdentical
          else rbind (firmware_string_lt (fc_version c) (get_active_fw_ver entry)) (\<lambda>lower.
            if lower then Ok CompVerStrLower else Ok CompCanBeUpdated)
      | None \<Rightarrow> Ok CompNotSupported)"

lemma wf_comp_entry_default [simp]: "wf_comp_entry comp_entry_default"
  by (simp add: wf_comp_entry_def comp_entry_default_def wf_comp_entry_fixed_def padded_def)

lemma wf_params_entries:
  assumes "wf_firmware_parameters p" and "e \<in> set (comp_param_table p)"
  shows "wf_comp_entry e"
  using assms by (auto simp: wf_firmware_parameters_def list_all_iff)

lemma active_fw_ver_wf: "wf_comp_entry e \<Longrightarrow> wf_firmware_string (get_active_fw_ver e)"
  by (simp add: wf_comp_entry_def wf_firmware_string_def get_active_fw_ver_def)

lemma wf_string_lt:
  "wf_firmware_string a \<Longrightarrow> wf_firmware_string b \<Longrightarrow> firmware_string_lt a b = Ok (a < b)"
  by (intro firmware_string_lt_less) (simp_all add: wf_firmware_string_def padded_def)

text \<open>C30: on well-formed firmware parameters the eligibility check never panics and accepts a
  component exactly when the table's first entry for it has a strictly smaller comparison
  stamp and the offered version string is neither equal to nor less than the active one
  (strings of different types are incomparable, hence accepted); a component the table does
  not have is reported as not supported.\<close>

theorem eligibility_accepts_upgrades_only:
  assumes "wf_firmware_parameters p" and "wf_firmware_string (fc_version c)"
  shows "evaluate_update_eligibility c p \<noteq> Panic
    \<and> (evaluate_update_eligibility c p = Ok CompCanBeUpdated \<longleftrightarrow>
        (\<exists>e. find (names_entry c) (comp_param_table p) = Some e
           \<and> cef_active_stamp (ce_fixed e) < fc_comparison_stamp c
           \<and> fc_version c \<noteq> get_active_fw_ver e \<and> \<not> fc_version c < get_active_fw_ver e))
    \<and> (evaluate_update_eligibility c p = Ok CompNotSupported \<longleftrightarrow>
        (\<forall>e \<in> set (comp_param_table p). \<not> names_entry c e))"
proof (cases "find (names_entry c) (comp_param_table p)")
  case None
  then have "\<forall>e \<in> set (comp_param_table p). \<not> names_entry c e" by (simp add: find_None_iff)
  with None show ?thesis by (simp add: evaluate_update_eligibility_def)
next
  case (Some e)
  then have mem: "e \<in> set (comp_param_table p)" "names_entry c e" by (auto simp: find_Some_iff)
  then have lt: "firmware_string_lt (fc_version c) (get_active_fw_ver e)
      = (Ok (fc_version c < get_active_fw_ver e) :: (bool, pldm_error) outcome)"
    using assms by (intro wf_string_lt active_fw_ver_wf wf_params_entries)
  show ?thesis
    using Some mem by (auto simp: evaluate_update_eligibility_def lt not_less)
qed

theorem eligibility_accepts_upgrades_only_witness:
  "evaluate_update_eligibility
     (firmware_component_new 10 1 0 5 firmware_string_default None None) firmware_parameters_default = Ok CompNotSupported"
proof -
  let ?c = "firmware_component_new 10 1 0 5 firmware_string_default None None"
  have "wf_firmware_string (fc_version ?c)"
    by (simp add: firmware_component_new_def wf_firmware_string_def firmware_string_default_def padded_def)
  moreover have "\<forall>e \<in> set (comp_param_table firmware_parameters_default). \<not> names_entry ?c e"
    by (simp add: firmware_parameters_default_def comp_entry_default_def names_entry_def firmware_component_new_def)
  ultimately show ?thesis
    using eligibility_accepts_upgrades_only [OF firmware_parameters_default_wf, of ?c] by blast
qed

text \<open>The check looks at the whole table, the unused entries behind \<open>comp_count\<close> included: a
  device without any component accepts the component with classification, identifier and
  index zero instead of reporting it as not supported.\<close>

theorem eligibility_matches_unused_entry:
  "fp_comp_count (params_fixed firmware_parameters_default) = 0
   \<and> evaluate_update_eligibility
       (firmware_component_new 0 0 0 1 \<lparr>str_type = 1, str_len = 1, str_data = 65 # replicate 31 0\<rparr> None None)
       firmware_parameters_default = Ok CompCanBeUpdated"
  by code_simp

end
