(* ===== verification/Fw_Msgs.thy ===== *)
theory Fw_Msgs
  imports Codec Fw_Types
begin

text \<open>
  The fixed-layout firmware update messages of
  \<open>pldm-common/src/message/firmware_update/\<close>: \<open>activate_fw.rs\<close>, \<open>apply_complete.rs\<close>,
  \<open>verify_complete.rs\<close>, \<open>transfer_complete.rs\<close>, \<open>request_cancel.rs\<close>,
  \<open>get_status.rs\<close>, \<open>activate_pending_component_image.rs\<close>,
  \<open>update_security_revision.rs\<close> and \<open>request_fw_data.rs\<close>, each with its result
  codes.  A \<open>VendorDefined\<close> variant stands for a range of codes on the wire but has the
  discriminant that follows its predecessor.
\<close>

section \<open>ActivateFirmware\<close>

datatype self_contained_activation =
    NotActivateSelfContainedComponents
  | ActivateSelfContainedComponents

fun self_contained_activation_disc :: "self_contained_activation \<Rightarrow> u8" where
  "self_contained_activation_disc NotActivateSelfContainedComponents = 0"
| "self_contained_activation_disc ActivateSelfContainedComponents = 1"

record activate_firmware_request =
  afq_hdr :: pldm_msg_header
  afq_self_contained_activation_req :: u8

definition activate_firmware_request_bytes :: "activate_firmware_request \<Rightarrow> bytes" where
  [layout]: "activate_firmware_request_bytes r = hdr_bytes (afq_hdr r) @ [afq_self_contained_activation_req r]"

definition activate_firmware_request_of :: "bytes \<Rightarrow> activate_firmware_request" where
  [layout]: "activate_firmware_request_of bs = \<lparr>afq_hdr = hdr_of bs,
     afq_self_contained_activation_req = bs ! 3\<rparr>"

interpretation activate_firmware_request: packed_struct 4 activate_firmware_request_bytes activate_firmware_request_of "\<lambda>_. True"
  by unfold_locales (auto simp: layout length_eq_Cons length_eq_Suc_Cons)

definition activate_firmware_request_new :: "u8 \<Rightarrow> pldm_msg_type \<Rightarrow> self_contained_activation \<Rightarrow> activate_firmware_request" where
  "activate_firmware_request_new inst mt sc =
     \<lparr>afq_hdr = header_new inst mt TypeFwUpdate (fw_update_cmd_disc ActivateFirmware),
      afq_self_contained_activation_req = self_contained_activation_disc sc\<rparr>"

record activate_firmware_response =
  afr_hdr :: pldm_msg_header
  afr_completion_code :: u8
  afr_estimated_time_activation :: u16

definition activate_firmware_response_bytes :: "activate_firmware_response \<Rightarrow> bytes" where
  [layout]: "activate_firmware_response_bytes r = hdr_bytes (afr_hdr r) @ [afr_completion_code r] @ le16 (afr_estimated_time_activation r)"

definition activate_firmware_response_of :: "bytes \<Rightarrow> activate_firmware_response" where
  [layout]: "activate_firmware_response_of bs = \<lparr>afr_hdr = hdr_of bs,
     afr_completion_code = bs ! 3,
     afr_estimated_time_activation = u16_at 4 bs\<rparr>"

interpretation activate_firmware_response: packed_struct 6 activate_firmware_response_bytes activate_firmware_response_of "\<lambda>_. True"
  by unfold_locales (auto simp: layout length_eq_Cons length_eq_Suc_Cons)

definition activate_firmware_response_new :: "u8 \<Rightarrow> u8 \<Rightarrow> u16 \<Rightarrow> activate_firmware_response" where
  "activate_firmware_response_new inst cc time =
     \<lparr>afr_hdr = header_new inst MsgResponse TypeFwUpdate (fw_update_cmd_disc ActivateFirmware),
      afr_completion_code = cc,
      afr_estimated_time_activation = time\<rparr>"

section \<open>TransferComplete\<close>

datatype transfer_result =
    TransferSuccess
  | TransferErrorImageCorrupt
  | TransferErrorVersionMismatch
  | FdAbortedTransfer
  | TransferTimeOut
  | TransferGenericError
  | FdAbortedTransferLowPowerState
  | FdAbortedTransferResetNeeded
  | FdAbortedTransferStorageIssue
  | FdAbortedTransferInvalidComponentOpaqueData
  | FdAbortedTransferDownstreamDeviceIssue
  | FdAbortedTransferSecurityRevisionError
  | TransferVendorDefined

fun transfer_result_disc :: "transfer_result \<Rightarrow> u8" where
  "transfer_result_disc TransferSuccess = 0x00"
| "transfer_result_disc TransferErrorImageCorrupt = 0x01"
| "transfer_result_disc TransferErrorVersionMismatch = 0x02"
| "transfer_result_disc FdAbortedTransfer = 0x03"
| "transfer_result_disc TransferTimeOut = 0x09"
| "transfer_result_disc TransferGenericError = 0x0a"
| "transfer_result_disc FdAbortedTransferLowPowerState = 0x0b"
| "transfer_result_disc FdAbortedTransferResetNeeded = 0x0c"
| "transfer_result_disc FdAbortedTransferStorageIssue = 0x0d"
| "transfer_result_disc FdAbortedTransferInvalidComponentOpaqueData = 0x0e"
| "transfer_result_disc FdAbortedTransferDownstreamDeviceIssue = 0x0f"
| "transfer_result_disc FdAbortedTransferSecurityRevisionError = 0x10"
| "transfer_result_disc TransferVendorDefined = 0x11"

definition transfer_result_try_from :: "u8 \<Rightarrow> (transfer_result, pldm_error) outcome" where
  "transfer_result_try_from value =
    (if value = 0x00 then Ok TransferSuccess
     else if value = 0x01 then Ok TransferErrorImageCorrupt
     else if value = 0x02 then Ok TransferErrorVersionMismatch
     else if value = 0x03 then Ok FdAbortedTransfer
     else if value = 0x09 then Ok TransferTimeOut
     else if value = 0x0a then Ok TransferGenericError
     else if value = 0x0b then Ok FdAbortedTransferLowPowerState
     else if value = 0x0c then Ok FdAbortedTransferResetNeeded
     else if value = 0x0d then Ok FdAbortedTransferStorageIssue
     else if value = 0x0e then Ok FdAbortedTransferInvalidComponentOpaqueData
     else if value = 0x0f then Ok FdAbortedTransferDownstreamDeviceIssue
     else if value = 0x10 then Ok FdAbortedTransferSecurityRevisionError
     else if 0x70 \<le> value \<and> value \<le> 0x8f then Ok TransferVendorDefined
     else Err PE_InvalidTransferResult)"

lemma transfer_result_try_from_not_Panic [simp]: "transfer_result_try_from w \<noteq> Panic"
  by (simp add: transfer_result_try_from_def)

record transfer_complete_request =
  tcq_hdr :: pldm_msg_header
  tcq_tranfer_result :: u8

definition transfer_complete_request_bytes :: "transfer_complete_request \<Rightarrow> bytes" where
  [layout]: "transfer_complete_request_bytes r = hdr_bytes (tcq_hdr r) @ [tcq_tranfer_result r]"

definition transfer_complete_request_of :: "bytes \<Rightarrow> transfer_complete_request" where
  [layout]: "transfer_complete_request_of bs = \<lparr>tcq_hdr = hdr_of bs,
     tcq_tranfer_result = bs ! 3\<rparr>"

interpretation transfer_complete_request: packed_struct 4 transfer_complete_request_bytes transfer_complete_request_of "\<lambda>_. True"
  by unfold_locales (auto simp: layout length_eq_Cons length_eq_Suc_Cons)

definition transfer_complete_request_new :: "u8 \<Rightarrow> pldm_msg_type \<Rightarrow> transfer_result \<Rightarrow> transfer_complete_request" where
  "transfer_complete_request_new inst mt res =
     \<lparr>tcq_hdr = header_new inst mt TypeFwUpdate (fw_update_cmd_disc TransferComplete),
      tcq_tranfer_result = transfer_result_disc res\<rparr>"

record transfer_complete_response =
  tcr_hdr :: pldm_msg_header
  tcr_completion_code :: u8

definition transfer_complete_response_bytes :: "transfer_complete_response \<Rightarrow> bytes" where
  [layout]: "transfer_complete_response_bytes r = hdr_bytes (tcr_hdr r) @ [tcr_completion_code r]"

definition transfer_complete_response_of :: "bytes \<Rightarrow> transfer_complete_response" where
  [layout]: "transfer_complete_response_of bs = \<lparr>tcr_hdr = hdr_of bs,
     tcr_completion_code = bs ! 3\<rparr>"

interpretation transfer_complete_response: packed_struct 4 transfer_complete_response_bytes transfer_complete_response_of "\<lambda>_. True"
  by unfold_locales (auto simp: layout length_eq_Cons length_eq_Suc_Cons)

definition transfer_complete_response_new :: "u8 \<Rightarrow> u8 \<Rightarrow> transfer_complete_response" where
  "transfer_complete_response_new inst cc =
     \<lparr>tcr_hdr = header_new inst MsgResponse TypeFwUpdate (fw_update_cmd_disc TransferComplete),
      tcr_completion_code = cc\<rparr>"

section \<open>VerifyComplete\<close>

datatype verify_result =
    VerifySuccess
  | VerifyErrorVerificationFailure
  | VerifyErrorVersionMismatch
  | VerifyFailedFdSecurityChecks
  | VerifyErrorImageIncomplete
  | VerifyTimeOut
  | VerifyGenericError
  | VerifyVendorDefined

fun verify_result_disc :: "verify_result \<Rightarrow> u8" where
  "verify_result_disc VerifySuccess = 0x00"
| "verify_result_disc VerifyErrorVerificationFailure = 0x01"
| "verify_result_disc VerifyErrorVersionMismatch = 0x02"
| "verify_result_disc VerifyFailedFdSecurityChecks = 0x03"
| "verify_result_disc VerifyErrorImageIncomplete = 0x04"
| "verify_result_disc VerifyTimeOut = 0x09"
| "verify_result_disc VerifyGenericError = 0x0a"
| "verify_result_disc VerifyVendorDefined = 0x0b"

definition verify_result_try_from :: "u8 \<Rightarrow> (verify_result, pldm_error) outcome" where
  "verify_result_try_from value =
    (if value = 0x00 then Ok VerifySuccess
     else if value = 0x01 then Ok VerifyErrorVerificationFailure
     else if value = 0x02 then Ok VerifyErrorVersionMismatch
     else if value = 0x03 then Ok VerifyFailedFdSecurityChecks
     else if value = 0x04 then Ok VerifyErrorImageIncomplete
     else if value = 0x09 then Ok VerifyTimeOut
     else if value = 0x0a then Ok VerifyGenericError
     else if 0x90 \<le> value \<and> value \<le> 0xaf then Ok VerifyVendorDefined
     else Err PE_InvalidVerifyResult)"

lemma verify_result_try_from_not_Panic [simp]: "verify_result_try_from w \<noteq> Panic"
  by (simp add: verify_result_try_from_def)

definition verify_result_default :: verify_result where
  [simp]: "verify_result_default = VerifyGenericError"

record verify_complete_request =
  vcq_hdr :: pldm_msg_header
  vcq_verify_result :: u8

definition verify_complete_request_bytes :: "verify_complete_request \<Rightarrow> bytes" where
  [layout]: "verify_complete_request_bytes r = hdr_bytes (vcq_hdr r) @ [vcq_verify_result r]"

definition verify_complete_request_of :: "bytes \<Rightarrow> verify_complete_request" where
  [layout]: "verify_complete_request_of bs = \<lparr>vcq_hdr = hdr_of bs,
     vcq_verify_result = bs ! 3\<rparr>"

interpretation verify_complete_request: packed_struct 4 verify_complete_request_bytes verify_complete_request_of "\<lambda>_. True"
  by unfold_locales (auto simp: layout length_eq_Cons length_eq_Suc_Cons)

definition verify_complete_request_new :: "u8 \<Rightarrow> pldm_msg_type \<Rightarrow> verify_result \<Rightarrow> verify_complete_request" where
  "verify_complete_request_new inst mt res =
     \<lparr>vcq_hdr = header_new inst mt TypeFwUpdate (fw_update_cmd_disc VerifyComplete),
      vcq_verify_result = verify_result_disc res\<rparr>"

record verify_complete_response =
  vcr_hdr :: pldm_msg_header
  vcr_completion_code :: u8

definition verify_complete_response_bytes :: "verify_complete_response \<Rightarrow> bytes" where
  [layout]: "verify_complete_response_bytes r = hdr_bytes (vcr_hdr r) @ [vcr_completion_code r]"

definition verify_complete_response_of :: "bytes \<Rightarrow> verify_complete_response" where
  [layout]: "verify_complete_response_of bs = \<lparr>vcr_hdr = hdr_of bs,
     vcr_completion_code = bs ! 3\<rparr>"

interpretation verify_complete_response: packed_struct 4 verify_complete_response_bytes verify_complete_response_of "\<lambda>_. True"
  by unfold_locales (auto simp: layout length_eq_Cons length_eq_Suc_Cons)

definition verify_complete_response_new :: "u8 \<Rightarrow> u8 \<Rightarrow> verify_complete_response" where
  "verify_complete_response_new inst cc =
     \<lparr>vcr_hdr = header_new inst MsgResponse TypeFwUpdate (fw_update_cmd_disc VerifyComplete),
      vcr_completion_code = cc\<rparr>"

section \<open>ApplyComplete\<close>

datatype apply_result =
    ApplySuccess
  | ApplySuccessWithActivationMethod
  | ApplyFailureMemoryIssue
  | ApplyTimeOut
  | ApplyGenericError
  | ApplyVendorDefined

fun apply_result_disc :: "apply_result \<Rightarrow> u8" where
  "apply_result_disc ApplySuccess = 0x00"
| "apply_result_disc ApplySuccessWithActivationMethod = 0x01"
| "apply_result_disc ApplyFailureMemoryIssue = 0x02"
| "apply_result_disc ApplyTimeOut = 0x09"
| "apply_result_disc ApplyGenericError = 0x0a"
| "apply_result_disc ApplyVendorDefined = 0x0b"

definition apply_result_try_from :: "u8 \<Rightarrow> (apply_result, pldm_error) outcome" where
  "apply_result_try_from value =
    (if value = 0x00 then Ok ApplySuccess
     else if value = 0x01 then Ok ApplySuccessWithActivationMethod
     else if value = 0x02 then Ok ApplyFailureMemoryIssue
     else if value = 0x09 then Ok ApplyTimeOut
     else if value = 0x0a then Ok ApplyGenericError
     else if 0xb0 \<le> value \<and> value \<le> 0xcf then Ok ApplyVendorDefined
     else Err PE_InvalidApplyResult)"

lemma apply_result_try_from_not_Panic [simp]: "apply_result_try_from w \<noteq> Panic"
  by (simp add: apply_result_try_from_def)

definition apply_result_default :: apply_result where
  [simp]: "apply_result_default = ApplyGenericError"

record apply_complete_request =
  acq_hdr :: pldm_msg_header
  acq_apply_result :: u8
  acq_comp_activation_methods_modification :: u16

definition apply_complete_request_bytes :: "apply_complete_request \<Rightarrow> bytes" where
  [layout]: "apply_complete_request_bytes r = hdr_bytes (acq_hdr r) @ [acq_apply_result r] @ le16 (acq_comp_activation_methods_modification r)"

definition apply_complete_request_of :: "bytes \<Rightarrow> apply_complete_request" where
  [layout]: "apply_complete_request_of bs = \<lparr>acq_hdr = hdr_of bs,
     acq_apply_result = bs ! 3,
     acq_comp_activation_methods_modification = u16_at 4 bs\<rparr>"

interpretation apply_complete_request: packed_struct 6 apply_complete_request_bytes apply_complete_request_of "\<lambda>_. True"
  by unfold_locales (auto simp: layout length_eq_Cons length_eq_Suc_Cons)

definition apply_complete_request_new :: "u8 \<Rightarrow> pldm_msg_type \<Rightarrow> apply_result \<Rightarrow> u16 \<Rightarrow> apply_complete_request" where
  "apply_complete_request_new inst mt res methods =
     \<lparr>acq_hdr = header_new inst mt TypeFwUpdate (fw_update_cmd_disc ApplyComplete),
      acq_apply_result = apply_result_disc res,
      acq_comp_activation_methods_modification = methods\<rparr>"

record apply_complete_response =
  acr_hdr :: pldm_msg_header
  acr_completion_code :: u8

definition apply_complete_response_bytes :: "apply_complete_response \<Rightarrow> bytes" where
  [layout]: "apply_complete_response_bytes r = hdr_bytes (acr_hdr r) @ [acr_completion_code r]"

definition apply_complete_response_of :: "bytes \<Rightarrow> apply_complete_response" where
  [layout]: "apply_complete_response_of bs = \<lparr>acr_hdr = hdr_of bs,
     acr_completion_code = bs ! 3\<rparr>"

interpretation apply_complete_response: packed_struct 4 apply_complete_response_bytes apply_complete_response_of "\<lambda>_. True"
  by unfold_locales (auto simp: layout length_eq_Cons length_eq_Suc_Cons)

definition apply_complete_response_new :: "u8 \<Rightarrow> u8 \<Rightarrow> apply_complete_response" where
  "apply_complete_response_new inst cc =
     \<lparr>acr_hdr = header_new inst MsgResponse TypeFwUpdate (fw_update_cmd_disc ApplyComplete),
      acr_completion_code = cc\<rparr>"

section \<open>CancelUpdateComponent and CancelUpdate\<close>

datatype non_functioning_indication =
    ComponentsFunctioning
  | ComponentsNotFunctioning

fun non_functioning_indication_disc :: "non_functioning_indication \<Rightarrow> u8" where
  "non_functioning_indication_disc ComponentsFunctioning = 0"
| "non_functioning_indication_disc ComponentsNotFunctioning = 1"

definition non_functioning_indication_try_from :: "u8 \<Rightarrow> (non_functioning_indication, pldm_error) outcome" where
  "non_functioning_indication_try_from value =
    (if value = 0 then Ok ComponentsFunctioning
     else if value = 1 then Ok ComponentsNotFunctioning
     else Err PE_InvalidData)"

interpretation non_functioning_indication: wire_enum non_functioning_indication_disc non_functioning_indication_try_from
proof
  fix x show "non_functioning_indication_try_from (non_functioning_indication_disc x) = Ok x"
    by (cases x) (simp_all add: non_functioning_indication_try_from_def)
next
  fix w x assume "non_functioning_indication_try_from w = Ok x"
  then show "non_functioning_indication_disc x = w"
    by (auto simp: non_functioning_indication_try_from_def split: if_splits)
next
  fix w show "non_functioning_indication_try_from w \<noteq> Panic"
    by (simp add: non_functioning_indication_try_from_def)
qed

record cancel_update_component_request =
  ccq_hdr :: pldm_msg_header

definition cancel_update_component_request_bytes :: "cancel_update_component_request \<Rightarrow> bytes" where
  [layout]: "cancel_update_component_request_bytes r = hdr_bytes (ccq_hdr r)"

definition cancel_update_component_request_of :: "bytes \<Rightarrow> cancel_update_component_request" where
  [layout]: "cancel_update_component_request_of bs = \<lparr>ccq_hdr = hdr_of bs\<rparr>"

interpretation cancel_update_component_request: packed_struct 3 cancel_update_component_request_bytes cancel_update_component_request_of "\<lambda>_. True"
  by unfold_locales (auto simp: layout length_eq_Cons length_eq_Suc_Cons)

definition cancel_update_component_request_new :: "u8 \<Rightarrow> pldm_msg_type \<Rightarrow> cancel_update_component_request" where
  "cancel_update_component_request_new inst mt =
     \<lparr>ccq_hdr = header_new inst mt TypeFwUpdate (fw_update_cmd_disc CancelUpdateComponent)\<rparr>"

record cancel_update_component_response =
  ccr_hdr :: pldm_msg_header
  ccr_completion_code :: u8

definition cancel_update_component_response_bytes :: "cancel_update_component_response \<Rightarrow> bytes" where
  [layout]: "cancel_update_component_response_bytes r = hdr_bytes (ccr_hdr r) @ [ccr_completion_code r]"

definition cancel_update_component_response_of :: "bytes \<Rightarrow> cancel_update_component_response" where
  [layout]: "cancel_update_component_response_of bs = \<lparr>ccr_hdr = hdr_of bs,
     ccr_completion_code = bs ! 3\<rparr>"

interpretation cancel_update_component_response: packed_struct 4 cancel_update_component_response_bytes cancel_update_component_response_of "\<lambda>_. True"
  by unfold_locales (auto simp: layout length_eq_Cons length_eq_Suc_Cons)

definition cancel_update_component_response_new :: "u8 \<Rightarrow> u8 \<Rightarrow> cancel_update_component_response" where
  "cancel_update_component_response_new inst cc =
     \<lparr>ccr_hdr = header_new inst MsgResponse TypeFwUpdate (fw_update_cmd_disc CancelUpdateComponent),
      ccr_completion_code = cc\<rparr>"

record cancel_update_request =
  cuq_hdr :: pldm_msg_header

definition cancel_update_request_bytes :: "cancel_update_request \<Rightarrow> bytes" where
  [layout]: "cancel_update_request_bytes r = hdr_bytes (cuq_hdr r)"

definition cancel_update_request_of :: "bytes \<Rightarrow> cancel_update_request" where
  [layout]: "cancel_update_request_of bs = \<lparr>cuq_hdr = hdr_of bs\<rparr>"

interpretation cancel_update_request: packed_struct 3 cancel_update_request_bytes cancel_update_request_of "\<lambda>_. True"
  by unfold_locales (auto simp: layout length_eq_Cons length_eq_Suc_Cons)

definition cancel_update_request_new :: "u8 \<Rightarrow> pldm_msg_type \<Rightarrow> cancel_update_request" where
  "cancel_update_request_new inst mt =
     \<lparr>cuq_hdr = header_new inst mt TypeFwUpdate (fw_update_cmd_disc CancelUpdate)\<rparr>"

text \<open>The bitmap newtype over a \<open>u64\<close> is the \<open>u64\<close>.\<close>

record cancel_update_response =
  cur_hdr :: pldm_msg_header
  cur_completion_code :: u8
  cur_non_functioning_component_indication :: u8
  cur_non_functioning_component_bitmap :: u64

definition cancel_update_response_bytes :: "cancel_update_response \<Rightarrow> bytes" where
  [layout]: "cancel_update_response_bytes r = hdr_bytes (cur_hdr r) @ [cur_completion_code r] @ [cur_non_functioning_component_indication r] @ le64 (cur_non_functioning_component_bitmap r)"

definition cancel_update_response_of :: "bytes \<Rightarrow> cancel_update_response" where
  [layout]: "cancel_update_response_of bs = \<lparr>cur_hdr = hdr_of bs,
     cur_completion_code = bs ! 3,
     cur_non_functioning_component_indication = bs ! 4,
     cur_non_functioning_component_bitmap = u64_at 5 bs\<rparr>"

interpretation cancel_update_response: packed_struct 13 cancel_update_response_bytes cancel_update_response_of "\<lambda>_. True"
  by unfold_locales (auto simp: layout length_eq_Cons length_eq_Suc_Cons)

definition cancel_update_response_new :: "u8 \<Rightarrow> u8 \<Rightarrow> non_functioning_indication \<Rightarrow> u64 \<Rightarrow> cancel_update_response" where
  "cancel_update_response_new inst cc ind bitmap =
     \<lparr>cur_hdr = header_new inst MsgResponse TypeFwUpdate (fw_update_cmd_disc CancelUpdate),
      cur_completion_code = cc,
      cur_non_functioning_component_indication = non_functioning_indication_disc ind,
      cur_non_functioning_component_bitmap = bitmap\<rparr>"

section \<open>GetStatus\<close>

definition PROGRESS_PERCENT_NOT_SUPPORTED :: u8 where
  [simp]: "PROGRESS_PERCENT_NOT_SUPPORTED = 101"

text \<open>The field of \<open>ProgressPercent\<close> is private: values come from the constructor and the
  setter, so they satisfy \<open>progress_ok\<close>.\<close>

datatype progress_percent = ProgressPercent (progress_value: u8)

definition progress_new :: "u8 \<Rightarrow> (progress_percent, pldm_error) outcome" where
  "progress_new value =
     (if PROGRESS_PERCENT_NOT_SUPPORTED < value then Err PE_InvalidData else Ok (ProgressPercent value))"

definition progress_default :: progress_percent where
  "progress_default = ProgressPercent PROGRESS_PERCENT_NOT_SUPPORTED"

definition progress_set_value :: "u8 \<Rightarrow> progress_percent \<Rightarrow> (unit, pldm_error) outcome \<times> progress_percent" where
  "progress_set_value value p =
     (if 100 < value then (Err PE_InvalidData, p) else (Ok (), ProgressPercent value))"

definition progress_ok :: "progress_percent \<Rightarrow> bool" where
  "progress_ok p \<longleftrightarrow> progress_value p \<le> PROGRESS_PERCENT_NOT_SUPPORTED"

lemma progress_default_new: "progress_new PROGRESS_PERCENT_NOT_SUPPORTED = Ok progress_default"
  by (simp add: progress_new_def progress_default_def)

lemma progress_default_ok [simp]: "progress_ok progress_default"
  by (simp add: progress_ok_def progress_default_def)

lemma progress_new_ok: "progress_new v = Ok p \<longleftrightarrow> progress_ok p \<and> progress_value p = v"
  by (cases p) (auto simp: progress_new_def progress_ok_def)

lemma progress_set_value_ok: "progress_ok p \<Longrightarrow> progress_ok (snd (progress_set_value v p))"
  by (auto simp: progress_ok_def progress_set_value_def not_less elim: order_trans)

datatype aux_state =
    OperationInProgress
  | OperationSuccessful
  | OperationFailed
  | IdleLearnComponentsReadXfer

fun aux_state_disc :: "aux_state \<Rightarrow> u8" where
  "aux_state_disc OperationInProgress = 0"
| "aux_state_disc OperationSuccessful = 1"
| "aux_state_disc OperationFailed = 2"
| "aux_state_disc IdleLearnComponentsReadXfer = 3"

datatype aux_state_status =
    AuxStateInProgressOrSuccess
  | AuxReserved
  | AuxTimeout
  | AuxGenericError
  | AuxVendorDefined

fun aux_state_status_disc :: "aux_state_status \<Rightarrow> u8" where
  "aux_state_status_disc AuxStateInProgressOrSuccess = 0x00"
| "aux_state_status_disc AuxReserved = 0x01"
| "aux_state_status_disc AuxTimeout = 0x09"
| "aux_state_status_disc AuxGenericError = 0x0a"
| "aux_state_status_disc AuxVendorDefined = 0x0b"

definition aux_state_status_try_from :: "u8 \<Rightarrow> (aux_state_status, pldm_error) outcome" where
  "aux_state_status_try_from value =
    (if value = 0x00 then Ok AuxStateInProgressOrSuccess
     else if 0x01 \<le> value \<and> value \<le> 0x08 then Ok AuxReserved
     else if value = 0x09 then Ok AuxTimeout
     else if value = 0x0a then Ok AuxGenericError
     else if 0x70 \<le> value \<and> value \<le> 0xef then Ok AuxVendorDefined
     else Err PE_InvalidAuxStateStatus)"

lemma aux_state_status_try_from_not_Panic [simp]: "aux_state_status_try_from w \<noteq> Panic"
  by (simp add: aux_state_status_try_from_def)

datatype status_reason =
    ReasonInitialization
  | ReasonActivateFw
  | ReasonCancelUpdate
  | ReasonLearnComponentTimeout
  | ReasonReadyXferTimeout
  | ReasonDownloadTimeout
  | ReasonVerifyTimeout
  | ReasonApplyTimeout
  | ReasonVendorDefined

fun status_reason_disc :: "status_reason \<Rightarrow> u8" where
  "status_reason_disc ReasonInitialization = 0"
| "status_reason_disc ReasonActivateFw = 1"
| "status_reason_disc ReasonCancelUpdate = 2"
| "status_reason_disc ReasonLearnComponentTimeout = 3"
| "status_reason_disc ReasonReadyXferTimeout = 4"
| "status_reason_disc ReasonDownloadTimeout = 5"
| "status_reason_disc ReasonVerifyTimeout = 6"
| "status_reason_disc ReasonApplyTimeout = 7"
| "status_reason_disc ReasonVendorDefined = 8"

definition status_reason_try_from :: "u8 \<Rightarrow> (status_reason, pldm_error) outcome" where
  "status_reason_try_from value =
    (if value = 0 then Ok ReasonInitialization
     else if value = 1 then Ok ReasonActivateFw
     else if value = 2 then Ok ReasonCancelUpdate
     else if value = 3 then Ok ReasonLearnComponentTimeout
     else if value = 4 then Ok ReasonReadyXferTimeout
     else if value = 5 then Ok ReasonDownloadTimeout
     else if value = 6 then Ok ReasonVerifyTimeout
     else if value = 7 then Ok ReasonApplyTimeout
     else if 200 \<le> value then Ok ReasonVendorDefined
     else Err PE_InvalidGetStatusReasonCode)"

lemma status_reason_try_from_not_Panic [simp]: "status_reason_try_from w \<noteq> Panic"
  by (simp add: status_reason_try_from_def)

record get_status_request =
  gsq_hdr :: pldm_msg_header

definition get_status_request_bytes :: "get_status_request \<Rightarrow> bytes" where
  [layout]: "get_status_request_bytes r = hdr_bytes (gsq_hdr r)"

definition get_status_request_of :: "bytes \<Rightarrow> get_status_request" where
  [layout]: "get_status_request_of bs = \<lparr>gsq_hdr = hdr_of bs\<rparr>"

interpretation get_status_request: packed_struct 3 get_status_request_bytes get_status_request_of "\<lambda>_. True"
  by unfold_locales (auto simp: layout length_eq_Cons length_eq_Suc_Cons)

definition get_status_request_new :: "u8 \<Rightarrow> pldm_msg_type \<Rightarrow> get_status_request" where
  "get_status_request_new inst mt =
     \<lparr>gsq_hdr = header_new inst mt TypeFwUpdate (fw_update_cmd_disc GetStatus)\<rparr>"

datatype update_option_resp = NoForceUpdate | ForceUpdate

fun update_option_resp_disc :: "update_option_resp \<Rightarrow> u8" where
  "update_option_resp_disc NoForceUpdate = 0"
| "update_option_resp_disc ForceUpdate = 1"

record get_status_response =
  gsr_hdr :: pldm_msg_header
  gsr_completion_code :: u8
  gsr_current_state :: u8
  gsr_previous_state :: u8
  gsr_aux_state :: u8
  gsr_aux_state_status :: u8
  gsr_progress_percent :: u8
  gsr_reason_code :: u8
  gsr_update_option_flags_enabled :: u32

definition get_status_response_bytes :: "get_status_response \<Rightarrow> bytes" where
  [layout]: "get_status_response_bytes r = hdr_bytes (gsr_hdr r) @ [gsr_completion_code r] @ [gsr_current_state r] @ [gsr_previous_state r] @ [gsr_aux_state r] @ [gsr_aux_state_status r] @ [gsr_progress_percent r] @ [gsr_reason_code r] @ le32 (gsr_update_option_flags_enabled r)"

definition get_status_response_of :: "bytes \<Rightarrow> get_status_response" where
  [layout]: "get_status_response_of bs = \<lparr>gsr_hdr = hdr_of bs,
     gsr_completion_code = bs ! 3,
     gsr_current_state = bs ! 4,
     gsr_previous_state = bs ! 5,
     gsr_aux_state = bs ! 6,
     gsr_aux_state_status = bs ! 7,
     gsr_progress_percent = bs ! 8,
     gsr_reason_code = bs ! 9,
     gsr_update_option_flags_enabled = u32_at 10 bs\<rparr>"

interpretation get_status_response: packed_struct 14 get_status_response_bytes get_status_response_of "\<lambda>_. True"
  by unfold_locales (auto simp: layout length_eq_Cons length_eq_Suc_Cons)

definition get_status_response_new :: "u8 \<Rightarrow> u8 \<Rightarrow> firmware_device_state \<Rightarrow> firmware_device_state \<Rightarrow> aux_state \<Rightarrow> u8
    \<Rightarrow> progress_percent \<Rightarrow> status_reason \<Rightarrow> update_option_resp \<Rightarrow> get_status_response" where
  "get_status_response_new inst cc cur prev aux aux_status progress reason option =
     \<lparr>gsr_hdr = header_new inst MsgResponse TypeFwUpdate (fw_update_cmd_disc GetStatus),
      gsr_completion_code = cc,
      gsr_current_state = firmware_device_state_disc cur,
      gsr_previous_state = firmware_device_state_disc prev,
      gsr_aux_state = aux_state_disc aux,
      gsr_aux_state_status = aux_status,
      gsr_progress_percent = progress_value progress,
      gsr_reason_code = status_reason_disc reason,
      gsr_update_option_flags_enabled = set_request_force_update (option = ForceUpdate) 0\<rparr>"

section \<open>ActivatePendingComponentImage\<close>

record pending_component =
  pc_classification :: u16
  pc_identifier :: u16
  pc_classification_index :: u8

datatype pending_component_result =
    PendingActivated u16
  | PendingActivationNotRequired
  | PendingNotPermitted

record activate_pending_request =
  apq_hdr :: pldm_msg_header
  apq_comp_classification :: u16
  apq_comp_identifier :: u16
  apq_comp_classification_index :: u8

definition activate_pending_request_bytes :: "activate_pending_request \<Rightarrow> bytes" where
  [layout]: "activate_pending_request_bytes r = hdr_bytes (apq_hdr r) @ le16 (apq_comp_classification r) @ le16 (apq_comp_identifier r) @ [apq_comp_classification_index r]"

definition activate_pending_request_of :: "bytes \<Rightarrow> activate_pending_request" where
  [layout]: "activate_pending_request_of bs = \<lparr>apq_hdr = hdr_of bs,
     apq_comp_classification = u16_at 3 bs,
     apq_comp_identifier = u16_at 5 bs,
     apq_comp_classification_index = bs ! 7\<rparr>"

interpretation activate_pending_request: packed_struct 8 activate_pending_request_bytes activate_pending_request_of "\<lambda>_. True"
  by unfold_locales (auto simp: layout length_eq_Cons length_eq_Suc_Cons)

definition activate_pending_request_new :: "u8 \<Rightarrow> pldm_msg_type \<Rightarrow> component_classification \<Rightarrow> u16 \<Rightarrow> u8 \<Rightarrow> activate_pending_request" where
  "activate_pending_request_new inst mt cls ident idx =
     \<lparr>apq_hdr = header_new inst mt TypeFwUpdate (fw_update_cmd_disc ActivatePendingComponentImage),
      apq_comp_classification = component_classification_disc cls,
      apq_comp_identifier = ident,
      apq_comp_classification_index = idx\<rparr>"

record activate_pending_response =
  apr_hdr :: pldm_msg_header
  apr_completion_code :: u8
  apr_estimated_time_activation :: u16

definition activate_pending_response_bytes :: "activate_pending_response \<Rightarrow> bytes" where
  [layout]: "activate_pending_response_bytes r = hdr_bytes (apr_hdr r) @ [apr_completion_code r] @ le16 (apr_estimated_time_activation r)"

definition activate_pending_response_of :: "bytes \<Rightarrow> activate_pending_response" where
  [layout]: "activate_pending_response_of bs = \<lparr>apr_hdr = hdr_of bs,
     apr_completion_code = bs ! 3,
     apr_estimated_time_activation = u16_at 4 bs\<rparr>"

interpretation activate_pending_response: packed_struct 6 activate_pending_response_bytes activate_pending_response_of "\<lambda>_. True"
  by unfold_locales (auto simp: layout length_eq_Cons length_eq_Suc_Cons)

definition activate_pending_response_new :: "u8 \<Rightarrow> u8 \<Rightarrow> u16 \<Rightarrow> activate_pending_response" where
  "activate_pending_response_new inst cc time =
     \<lparr>apr_hdr = header_new inst MsgResponse TypeFwUpdate (fw_update_cmd_disc ActivatePendingComponentImage),
      apr_completion_code = cc,
      apr_estimated_time_activation = time\<rparr>"

definition pending_component_result_into_response ::
  "pending_component_result \<Rightarrow> u8 \<Rightarrow> activate_pending_response" where
  "pending_component_result_into_response res inst =
     (case (case res of
              PendingActivated time \<Rightarrow> (base_cc_disc CC_Success, time)
            | PendingActivationNotRequired \<Rightarrow> (fw_cc_disc ActivationNotRequired, 0)
            | PendingNotPermitted \<Rightarrow> (fw_cc_disc ActivatePendingImageNotPermitted, 0)) of
        (cc, time) \<Rightarrow> activate_pending_response_new inst cc time)"

section \<open>UpdateSecurityRevision\<close>

definition UPDATE_SECURITY_REVISION_SINGLE_DEVICE :: u8 where
  "UPDATE_SECURITY_REVISION_SINGLE_DEVICE = 0x00"

definition UPDATE_SECURITY_REVISION_ALL_DEVICES :: u8 where
  "UPDATE_SECURITY_REVISION_ALL_DEVICES = 0xFF"

record security_revision_component =
  sr_classification :: u16
  sr_identifier :: u16
  sr_classification_index :: u8

datatype security_revision_result = RevisionUpdated | RevisionNotPermitted

fun to_completion_code :: "security_revision_result \<Rightarrow> u8" where
  "to_completion_code RevisionUpdated = base_cc_disc CC_Success"
| "to_completion_code RevisionNotPermitted = fw_cc_disc UpdateSecurityRevisionNotPermitted"

record update_security_revision_request =
  usq_hdr :: pldm_msg_header
  usq_comp_classification :: u16
  usq_comp_identifier :: u16
  usq_comp_classification_index :: u8

definition update_security_revision_request_bytes :: "update_security_revision_request \<Rightarrow> bytes" where
  [layout]: "update_security_revision_request_bytes r = hdr_bytes (usq_hdr r) @ le16 (usq_comp_classification r) @ le16 (usq_comp_identifier r) @ [usq_comp_classification_index r]"

definition update_security_revision_request_of :: "bytes \<Rightarrow> update_security_revision_request" where
  [layout]: "update_security_revision_request_of bs = \<lparr>usq_hdr = hdr_of bs,
     usq_comp_classification = u16_at 3 bs,
     usq_comp_identifier = u16_at 5 bs,
     usq_comp_classification_index = bs ! 7\<rparr>"

interpretation update_security_revision_request: packed_struct 8 update_security_revision_request_bytes update_security_revision_request_of "\<lambda>_. True"
  by unfold_locales (auto simp: layout length_eq_Cons length_eq_Suc_Cons)

definition update_security_revision_request_new :: "u8 \<Rightarrow> pldm_msg_type \<Rightarrow> component_classification \<Rightarrow> u16 \<Rightarrow> u8 \<Rightarrow> update_security_revision_request" where
  "update_security_revision_request_new inst mt cls ident idx =
     \<lparr>usq_hdr = header_new inst mt TypeFwUpdate (fw_update_cmd_disc UpdateSecurityRevision),
      usq_comp_classification = component_classification_disc cls,
      usq_comp_identifier = ident,
      usq_comp_classification_index = idx\<rparr>"

record update_security_revision_response =
  usr_hdr :: pldm_msg_header
  usr_completion_code :: u8

definition update_security_revision_response_bytes :: "update_security_revision_response \<Rightarrow> bytes" where
  [layout]: "update_security_revision_response_bytes r = hdr_bytes (usr_hdr r) @ [usr_completion_code r]"

definition update_security_revision_response_of :: "bytes \<Rightarrow> update_security_revision_response" where
  [layout]: "update_security_revision_response_of bs = \<lparr>usr_hdr = hdr_of bs,
     usr_completion_code = bs ! 3\<rparr>"

interpretation update_security_revision_response: packed_struct 4 update_security_revision_response_bytes update_security_revision_response_of "\<lambda>_. True"
  by unfold_locales (auto simp: layout length_eq_Cons length_eq_Suc_Cons)

definition update_security_revision_response_new :: "u8 \<Rightarrow> u8 \<Rightarrow> update_security_revision_response" where
  "update_security_revision_response_new inst cc =
     \<lparr>usr_hdr = header_new inst MsgResponse TypeFwUpdate (fw_update_cmd_disc UpdateSecurityRevision),
      usr_completion_code = cc\<rparr>"

section \<open>RequestFirmwareData\<close>

definition MAX_TRANSFER_SIZE :: nat where
  [simp]: "MAX_TRANSFER_SIZE = 512"

record request_fw_data_request =
  rfq_hdr :: pldm_msg_header
  rfq_offset :: u32
  rfq_length :: u32

definition request_fw_data_request_bytes :: "request_fw_data_request \<Rightarrow> bytes" where
  [layout]: "request_fw_data_request_bytes r = hdr_bytes (rfq_hdr r) @ le32 (rfq_offset r) @ le32 (rfq_length r)"

definition request_fw_data_request_of :: "bytes \<Rightarrow> request_fw_data_request" where
  [layout]: "request_fw_data_request_of bs = \<lparr>rfq_hdr = hdr_of bs,
     rfq_offset = u32_at 3 bs,
     rfq_length = u32_at 7 bs\<rparr>"

interpretation request_fw_data_request: packed_struct 11 request_fw_data_request_bytes request_fw_data_request_of "\<lambda>_. True"
  by unfold_locales (auto simp: layout length_eq_Cons length_eq_Suc_Cons)

definition request_fw_data_request_new :: "u8 \<Rightarrow> pldm_msg_type \<Rightarrow> u32 \<Rightarrow> u32 \<Rightarrow> request_fw_data_request" where
  "request_fw_data_request_new inst mt off len =
     \<lparr>rfq_hdr = header_new inst mt TypeFwUpdate (fw_update_cmd_disc RequestFirmwareData),
      rfq_offset = off,
      rfq_length = len\<rparr>"

record request_fw_data_response_fixed =
  rff_hdr :: pldm_msg_header
  rff_completion_code :: u8

definition request_fw_data_response_fixed_bytes :: "request_fw_data_response_fixed \<Rightarrow> bytes" where
  [layout]: "request_fw_data_response_fixed_bytes r = hdr_bytes (rff_hdr r) @ [rff_completion_code r]"

definition request_fw_data_response_fixed_of :: "bytes \<Rightarrow> request_fw_data_response_fixed" where
  [layout]: "request_fw_data_response_fixed_of bs = \<lparr>rff_hdr = hdr_of bs,
     rff_completion_code = bs ! 3\<rparr>"

interpretation request_fw_data_response_fixed: packed_struct 4 request_fw_data_response_fixed_bytes request_fw_data_response_fixed_of "\<lambda>_. True"
  by unfold_locales (auto simp: layout length_eq_Cons length_eq_Suc_Cons)

text \<open>The response's data runs to the end of the buffer it is decoded from.\<close>

record request_fw_data_response =
  rfr_fixed :: request_fw_data_response_fixed
  rfr_data :: bytes

definition request_fw_data_response_new :: "u8 \<Rightarrow> u8 \<Rightarrow> bytes \<Rightarrow> request_fw_data_response" where
  "request_fw_data_response_new inst cc data =
     \<lparr>rfr_fixed = \<lparr>rff_hdr = header_new inst MsgResponse TypeFwUpdate (fw_update_cmd_disc RequestFirmwareData),
                    rff_completion_code = cc\<rparr>,
      rfr_data = data\<rparr>"

definition request_fw_data_response_codec_size :: "request_fw_data_response \<Rightarrow> nat" where
  "request_fw_data_response_codec_size r = 4 + length (rfr_data r)"

definition request_fw_data_response_encode ::
  "request_fw_data_response \<Rightarrow> bytes \<Rightarrow> (nat, codec_error) outcome \<times> bytes" where
  "request_fw_data_response_encode r =
     abind (gets length) (\<lambda>len.
       if len < request_fw_data_response_codec_size r then fail BufferTooShort
       else
         abind (put_all [Some (request_fw_data_response_fixed_bytes (rfr_fixed r))] 0) (\<lambda>offset.
           if MAX_TRANSFER_SIZE < length (rfr_data r) then fail BufferTooShort
           else put_all [Some (rfr_data r)] offset))"

definition request_fw_data_response_decode :: "bytes \<Rightarrow> (request_fw_data_response, codec_error) outcome" where
  "request_fw_data_response_decode buffer =
     (if length buffer < 4 then Err BufferTooShort
      else rbind (slice 0 4 buffer) (\<lambda>prefix.
           rbind (slice_from 4 buffer) (\<lambda>rest.
             Ok \<lparr>rfr_fixed = request_fw_data_response_fixed_of prefix, rfr_data = rest\<rparr>)))"

definition request_fw_data_response_ser :: "request_fw_data_response \<Rightarrow> bytes" where
  "request_fw_data_response_ser r =
     request_fw_data_response_fixed_bytes (rfr_fixed r) @ rfr_data r"

lemma request_fw_data_response_fixed_length [simp]:
  "length (request_fw_data_response_fixed_bytes f) = 4"
  by (simp add: layout)

interpretation request_fw_data_response:
  codec_exact request_fw_data_response_encode request_fw_data_response_decode
    request_fw_data_response_ser "\<lambda>r. length (rfr_data r) \<le> MAX_TRANSFER_SIZE"
proof
  fix x :: request_fw_data_response and buf :: bytes
  assume wf: "length (rfr_data x) \<le> MAX_TRANSFER_SIZE"
  show "length (request_fw_data_response_ser x) \<le> length buf \<Longrightarrow> request_fw_data_response_encode x buf =
      (Ok (length (request_fw_data_response_ser x)), splice 0 (request_fw_data_response_ser x) buf)"
    using wf by (simp add: request_fw_data_response_encode_def request_fw_data_response_ser_def abind_def gets_def
        request_fw_data_response_codec_size_def splice_def put_all.simps add.commute)
  show "length buf < length (request_fw_data_response_ser x) \<Longrightarrow>
      request_fw_data_response_encode x buf = (Err BufferTooShort, buf)"
    by (simp add: request_fw_data_response_encode_def request_fw_data_response_ser_def abind_def gets_def fail_def
        request_fw_data_response_codec_size_def)
  show "request_fw_data_response_decode (request_fw_data_response_ser x) = Ok x"
    using request_fw_data_response_fixed.of_to_bytes [of "rfr_fixed x"]
    by (simp add: request_fw_data_response_decode_def request_fw_data_response_ser_def slice_in_range slice_from_def)
next
  fix bs :: bytes
  show "request_fw_data_response_decode bs \<noteq> Panic"
    by (simp add: request_fw_data_response_decode_def rbind_eq_Panic slice_from_def)
qed

text \<open>Beyond the transfer limit the encoder reports a short buffer after it has overwritten the
  first four bytes of a buffer that was long enough.\<close>

lemma request_fw_data_response_encode_oversize:
  assumes "MAX_TRANSFER_SIZE < length (rfr_data r)" and "request_fw_data_response_codec_size r \<le> length buf"
  shows "request_fw_data_response_encode r buf =
    (Err BufferTooShort, splice 0 (request_fw_data_response_fixed_bytes (rfr_fixed r)) buf)"
  using assms by (simp add: request_fw_data_response_encode_def abind_def gets_def fail_def
      request_fw_data_response_codec_size_def put_all.simps)

section \<open>Result codes\<close>

text \<open>Converting a result to its byte and back fails for \<open>VendorDefined\<close> alone.\<close>

lemma transfer_result_roundtrip:
  "transfer_result_try_from (transfer_result_disc r) =
     (if r = TransferVendorDefined then Err PE_InvalidTransferResult else Ok r)"
  by (cases r) (simp_all add: transfer_result_try_from_def)

lemma transfer_result_disc_zero [simp]: "transfer_result_disc r = 0 \<longleftrightarrow> r = TransferSuccess"
  by (cases r) simp_all

lemma verify_result_disc_zero [simp]: "verify_result_disc r = 0 \<longleftrightarrow> r = VerifySuccess"
  by (cases r) simp_all

lemma apply_result_disc_zero [simp]: "apply_result_disc r = 0 \<longleftrightarrow> r = ApplySuccess"
  by (cases r) simp_all

end
