(* ===== verification/Fd_Internal.thy ===== *)
theory Fd_Internal
  imports Fw_Component Fw_Msgs Responder
begin

text \<open>
  The firmware device's own state and its accessors,
  \<open>pldm-interface/src/firmware_device/fd_internal.rs\<close>.  Times are milliseconds in a
  \<open>u64\<close>.  Arithmetic that the source leaves to the build's overflow checks takes the
  parameter \<open>oc\<close>: with checks an overflow panics, without them it wraps.
\<close>

definition INSTANCE_ID_COUNT :: u8 where
  [simp]: "INSTANCE_ID_COUNT = 32"

definition FD_MAX_XFER_SIZE :: nat where
  [simp]: "FD_MAX_XFER_SIZE = 512"

definition DEFAULT_FD_T1_TIMEOUT :: u64 where
  [simp]: "DEFAULT_FD_T1_TIMEOUT = 120000"

definition DEFAULT_FD_T2_RETRY_TIME :: u64 where
  [simp]: "DEFAULT_FD_T2_RETRY_TIME = 5000"

datatype fd_req_state = ReqUnused | ReqReady | ReqSent | ReqFailed

record fd_req =
  req_state :: fd_req_state
  req_complete :: bool
  req_result :: "u8 option"
  req_instance_id :: "u8 option"
  req_command :: "u8 option"
  req_sent_time :: "u64 option"

definition fd_req_new :: fd_req where
  "fd_req_new = \<lparr>req_state = ReqUnused, req_complete = False, req_result = None,
     req_instance_id = None, req_command = None, req_sent_time = None\<rparr>"

record download_state =
  dl_offset :: u32
  dl_length :: u32

definition download_state_default :: download_state where
  "download_state_default = \<lparr>dl_offset = 0, dl_length = 0\<rparr>"

text \<open>\<open>VerifyState\<close> and \<open>ApplyState\<close> hold a progress percentage.\<close>

datatype initiator_mode = ModeDownload download_state | ModeVerify u8 | ModeApply u8

record fd_internal =
  fi_state :: firmware_device_state
  fi_prev_state :: firmware_device_state
  fi_reason :: "status_reason option"
  fi_update_comp :: firmware_component
  fi_update_flags :: u32
  fi_max_xfer_size :: u32
  fi_req :: fd_req
  fi_mode :: initiator_mode
  fi_ua_address :: "u8 option"
  fi_t1_update_ts :: u64
  fi_t1_timeout :: u64
  fi_t2_retry_time :: u64

definition fd_internal_new :: "u32 \<Rightarrow> u64 \<Rightarrow> u64 \<Rightarrow> fd_internal" where
  "fd_internal_new max_xfer_size fd_t1_timeout fd_t2_retry_time =
     \<lparr>fi_state = Idle, fi_prev_state = Idle, fi_reason = None,
      fi_update_comp = firmware_component_default, fi_update_flags = 0,
      fi_max_xfer_size = max_xfer_size, fi_req = fd_req_new,
      fi_mode = ModeDownload download_state_default, fi_ua_address = None,
      fi_t1_update_ts = 0, fi_t1_timeout = fd_t1_timeout, fi_t2_retry_time = fd_t2_retry_time\<rparr>"

definition fd_internal_default :: fd_internal where
  "fd_internal_default =
     fd_internal_new (of_nat FD_MAX_XFER_SIZE) DEFAULT_FD_T1_TIMEOUT DEFAULT_FD_T2_RETRY_TIME"

section \<open>Accessors\<close>

definition is_update_mode :: "fd_internal \<Rightarrow> bool" where
  "is_update_mode i \<longleftrightarrow> fi_state i \<noteq> Idle"

definition set_fd_state :: "firmware_device_state \<Rightarrow> fd_internal \<Rightarrow> fd_internal" where
  "set_fd_state st i =
     (if fi_state i \<noteq> st then i\<lparr>fi_prev_state := fi_state i, fi_state := st\<rparr> else i)"

definition set_fd_idle :: "status_reason \<Rightarrow> fd_internal \<Rightarrow> fd_internal" where
  "set_fd_idle reason_code i =
     (if fi_state i \<noteq> Idle
      then i\<lparr>fi_prev_state := fi_state i, fi_state := Idle, fi_reason := Some reason_code\<rparr>
      else i)"

fun timeout_reason :: "firmware_device_state \<Rightarrow> status_reason option" where
  "timeout_reason Idle = None"
| "timeout_reason LearnComponents = Some ReasonLearnComponentTimeout"
| "timeout_reason ReadyXfer = Some ReasonReadyXferTimeout"
| "timeout_reason Download = Some ReasonDownloadTimeout"
| "timeout_reason Verify = Some ReasonVerifyTimeout"
| "timeout_reason Apply = Some ReasonApplyTimeout"
| "timeout_reason Activate = Some ReasonActivateFw"

definition fd_idle_timeout :: "fd_internal \<Rightarrow> fd_internal" where
  "fd_idle_timeout i =
     (case timeout_reason (fi_state i) of None \<Rightarrow> i | Some reason \<Rightarrow> set_fd_idle reason i)"

definition set_xfer_size :: "nat \<Rightarrow> fd_internal \<Rightarrow> fd_internal" where
  "set_xfer_size transfer_size i = i\<lparr>fi_max_xfer_size := of_nat transfer_size\<rparr>"

definition get_xfer_size :: "fd_internal \<Rightarrow> nat" where
  "get_xfer_size i = unat (fi_max_xfer_size i)"

definition set_component :: "firmware_component \<Rightarrow> fd_internal \<Rightarrow> fd_internal" where
  "set_component component i = i\<lparr>fi_update_comp := component\<rparr>"

definition set_update_flags :: "u32 \<Rightarrow> fd_internal \<Rightarrow> fd_internal" where
  "set_update_flags flags i = i\<lparr>fi_update_flags := flags\<rparr>"

definition set_fd_req ::
  "fd_req_state \<Rightarrow> bool \<Rightarrow> u8 option \<Rightarrow> u8 option \<Rightarrow> u8 option \<Rightarrow> u64 option \<Rightarrow> fd_internal \<Rightarrow> fd_internal" where
  "set_fd_req st complete result inst command sent_time i =
     i\<lparr>fi_req := \<lparr>req_state = st, req_complete = complete, req_result = result,
                  req_instance_id = inst, req_command = command, req_sent_time = sent_time\<rparr>\<rparr>"

definition add_checked :: "bool \<Rightarrow> 'a::len word \<Rightarrow> 'a word \<Rightarrow> ('a word, msg_handler_error) outcome" where
  "add_checked oc a b =
     (if oc \<and> 2 ^ LENGTH('a) \<le> uint a + uint b then Panic else Ok (a + b))"

text \<open>\<open>self.req.instance_id = Some(n)\<close>\<close>

definition with_instance :: "u8 \<Rightarrow> fd_internal \<Rightarrow> fd_internal" where
  "with_instance n i = i\<lparr>fi_req := (fi_req i)\<lparr>req_instance_id := Some n\<rparr>\<rparr>"

definition alloc_next_instance_id ::
  "bool \<Rightarrow> fd_internal \<Rightarrow> (u8 option, msg_handler_error) outcome \<times> fd_internal" where
  "alloc_next_instance_id oc i =
     (case (case req_instance_id (fi_req i) of
              None \<Rightarrow> Ok 1
            | Some inst \<Rightarrow> map_ok (\<lambda>n. n mod INSTANCE_ID_COUNT) (add_checked oc inst 1)) of
        Ok inst \<Rightarrow> (Ok (Some inst), with_instance inst i)
      | Err e \<Rightarrow> (Err e, i)
      | Panic \<Rightarrow> (Panic, i))"

definition set_fd_req_state :: "fd_req_state \<Rightarrow> fd_internal \<Rightarrow> fd_internal" where
  "set_fd_req_state st i = i\<lparr>fi_req := (fi_req i)\<lparr>req_state := st\<rparr>\<rparr>"

definition get_fd_download_chunk ::
  "bool \<Rightarrow> u32 \<Rightarrow> u32 \<Rightarrow> fd_internal \<Rightarrow> ((u32 \<times> u32) option, msg_handler_error) outcome" where
  "get_fd_download_chunk oc requested_offset requested_length i =
     (if fi_state i \<noteq> Download then Ok None
      else
        let comp_image_size = (case fc_image_size (fi_update_comp i) of None \<Rightarrow> 0 | Some n \<Rightarrow> n) in
        if comp_image_size < requested_offset then Ok None
        else
          rbind (add_checked oc requested_offset requested_length) (\<lambda>end.
          rbind (add_checked oc comp_image_size (of_nat PLDM_FWUP_MAX_PADDING_SIZE)) (\<lambda>limit.
            if limit < end then Ok None
            else Ok (Some (requested_offset, min requested_length (fi_max_xfer_size i))))))"

definition get_fd_download_state :: "fd_internal \<Rightarrow> (u32 \<times> u32) option" where
  "get_fd_download_state i =
     (case fi_mode i of ModeDownload d \<Rightarrow> Some (dl_offset d, dl_length d) | _ \<Rightarrow> None)"

definition set_fd_download_state :: "u32 \<Rightarrow> u32 \<Rightarrow> fd_internal \<Rightarrow> fd_internal" where
  "set_fd_download_state offset len i =
     (case fi_mode i of
        ModeDownload d \<Rightarrow> i\<lparr>fi_mode := ModeDownload (d\<lparr>dl_offset := offset, dl_length := len\<rparr>)\<rparr>
      | _ \<Rightarrow> i)"

definition set_initiator_mode :: "initiator_mode \<Rightarrow> fd_internal \<Rightarrow> fd_internal" where
  "set_initiator_mode mode i = i\<lparr>fi_mode := mode\<rparr>"

definition set_fd_verify_progress :: "u8 \<Rightarrow> fd_internal \<Rightarrow> fd_internal" where
  "set_fd_verify_progress progress i =
     (case fi_mode i of ModeVerify _ \<Rightarrow> i\<lparr>fi_mode := ModeVerify progress\<rparr> | _ \<Rightarrow> i)"

definition set_fd_apply_progress :: "u8 \<Rightarrow> fd_internal \<Rightarrow> fd_internal" where
  "set_fd_apply_progress progress i =
     (case fi_mode i of ModeApply _ \<Rightarrow> i\<lparr>fi_mode := ModeApply progress\<rparr> | _ \<Rightarrow> i)"

definition get_fd_verify_progress :: "fd_internal \<Rightarrow> u8 option" where
  "get_fd_verify_progress i = (case fi_mode i of ModeVerify p \<Rightarrow> Some p | _ \<Rightarrow> None)"

definition get_fd_apply_progress :: "fd_internal \<Rightarrow> u8 option" where
  "get_fd_apply_progress i = (case fi_mode i of ModeApply p \<Rightarrow> Some p | _ \<Rightarrow> None)"

definition set_fd_t1_update_ts :: "u64 \<Rightarrow> fd_internal \<Rightarrow> fd_internal" where
  "set_fd_t1_update_ts timestamp i = i\<lparr>fi_t1_update_ts := timestamp\<rparr>"

definition set_fd_t1_timeout :: "u64 \<Rightarrow> fd_internal \<Rightarrow> fd_internal" where
  "set_fd_t1_timeout timeout i = i\<lparr>fi_t1_timeout := timeout\<rparr>"

definition set_fd_t2_retry_time :: "u64 \<Rightarrow> fd_internal \<Rightarrow> fd_internal" where
  "set_fd_t2_retry_time retry_time i = i\<lparr>fi_t2_retry_time := retry_time\<rparr>"

lemmas fd_setters = set_fd_state_def set_fd_idle_def set_xfer_size_def set_component_def set_update_flags_def
  set_fd_req_def set_fd_req_state_def set_fd_download_state_def set_initiator_mode_def
  set_fd_verify_progress_def set_fd_apply_progress_def set_fd_t1_update_ts_def
  set_fd_t1_timeout_def set_fd_t2_retry_time_def

section \<open>What an update in progress relies on\<close>

text \<open>
  \<open>req_ok\<close>: a sent request knows its instance id, command and time, and instance ids stay
  below 32.  \<open>mode_ok\<close>: in a state the device initiates requests in, the mode is that
  state's mode, and a progress percentage is at most 101.
\<close>

definition req_ok :: "fd_req \<Rightarrow> bool" where
  "req_ok r \<longleftrightarrow>
     (req_state r = ReqSent \<longrightarrow> req_instance_id r \<noteq> None \<and> req_command r \<noteq> None \<and> req_sent_time r \<noteq> None)
     \<and> (\<forall>id. req_instance_id r = Some id \<longrightarrow> id < INSTANCE_ID_COUNT)"

definition mode_ok :: "firmware_device_state \<Rightarrow> initiator_mode \<Rightarrow> bool" where
  "mode_ok st mode \<longleftrightarrow>
     (case mode of
        ModeDownload _ \<Rightarrow> st \<noteq> Verify \<and> st \<noteq> Apply
      | ModeVerify p \<Rightarrow> st \<noteq> Download \<and> st \<noteq> Apply \<and> p \<le> PROGRESS_PERCENT_NOT_SUPPORTED
      | ModeApply p \<Rightarrow> st \<noteq> Download \<and> st \<noteq> Verify \<and> p \<le> PROGRESS_PERCENT_NOT_SUPPORTED)"

text \<open>A finished download has a result that the code can turn back into a \<open>TransferResult\<close>.\<close>

definition download_result_ok :: "fd_internal \<Rightarrow> bool" where
  "download_result_ok i \<longleftrightarrow>
     (fi_state i = Download \<and> req_complete (fi_req i) \<longrightarrow>
        (\<exists>r. req_result (fi_req i) = Some (transfer_result_disc r) \<and> r \<noteq> TransferVendorDefined))"

definition fd_inv :: "fd_internal \<Rightarrow> bool" where
  "fd_inv i \<longleftrightarrow> req_ok (fi_req i) \<and> mode_ok (fi_state i) (fi_mode i) \<and> download_result_ok i \<and> fi_state i \<noteq> Activate"

lemma fd_inv_default: "fd_inv fd_internal_default"
  by (simp add: fd_inv_def fd_internal_default_def fd_internal_new_def fd_req_new_def req_ok_def mode_ok_def
      download_result_ok_def)

lemma alloc_next_instance_id_ok:
  assumes "req_ok (fi_req i)"
  shows "\<exists>id. alloc_next_instance_id oc i = (Ok (Some id), with_instance id i)
    \<and> id < INSTANCE_ID_COUNT"
proof (cases "req_instance_id (fi_req i)")
  case None
  then show ?thesis by (simp add: alloc_next_instance_id_def)
next
  case (Some id)
  with assms have "id < 32" by (simp add: req_ok_def)
  then have "uint id + uint (1 :: u8) < 2 ^ 8" by (simp add: word_less_alt)
  moreover have "(id + 1) mod 32 < 32" by (simp add: word_less_nat_alt unat_mod)
  ultimately show ?thesis using Some by (simp add: alloc_next_instance_id_def add_checked_def)
qed

lemma add_checked_wraps [simp]: "add_checked False a b = Ok (a + b)"
  by (simp add: add_checked_def)

lemma add_checked_not_Err [simp]: "add_checked oc a b \<noteq> Err e"
  by (simp add: add_checked_def)

lemma rbind_eq_Err: "rbind r f = Err e \<longleftrightarrow> r = Err e \<or> (\<exists>x. r = Ok x \<and> f x = Err e)"
  by (cases r) auto

lemma get_fd_download_chunk_not_Err [simp]: "get_fd_download_chunk oc off len i \<noteq> Err e"
  by (simp add: get_fd_download_chunk_def Let_def rbind_eq_Err)

lemma get_fd_download_chunk_no_checks: "get_fd_download_chunk False off len i \<noteq> Panic"
  by (simp add: get_fd_download_chunk_def Let_def)

end
