(* ===== verification/Var_Msgs.thy ===== *)
theory Var_Msgs
  imports Fw_Params
begin

text \<open>
  The firmware update messages with a part of variable length:
  \<open>request_update.rs\<close>, \<open>pass_component.rs\<close>, \<open>update_component.rs\<close> and
  \<open>query_devid.rs\<close> of \<open>pldm-common/src/message/firmware_update/\<close>.  Three requests are
  a fixed part followed by a version string of the length it claims; their codec is
  verified once, in the locale \<open>string_message\<close>.
\<close>

section \<open>A fixed part and a version string\<close>

definition string_message_encode ::
  "nat \<Rightarrow> ('f \<Rightarrow> bytes) \<Rightarrow> ('f \<Rightarrow> u8) \<Rightarrow> 'f \<Rightarrow> bytes \<Rightarrow> bytes \<Rightarrow> (nat, codec_error) outcome \<times> bytes" where
  "string_message_encode sz to_bytes len fixed ver_str buffer =
     (if length buffer < sz + unat (len fixed) then (Err BufferTooShort, buffer)
      else put_all [Some (to_bytes fixed), prefix_chunk (unat (len fixed)) ver_str] 0 buffer)"

definition string_message_decode ::
  "nat \<Rightarrow> (bytes \<Rightarrow> 'f) \<Rightarrow> ('f \<Rightarrow> u8) \<Rightarrow> bytes \<Rightarrow> ('f \<times> bytes, codec_error) outcome" where
  "string_message_decode sz of_bytes len buffer =
     rbind (read_at 0 sz of_bytes buffer) (\<lambda>fixed.
     rbind (read_ver_str sz (unat (len fixed)) buffer) (\<lambda>ver_str. Ok (fixed, ver_str)))"

locale string_message = packed_struct sz to_bytes of_bytes "\<lambda>_. True"
  for sz :: nat and to_bytes :: "'f \<Rightarrow> bytes" and of_bytes :: "bytes \<Rightarrow> 'f" +
  fixes len :: "'f \<Rightarrow> u8" and fixed_of :: "'m \<Rightarrow> 'f" and str_of :: "'m \<Rightarrow> bytes" and mk :: "'f \<Rightarrow> bytes \<Rightarrow> 'm"
  assumes mk_surj: "mk (fixed_of m) (str_of m) = m"
begin

definition message_ser :: "'m \<Rightarrow> bytes" where
  "message_ser m = to_bytes (fixed_of m) @ take (unat (len (fixed_of m))) (str_of m)"

definition wf_message :: "'m \<Rightarrow> bool" where
  "wf_message m \<longleftrightarrow> padded 32 (unat (len (fixed_of m))) (str_of m)"

lemma fixed_length [simp]: "length (to_bytes f) = sz"
  by (rule length_to_bytes) simp

lemma message_decode_append:
  assumes "wf_message m"
  shows "map_ok (\<lambda>(f, s). mk f s) (string_message_decode sz of_bytes len (message_ser m @ rest)) = Ok m"
proof -
  let ?f = "fixed_of m" and ?s = "take (unat (len (fixed_of m))) (str_of m)"
  have "read_at 0 sz of_bytes (to_bytes ?f @ ?s @ rest) = Ok ?f"
    using of_to_bytes [of ?f] by simp
  moreover have "read_ver_str sz (unat (len ?f)) (to_bytes ?f @ ?s @ rest) = Ok (str_of m)"
    using assms by (intro read_ver_str_padded) (simp_all add: wf_message_def)
  ultimately show ?thesis
    by (simp add: string_message_decode_def message_ser_def mk_surj)
qed

lemma message_encode:
  assumes "wf_message m"
  shows "string_message_encode sz to_bytes len (fixed_of m) (str_of m) buf =
    (if length (message_ser m) \<le> length buf
     then (Ok (length (message_ser m)), splice 0 (message_ser m) buf) else (Err BufferTooShort, buf))"
proof -
  let ?f = "fixed_of m"
  have "length (message_ser m) \<le> length buf \<Longrightarrow>
      put_all [Some (to_bytes ?f), prefix_chunk (unat (len ?f)) (str_of m)] 0 buf
      = (Ok (length (message_ser m)), splice 0 (message_ser m) buf)"
    using assms by (intro put_fields [where bss = "[to_bytes ?f, take (unat (len ?f)) (str_of m)]"])
      (simp_all add: wf_message_def padded_def message_ser_def)
  with assms show ?thesis
    by (auto simp: string_message_encode_def message_ser_def wf_message_def padded_def min_def)
qed

lemma message_decode_Ok:
  "string_message_decode sz of_bytes len buf = Ok (f, s) \<Longrightarrow>
   padded 32 (unat (len f)) s \<and> f = of_bytes (take sz buf)"
  by (auto simp: string_message_decode_def read_at_def dest!: read_ver_str_Ok)

lemma message_decode_not_Panic: "string_message_decode sz of_bytes len buf \<noteq> Panic"
  by (simp add: string_message_decode_def rbind_eq_Panic)

lemma message_codec:
  "codec (\<lambda>m. string_message_encode sz to_bytes len (fixed_of m) (str_of m))
     (\<lambda>buf. map_ok (\<lambda>(f, s). mk f s) (string_message_decode sz of_bytes len buf)) message_ser wf_message"
  using message_decode_append [where rest = "[]"]
  by unfold_locales (simp_all add: message_encode message_decode_append message_decode_not_Panic)

end

section \<open>RequestUpdate\<close>

record request_update_request_fixed =
  ruqf_hdr :: pldm_msg_header
  ruqf_max_transfer_size :: u32
  ruqf_num_of_comp :: u16
  ruqf_max_outstanding_transfer_req :: u8
  ruqf_pkg_data_len :: u16
  ruqf_ver_str_type :: u8
  ruqf_ver_str_len :: u8

definition request_update_request_fixed_bytes :: "request_update_request_fixed \<Rightarrow> bytes" where
  [layout]: "request_update_request_fixed_bytes r = hdr_bytes (ruqf_hdr r) @ le32 (ruqf_max_transfer_size r) @ le16 (ruqf_num_of_comp r) @ [ruqf_max_outstanding_transfer_req r] @ le16 (ruqf_pkg_data_len r) @ [ruqf_ver_str_type r] @ [ruqf_ver_str_len r]"

definition request_update_request_fixed_of :: "bytes \<Rightarrow> request_update_request_fixed" where
  [layout]: "request_update_request_fixed_of bs = \<lparr>ruqf_hdr = hdr_of bs,
     ruqf_max_transfer_size = u32_at 3 bs,
     ruqf_num_of_comp = u16_at 7 bs,
     ruqf_max_outstanding_transfer_req = bs ! 9,
     ruqf_pkg_data_len = u16_at 10 bs,
     ruqf_ver_str_type = bs ! 12,
     ruqf_ver_str_len = bs ! 13\<rparr>"

interpretation request_update_request_fixed: packed_struct 14 request_update_request_fixed_bytes request_update_request_fixed_of "\<lambda>_. True"
  by unfold_locales (auto simp: layout length_eq_Cons length_eq_Suc_Cons)

record request_update_request =
  ruq_fixed :: request_update_request_fixed
  ruq_ver_str :: bytes

definition request_update_request_new :: "u8 \<Rightarrow> pldm_msg_type \<Rightarrow> u32 \<Rightarrow> u16 \<Rightarrow> u8 \<Rightarrow> u16 \<Rightarrow> pldm_firmware_string \<Rightarrow> request_update_request" where
  "request_update_request_new inst mt max_size comps outstanding pkg_len ver =
     \<lparr>ruq_fixed = \<lparr>ruqf_hdr = header_new inst mt TypeFwUpdate (fw_update_cmd_disc RequestUpdate),
        ruqf_max_transfer_size = max_size,
        ruqf_num_of_comp = comps,
        ruqf_max_outstanding_transfer_req = outstanding,
        ruqf_pkg_data_len = pkg_len,
        ruqf_ver_str_type = str_type ver,
        ruqf_ver_str_len = str_len ver\<rparr>,
      ruq_ver_str = pad_to PLDM_FWUP_IMAGE_SET_VER_STR_MAX_LEN (str_data ver)\<rparr>"

definition request_update_request_codec_size :: "request_update_request \<Rightarrow> nat" where
  "request_update_request_codec_size m = 14 + unat (ruqf_ver_str_len (ruq_fixed m))"

definition request_update_request_encode :: "request_update_request \<Rightarrow> bytes \<Rightarrow> (nat, codec_error) outcome \<times> bytes" where
  "request_update_request_encode m = string_message_encode 14 request_update_request_fixed_bytes ruqf_ver_str_len (ruq_fixed m) (ruq_ver_str m)"

definition request_update_request_decode :: "bytes \<Rightarrow> (request_update_request, codec_error) outcome" where
  "request_update_request_decode buffer =
     map_ok (\<lambda>(fixed, ver_str). \<lparr>ruq_fixed = fixed, ruq_ver_str = ver_str\<rparr>)
       (string_message_decode 14 request_update_request_fixed_of ruqf_ver_str_len buffer)"

interpretation request_update_request_parts: string_message 14 request_update_request_fixed_bytes request_update_request_fixed_of ruqf_ver_str_len
    ruq_fixed ruq_ver_str "\<lambda>fixed ver_str. \<lparr>ruq_fixed = fixed, ruq_ver_str = ver_str\<rparr>"
  by unfold_locales simp

interpretation request_update_request: codec request_update_request_encode request_update_request_decode request_update_request_parts.message_ser request_update_request_parts.wf_message
  using request_update_request_parts.message_codec
  by (simp add: request_update_request_encode_def [abs_def] request_update_request_decode_def [abs_def])

definition get_comp_image_set_ver_str :: "request_update_request \<Rightarrow> (pldm_firmware_string, codec_error) outcome" where
  "get_comp_image_set_ver_str m =
     (let len = min (unat (ruqf_ver_str_len (ruq_fixed m))) PLDM_FWUP_IMAGE_SET_VER_STR_MAX_LEN in
      rbind (slice 0 len (ruq_ver_str m)) (\<lambda>bs.
        Ok \<lparr>str_type = ruqf_ver_str_type (ruq_fixed m),
            str_len = min (ruqf_ver_str_len (ruq_fixed m)) (of_nat PLDM_FWUP_IMAGE_SET_VER_STR_MAX_LEN),
            str_data = pad_to PLDM_FWUP_IMAGE_SET_VER_STR_MAX_LEN bs\<rparr>))"

record request_update_response_fixed =
  rurf_hdr :: pldm_msg_header
  rurf_completion_code :: u8
  rurf_fd_meta_data_len :: u16
  rurf_fd_will_send_pkg_data_cmd :: u8

definition request_update_response_fixed_bytes :: "request_update_response_fixed \<Rightarrow> bytes" where
  [layout]: "request_update_response_fixed_bytes r = hdr_bytes (rurf_hdr r) @ [rurf_completion_code r] @ le16 (rurf_fd_meta_data_len r) @ [rurf_fd_will_send_pkg_data_cmd r]"

definition request_update_response_fixed_of :: "bytes \<Rightarrow> request_update_response_fixed" where
  [layout]: "request_update_response_fixed_of bs = \<lparr>rurf_hdr = hdr_of bs,
     rurf_completion_code = bs ! 3,
     rurf_fd_meta_data_len = u16_at 4 bs,
     rurf_fd_will_send_pkg_data_cmd = bs ! 6\<rparr>"

interpretation request_update_response_fixed: packed_struct 7 request_update_response_fixed_bytes request_update_response_fixed_of "\<lambda>_. True"
  by unfold_locales (auto simp: layout length_eq_Cons length_eq_Suc_Cons)

record request_update_response =
  rur_fixed :: request_update_response_fixed
  rur_get_pkg_data_max_transfer_size :: "u32 option"

definition request_update_response_new ::
  "u8 \<Rightarrow> u8 \<Rightarrow> u16 \<Rightarrow> u8 \<Rightarrow> u32 option \<Rightarrow> request_update_response" where
  "request_update_response_new inst cc meta_len pkg_cmd max_size =
     \<lparr>rur_fixed = \<lparr>rurf_hdr = header_new inst MsgResponse TypeFwUpdate (fw_update_cmd_disc RequestUpdate),
        rurf_completion_code = cc, rurf_fd_meta_data_len = meta_len, rurf_fd_will_send_pkg_data_cmd = pkg_cmd\<rparr>,
      rur_get_pkg_data_max_transfer_size = max_size\<rparr>"

definition request_update_response_codec_size :: "request_update_response \<Rightarrow> nat" where
  "request_update_response_codec_size r =
     7 + (if rurf_fd_will_send_pkg_data_cmd (rur_fixed r) = 0x02 then 4 else 0)"

text \<open>An optional trailing \<open>u32\<close>\<close>

definition opt_chunk :: "u32 option \<Rightarrow> bytes option list" where
  "opt_chunk x = (case x of None \<Rightarrow> [] | Some v \<Rightarrow> [Some (le32 v)])"

definition opt_bytes :: "u32 option \<Rightarrow> bytes" where
  "opt_bytes x = (case x of None \<Rightarrow> [] | Some v \<Rightarrow> le32 v)"

definition read_opt :: "bool \<Rightarrow> nat \<Rightarrow> bytes \<Rightarrow> (u32 option, codec_error) outcome" where
  "read_opt present offset buffer =
     (if present then map_ok Some (read_at offset 4 (u32_at 0) buffer) else Ok None)"

definition request_update_response_encode ::
  "request_update_response \<Rightarrow> bytes \<Rightarrow> (nat, codec_error) outcome \<times> bytes" where
  "request_update_response_encode r buffer =
     (if length buffer < request_update_response_codec_size r then (Err BufferTooShort, buffer)
      else put_all (Some (request_update_response_fixed_bytes (rur_fixed r))
        # opt_chunk (rur_get_pkg_data_max_transfer_size r)) 0 buffer)"

definition request_update_response_decode :: "bytes \<Rightarrow> (request_update_response, codec_error) outcome" where
  "request_update_response_decode buffer =
     rbind (read_at 0 7 request_update_response_fixed_of buffer) (\<lambda>fixed.
     rbind (read_opt (rurf_fd_will_send_pkg_data_cmd fixed = 0x02) 7 buffer) (\<lambda>max_size.
       Ok \<lparr>rur_fixed = fixed, rur_get_pkg_data_max_transfer_size = max_size\<rparr>))"

definition request_update_response_ser :: "request_update_response \<Rightarrow> bytes" where
  "request_update_response_ser r =
     request_update_response_fixed_bytes (rur_fixed r) @ opt_bytes (rur_get_pkg_data_max_transfer_size r)"

definition wf_request_update_response :: "request_update_response \<Rightarrow> bool" where
  "wf_request_update_response r \<longleftrightarrow>
     (rur_get_pkg_data_max_transfer_size r \<noteq> None \<longleftrightarrow> rurf_fd_will_send_pkg_data_cmd (rur_fixed r) = 0x02)"

lemma opt_chunk_map: "opt_chunk x = map Some (case x of None \<Rightarrow> [] | Some v \<Rightarrow> [le32 v])"
  by (cases x) (simp_all add: opt_chunk_def)

lemma opt_concat: "concat (case x of None \<Rightarrow> [] | Some v \<Rightarrow> [le32 v]) = opt_bytes x"
  by (cases x) (simp_all add: opt_bytes_def)

lemma opt_bytes_length: "length (opt_bytes x) = (if x \<noteq> None then 4 else 0)"
  by (cases x) (simp_all add: opt_bytes_def le32_def)

lemma read_opt_append:
  "length pre = off \<Longrightarrow> (x \<noteq> None \<longleftrightarrow> present) \<Longrightarrow> read_opt present off (pre @ opt_bytes x @ rest) = Ok x"
  by (cases x) (auto simp: read_opt_def opt_bytes_def u32_at_def le32_def)

lemma read_opt_not_Panic [simp]: "read_opt present off buf \<noteq> Panic"
  by (simp add: read_opt_def)

lemma request_update_response_fixed_length [simp]: "length (request_update_response_fixed_bytes f) = 7"
  by (rule request_update_response_fixed.length_to_bytes) simp

lemma request_update_response_decode_append:
  assumes "wf_request_update_response r"
  shows "request_update_response_decode (request_update_response_ser r @ rest) = Ok r"
proof -
  let ?fb = "request_update_response_fixed_bytes (rur_fixed r)"
  have "read_at 0 7 request_update_response_fixed_of (?fb @ xs) = Ok (rur_fixed r)" for xs
    using request_update_response_fixed.of_to_bytes [of "rur_fixed r"] by simp
  moreover have "read_opt (rurf_fd_will_send_pkg_data_cmd (rur_fixed r) = 0x02) 7
      (?fb @ opt_bytes (rur_get_pkg_data_max_transfer_size r) @ rest) = Ok (rur_get_pkg_data_max_transfer_size r)"
    using assms by (intro read_opt_append) (simp_all add: wf_request_update_response_def)
  ultimately show ?thesis
    by (simp add: request_update_response_decode_def request_update_response_ser_def)
qed

interpretation request_update_response: codec request_update_response_encode request_update_response_decode
    request_update_response_ser wf_request_update_response
proof
  fix x :: request_update_response and buf rest :: bytes
  assume wf: "wf_request_update_response x"
  then have sz: "request_update_response_codec_size x = length (request_update_response_ser x)"
    by (simp add: request_update_response_codec_size_def request_update_response_ser_def
        wf_request_update_response_def opt_bytes_length)
  show "length (request_update_response_ser x) \<le> length buf \<Longrightarrow> request_update_response_encode x buf =
      (Ok (length (request_update_response_ser x)), splice 0 (request_update_response_ser x) buf)"
    unfolding request_update_response_encode_def sz opt_chunk_map
    by (simp, rule put_fields [where bss = "request_update_response_fixed_bytes (rur_fixed x) #
        (case rur_get_pkg_data_max_transfer_size x of None \<Rightarrow> [] | Some v \<Rightarrow> [le32 v])"])
       (simp_all add: opt_concat request_update_response_ser_def)
  show "length buf < length (request_update_response_ser x) \<Longrightarrow>
      request_update_response_encode x buf = (Err BufferTooShort, buf)"
    by (simp add: request_update_response_encode_def sz)
  show "request_update_response_decode (request_update_response_ser x) = Ok x"
    using request_update_response_decode_append [OF wf, of "[]"] by simp
  show "request_update_response_decode (request_update_response_ser x @ rest) = Ok x"
    by (rule request_update_response_decode_append [OF wf])
qed (simp add: request_update_response_decode_def rbind_eq_Panic)

section \<open>PassComponentTable\<close>

record pass_component_request_fixed =
  pcqf_hdr :: pldm_msg_header
  pcqf_transfer_flag :: u8
  pcqf_classification :: u16
  pcqf_identifier :: u16
  pcqf_classification_index :: u8
  pcqf_comparison_stamp :: u32
  pcqf_ver_str_type :: u8
  pcqf_ver_str_len :: u8

definition pass_component_request_fixed_bytes :: "pass_component_request_fixed \<Rightarrow> bytes" where
  [layout]: "pass_component_request_fixed_bytes r = hdr_bytes (pcqf_hdr r) @ [pcqf_transfer_flag r] @ le16 (pcqf_classification r) @ le16 (pcqf_identifier r) @ [pcqf_classification_index r] @ le32 (pcqf_comparison_stamp r) @ [pcqf_ver_str_type r] @ [pcqf_ver_str_len r]"

definition pass_component_request_fixed_of :: "bytes \<Rightarrow> pass_component_request_fixed" where
  [layout]: "pass_component_request_fixed_of bs = \<lparr>pcqf_hdr = hdr_of bs,
     pcqf_transfer_flag = bs ! 3,
     pcqf_classification = u16_at 4 bs,
     pcqf_identifier = u16_at 6 bs,
     pcqf_classification_index = bs ! 8,
     pcqf_comparison_stamp = u32_at 9 bs,
     pcqf_ver_str_type = bs ! 13,
     pcqf_ver_str_len = bs ! 14\<rparr>"

interpretation pass_component_request_fixed: packed_struct 15 pass_component_request_fixed_bytes pass_component_request_fixed_of "\<lambda>_. True"
  by unfold_locales (auto simp: layout length_eq_Cons length_eq_Suc_Cons)

record pass_component_request =
  pcq_fixed :: pass_component_request_fixed
  pcq_ver_str :: bytes

definition pass_component_request_new :: "u8 \<Rightarrow> pldm_msg_type \<Rightarrow> transfer_resp_flag \<Rightarrow> component_classification \<Rightarrow> u16 \<Rightarrow> u8 \<Rightarrow> u32 \<Rightarrow> pldm_firmware_string \<Rightarrow> pass_component_request" where
  "pass_component_request_new inst mt tflag cls ident idx stamp ver =
     \<lparr>pcq_fixed = \<lparr>pcqf_hdr = header_new inst mt TypeFwUpdate (fw_update_cmd_disc PassComponentTable),
        pcqf_transfer_flag = transfer_resp_flag_disc tflag,
        pcqf_classification = component_classification_disc cls,
        pcqf_identifier = ident,
        pcqf_classification_index = idx,
        pcqf_comparison_stamp = stamp,
        pcqf_ver_str_type = str_type ver,
        pcqf_ver_str_len = str_len ver\<rparr>,
      pcq_ver_str = pad_to PLDM_FWUP_IMAGE_SET_VER_STR_MAX_LEN (str_data ver)\<rparr>"

definition pass_component_request_codec_size :: "pass_component_request \<Rightarrow> nat" where
  "pass_component_request_codec_size m = 15 + unat (pcqf_ver_str_len (pcq_fixed m))"

definition pass_component_request_encode :: "pass_component_request \<Rightarrow> bytes \<Rightarrow> (nat, codec_error) outcome \<times> bytes" where
  "pass_component_request_encode m = string_message_encode 15 pass_component_request_fixed_bytes pcqf_ver_str_len (pcq_fixed m) (pcq_ver_str m)"

definition pass_component_request_decode :: "bytes \<Rightarrow> (pass_component_request, codec_error) outcome" where
  "pass_component_request_decode buffer =
     map_ok (\<lambda>(fixed, ver_str). \<lparr>pcq_fixed = fixed, pcq_ver_str = ver_str\<rparr>)
       (string_message_decode 15 pass_component_request_fixed_of pcqf_ver_str_len buffer)"

interpretation pass_component_request_parts: string_message 15 pass_component_request_fixed_bytes pass_component_request_fixed_of pcqf_ver_str_len
    pcq_fixed pcq_ver_str "\<lambda>fixed ver_str. \<lparr>pcq_fixed = fixed, pcq_ver_str = ver_str\<rparr>"
  by unfold_locales simp

interpretation pass_component_request: codec pass_component_request_encode pass_component_request_decode pass_component_request_parts.message_ser pass_component_request_parts.wf_message
  using pass_component_request_parts.message_codec
  by (simp add: pass_component_request_encode_def [abs_def] pass_component_request_decode_def [abs_def])

record pass_component_response =
  pcr_hdr :: pldm_msg_header
  pcr_completion_code :: u8
  pcr_comp_resp :: u8
  pcr_comp_resp_code :: u8

definition pass_component_response_bytes :: "pass_component_response \<Rightarrow> bytes" where
  [layout]: "pass_component_response_bytes r = hdr_bytes (pcr_hdr r) @ [pcr_completion_code r] @ [pcr_comp_resp r] @ [pcr_comp_resp_code r]"

definition pass_component_response_of :: "bytes \<Rightarrow> pass_component_response" where
  [layout]: "pass_component_response_of bs = \<lparr>pcr_hdr = hdr_of bs,
     pcr_completion_code = bs ! 3,
     pcr_comp_resp = bs ! 4,
     pcr_comp_resp_code = bs ! 5\<rparr>"

interpretation pass_component_response: packed_struct 6 pass_component_response_bytes pass_component_response_of "\<lambda>_. True"
  by unfold_locales (auto simp: layout length_eq_Cons length_eq_Suc_Cons)

definition pass_component_response_new ::
  "u8 \<Rightarrow> u8 \<Rightarrow> component_response \<Rightarrow> component_response_code \<Rightarrow> pass_component_response" where
  "pass_component_response_new inst cc resp code =
     \<lparr>pcr_hdr = header_new inst MsgResponse TypeFwUpdate (fw_update_cmd_disc PassComponentTable),
      pcr_completion_code = cc, pcr_comp_resp = component_response_disc resp,
      pcr_comp_resp_code = component_response_code_disc code\<rparr>"

section \<open>UpdateComponent\<close>

record update_component_request_fixed =
  ucqf_hdr :: pldm_msg_header
  ucqf_classification :: u16
  ucqf_identifier :: u16
  ucqf_classification_index :: u8
  ucqf_comparison_stamp :: u32
  ucqf_image_size :: u32
  ucqf_option_flags :: u32
  ucqf_ver_str_type :: u8
  ucqf_ver_str_len :: u8

definition update_component_request_fixed_bytes :: "update_component_request_fixed \<Rightarrow> bytes" where
  [layout]: "update_component_request_fixed_bytes r = hdr_bytes (ucqf_hdr r) @ le16 (ucqf_classification r) @ le16 (ucqf_identifier r) @ [ucqf_classification_index r] @ le32 (ucqf_comparison_stamp r) @ le32 (ucqf_image_size r) @ le32 (ucqf_option_flags r) @ [ucqf_ver_str_type r] @ [ucqf_ver_str_len r]"

definition update_component_request_fixed_of :: "bytes \<Rightarrow> update_component_request_fixed" where
  [layout]: "update_component_request_fixed_of bs = \<lparr>ucqf_hdr = hdr_of bs,
     ucqf_classification = u16_at 3 bs,
     ucqf_identifier = u16_at 5 bs,
     ucqf_classification_index = bs ! 7,
     ucqf_comparison_stamp = u32_at 8 bs,
     ucqf_image_size = u32_at 12 bs,
     ucqf_option_flags = u32_at 16 bs,
     ucqf_ver_str_type = bs ! 20,
     ucqf_ver_str_len = bs ! 21\<rparr>"

interpretation update_component_request_fixed: packed_struct 22 update_component_request_fixed_bytes update_component_request_fixed_of "\<lambda>_. True"
  by unfold_locales (auto simp: layout length_eq_Cons length_eq_Suc_Cons)

record update_component_request =
  ucq_fixed :: update_component_request_fixed
  ucq_ver_str :: bytes

definition update_component_request_new :: "u8 \<Rightarrow> pldm_msg_type \<Rightarrow> component_classification \<Rightarrow> u16 \<Rightarrow> u8 \<Rightarrow> u32 \<Rightarrow> u32 \<Rightarrow> u32 \<Rightarrow> pldm_firmware_string \<Rightarrow> update_component_request" where
  "update_component_request_new inst mt cls ident idx stamp img_size flags ver =
     \<lparr>ucq_fixed = \<lparr>ucqf_hdr = header_new inst mt TypeFwUpdate (fw_update_cmd_disc UpdateComponent),
        ucqf_classification = component_classification_disc cls,
        ucqf_identifier = ident,
        ucqf_classification_index = idx,
        ucqf_comparison_stamp = stamp,
        ucqf_image_size = img_size,
        ucqf_option_flags = flags,
        ucqf_ver_str_type = str_type ver,
        ucqf_ver_str_len = str_len ver\<rparr>,
      ucq_ver_str = pad_to PLDM_FWUP_IMAGE_SET_VER_STR_MAX_LEN (str_data ver)\<rparr>"

definition update_component_request_codec_size :: "update_component_request \<Rightarrow> nat" where
  "update_component_request_codec_size m = 22 + unat (ucqf_ver_str_len (ucq_fixed m))"

definition update_component_request_encode :: "update_component_request \<Rightarrow> bytes \<Rightarrow> (nat, codec_error) outcome \<times> bytes" where
  "update_component_request_encode m = string_message_encode 22 update_component_request_fixed_bytes ucqf_ver_str_len (ucq_fixed m) (ucq_ver_str m)"

definition update_component_request_decode :: "bytes \<Rightarrow> (update_component_request, codec_error) outcome" where
  "update_component_request_decode buffer =
     map_ok (\<lambda>(fixed, ver_str). \<lparr>ucq_fixed = fixed, ucq_ver_str = ver_str\<rparr>)
       (string_message_decode 22 update_component_request_fixed_of ucqf_ver_str_len buffer)"

interpretation update_component_request_parts: string_message 22 update_component_request_fixed_bytes update_component_request_fixed_of ucqf_ver_str_len
    ucq_fixed ucq_ver_str "\<lambda>fixed ver_str. \<lparr>ucq_fixed = fixed, ucq_ver_str = ver_str\<rparr>"
  by unfold_locales simp

interpretation update_component_request: codec update_component_request_encode update_component_request_decode update_component_request_parts.message_ser update_component_request_parts.wf_message
  using update_component_request_parts.message_codec
  by (simp add: update_component_request_encode_def [abs_def] update_component_request_decode_def [abs_def])

record update_component_response =
  ucr_hdr :: pldm_msg_header
  ucr_completion_code :: u8
  ucr_compatibility_resp :: u8
  ucr_compatibility_resp_code :: u8
  ucr_option_flags_enabled :: u32
  ucr_time_before_req_fw_data :: u16
  ucr_opaque_max_transfer_size :: "u32 option"

definition update_component_response_new ::
  "u8 \<Rightarrow> u8 \<Rightarrow> compat_response \<Rightarrow> compat_response_code \<Rightarrow> u32 \<Rightarrow> u16 \<Rightarrow> u32 option \<Rightarrow> update_component_response" where
  "update_component_response_new inst cc resp code flags time opaque =
     \<lparr>ucr_hdr = header_new inst MsgResponse TypeFwUpdate (fw_update_cmd_disc UpdateComponent),
      ucr_completion_code = cc,
      ucr_compatibility_resp = compat_response_disc resp,
      ucr_compatibility_resp_code = compat_response_code_disc code,
      ucr_option_flags_enabled = flags,
      ucr_time_before_req_fw_data = time,
      ucr_opaque_max_transfer_size = opaque\<rparr>"

definition update_component_response_codec_size :: "update_component_response \<Rightarrow> nat" where
  "update_component_response_codec_size r =
     3 + 1 * 3 + 4 + 2 + (if ucr_opaque_max_transfer_size r \<noteq> None then 4 else 0)"

definition update_component_response_encode ::
  "update_component_response \<Rightarrow> bytes \<Rightarrow> (nat, codec_error) outcome \<times> bytes" where
  "update_component_response_encode r buffer =
     (if length buffer < update_component_response_codec_size r then (Err BufferTooShort, buffer)
      else put_all
        ([Some (hdr_bytes (ucr_hdr r)), Some [ucr_completion_code r], Some [ucr_compatibility_resp r],
          Some [ucr_compatibility_resp_code r], Some (le32 (ucr_option_flags_enabled r)),
          Some (le16 (ucr_time_before_req_fw_data r))]
         @ opt_chunk (ucr_opaque_max_transfer_size r)) 0 buffer)"

definition update_component_response_decode :: "bytes \<Rightarrow> (update_component_response, codec_error) outcome" where
  "update_component_response_decode buffer =
     rbind (read_at 0 3 hdr_of buffer) (\<lambda>hdr.
     rbind (read_at 3 1 hd buffer) (\<lambda>cc.
     rbind (read_at 4 1 hd buffer) (\<lambda>resp.
     rbind (read_at 5 1 hd buffer) (\<lambda>code.
     rbind (read_at 6 4 (u32_at 0) buffer) (\<lambda>flags.
     rbind (read_at 10 2 (u16_at 0) buffer) (\<lambda>time.
     rbind (read_opt (component_opaque_data flags) 12 buffer) (\<lambda>opaque.
       Ok \<lparr>ucr_hdr = hdr, ucr_completion_code = cc, ucr_compatibility_resp = resp,
           ucr_compatibility_resp_code = code, ucr_option_flags_enabled = flags,
           ucr_time_before_req_fw_data = time, ucr_opaque_max_transfer_size = opaque\<rparr>)))))))"

definition update_component_response_ser :: "update_component_response \<Rightarrow> bytes" where
  "update_component_response_ser r =
     hdr_bytes (ucr_hdr r) @ [ucr_completion_code r, ucr_compatibility_resp r, ucr_compatibility_resp_code r]
     @ le32 (ucr_option_flags_enabled r) @ le16 (ucr_time_before_req_fw_data r)
     @ opt_bytes (ucr_opaque_max_transfer_size r)"

definition wf_update_component_response :: "update_component_response \<Rightarrow> bool" where
  "wf_update_component_response r \<longleftrightarrow>
     (ucr_opaque_max_transfer_size r \<noteq> None \<longleftrightarrow> component_opaque_data (ucr_option_flags_enabled r))"

lemma update_component_response_ser_length [simp]:
  "length (update_component_response_ser r) = update_component_response_codec_size r"
  by (simp add: update_component_response_ser_def update_component_response_codec_size_def le32_def le16_def
      opt_bytes_length)

text \<open>Encoding succeeds whatever the flags; decoding needs the flags to announce the option.\<close>

lemma update_component_response_encode_eq:
  "update_component_response_encode r buf =
     (if length (update_component_response_ser r) \<le> length buf
      then (Ok (length (update_component_response_ser r)), splice 0 (update_component_response_ser r) buf)
      else (Err BufferTooShort, buf))"
proof (cases "length (update_component_response_ser r) \<le> length buf")
  case True
  let ?bss = "[hdr_bytes (ucr_hdr r), [ucr_completion_code r], [ucr_compatibility_resp r],
          [ucr_compatibility_resp_code r], le32 (ucr_option_flags_enabled r),
          le16 (ucr_time_before_req_fw_data r)]
         @ (case ucr_opaque_max_transfer_size r of None \<Rightarrow> [] | Some v \<Rightarrow> [le32 v])"
  have "put_all
        ([Some (hdr_bytes (ucr_hdr r)), Some [ucr_completion_code r], Some [ucr_compatibility_resp r],
          Some [ucr_compatibility_resp_code r], Some (le32 (ucr_option_flags_enabled r)),
          Some (le16 (ucr_time_before_req_fw_data r))]
         @ opt_chunk (ucr_opaque_max_transfer_size r)) 0 buf
      = ((Ok (length (update_component_response_ser r)) :: (nat, codec_error) outcome),
         splice 0 (update_component_response_ser r) buf)"
    using True by (intro put_fields [where bss = ?bss])
      (simp_all add: opt_chunk_map opt_concat update_component_response_ser_def)
  with True show ?thesis by (simp add: update_component_response_encode_def)
qed (simp add: update_component_response_encode_def)

lemma update_component_response_decode_append:
  assumes "wf_update_component_response r"
  shows "update_component_response_decode (update_component_response_ser r @ rest) = Ok r"
proof -
  let ?pre = "hdr_bytes (ucr_hdr r) @ [ucr_completion_code r, ucr_compatibility_resp r, ucr_compatibility_resp_code r]
     @ le32 (ucr_option_flags_enabled r) @ le16 (ucr_time_before_req_fw_data r)"
  have "read_opt (component_opaque_data (ucr_option_flags_enabled r)) 12
      (?pre @ opt_bytes (ucr_opaque_max_transfer_size r) @ rest) = Ok (ucr_opaque_max_transfer_size r)"
    using assms by (intro read_opt_append) (simp_all add: wf_update_component_response_def le32_def le16_def)
  then show ?thesis
    by (simp add: update_component_response_decode_def update_component_response_ser_def
        le32_def le16_def u32_at_def u16_at_def)
qed

interpretation update_component_response: codec update_component_response_encode update_component_response_decode
    update_component_response_ser wf_update_component_response
  using update_component_response_decode_append [where rest = "[]"]
  by unfold_locales
     (simp_all add: update_component_response_encode_eq update_component_response_decode_append,
      simp add: update_component_response_decode_def rbind_eq_Panic)

section \<open>QueryDeviceIdentifiers\<close>

definition ADDITIONAL_DESCRIPTORS_MAX_COUNT :: nat where
  [simp]: "ADDITIONAL_DESCRIPTORS_MAX_COUNT = 4"

record query_devid_request =
  qdq_hdr :: pldm_msg_header

definition query_devid_request_bytes :: "query_devid_request \<Rightarrow> bytes" where
  [layout]: "query_devid_request_bytes r = hdr_bytes (qdq_hdr r)"

definition query_devid_request_of :: "bytes \<Rightarrow> query_devid_request" where
  [layout]: "query_devid_request_of bs = \<lparr>qdq_hdr = hdr_of bs\<rparr>"

interpretation query_devid_request: packed_struct 3 query_devid_request_bytes query_devid_request_of "\<lambda>_. True"
  by unfold_locales (auto simp: layout length_eq_Cons length_eq_Suc_Cons)

definition query_devid_request_new :: "u8 \<Rightarrow> pldm_msg_type \<Rightarrow> query_devid_request" where
  "query_devid_request_new inst mt =
     \<lparr>qdq_hdr = header_new inst mt TypeFwUpdate (fw_update_cmd_disc QueryDeviceIdentifiers)\<rparr>"

record query_devid_response =
  qdr_hdr :: pldm_msg_header
  qdr_completion_code :: u8
  qdr_device_identifiers_len :: u32
  qdr_descriptor_count :: u8
  qdr_initial_descriptor :: descriptor
  qdr_additional_descriptors :: "descriptor list option"

definition query_devid_response_new ::
  "u8 \<Rightarrow> u8 \<Rightarrow> descriptor \<Rightarrow> descriptor list option \<Rightarrow> (query_devid_response, pldm_error) outcome" where
  "query_devid_response_new inst cc initial additional =
     (let descriptor_count = 1 + (case additional of None \<Rightarrow> 0 | Some ds \<Rightarrow> length ds) in
      if ADDITIONAL_DESCRIPTORS_MAX_COUNT + 1 < descriptor_count then Err PE_InvalidDescriptorCount
      else Ok \<lparr>
        qdr_hdr = header_new inst MsgResponse TypeFwUpdate (fw_update_cmd_disc QueryDeviceIdentifiers),
        qdr_completion_code = cc,
        qdr_device_identifiers_len =
          of_nat (descriptor_codec_size initial
            + (case additional of None \<Rightarrow> 0 | Some ds \<Rightarrow> sum_list (map descriptor_codec_size ds))),
        qdr_descriptor_count = of_nat descriptor_count,
        qdr_initial_descriptor = initial,
        qdr_additional_descriptors =
          (if 1 < descriptor_count
           then map_option (\<lambda>ds. ds @ replicate (ADDITIONAL_DESCRIPTORS_MAX_COUNT - length ds) descriptor_default) additional
           else None)\<rparr>)"

text \<open>\<open>additional_descriptors.iter().take(self.descriptor_count as usize - 1)\<close>; a count of zero
  beside a table underflows.\<close>

definition qdr_used :: "query_devid_response \<Rightarrow> (descriptor list, codec_error) outcome" where
  "qdr_used r =
     (case qdr_additional_descriptors r of
        None \<Rightarrow> Ok []
      | Some ds \<Rightarrow> if qdr_descriptor_count r = 0 then Panic else Ok (take (unat (qdr_descriptor_count r) - 1) ds))"

definition query_devid_response_codec_size :: "query_devid_response \<Rightarrow> (nat, codec_error) outcome" where
  "query_devid_response_codec_size r =
     map_ok (\<lambda>ds. 3 + 1 + 4 + 1 + descriptor_codec_size (qdr_initial_descriptor r)
        + sum_list (map descriptor_codec_size ds)) (qdr_used r)"

definition query_devid_response_encode ::
  "query_devid_response \<Rightarrow> bytes \<Rightarrow> (nat, codec_error) outcome \<times> bytes" where
  "query_devid_response_encode r =
     abind (lift (query_devid_response_codec_size r)) (\<lambda>size.
     abind (gets length) (\<lambda>len.
       if len < size then fail BufferTooShort
       else
         abind (put_all [Some (hdr_bytes (qdr_hdr r)), Some [qdr_completion_code r],
           Some (le32 (qdr_device_identifiers_len r)), Some [qdr_descriptor_count r]] 0) (\<lambda>offset.
         abind (encode_at descriptor_encode (qdr_initial_descriptor r) offset) (\<lambda>offset.
         abind (lift (qdr_used r)) (\<lambda>ds.
           encode_list descriptor_encode ds offset)))))"

definition query_devid_response_decode :: "bytes \<Rightarrow> (query_devid_response, codec_error) outcome" where
  "query_devid_response_decode buffer =
     rbind (read_at 0 3 hdr_of buffer) (\<lambda>hdr.
     rbind (read_at 3 1 hd buffer) (\<lambda>cc.
     rbind (read_at 4 4 (u32_at 0) buffer) (\<lambda>ids_len.
     rbind (read_at 8 1 hd buffer) (\<lambda>count.
     rbind (slice_from 9 buffer) (\<lambda>sub.
     rbind (descriptor_decode sub) (\<lambda>initial.
     rbind (if 1 < count
            then map_ok (\<lambda>(ds, _). Some (ds @ replicate (ADDITIONAL_DESCRIPTORS_MAX_COUNT - length ds) descriptor_default))
              (decode_list slice_from descriptor_decode descriptor_codec_size
                (min ADDITIONAL_DESCRIPTORS_MAX_COUNT (unat count - 1)) (9 + descriptor_codec_size initial) buffer)
            else Ok None) (\<lambda>additional.
       Ok \<lparr>qdr_hdr = hdr, qdr_completion_code = cc, qdr_device_identifiers_len = ids_len,
           qdr_descriptor_count = count, qdr_initial_descriptor = initial,
           qdr_additional_descriptors = additional\<rparr>)))))))"

definition query_devid_response_ser :: "query_devid_response \<Rightarrow> bytes" where
  "query_devid_response_ser r =
     hdr_bytes (qdr_hdr r) @ [qdr_completion_code r] @ le32 (qdr_device_identifiers_len r)
     @ [qdr_descriptor_count r] @ descriptor_ser (qdr_initial_descriptor r)
     @ (case qdr_additional_descriptors r of None \<Rightarrow> []
        | Some ds \<Rightarrow> concat (map descriptor_ser (take (unat (qdr_descriptor_count r) - 1) ds)))"

definition wf_query_devid_response :: "query_devid_response \<Rightarrow> bool" where
  "wf_query_devid_response r \<longleftrightarrow>
     wf_descriptor (qdr_initial_descriptor r) \<and>
     (case qdr_additional_descriptors r of
        None \<Rightarrow> qdr_descriptor_count r = 1
      | Some ds \<Rightarrow> 1 < qdr_descriptor_count r \<and> qdr_descriptor_count r \<le> 5 \<and>
          (\<exists>es. length es = unat (qdr_descriptor_count r) - 1 \<and> list_all wf_descriptor es \<and>
             ds = es @ replicate (4 - length es) descriptor_default))"

text \<open>The descriptors in use, of a well-formed response\<close>

lemma qdr_used_wf:
  assumes "wf_query_devid_response r"
  obtains es where "qdr_used r = Ok es" "list_all wf_descriptor es"
    "length es = unat (qdr_descriptor_count r) - 1"
    "query_devid_response_ser r = hdr_bytes (qdr_hdr r) @ [qdr_completion_code r]
       @ le32 (qdr_device_identifiers_len r) @ [qdr_descriptor_count r]
       @ descriptor_ser (qdr_initial_descriptor r) @ concat (map descriptor_ser es)"
    "qdr_additional_descriptors r =
       (if 1 < qdr_descriptor_count r then Some (es @ replicate (4 - length es) descriptor_default) else None)"
    "unat (qdr_descriptor_count r) \<le> 5"
proof (cases "qdr_additional_descriptors r")
  case None
  with assms show thesis
    by (intro that [of "[]"]) (simp_all add: wf_query_devid_response_def qdr_used_def query_devid_response_ser_def)
next
  case (Some ds)
  with assms obtain es where es: "length es = unat (qdr_descriptor_count r) - 1" "list_all wf_descriptor es"
    "ds = es @ replicate (4 - length es) descriptor_default" and c: "1 < qdr_descriptor_count r" "qdr_descriptor_count r \<le> 5"
    by (auto simp: wf_query_devid_response_def)
  from c have "qdr_descriptor_count r \<noteq> 0" by auto
  moreover have "unat (qdr_descriptor_count r) \<le> 5" using c(2) by (simp add: word_le_nat_alt)
  ultimately show thesis
    using Some es c by (intro that [of es]) (simp_all add: qdr_used_def query_devid_response_ser_def)
qed

lemma sum_descriptor_sizes:
  "list_all wf_descriptor es \<Longrightarrow> length (concat (map descriptor_ser es)) = sum_list (map descriptor_codec_size es)"
  by (induction es) simp_all

lemma query_devid_response_size:
  assumes "wf_query_devid_response r"
  shows "query_devid_response_codec_size r = Ok (length (query_devid_response_ser r))"
proof -
  obtain es where "qdr_used r = Ok es" "list_all wf_descriptor es"
    "query_devid_response_ser r = hdr_bytes (qdr_hdr r) @ [qdr_completion_code r]
       @ le32 (qdr_device_identifiers_len r) @ [qdr_descriptor_count r]
       @ descriptor_ser (qdr_initial_descriptor r) @ concat (map descriptor_ser es)"
    by (rule qdr_used_wf [OF assms]) blast
  then show ?thesis
    using assms sum_descriptor_sizes [of es]
    by (simp add: query_devid_response_codec_size_def wf_query_devid_response_def le32_def)
qed

lemma query_devid_response_encode_fits:
  assumes wf: "wf_query_devid_response r" and fits: "length (query_devid_response_ser r) \<le> length buf"
  shows "query_devid_response_encode r buf
    = (Ok (length (query_devid_response_ser r)), splice 0 (query_devid_response_ser r) buf)"
proof -
  let ?bss = "[hdr_bytes (qdr_hdr r), [qdr_completion_code r], le32 (qdr_device_identifiers_len r), [qdr_descriptor_count r]]"
  let ?d = "qdr_initial_descriptor r"
  obtain es where es: "qdr_used r = Ok es" "list_all wf_descriptor es"
    and ser: "query_devid_response_ser r = concat ?bss @ descriptor_ser ?d @ concat (map descriptor_ser es)"
    by (rule qdr_used_wf [OF wf]) simp
  have d: "wf_descriptor ?d" using wf by (simp add: wf_query_devid_response_def)
  have put: "put_all [Some (hdr_bytes (qdr_hdr r)), Some [qdr_completion_code r],
           Some (le32 (qdr_device_identifiers_len r)), Some [qdr_descriptor_count r]] 0 buf
      = ((Ok (length (concat ?bss)) :: (nat, codec_error) outcome), splice 0 (concat ?bss) buf)"
    using fits unfolding ser by (intro put_fields [where bss = ?bss]) simp_all
  have ini: "encode_at descriptor_encode ?d (length (concat ?bss)) (splice 0 (concat ?bss) buf)
      = (Ok (length (concat ?bss @ descriptor_ser ?d)), splice 0 (concat ?bss @ descriptor_ser ?d) buf)"
    using fits d unfolding ser by (intro descriptor.encode_at_fits) simp_all
  have rest: "encode_list descriptor_encode es (length (concat ?bss @ descriptor_ser ?d))
        (splice 0 (concat ?bss @ descriptor_ser ?d) buf)
      = (Ok (length (query_devid_response_ser r)), splice 0 (query_devid_response_ser r) buf)"
    using fits descriptor.encode_list_fits [OF es(2), of "concat ?bss @ descriptor_ser ?d" buf] unfolding ser by simp
  have size: "query_devid_response_codec_size r = Ok (length (query_devid_response_ser r))"
    by (rule query_devid_response_size [OF wf])
  show ?thesis
    using fits
    by (simp only: query_devid_response_encode_def abind_def lift_def gets_def size put ini rest es(1)
        prod.case outcome.case if_False not_less [symmetric])
qed

lemma query_devid_response_decode_append:
  assumes wf: "wf_query_devid_response r"
  shows "query_devid_response_decode (query_devid_response_ser r @ rest) = Ok r"
proof -
  let ?pre = "hdr_bytes (qdr_hdr r) @ [qdr_completion_code r] @ le32 (qdr_device_identifiers_len r) @ [qdr_descriptor_count r]"
  let ?d = "qdr_initial_descriptor r"
  obtain es where es: "list_all wf_descriptor es" "length es = unat (qdr_descriptor_count r) - 1"
    and ser: "query_devid_response_ser r = ?pre @ descriptor_ser ?d @ concat (map descriptor_ser es)"
    and add: "qdr_additional_descriptors r =
       (if 1 < qdr_descriptor_count r then Some (es @ replicate (4 - length es) descriptor_default) else None)"
    and c5: "unat (qdr_descriptor_count r) \<le> 5"
    by (rule qdr_used_wf [OF wf]) simp
  have d: "wf_descriptor ?d" using wf by (simp add: wf_query_devid_response_def)
  define B where "B = query_devid_response_ser r @ rest"
  have B: "B = ?pre @ descriptor_ser ?d @ concat (map descriptor_ser es) @ rest"
    unfolding B_def ser by simp
  have f: "read_at 0 3 hdr_of B = Ok (qdr_hdr r)" "read_at 3 1 hd B = Ok (qdr_completion_code r)"
    "read_at 4 4 (u32_at 0) B = Ok (qdr_device_identifiers_len r)" "read_at 8 1 hd B = Ok (qdr_descriptor_count r)"
    unfolding B by (simp_all add: le32_def u32_at_def)
  have sub: "slice_from 9 B = (Ok (descriptor_ser ?d @ concat (map descriptor_ser es) @ rest) :: (_, codec_error) outcome)"
    unfolding B by (simp add: slice_from_def le32_def)
  have ini: "descriptor_decode (descriptor_ser ?d @ concat (map descriptor_ser es) @ rest) = Ok ?d"
    by (rule descriptor_decode_append [OF d])
  have cnt: "min ADDITIONAL_DESCRIPTORS_MAX_COUNT (unat (qdr_descriptor_count r) - 1) = length es"
    using es(2) c5 by simp
  have off: "9 + descriptor_codec_size ?d = length (?pre @ descriptor_ser ?d)"
    using d by (simp add: le32_def)
  have l: "decode_list slice_from descriptor_decode descriptor_codec_size (length es) (9 + descriptor_codec_size ?d) B
      = Ok (es, length (?pre @ descriptor_ser ?d) + length (concat (map descriptor_ser es)))"
    using descriptor.decode_list_ser [of slice_from descriptor_codec_size es "?pre @ descriptor_ser ?d" rest] es(1)
    unfolding off B append_assoc by (simp add: slice_from_in_range)
  have "query_devid_response_decode B = Ok r"
    unfolding query_devid_response_decode_def f sub ini rbind.simps cnt l map_ok.simps
    using add by simp
  then show ?thesis unfolding B_def .
qed

lemma query_devid_response_decode_not_Panic [simp]: "query_devid_response_decode bs \<noteq> Panic"
proof -
  have "decode_list slice_from descriptor_decode descriptor_codec_size n (9 + descriptor_codec_size d) bs \<noteq> Panic"
    if "descriptor_decode (drop 9 bs) = Ok d" "9 \<le> length bs" for n d
    using descriptor_decode_Ok [OF that(1)] that(2) descriptor_decode_Ok
    by (intro decode_list_slice_no_panic) (auto simp: le_diff_conv2 add.commute)
  then show ?thesis
    by (auto simp: query_devid_response_decode_def rbind_eq_Panic slice_from_def read_at_def)
qed

interpretation query_devid_response:
  codec query_devid_response_encode query_devid_response_decode query_devid_response_ser wf_query_devid_response
proof
  fix x :: query_devid_response and buf rest :: bytes
  assume wf: "wf_query_devid_response x"
  show "length (query_devid_response_ser x) \<le> length buf \<Longrightarrow> query_devid_response_encode x buf =
      (Ok (length (query_devid_response_ser x)), splice 0 (query_devid_response_ser x) buf)"
    by (rule query_devid_response_encode_fits [OF wf])
  show "length buf < length (query_devid_response_ser x) \<Longrightarrow>
      query_devid_response_encode x buf = (Err BufferTooShort, buf)"
    using query_devid_response_size [OF wf]
    by (simp add: query_devid_response_encode_def abind_def lift_def gets_def fail_def)
  show "query_devid_response_decode (query_devid_response_ser x) = Ok x"
    using query_devid_response_decode_append [OF wf, of "[]"] by simp
  show "query_devid_response_decode (query_devid_response_ser x @ rest) = Ok x"
    by (rule query_devid_response_decode_append [OF wf])
qed simp

lemma query_devid_response_new_wf:
  assumes "query_devid_response_new inst cc d additional = Ok r" and "wf_descriptor d"
    and "\<And>ds. additional = Some ds \<Longrightarrow> list_all wf_descriptor ds"
  shows "wf_query_devid_response r"
proof (cases additional)
  case None
  with assms show ?thesis by (auto simp: query_devid_response_new_def wf_query_devid_response_def)
next
  case (Some ds)
  with assms(1) have len: "length ds \<le> 4" by (auto simp: query_devid_response_new_def Let_def split: if_splits)
  then have u: "unat (1 + of_nat (length ds) :: u8) = 1 + length ds"
    using unat_of_nat [of "1 + length ds", where 'a = 8] by simp
  show ?thesis
  proof (cases ds)
    case Nil
    with Some assms show ?thesis by (auto simp: query_devid_response_new_def wf_query_devid_response_def)
  next
    case (Cons e es)
    with Some assms len u show ?thesis
      by (auto simp: query_devid_response_new_def wf_query_devid_response_def word_less_nat_alt word_le_nat_alt
          intro!: exI [of _ "e # es"])
  qed
qed

section \<open>Properties\<close>

text \<open>The \<open>QueryDeviceIdentifiers\<close> response built from up to five well-formed descriptors is
  what the Update Agent decodes from any buffer it was encoded into, its length field is the
  length of the descriptors on the wire, and more than five descriptors are refused.\<close>

theorem query_devid_roundtrip:
  assumes "wf_descriptor d" and "list_all wf_descriptor ds"
  shows "(4 < length ds \<longleftrightarrow> query_devid_response_new inst cc d (Some ds) = Err PE_InvalidDescriptorCount)
    \<and> (\<forall>r buf n buf'. query_devid_response_new inst cc d (Some ds) = Ok r \<longrightarrow>
          query_devid_response_encode r buf = (Ok n, buf') \<longrightarrow>
          query_devid_response_decode buf' = Ok r \<and> length buf' = length buf \<and> drop n buf' = drop n buf
          \<and> n = 9 + unat (qdr_device_identifiers_len r))"
proof (intro conjI allI impI)
  show "4 < length ds \<longleftrightarrow> query_devid_response_new inst cc d (Some ds) = Err PE_InvalidDescriptorCount"
    by (auto simp: query_devid_response_new_def Let_def)
  fix r buf n buf'
  assume new: "query_devid_response_new inst cc d (Some ds) = Ok r"
    and enc: "query_devid_response_encode r buf = (Ok n, buf')"
  have wf: "wf_query_devid_response r"
    using query_devid_response_new_wf [OF new assms(1)] assms(2) by simp
  from query_devid_response.roundtrip_whole [OF wf enc] show "query_devid_response_decode buf' = Ok r" .
  from query_devid_response.enc_length [OF wf, of buf] enc show "length buf' = length buf" by simp
  from query_devid_response.enc_frame [OF wf enc] show "drop n buf' = drop n buf" .
  have bound: "x \<in> set ds \<Longrightarrow> descriptor_codec_size x \<le> 68" for x
    using assms(2) by (auto simp: list_all_iff wf_descriptor_def padded_def descriptor_codec_size_def)
  then have "sum_list (map descriptor_codec_size ds) \<le> 68 * length ds"
    by (induction ds) (auto intro: add_mono)
  moreover have "descriptor_codec_size d \<le> 68"
    using assms(1) by (simp add: wf_descriptor_def padded_def descriptor_codec_size_def)
  moreover have len: "length ds \<le> 4"
    using new by (auto simp: query_devid_response_new_def Let_def split: if_splits)
  ultimately have "descriptor_codec_size d + sum_list (map descriptor_codec_size ds) < 2 ^ 32" by simp
  then have "unat (of_nat (descriptor_codec_size d + sum_list (map descriptor_codec_size ds)) :: u32)
      = descriptor_codec_size d + sum_list (map descriptor_codec_size ds)"
    unfolding unat_of_nat by simp
  moreover have "qdr_device_identifiers_len r = of_nat (descriptor_codec_size d + sum_list (map descriptor_codec_size ds))"
    using new by (auto simp: query_devid_response_new_def Let_def split: if_splits)
  ultimately have u: "unat (qdr_device_identifiers_len r) = descriptor_codec_size d + sum_list (map descriptor_codec_size ds)"
    by simp
  have c: "qdr_used r = Ok ds" "qdr_initial_descriptor r = d"
    using new len unat_of_nat [of "1 + length ds", where 'a = 8]
    by (auto simp: query_devid_response_new_def Let_def qdr_used_def word_less_nat_alt split: if_splits)
  have "query_devid_response_codec_size r = Ok n"
    using query_devid_response.enc_cases [OF wf, of buf] enc query_devid_response_size [OF wf]
    by (simp split: if_splits)
  with c u show "n = 9 + unat (qdr_device_identifiers_len r)"
    by (simp add: query_devid_response_codec_size_def)
qed

theorem query_devid_roundtrip_witness:
  "query_devid_response_new 1 0 descriptor_default (Some (replicate 5 descriptor_default)) = Err PE_InvalidDescriptorCount"
proof -
  have d: "wf_descriptor descriptor_default"
    by (simp add: wf_descriptor_def descriptor_default_def padded_def)
  then have "list_all wf_descriptor (replicate 5 descriptor_default)" by (simp add: list_all_iff)
  from query_devid_roundtrip [OF d this] show ?thesis by simp
qed

text \<open>C32: whatever bytes arrive, none of the decoders of variable-length messages panics; a
  request that decodes carries a version string of at most 32 bytes, zero-padded to the array.\<close>

theorem var_decoders_total:
  "request_update_request_decode bs \<noteq> Panic \<and> request_update_response_decode bs \<noteq> Panic
   \<and> pass_component_request_decode bs \<noteq> Panic \<and> update_component_request_decode bs \<noteq> Panic
   \<and> update_component_response_decode bs \<noteq> Panic \<and> query_devid_response_decode bs \<noteq> Panic
   \<and> (\<forall>r. request_update_request_decode bs = Ok r \<longrightarrow>
        padded 32 (unat (ruqf_ver_str_len (ruq_fixed r))) (ruq_ver_str r))
   \<and> (\<forall>r. pass_component_request_decode bs = Ok r \<longrightarrow>
        padded 32 (unat (pcqf_ver_str_len (pcq_fixed r))) (pcq_ver_str r))
   \<and> (\<forall>r. update_component_request_decode bs = Ok r \<longrightarrow>
        padded 32 (unat (ucqf_ver_str_len (ucq_fixed r))) (ucq_ver_str r))"
proof -
  have "\<forall>r. request_update_request_decode bs = Ok r \<longrightarrow> padded 32 (unat (ruqf_ver_str_len (ruq_fixed r))) (ruq_ver_str r)"
    using request_update_request_parts.message_decode_Ok by (fastforce simp: request_update_request_decode_def)
  moreover have "\<forall>r. pass_component_request_decode bs = Ok r \<longrightarrow> padded 32 (unat (pcqf_ver_str_len (pcq_fixed r))) (pcq_ver_str r)"
    using pass_component_request_parts.message_decode_Ok by (fastforce simp: pass_component_request_decode_def)
  moreover have "\<forall>r. update_component_request_decode bs = Ok r \<longrightarrow> padded 32 (unat (ucqf_ver_str_len (ucq_fixed r))) (ucq_ver_str r)"
    using update_component_request_parts.message_decode_Ok by (fastforce simp: update_component_request_decode_def)
  ultimately show ?thesis
    by (simp add: request_update_request.dec_no_panic request_update_response.dec_no_panic
        pass_component_request.dec_no_panic update_component_request.dec_no_panic
        update_component_response.dec_no_panic)
qed

theorem var_decoders_total_witness:
  "\<exists>r. update_component_request_decode (replicate 22 0) = Ok r \<and>
     padded 32 (unat (ucqf_ver_str_len (ucq_fixed r))) (ucq_ver_str r)"
proof -
  have "\<exists>r. update_component_request_decode (replicate 22 0) = Ok r" by (rule exI) code_simp
  then show ?thesis using var_decoders_total [of "replicate 22 0"] by blast
qed

text \<open>A response without a transfer size whose flags announce opaque data cannot be decoded.\<close>

lemma update_component_response_mismatch:
  "update_component_response_decode (update_component_response_ser (update_component_response_new inst cc resp code flags time None)) =
    (if component_opaque_data flags then Err BufferTooShort
     else Ok (update_component_response_new inst cc resp code flags time None))"
  (is "update_component_response_decode (update_component_response_ser ?r) = _")
proof (cases "component_opaque_data flags")
  case True
  then show ?thesis
    by (simp add: update_component_response_decode_def update_component_response_ser_def le32_def le16_def
        u32_at_def u16_at_def opt_bytes_def read_opt_def update_component_response_new_def)
next
  case False
  then have "wf_update_component_response ?r"
    by (simp add: wf_update_component_response_def update_component_response_new_def)
  from update_component_response.dec_ser [OF this] False show ?thesis by simp
qed

end
