(* ===== verification/Fd_Ops.thy ===== *)
theory Fd_Ops
  imports Fd_Internal Var_Msgs
begin

text \<open>
  The platform callbacks, the trait \<open>FdOps\<close> of
  \<open>pldm-interface/src/firmware_device/fd_ops.rs\<close>.  The trait's implementation is the
  platform's, so it is a parameter: a record of functions on a platform state \<open>'p\<close> of
  the platform's own.  Every callback returns (its result is a sum, not an outcome), and a
  \<open>&mut\<close> argument becomes an argument and a result.
\<close>

datatype component_operation = OpPassComponent | OpUpdateComponent

type_synonym ('p, 'a) callback = "'p \<Rightarrow> (fd_ops_error + 'a) \<times> 'p"
type_synonym ('p, 'o, 'a) out_callback = "'o \<Rightarrow> 'p \<Rightarrow> (fd_ops_error + 'a) \<times> 'o \<times> 'p"

record 'p fd_ops =
  get_device_identifiers :: "('p, descriptor list, nat) out_callback"
  get_firmware_parms :: "('p, firmware_parameters, unit) out_callback"
  ops_get_xfer_size :: "nat \<Rightarrow> ('p, nat) callback"
  handle_component :: "firmware_component \<Rightarrow> firmware_parameters \<Rightarrow> component_operation \<Rightarrow> ('p, component_response_code) callback"
  query_download_offset_and_length :: "firmware_component \<Rightarrow> ('p, nat \<times> nat) callback"
  download_fw_data :: "nat \<Rightarrow> bytes \<Rightarrow> firmware_component \<Rightarrow> ('p, transfer_result) callback"
  is_download_complete :: "firmware_component \<Rightarrow> 'p \<Rightarrow> bool \<times> 'p"
  query_download_progress :: "firmware_component \<Rightarrow> ('p, progress_percent, unit) out_callback"
  ops_verify :: "firmware_component \<Rightarrow> ('p, progress_percent, verify_result) out_callback"
  ops_apply :: "firmware_component \<Rightarrow> ('p, progress_percent, apply_result) out_callback"
  ops_activate :: "u8 \<Rightarrow> ('p, u16, u8) out_callback"
  cancel_update_component :: "firmware_component \<Rightarrow> ('p, unit) callback"
  handle_pending_component :: "pending_component \<Rightarrow> firmware_parameters \<Rightarrow> ('p, pending_component_result) callback"
  get_non_functional_component_info :: "('p, non_functioning_indication \<times> u64) callback"
  ops_update_security_revision :: "security_revision_component \<Rightarrow> firmware_parameters \<Rightarrow> ('p, security_revision_result) callback"
  ops_now :: "'p \<Rightarrow> u64 \<times> 'p"

section \<open>The context and its handlers\<close>

text \<open>\<open>FirmwareDeviceContext\<close>: the internal state, and the platform state behind \<open>ops\<close>.\<close>

record 'p fd_context =
  ctx_internal :: fd_internal
  ctx_plat :: 'p

type_synonym ('p, 'a) fd_handler = "('p fd_context, 'a) handler"

definition self_internal :: "('p, fd_internal) fd_handler" where
  "self_internal = gets (\<lambda>s. ctx_internal (fst s))"

definition update_internal :: "(fd_internal \<Rightarrow> fd_internal) \<Rightarrow> ('p, unit) fd_handler" where
  "update_internal f = modify (\<lambda>(c, payload). (c\<lparr>ctx_internal := f (ctx_internal c)\<rparr>, payload))"

text \<open>\<open>self.ops.callback(..).map_err(MsgHandlerError::FdOps)?\<close>\<close>

definition call :: "('p, 'a) callback \<Rightarrow> ('p, 'a) fd_handler" where
  "call f = (\<lambda>(c, payload).
     case f (ctx_plat c) of
       (Inl e, p) \<Rightarrow> (Err (FdOps e), (c\<lparr>ctx_plat := p\<rparr>, payload))
     | (Inr x, p) \<Rightarrow> (Ok x, (c\<lparr>ctx_plat := p\<rparr>, payload)))"

text \<open>With an out parameter: what the callback left in it, if the call succeeded.\<close>

definition call_out :: "('p, 'o, 'a) out_callback \<Rightarrow> 'o \<Rightarrow> ('p, 'a \<times> 'o) fd_handler" where
  "call_out f out = call (\<lambda>p. case f out p of
     (Inl e, out', p') \<Rightarrow> (Inl e, p') | (Inr x, out', p') \<Rightarrow> (Inr (x, out'), p'))"

definition ask :: "('p \<Rightarrow> 'a \<times> 'p) \<Rightarrow> ('p, 'a) fd_handler" where
  "ask f = (\<lambda>(c, payload). case f (ctx_plat c) of (x, p) \<Rightarrow> (Ok x, (c\<lparr>ctx_plat := p\<rparr>, payload)))"

section \<open>What the platform guarantees\<close>

text \<open>
  \<open>platform_wf\<close>: the callbacks keep the arrays they are handed at their size and fill them
  with well-formed values (descriptors and version strings no longer than their arrays,
  at most eight components), and a progress percentage is one \<open>ProgressPercent\<close> can hold.
  \<open>standard_codes\<close>: the platform does not answer with a \<open>VendorDefined\<close> code.
\<close>

definition platform_wf :: "'p fd_ops \<Rightarrow> bool" where
  "platform_wf ops \<longleftrightarrow>
     (\<forall>ds p. list_all wf_descriptor ds \<longrightarrow>
        list_all wf_descriptor (fst (snd (get_device_identifiers ops ds p)))
        \<and> length (fst (snd (get_device_identifiers ops ds p))) = length ds)
     \<and> (\<forall>fp p. wf_firmware_parameters fp \<longrightarrow> wf_firmware_parameters (fst (snd (get_firmware_parms ops fp p))))
     \<and> (\<forall>c v p. progress_ok v \<longrightarrow>
          progress_ok (fst (snd (query_download_progress ops c v p)))
          \<and> progress_ok (fst (snd (ops_verify ops c v p)))
          \<and> progress_ok (fst (snd (ops_apply ops c v p))))"

definition standard_codes :: "'p fd_ops \<Rightarrow> bool" where
  "standard_codes ops \<longleftrightarrow>
     (\<forall>c fp op p. fst (handle_component ops c fp op p) \<noteq> Inr CompVendorDefined)
     \<and> (\<forall>off data c p. fst (download_fw_data ops off data c p) \<noteq> Inr TransferVendorDefined)"

section \<open>The platform of the tests\<close>

text \<open>
  \<open>TestFdOps\<close> of the unit tests of \<open>fd_context.rs\<close>, with its clock as the platform state:
  the tests' clock stands still, a scenario can let time pass.
\<close>

definition test_fd_ops :: "u64 fd_ops" where
  "test_fd_ops = \<lparr>
     get_device_identifiers = (\<lambda>ds p. (Inr 1, (case ds of [] \<Rightarrow> [] | d # ds \<Rightarrow> descriptor_default # ds), p)),
     get_firmware_parms = (\<lambda>fp p. (Inr (), fp, p)),
     ops_get_xfer_size = (\<lambda>n p. (Inr n, p)),
     handle_component = (\<lambda>_ _ _ p. (Inr CompCanBeUpdated, p)),
     query_download_offset_and_length = (\<lambda>_ p. (Inr (0, 32), p)),
     download_fw_data = (\<lambda>_ _ _ p. (Inr TransferSuccess, p)),
     is_download_complete = (\<lambda>_ p. (True, p)),
     query_download_progress = (\<lambda>_ _ p. (Inr (), ProgressPercent 100, p)),
     ops_verify = (\<lambda>_ _ p. (Inr VerifySuccess, ProgressPercent 100, p)),
     ops_apply = (\<lambda>_ _ p. (Inr ApplySuccess, ProgressPercent 100, p)),
     ops_activate = (\<lambda>_ t p. (Inr (base_cc_disc CC_Success), t, p)),
     cancel_update_component = (\<lambda>_ p. (Inr (), p)),
     handle_pending_component = (\<lambda>_ _ p. (Inr (PendingActivated 100), p)),
     get_non_functional_component_info = (\<lambda>p. (Inr (ComponentsFunctioning, 0), p)),
     ops_update_security_revision = (\<lambda>_ _ p. (Inr RevisionUpdated, p)),
     ops_now = (\<lambda>p. (p, p))\<rparr>"

lemma wf_descriptor_default [simp]: "wf_descriptor descriptor_default"
  by (simp add: wf_descriptor_def descriptor_default_def padded_def)

lemma test_platform_wf: "platform_wf test_fd_ops"
  by (auto simp: platform_wf_def test_fd_ops_def progress_ok_def split: list.split)

lemma test_standard_codes: "standard_codes test_fd_ops"
  by (simp add: standard_codes_def test_fd_ops_def)

section \<open>Preconditions of the primitive steps\<close>

lemma wp_self_internal [wp_simps]: "wp self_internal Q E s = Q (ctx_internal (fst s)) s"
  by (simp add: self_internal_def wp_simps)

lemma wp_update_internal [wp_simps]:
  "wp (update_internal f) Q E s = Q () ((fst s)\<lparr>ctx_internal := f (ctx_internal (fst s))\<rparr>, snd s)"
  by (cases s) (simp add: update_internal_def wp_simps)

text \<open>\<open>callI\<close>: whatever the callback answers, the rest must be right.\<close>

lemma wp_callI:
  assumes "\<And>x p. f (ctx_plat (fst s)) = (Inr x, p) \<Longrightarrow> Q x ((fst s)\<lparr>ctx_plat := p\<rparr>, snd s)"
    and "\<And>e p. f (ctx_plat (fst s)) = (Inl e, p) \<Longrightarrow> E (FdOps e) ((fst s)\<lparr>ctx_plat := p\<rparr>, snd s)"
  shows "wp (call f) Q E s"
  using assms by (cases s) (auto simp: wp_def call_def split: prod.split sum.split)

lemma wp_call_outI:
  assumes "\<And>x out' p. f out (ctx_plat (fst s)) = (Inr x, out', p) \<Longrightarrow> Q (x, out') ((fst s)\<lparr>ctx_plat := p\<rparr>, snd s)"
    and "\<And>e out' p. f out (ctx_plat (fst s)) = (Inl e, out', p) \<Longrightarrow> E (FdOps e) ((fst s)\<lparr>ctx_plat := p\<rparr>, snd s)"
  shows "wp (call_out f out) Q E s"
  unfolding call_out_def
  by (rule wp_callI) (use assms in \<open>auto split: prod.splits sum.splits\<close>)

lemma wp_askI:
  assumes "\<And>x p. f (ctx_plat (fst s)) = (x, p) \<Longrightarrow> Q x ((fst s)\<lparr>ctx_plat := p\<rparr>, snd s)"
  shows "wp (ask f) Q E s"
  using assms by (cases s) (auto simp: wp_def ask_def split: prod.split)

section \<open>Runs\<close>

text \<open>
  \<open>runs i m Q\<close>: from the internal state \<open>i\<close>, whatever the payload and the platform,
  \<open>m\<close> does not panic, keeps the payload's length, and ends with an outcome and an
  internal state that satisfy \<open>Q\<close>.  The rules execute a handler symbolically: the
  internal state is known exactly, the platform's answers are arbitrary.
\<close>

definition runs ::
  "fd_internal \<Rightarrow> ('p, 'a) fd_handler \<Rightarrow> (('a, msg_handler_error) outcome \<Rightarrow> fd_internal \<Rightarrow> bool) \<Rightarrow> bool" where
  "runs i m Q \<longleftrightarrow> (\<forall>s. ctx_internal (fst s) = i \<longrightarrow>
     wp m (\<lambda>x s'. Q (Ok x) (ctx_internal (fst s')) \<and> length (snd s') = length (snd s))
          (\<lambda>e s'. Q (Err e) (ctx_internal (fst s')) \<and> length (snd s') = length (snd s)) s)"

named_theorems runs_rules \<open>symbolic execution of handlers\<close>

lemma runsI:
  assumes "\<And>c b. ctx_internal c = i \<Longrightarrow>
     wp m (\<lambda>x s'. Q (Ok x) (ctx_internal (fst s')) \<and> length (snd s') = length b)
          (\<lambda>e s'. Q (Err e) (ctx_internal (fst s')) \<and> length (snd s') = length b) (c, b)"
  shows "runs i m Q"
  unfolding runs_def
proof (intro allI impI)
  fix s :: "'a fd_context \<times> bytes" assume "ctx_internal (fst s) = i"
  with assms [of "fst s" "snd s"]
  show "wp m (\<lambda>x s'. Q (Ok x) (ctx_internal (fst s')) \<and> length (snd s') = length (snd s))
          (\<lambda>e s'. Q (Err e) (ctx_internal (fst s')) \<and> length (snd s') = length (snd s)) s" by simp
qed

lemma runsD:
  "runs i m Q \<Longrightarrow> ctx_internal c = i \<Longrightarrow> length b = n \<Longrightarrow>
     wp m (\<lambda>x s'. Q (Ok x) (ctx_internal (fst s')) \<and> length (snd s') = n)
          (\<lambda>e s'. Q (Err e) (ctx_internal (fst s')) \<and> length (snd s') = n) (c, b)"
  unfolding runs_def by (drule spec [of _ "(c, b)"]) simp

lemma runs_result:
  assumes "runs i m Q" and "ctx_internal c = i" and "m (c, b) = (r, (c', b'))"
  shows "r \<noteq> Panic \<and> Q r (ctx_internal c') \<and> length b' = length b"
  using runsD [OF assms(1,2), of b "length b"] assms(3) by (cases r) (simp_all add: wp_def)

lemma runs_mono: "runs i m Q \<Longrightarrow> (\<And>r i'. Q r i' \<Longrightarrow> Q' r i') \<Longrightarrow> runs i m Q'"
  by (rule runsI) (erule (1) wp_mono [OF runsD [OF _ _ refl]]; simp)

lemma runs_ret [runs_rules]: "Q (Ok x) i \<Longrightarrow> runs i (ret x) Q"
  by (rule runsI) (simp add: wp_simps)

lemma runs_fail [runs_rules]: "Q (Err e) i \<Longrightarrow> runs i (fail e) Q"
  by (rule runsI) (simp add: wp_simps)

lemma runs_if [runs_rules]:
  "(b \<Longrightarrow> runs i m1 Q) \<Longrightarrow> (\<not> b \<Longrightarrow> runs i m2 Q) \<Longrightarrow> runs i (if b then m1 else m2) Q"
  by simp

lemma runs_failure [runs_rules]:
  "(\<And>n. Q (Ok n) i) \<Longrightarrow> (\<And>e. Q (Err (Codec e)) i) \<Longrightarrow> runs i (failure cc) Q"
  by (rule runsI, rule wp_failureI) simp_all

lemma runs_respond [runs_rules]:
  "sound_enc m \<Longrightarrow> (\<And>n. Q (Ok n) i) \<Longrightarrow> (\<And>e. Q (Err (Codec e)) i) \<Longrightarrow> runs i (respond m) Q"
  by (rule runsI, rule wp_respondI) simp_all

lemma runs_respond_then [runs_rules]:
  assumes "sound_enc m"
    and "\<And>n. runs i on_ok (\<lambda>r i'. case r of Ok _ \<Rightarrow> Q (Ok n) i' | Err e \<Rightarrow> Q (Err e) i' | Panic \<Rightarrow> False)"
    and "\<And>n. Q (Ok n) i" and "\<And>e. Q (Err (Codec e)) i"
  shows "runs i (respond_then m on_ok) Q"
proof (rule runsI, rule wp_respond_thenI [OF assms(1)])
  fix c :: "'a fd_context" and b b' :: bytes and n
  assume "ctx_internal c = i" "length b' = length (snd (c, b))"
  from runsD [OF assms(2) this] show "wp on_ok
      (\<lambda>_ s'. Q (Ok n) (ctx_internal (fst s')) \<and> length (snd s') = length b)
      (\<lambda>e s'. Q (Err e) (ctx_internal (fst s')) \<and> length (snd s') = length b) (fst (c, b), b')" by simp
qed (simp_all add: assms)

lemma runs_abind:
  assumes "runs i m (\<lambda>r i'. case r of Ok x \<Rightarrow> runs i' (f x) Q | Err e \<Rightarrow> Q (Err e) i' | Panic \<Rightarrow> False)"
  shows "runs i (abind m f) Q"
proof (rule runsI)
  fix c :: "'a fd_context" and b :: bytes assume c: "ctx_internal c = i"
  show "wp (abind m f) (\<lambda>x s'. Q (Ok x) (ctx_internal (fst s')) \<and> length (snd s') = length b)
     (\<lambda>e s'. Q (Err e) (ctx_internal (fst s')) \<and> length (snd s') = length b) (c, b)"
    unfolding wp_abind
    by (rule wp_mono [OF runsD [OF assms c refl]]) (auto intro: runsD)
qed

lemma runs_self [runs_rules]: "runs i (f i) Q \<Longrightarrow> runs i (abind self_internal f) Q"
  by (rule runsI) (simp add: wp_simps runsD)

lemma runs_update [runs_rules]: "Q (Ok ()) (g i) \<Longrightarrow> runs i (update_internal g) Q"
  by (rule runsI) (simp add: wp_simps)

lemma runs_update_bind [runs_rules]: "runs (g i) (f ()) Q \<Longrightarrow> runs i (abind (update_internal g) f) Q"
  by (rule runsI) (simp add: wp_simps runsD)

lemma runs_lift [runs_rules]:
  "r \<noteq> Panic \<Longrightarrow> (\<And>x. r = Ok x \<Longrightarrow> runs i (f x) Q) \<Longrightarrow> (\<And>e. r = Err e \<Longrightarrow> Q (Err e) i) \<Longrightarrow>
   runs i (abind (lift r) f) Q"
  by (rule runsI, cases r) (simp_all add: wp_simps runsD)

lemma runs_or_return [runs_rules]:
  "r \<noteq> Panic \<Longrightarrow> (\<And>e. r = Err e \<Longrightarrow> runs i (h e) Q) \<Longrightarrow> (\<And>x. r = Ok x \<Longrightarrow> runs i (k x) Q) \<Longrightarrow>
   runs i (or_return r h k) Q"
  by (cases r) simp_all

lemma runs_with_request [runs_rules]:
  fixes k :: "'r \<Rightarrow> ('p, nat) fd_handler"
  assumes "\<And>bs. dec bs \<noteq> Panic" and "\<And>bs x. dec bs = Ok x \<Longrightarrow> runs i (k x) Q"
    and "\<And>n. Q (Ok n) i" and "\<And>e. Q (Err (Codec e)) i"
  shows "runs i (with_request dec k) Q"
proof (rule runsI)
  fix c :: "'p fd_context" and b :: bytes assume c: "ctx_internal c = i"
  have "runs i (failure cc :: ('p, nat) fd_handler) Q" for cc :: u8
    by (rule runs_failure) (simp_all add: assms)
  note fails = runsD [OF this c, of b]
  show "wp (with_request dec k) (\<lambda>x s'. Q (Ok x) (ctx_internal (fst s')) \<and> length (snd s') = length b)
     (\<lambda>e s'. Q (Err e) (ctx_internal (fst s')) \<and> length (snd s') = length b) (c, b)"
  proof (cases "dec b")
    case (Ok x)
    from runsD [OF assms(2) [OF Ok] c] Ok show ?thesis by (simp add: wp_with_request)
  qed (use fails assms(1) [of b] in \<open>simp_all add: wp_with_request\<close>)
qed

lemma runs_payload [runs_rules]: "(\<And>b. runs i (f b) Q) \<Longrightarrow> runs i (abind (gets snd) f) Q"
  by (rule runsI) (auto simp: wp_simps intro: runsD)

lemma runs_call:
  fixes f :: "('p, 'a) callback"
  assumes "\<And>x p p'. f p = (Inr x, p') \<Longrightarrow> Q (Ok x) i" and "\<And>e. Q (Err (FdOps e)) i"
  shows "runs i (call f) Q"
  by (rule runsI, rule wp_callI) (use assms in auto)

lemma runs_call_bind [runs_rules]:
  fixes f :: "('p, 'a) callback"
  assumes "\<And>x p p'. f p = (Inr x, p') \<Longrightarrow> runs i (g x) Q" and "\<And>e. Q (Err (FdOps e)) i"
  shows "runs i (abind (call f) g) Q"
  by (rule runs_abind, rule runs_call) (use assms in auto)

lemma runs_call_out_bind [runs_rules]:
  fixes f :: "('p, 'o, 'a) out_callback"
  assumes "\<And>x out' p p'. f out p = (Inr x, out', p') \<Longrightarrow> runs i (g (x, out')) Q" and "\<And>e. Q (Err (FdOps e)) i"
  shows "runs i (abind (call_out f out) g) Q"
proof (rule runs_abind, rule runsI, rule wp_call_outI)
qed (use assms in auto)

lemma runs_ask:
  fixes f :: "'p \<Rightarrow> 'a \<times> 'p"
  assumes "\<And>x p p'. f p = (x, p') \<Longrightarrow> Q (Ok x) i"
  shows "runs i (ask f) Q"
  by (rule runsI, rule wp_askI) (use assms in auto)

lemma runs_ask_bind [runs_rules]:
  fixes f :: "'p \<Rightarrow> 'a \<times> 'p"
  assumes "\<And>x p p'. f p = (x, p') \<Longrightarrow> runs i (g x) Q"
  shows "runs i (abind (ask f) g) Q"
  by (rule runs_abind, rule runs_ask) (use assms in auto)

lemmas fd_prims = self_internal_def update_internal_def call_def call_out_def ask_def

end
