(* ===== verification/Fd_Context.thy ===== *)
theory Fd_Context
  imports Fd_Ops
begin

text \<open>
  The responder half of \<open>FirmwareDeviceContext\<close>,
  \<open>pldm-interface/src/firmware_device/fd_context.rs\<close>: one handler per request of the
  Update Agent.  \<open>ops\<close> are the platform callbacks.  Consecutive assignments to the
  internal state with nothing between them are one update.
\<close>

definition set_fd_t1_ts :: "'p fd_ops \<Rightarrow> ('p, unit) fd_handler" where
  "set_fd_t1_ts ops = abind (ask (ops_now ops)) (\<lambda>now. update_internal (set_fd_t1_update_ts now))"

definition fd_context_new :: "'p \<Rightarrow> 'p fd_context" where
  "fd_context_new plat = \<lparr>ctx_internal = fd_internal_default, ctx_plat = plat\<rparr>"

section \<open>Inventory\<close>

definition query_devid_rsp :: "'p fd_ops \<Rightarrow> ('p, nat) fd_handler" where
  "query_devid_rsp ops = with_request (blanket_decode 3 query_devid_request_of) (\<lambda>req.
     abind (call_out (get_device_identifiers ops) (replicate MAX_DESCRIPTORS_COUNT descriptor_default))
       (\<lambda>(descriptor_cnt, device_identifiers).
     if descriptor_cnt = 0 \<or> length device_identifiers < descriptor_cnt
     then fail (FdOps DeviceIdentifiersError)
     else
       abind (lift (index_at 0 device_identifiers)) (\<lambda>initial.
       abind (lift (map_err PldmCommon
         (query_devid_response_new (instance_id (qdq_hdr req)) (base_cc_disc CC_Success) initial
           (get_range 1 (descriptor_cnt - 1) device_identifiers)))) (\<lambda>resp.
       respond_then (query_devid_response_encode resp) (ret ())))))"

definition get_firmware_parameters_rsp :: "'p fd_ops \<Rightarrow> ('p, nat) fd_handler" where
  "get_firmware_parameters_rsp ops = with_request (blanket_decode 3 get_firmware_parameters_request_of) (\<lambda>req.
     abind (call_out (get_firmware_parms ops) firmware_parameters_default) (\<lambda>(_, firmware_params).
     respond_then (get_firmware_parameters_response_encode
       (get_firmware_parameters_response_new (instance_id (gfp_hdr req)) (base_cc_disc CC_Success) firmware_params))
       (ret ())))"

section \<open>Entering update mode and learning components\<close>

definition request_update_rsp :: "'p fd_ops \<Rightarrow> ('p, nat) fd_handler" where
  "request_update_rsp ops =
     abind self_internal (\<lambda>i.
     if is_update_mode i then failure (fw_cc_disc AlreadyInUpdateMode)
     else
       abind (set_fd_t1_ts ops) (\<lambda>_.
       with_request request_update_request_decode (\<lambda>req.
         let ua_transfer_size = unat (ruqf_max_transfer_size (ruq_fixed req)) in
         if ua_transfer_size < PLDM_FWUP_BASELINE_TRANSFER_SIZE
         then failure (fw_cc_disc InvalidTransferLength)
         else
           abind (call (ops_get_xfer_size ops ua_transfer_size)) (\<lambda>fd_transfer_size.
           abind (update_internal (set_xfer_size fd_transfer_size)) (\<lambda>_.
           respond_then (request_update_response_encode
             (request_update_response_new (instance_id (ruqf_hdr (ruq_fixed req))) (base_cc_disc CC_Success) 0 0 None))
             (update_internal (set_fd_state LearnComponents)))))))"

definition pass_component_rsp :: "'p fd_ops \<Rightarrow> ('p, nat) fd_handler" where
  "pass_component_rsp ops =
     abind self_internal (\<lambda>i.
     if fi_state i \<noteq> LearnComponents then failure (fw_cc_disc InvalidStateForCommand)
     else
       abind (set_fd_t1_ts ops) (\<lambda>_.
       with_request pass_component_request_decode (\<lambda>req.
       or_return (transfer_resp_flag_try_from (pcqf_transfer_flag (pcq_fixed req)))
         (\<lambda>_. failure (base_cc_disc CC_InvalidData)) (\<lambda>transfer_flag.
       let f = pcq_fixed req;
           pass_comp = firmware_component_new (pcqf_classification f) (pcqf_identifier f)
             (pcqf_classification_index f) (pcqf_comparison_stamp f)
             \<lparr>str_type = pcqf_ver_str_type f, str_len = pcqf_ver_str_len f, str_data = pcq_ver_str req\<rparr> None None in
       abind (call_out (get_firmware_parms ops) firmware_parameters_default) (\<lambda>(_, firmware_params).
       abind (call (handle_component ops pass_comp firmware_params OpPassComponent)) (\<lambda>comp_resp_code.
       respond_then (blanket_encode 6 pass_component_response_bytes
         (pass_component_response_new (instance_id (pcqf_hdr f)) (base_cc_disc CC_Success)
           (if comp_resp_code = CompCanBeUpdated then RespCompCanBeUpdated else RespCompCannotBeUpdated)
           comp_resp_code))
         (if transfer_flag = FlagEnd \<or> transfer_flag = FlagStartAndEnd
          then update_internal (set_fd_state ReadyXfer) else ret ())))))))"

section \<open>Starting, activating and cancelling an update\<close>

definition start_download :: "fd_internal \<Rightarrow> fd_internal" where
  "start_download i =
     (let i = set_initiator_mode (ModeDownload download_state_default) i;
          i = set_fd_req ReqReady False None None None None i
      in set_fd_state Download i)"

definition update_component_rsp :: "'p fd_ops \<Rightarrow> ('p, nat) fd_handler" where
  "update_component_rsp ops =
     abind self_internal (\<lambda>i.
     if fi_state i \<noteq> ReadyXfer then failure (fw_cc_disc InvalidStateForCommand)
     else
       abind (set_fd_t1_ts ops) (\<lambda>_.
       with_request update_component_request_decode (\<lambda>req.
       let f = ucq_fixed req;
           update_comp = firmware_component_new (ucqf_classification f) (ucqf_identifier f)
             (ucqf_classification_index f) (ucqf_comparison_stamp f)
             \<lparr>str_type = ucqf_ver_str_type f, str_len = ucqf_ver_str_len f, str_data = ucq_ver_str req\<rparr>
             (Some (ucqf_image_size f)) (Some (ucqf_option_flags f)) in
       abind (update_internal (\<lambda>i. set_update_flags (ucqf_option_flags f) (set_component update_comp i))) (\<lambda>_.
       abind (call_out (get_firmware_parms ops) firmware_parameters_default) (\<lambda>(_, firmware_params).
       abind (call (handle_component ops update_comp firmware_params OpUpdateComponent)) (\<lambda>comp_resp_code.
       abind (lift (unwrap (compat_response_code_try_from (component_response_code_disc comp_resp_code)))) (\<lambda>compat_code.
       respond_then (update_component_response_encode
         (update_component_response_new (instance_id (ucqf_hdr f)) (base_cc_disc CC_Success)
           (if comp_resp_code = CompCanBeUpdated then CompatCanBeUpdated else CompatCannotBeUpdated)
           compat_code (ucqf_option_flags f) 0 None))
         (if comp_resp_code = CompCanBeUpdated then update_internal start_download else ret ()))))))))"

definition activate_firmware_rsp :: "'p fd_ops \<Rightarrow> ('p, nat) fd_handler" where
  "activate_firmware_rsp ops =
     abind self_internal (\<lambda>i.
     if fi_state i \<noteq> ReadyXfer then failure (fw_cc_disc InvalidStateForCommand)
     else
       with_request (blanket_decode 4 activate_firmware_request_of) (\<lambda>req.
       let self_contained = afq_self_contained_activation_req req in
       if self_contained \<noteq> 0 \<and> self_contained \<noteq> 1 then failure (base_cc_disc CC_InvalidData)
       else
         abind (call_out (ops_activate ops self_contained) 0) (\<lambda>(completion_code, estimated_time).
         respond_then (blanket_encode 6 activate_firmware_response_bytes
           (activate_firmware_response_new (instance_id (afq_hdr req)) completion_code estimated_time))
           (if completion_code = base_cc_disc CC_Success \<or> completion_code = fw_cc_disc ActivationNotRequired
            then update_internal (\<lambda>i. set_fd_idle ReasonActivateFw (set_fd_state Activate i))
            else ret ()))))"

text \<open>In the apply state only an apply that has not already succeeded can be cancelled.\<close>

definition apply_cancellable :: "fd_internal \<Rightarrow> bool" where
  "apply_cancellable i \<longleftrightarrow>
     \<not> (req_complete (fi_req i) \<and> req_result (fi_req i) = Some (apply_result_disc ApplySuccess))"

definition cancel_update_component_rsp :: "'p fd_ops \<Rightarrow> ('p, nat) fd_handler" where
  "cancel_update_component_rsp ops =
     abind self_internal (\<lambda>i.
     if \<not> is_update_mode i then failure (fw_cc_disc NotInUpdateMode)
     else if fi_state i \<notin> {Download, Verify, Apply} then failure (fw_cc_disc InvalidStateForCommand)
     else
       let should_cancel = (if fi_state i = Apply then apply_cancellable i else True) in
       abind (if should_cancel then call (cancel_update_component ops (fi_update_comp i)) else ret ()) (\<lambda>_.
       with_request (blanket_decode 3 cancel_update_component_request_of) (\<lambda>req.
       respond_then (blanket_encode 4 cancel_update_component_response_bytes
         (cancel_update_component_response_new (instance_id (ccq_hdr req))
           (if should_cancel then base_cc_disc CC_Success else base_cc_disc CC_Error)))
         (if should_cancel then update_internal (set_fd_state ReadyXfer) else ret ()))))"

definition cancel_update_rsp :: "'p fd_ops \<Rightarrow> ('p, nat) fd_handler" where
  "cancel_update_rsp ops =
     abind self_internal (\<lambda>i.
     if \<not> is_update_mode i then failure (fw_cc_disc NotInUpdateMode)
     else
       abind (set_fd_t1_ts ops) (\<lambda>_.
       let should_cancel =
         (case fi_state i of Download \<Rightarrow> True | Verify \<Rightarrow> True | Apply \<Rightarrow> apply_cancellable i | _ \<Rightarrow> False) in
       abind (if should_cancel then call (cancel_update_component ops (fi_update_comp i)) else ret ()) (\<lambda>_.
       with_request (blanket_decode 3 cancel_update_request_of) (\<lambda>req.
       abind (call (get_non_functional_component_info ops)) (\<lambda>(indication, bitmap).
       respond_then (blanket_encode 13 cancel_update_response_bytes
         (cancel_update_response_new (instance_id (cuq_hdr req))
           (if should_cancel then base_cc_disc CC_Success else base_cc_disc CC_Error) indication bitmap))
         (if should_cancel then update_internal (set_fd_idle ReasonCancelUpdate) else ret ()))))))"

section \<open>Commands answered in the idle state only\<close>

definition component_command_params ::
  "'p fd_ops \<Rightarrow> u16 \<Rightarrow> ('p, nat option \<times> firmware_parameters) fd_handler" where
  "component_command_params ops classification =
     (if classification = component_classification_disc ClassDownstreamDevice
      then abind (failure (base_cc_disc CC_InvalidData)) (\<lambda>n. ret (Some n, firmware_parameters_default))
      else abind (call_out (get_firmware_parms ops) firmware_parameters_default) (\<lambda>(_, fw_params). ret (None, fw_params)))"

definition activate_pending_component_image_rsp :: "'p fd_ops \<Rightarrow> ('p, nat) fd_handler" where
  "activate_pending_component_image_rsp ops =
     abind self_internal (\<lambda>i.
     if fi_state i \<noteq> Idle then failure (fw_cc_disc InvalidStateForCommand)
     else
       with_request (blanket_decode 8 activate_pending_request_of) (\<lambda>req.
       abind (component_command_params ops (apq_comp_classification req)) (\<lambda>(refused, firmware_params).
       case refused of
         Some len \<Rightarrow> ret len
       | None \<Rightarrow>
           abind (call (handle_pending_component ops
             \<lparr>pc_classification = apq_comp_classification req, pc_identifier = apq_comp_identifier req,
              pc_classification_index = apq_comp_classification_index req\<rparr> firmware_params)) (\<lambda>outcome.
           respond_then (blanket_encode 6 activate_pending_response_bytes
             (pending_component_result_into_response outcome (instance_id (apq_hdr req)))) (ret ())))))"

definition update_security_revision_rsp :: "'p fd_ops \<Rightarrow> ('p, nat) fd_handler" where
  "update_security_revision_rsp ops =
     abind self_internal (\<lambda>i.
     if fi_state i \<noteq> Idle then failure (fw_cc_disc InvalidStateForCommand)
     else
       with_request (blanket_decode 8 update_security_revision_request_of) (\<lambda>req.
       abind (component_command_params ops (usq_comp_classification req)) (\<lambda>(refused, firmware_params).
       case refused of
         Some len \<Rightarrow> ret len
       | None \<Rightarrow>
           abind (call (ops_update_security_revision ops
             \<lparr>sr_classification = usq_comp_classification req, sr_identifier = usq_comp_identifier req,
              sr_classification_index = usq_comp_classification_index req\<rparr> firmware_params)) (\<lambda>outcome.
           respond_then (blanket_encode 4 update_security_revision_response_bytes
             (update_security_revision_response_new (instance_id (usq_hdr req)) (to_completion_code outcome))) (ret ())))))"

section \<open>Status\<close>

definition status_progress :: "'p fd_ops \<Rightarrow> fd_internal \<Rightarrow> ('p, progress_percent) fd_handler" where
  "status_progress ops i =
     (case fi_state i of
        Download \<Rightarrow>
          ask (\<lambda>p. case query_download_progress ops (fi_update_comp i) progress_default p of
                 (Inl _, _, p') \<Rightarrow> (progress_default, p')
               | (Inr _, progress, p') \<Rightarrow> (progress, p'))
      | Verify \<Rightarrow>
          (case get_fd_verify_progress i of
             Some percent \<Rightarrow> lift (unwrap (progress_new percent)) | None \<Rightarrow> ret progress_default)
      | Apply \<Rightarrow>
          (case get_fd_apply_progress i of
             Some percent \<Rightarrow> lift (unwrap (progress_new percent)) | None \<Rightarrow> ret progress_default)
      | _ \<Rightarrow> ret progress_default)"

definition status_aux :: "fd_req \<Rightarrow> aux_state \<times> u8" where
  "status_aux r =
     (case req_state r of
        ReqUnused \<Rightarrow> (IdleLearnComponentsReadXfer, aux_state_status_disc AuxStateInProgressOrSuccess)
      | ReqSent \<Rightarrow> (OperationInProgress, aux_state_status_disc AuxStateInProgressOrSuccess)
      | ReqReady \<Rightarrow>
          (if req_complete r then (OperationSuccessful, aux_state_status_disc AuxStateInProgressOrSuccess)
           else (OperationInProgress, aux_state_status_disc AuxStateInProgressOrSuccess))
      | ReqFailed \<Rightarrow>
          (OperationFailed,
           case req_result r of Some status \<Rightarrow> status | None \<Rightarrow> aux_state_status_disc AuxGenericError))"

definition get_status_rsp :: "'p fd_ops \<Rightarrow> ('p, nat) fd_handler" where
  "get_status_rsp ops = with_request (blanket_decode 3 get_status_request_of) (\<lambda>req.
     abind self_internal (\<lambda>i.
     abind (status_progress ops i) (\<lambda>progress_percent.
     case status_aux (fi_req i) of (aux_state, aux_state_status) \<Rightarrow>
     respond_then (blanket_encode 14 get_status_response_bytes
       (get_status_response_new (instance_id (gsq_hdr req)) (base_cc_disc CC_Success)
         (fi_state i) (fi_prev_state i) aux_state aux_state_status progress_percent
         (case fi_reason i of Some reason \<Rightarrow> reason | None \<Rightarrow> ReasonInitialization)
         (if request_force_update (fi_update_flags i) then ForceUpdate else NoForceUpdate))) (ret ()))))"

text \<open>\<open>process_fw_update_cmd\<close> of \<open>cmd_interface.rs\<close> dispatches to the handlers.\<close>

definition process_fw_update_cmd :: "'p fd_ops \<Rightarrow> u8 \<Rightarrow> ('p, nat) fd_handler" where
  "process_fw_update_cmd ops cmd_opcode =
     or_return (fw_update_cmd_try_from cmd_opcode)
       (\<lambda>_. failure (base_cc_disc CC_UnsupportedPldmCmd))
       (\<lambda>cmd. case cmd of
          QueryDeviceIdentifiers \<Rightarrow> query_devid_rsp ops
        | GetFirmwareParameters \<Rightarrow> get_firmware_parameters_rsp ops
        | RequestUpdate \<Rightarrow> request_update_rsp ops
        | PassComponentTable \<Rightarrow> pass_component_rsp ops
        | UpdateComponent \<Rightarrow> update_component_rsp ops
        | ActivateFirmware \<Rightarrow> activate_firmware_rsp ops
        | CancelUpdateComponent \<Rightarrow> cancel_update_component_rsp ops
        | CancelUpdate \<Rightarrow> cancel_update_rsp ops
        | UpdateSecurityRevision \<Rightarrow> update_security_revision_rsp ops
        | GetStatus \<Rightarrow> get_status_rsp ops
        | ActivatePendingComponentImage \<Rightarrow> activate_pending_component_image_rsp ops
        | _ \<Rightarrow> failure (base_cc_disc CC_UnsupportedPldmCmd))"

end
