(* ===== verification/Fd_Progress.thy ===== *)
theory Fd_Progress
  imports Fd_Context
begin

text \<open>
  The initiator half of \<open>FirmwareDeviceContext\<close> (\<open>fd_context.rs\<close>): the requests the
  firmware device sends on its own during download, verify and apply
  (\<open>fd_progress\<close>) and the Update Agent's responses to them (\<open>handle_response\<close>).
\<close>

definition initiator_states :: "firmware_device_state set" where
  "initiator_states = {Download, Verify, Apply}"

lemma in_initiator_states [simp]: "st \<in> initiator_states \<longleftrightarrow> st = Download \<or> st = Verify \<or> st = Apply"
  by (simp add: initiator_states_def)

definition should_start_initiator_mode :: "fd_internal \<Rightarrow> bool" where
  "should_start_initiator_mode i \<longleftrightarrow> fi_state i \<in> initiator_states"

definition should_stop_initiator_mode :: "fd_internal \<Rightarrow> bool" where
  "should_stop_initiator_mode i \<longleftrightarrow> fi_state i \<notin> initiator_states"

section \<open>Sending requests\<close>

definition should_send_fd_request :: "'p fd_ops \<Rightarrow> ('p, bool) fd_handler" where
  "should_send_fd_request ops =
     abind (ask (ops_now ops)) (\<lambda>now.
     abind self_internal (\<lambda>i.
       case req_state (fi_req i) of
         ReqUnused \<Rightarrow> ret False
       | ReqReady \<Rightarrow> ret True
       | ReqFailed \<Rightarrow> ret False
       | ReqSent \<Rightarrow>
           abind (lift (expect (req_sent_time (fi_req i)))) (\<lambda>fd_req_sent_time.
             if now < fd_req_sent_time then ret False
             else ret (fi_t2_retry_time i \<le> now - fd_req_sent_time))))"

definition alloc_instance :: "bool \<Rightarrow> ('p, u8) fd_handler" where
  "alloc_instance oc =
     abind (on_ctx (\<lambda>c. case alloc_next_instance_id oc (ctx_internal c) of (r, i) \<Rightarrow> (r, c\<lparr>ctx_internal := i\<rparr>)))
       (\<lambda>r. lift (expect r))"

text \<open>\<open>self.internal.set_fd_req(Sent, .., Some(self.ops.now()))\<close>\<close>

definition mark_sent :: "'p fd_ops \<Rightarrow> bool \<Rightarrow> u8 option \<Rightarrow> u8 \<Rightarrow> fw_update_cmd \<Rightarrow> ('p, unit) fd_handler" where
  "mark_sent ops complete result inst cmd =
     abind (ask (ops_now ops)) (\<lambda>now.
       update_internal (set_fd_req ReqSent complete result (Some inst) (Some (fw_update_cmd_disc cmd)) (Some now)))"

definition fd_progress_download :: "bool \<Rightarrow> 'p fd_ops \<Rightarrow> ('p, nat) fd_handler" where
  "fd_progress_download oc ops =
     abind (should_send_fd_request ops) (\<lambda>send.
     if \<not> send then fail FdInitiatorModeError
     else
       abind (alloc_instance oc) (\<lambda>instance_id.
       abind self_internal (\<lambda>i.
       if req_complete (fi_req i) then
         abind (lift (ok_or FdInitiatorModeError (req_result (fi_req i)))) (\<lambda>result.
         abind (lift (unwrap (transfer_result_try_from result))) (\<lambda>tr.
         abind (respond (blanket_encode 4 transfer_complete_request_bytes
           (transfer_complete_request_new instance_id MsgRequest tr))) (\<lambda>msg_len.
         abind (mark_sent ops True (Some result) instance_id TransferComplete) (\<lambda>_.
         ret msg_len))))
       else
         abind (call (query_download_offset_and_length ops (fi_update_comp i))) (\<lambda>(requested_offset, requested_length).
         abind (lift (get_fd_download_chunk oc (of_nat requested_offset) (of_nat requested_length) i)) (\<lambda>chunk.
         case chunk of
           None \<Rightarrow> fail FdInitiatorModeError
         | Some (chunk_offset, chunk_length) \<Rightarrow>
             abind (respond (blanket_encode 11 request_fw_data_request_bytes
               (request_fw_data_request_new instance_id MsgRequest chunk_offset chunk_length))) (\<lambda>msg_len.
             abind (update_internal (set_fd_download_state chunk_offset chunk_length)) (\<lambda>_.
             abind (mark_sent ops False None instance_id RequestFirmwareData) (\<lambda>_.
             ret msg_len)))))))) "

definition pldm_fd_progress_verify :: "bool \<Rightarrow> 'p fd_ops \<Rightarrow> ('p, nat) fd_handler" where
  "pldm_fd_progress_verify oc ops =
     abind (should_send_fd_request ops) (\<lambda>send.
     if \<not> send then fail FdInitiatorModeError
     else
       let complete = (\<lambda>res.
         abind (alloc_instance oc) (\<lambda>instance_id.
         abind (respond (blanket_encode 4 verify_complete_request_bytes
           (verify_complete_request_new instance_id MsgRequest res))) (\<lambda>msg_len.
         abind (mark_sent ops True (Some (verify_result_disc res)) instance_id VerifyComplete) (\<lambda>_.
         ret msg_len)))) in
       abind self_internal (\<lambda>i.
       if \<not> req_complete (fi_req i) then
         abind (call_out (ops_verify ops (fi_update_comp i)) progress_default) (\<lambda>(res, progress_percent).
         abind (update_internal (set_fd_verify_progress (progress_value progress_percent))) (\<lambda>_.
         if res = VerifySuccess \<and> progress_value progress_percent < 100 then ret 0
         else complete res))
       else complete verify_result_default))"

definition pldm_fd_progress_apply :: "bool \<Rightarrow> 'p fd_ops \<Rightarrow> ('p, nat) fd_handler" where
  "pldm_fd_progress_apply oc ops =
     abind (should_send_fd_request ops) (\<lambda>send.
     if \<not> send then fail FdInitiatorModeError
     else
       let complete = (\<lambda>res.
         abind (alloc_instance oc) (\<lambda>instance_id.
         abind (respond (blanket_encode 6 apply_complete_request_bytes
           (apply_complete_request_new instance_id MsgRequest res 0))) (\<lambda>msg_len.
         abind (mark_sent ops True (Some (apply_result_disc res)) instance_id ApplyComplete) (\<lambda>_.
         ret msg_len)))) in
       abind self_internal (\<lambda>i.
       if \<not> req_complete (fi_req i) then
         abind (call_out (ops_apply ops (fi_update_comp i)) progress_default) (\<lambda>(res, progress_percent).
         abind (update_internal (set_fd_apply_progress (progress_value progress_percent))) (\<lambda>_.
         if res = ApplySuccess \<and> progress_value progress_percent < 100 then ret 0
         else complete res))
       else complete apply_result_default))"

text \<open>\<open>now.saturating_sub(ts) > timeout\<close>\<close>

definition t1_expired :: "u64 \<Rightarrow> fd_internal \<Rightarrow> bool" where
  "t1_expired now i \<longleftrightarrow>
     fi_t1_timeout i < (if now < fi_t1_update_ts i then 0 else now - fi_t1_update_ts i)"

definition abandon_update :: "fd_internal \<Rightarrow> fd_internal" where
  "abandon_update i = set_fd_req ReqUnused False None None None None (fd_idle_timeout i)"

definition check_t1 :: "'p fd_ops \<Rightarrow> ('p, unit) fd_handler" where
  "check_t1 ops =
     abind self_internal (\<lambda>i.
     if req_state (fi_req i) = ReqSent then
       abind (ask (ops_now ops)) (\<lambda>now.
       if t1_expired now i then
         abind (call (cancel_update_component ops (fi_update_comp i))) (\<lambda>_.
         abind (update_internal abandon_update) (\<lambda>_.
         fail T1Timeout))
       else ret ())
     else ret ())"

definition progress_step :: "bool \<Rightarrow> 'p fd_ops \<Rightarrow> firmware_device_state \<Rightarrow> ('p, nat) fd_handler" where
  "progress_step oc ops fd_state =
     (case fd_state of
        Download \<Rightarrow> fd_progress_download oc ops
      | Verify \<Rightarrow> pldm_fd_progress_verify oc ops
      | Apply \<Rightarrow> pldm_fd_progress_apply oc ops
      | _ \<Rightarrow> fail FdInitiatorModeError)"

definition fd_progress :: "bool \<Rightarrow> 'p fd_ops \<Rightarrow> ('p, nat) fd_handler" where
  "fd_progress oc ops =
     abind self_internal (\<lambda>i0.
     let fd_state = fi_state i0 in
     if fd_state \<notin> initiator_states then fail FdInitiatorModeError
     else
       abind (check_t1 ops) (\<lambda>_.
       abind (progress_step oc ops fd_state) (\<lambda>result.
       abind self_internal (\<lambda>i.
       abind (if (fd_state = Verify \<or> fd_state = Apply) \<and> req_state (fi_req i) \<noteq> ReqSent
              then set_fd_t1_ts ops else ret ()) (\<lambda>_.
       ret result)))))"

section \<open>Receiving responses\<close>

definition process_request_fw_data_rsp :: "'p fd_ops \<Rightarrow> ('p, unit) fd_handler" where
  "process_request_fw_data_rsp ops =
     abind self_internal (\<lambda>i.
     if fi_state i \<noteq> Download then fail FdInitiatorModeError
     else if req_complete (fi_req i) then fail FdInitiatorModeError
     else
       abind (gets snd) (\<lambda>payload.
       abind (lift (map_err Codec (blanket_decode 4 request_fw_data_response_fixed_of payload))) (\<lambda>fw_data_rsp_fixed.
       let code = rff_completion_code fw_data_rsp_fixed in
       if code = base_cc_disc CC_Success then
         abind (lift (expect (get_fd_download_state i))) (\<lambda>(offset, len).
         abind (lift (slice_from 4 payload)) (\<lambda>rest.
         abind (lift (ok_or (Codec BufferTooShort) (get_range 0 (unat len) rest))) (\<lambda>fw_data.
         abind (call (download_fw_data ops (unat offset) fw_data (fi_update_comp i))) (\<lambda>res.
         if res = TransferSuccess then
           abind (ask (is_download_complete ops (fi_update_comp i))) (\<lambda>finished.
           if finished
           then update_internal (set_fd_req ReqReady True (Some (transfer_result_disc TransferSuccess)) None None None)
           else update_internal (set_fd_req ReqReady False None None None None))
         else update_internal (set_fd_req ReqReady True (Some (transfer_result_disc res)) None None None)))))
       else if code = fw_cc_disc RetryRequestFwData then ret ()
       else update_internal (set_fd_req ReqReady True (Some (transfer_result_disc FdAbortedTransfer)) None None None))))"

text \<open>A finished phase moves on, or waits for the Update Agent to cancel.\<close>

definition finish_phase ::
  "firmware_device_state \<Rightarrow> (fd_internal \<Rightarrow> bool) \<Rightarrow> (fd_internal \<Rightarrow> fd_internal) \<Rightarrow> ('p, unit) fd_handler" where
  "finish_phase st succeeded next_phase =
     abind self_internal (\<lambda>i.
     if fi_state i \<noteq> st then fail FdInitiatorModeError
     else if req_state (fi_req i) \<noteq> ReqSent \<or> \<not> req_complete (fi_req i) then fail FdInitiatorModeError
     else if succeeded i then update_internal next_phase
     else update_internal (set_fd_req ReqFailed True (req_result (fi_req i)) None None None))"

definition start_verify :: "fd_internal \<Rightarrow> fd_internal" where
  "start_verify i =
     set_fd_state Verify (set_fd_req ReqReady False None None None None (set_initiator_mode (ModeVerify 0) i))"

definition start_apply :: "fd_internal \<Rightarrow> fd_internal" where
  "start_apply i =
     set_fd_state Apply (set_fd_req ReqReady False None None None None (set_initiator_mode (ModeApply 0) i))"

definition finish_apply :: "fd_internal \<Rightarrow> fd_internal" where
  "finish_apply i = set_fd_state ReadyXfer (set_fd_req ReqUnused False None None None None i)"

definition process_transfer_complete_rsp :: "('p, unit) fd_handler" where
  "process_transfer_complete_rsp =
     finish_phase Download (\<lambda>i. req_result (fi_req i) = Some (transfer_result_disc TransferSuccess)) start_verify"

definition process_verify_complete_rsp :: "('p, unit) fd_handler" where
  "process_verify_complete_rsp =
     finish_phase Verify (\<lambda>i. req_result (fi_req i) = Some (verify_result_disc VerifySuccess)) start_apply"

definition process_apply_complete_rsp :: "('p, unit) fd_handler" where
  "process_apply_complete_rsp =
     finish_phase Apply (\<lambda>i. req_result (fi_req i) = Some (apply_result_disc ApplySuccess)) finish_apply"

definition handle_response :: "'p fd_ops \<Rightarrow> ('p, unit) fd_handler" where
  "handle_response ops =
     abind (gets snd) (\<lambda>payload.
     abind (lift (map_err Codec (hdr_decode payload))) (\<lambda>rsp_header.
     abind self_internal (\<lambda>i.
     let fd_req = fi_req i in
     if req_state fd_req \<noteq> ReqSent
        \<or> req_instance_id fd_req \<noteq> Some (instance_id rsp_header)
        \<or> req_command fd_req \<noteq> Some (cmd_code rsp_header)
     then fail FdInitiatorModeError
     else
       abind (set_fd_t1_ts ops) (\<lambda>_.
         case fw_update_cmd_try_from (cmd_code rsp_header) of
           Ok RequestFirmwareData \<Rightarrow> process_request_fw_data_rsp ops
         | Ok TransferComplete \<Rightarrow> process_transfer_complete_rsp
         | Ok VerifyComplete \<Rightarrow> process_verify_complete_rsp
         | Ok ApplyComplete \<Rightarrow> process_apply_complete_rsp
         | _ \<Rightarrow> fail FdInitiatorModeError))))"

end
