(* ===== verification/Fd_Invariant.thy ===== *)
theory Fd_Invariant
  imports Fd_Progress
begin

text \<open>
  The invariant \<open>fd_inv\<close> of the firmware device and the transitions between its states.
  Every request handler is executed symbolically with the rules \<open>runs_rules\<close>: it does
  not panic, preserves the invariant and moves along an edge of the command it answers.
\<close>

section \<open>More rules\<close>

lemma runs_abind_if [runs_rules]:
  "(b \<Longrightarrow> runs i (abind m1 f) Q) \<Longrightarrow> (\<not> b \<Longrightarrow> runs i (abind m2 f) Q) \<Longrightarrow>
   runs i (abind (if b then m1 else m2) f) Q"
  by simp

lemma abind_ret [simp]: "abind (ret x) f = f x"
  by (simp add: abind_def ret_def fun_eq_iff)

lemma abind_fail [simp]: "abind (fail e) f = fail e"
  by (simp add: abind_def fail_def fun_eq_iff)

lemma abind_assoc: "abind (abind m f) g = abind m (\<lambda>x. abind (f x) g)"
  by (auto simp: abind_def fun_eq_iff split: outcome.split prod.split)

lemma runs_set_ts [runs_rules]:
  "(\<And>now. runs (set_fd_t1_update_ts now i) (f ()) Q) \<Longrightarrow> runs i (abind (set_fd_t1_ts ops) f) Q"
  unfolding set_fd_t1_ts_def abind_assoc by (intro runs_rules)

lemma runs_params:
  assumes "platform_wf ops"
    and "\<And>n. runs i (f (Some n, firmware_parameters_default)) Q"
    and "\<And>fp. wf_firmware_parameters fp \<Longrightarrow> runs i (f (None, fp)) Q"
    and "\<And>e. Q (Err e) i"
  shows "runs i (abind (component_command_params ops cls) f) Q"
proof -
  have "runs i (abind (failure cc) (\<lambda>n. f (Some n, firmware_parameters_default))) Q" for cc
    using assms(2,4) by (intro runs_abind runs_failure) simp_all
  moreover have "wf_firmware_parameters fp"
    if "get_firmware_parms ops firmware_parameters_default p = (Inr x, fp, p')" for x fp p p'
    using assms(1) that firmware_parameters_default_wf unfolding platform_wf_def by (metis fst_conv snd_conv)
  ultimately show ?thesis
    using assms(3,4) by (auto simp: component_command_params_def abind_assoc intro!: runs_rules)
qed

lemma params_wf:
  "platform_wf ops \<Longrightarrow> get_firmware_parms ops firmware_parameters_default p = (r, fp, p') \<Longrightarrow> wf_firmware_parameters fp"
  unfolding platform_wf_def by (metis firmware_parameters_default_wf fst_conv snd_conv)

lemma device_identifiers_wf:
  assumes "platform_wf ops"
    and "get_device_identifiers ops (replicate MAX_DESCRIPTORS_COUNT descriptor_default) p = (r, ds, p')"
  shows "length ds = 4 \<and> list_all wf_descriptor ds"
proof -
  have "list_all wf_descriptor (replicate MAX_DESCRIPTORS_COUNT descriptor_default)" by (simp add: list_all_iff)
  with assms show ?thesis unfolding platform_wf_def by (metis fst_conv snd_conv length_replicate MAX_DESCRIPTORS_COUNT_def)
qed

lemma runs_status_progress:
  assumes "platform_wf ops" "fd_inv i" "\<And>p. progress_ok p \<Longrightarrow> runs i (f p) Q"
  shows "runs i (abind (status_progress ops i) f) Q"
proof -
  have "progress_ok out" if "query_download_progress ops c progress_default p = (r, out, p')" for c p r out p'
    using assms(1) that progress_default_ok unfolding platform_wf_def by (metis fst_conv snd_conv)
  moreover have "runs i (abind (lift (unwrap (progress_new v))) f) Q" if "v \<le> PROGRESS_PERCENT_NOT_SUPPORTED" for v
    using that assms(3) by (auto simp: progress_new_def progress_ok_def intro!: runs_rules)
  ultimately show ?thesis
    using assms(2,3)
    by (auto simp: status_progress_def get_fd_verify_progress_def get_fd_apply_progress_def fd_inv_def mode_ok_def
        intro!: runs_rules split: firmware_device_state.split initiator_mode.splits prod.splits sum.splits)
qed

section \<open>Edges of the requests\<close>

text \<open>The state a command may move the device to, besides leaving it where it is.\<close>

fun request_edge :: "fw_update_cmd \<Rightarrow> firmware_device_state \<Rightarrow> firmware_device_state \<Rightarrow> bool" where
  "request_edge RequestUpdate st st' \<longleftrightarrow> st = Idle \<and> st' = LearnComponents"
| "request_edge PassComponentTable st st' \<longleftrightarrow> st = LearnComponents \<and> st' = ReadyXfer"
| "request_edge UpdateComponent st st' \<longleftrightarrow> st = ReadyXfer \<and> st' = Download"
| "request_edge ActivateFirmware st st' \<longleftrightarrow> st = ReadyXfer \<and> st' = Idle"
| "request_edge CancelUpdateComponent st st' \<longleftrightarrow> st \<in> initiator_states \<and> st' = ReadyXfer"
| "request_edge CancelUpdate st st' \<longleftrightarrow> st \<in> initiator_states \<and> st' = Idle"
| "request_edge _ st st' \<longleftrightarrow> False"

definition request_post ::
  "fw_update_cmd \<Rightarrow> fd_internal \<Rightarrow> (nat, msg_handler_error) outcome \<Rightarrow> fd_internal \<Rightarrow> bool" where
  "request_post cmd i r i' \<longleftrightarrow>
     fd_inv i' \<and> fi_t1_timeout i' = fi_t1_timeout i \<and> fi_t2_retry_time i' = fi_t2_retry_time i
     \<and> (fi_state i' = fi_state i \<or> request_edge cmd (fi_state i) (fi_state i') \<and> (\<exists>n. r = Ok n))"

lemmas inv_defs = request_post_def fd_inv_def req_ok_def mode_ok_def download_result_ok_def fd_setters

lemma request_post_refl: "fd_inv i \<Longrightarrow> request_post cmd i r i"
  by (simp add: request_post_def)

lemma fd_inv_ts [simp]: "fd_inv (set_fd_t1_update_ts t i) = fd_inv i"
  by (simp add: inv_defs)

lemma request_post_ts: "fd_inv i \<Longrightarrow> request_post cmd i r (set_fd_t1_update_ts t i)"
  by (simp add: inv_defs)

lemma query_devid_response_sound:
  assumes "query_devid_response_new inst cc (ds ! 0) (get_range (Suc 0) n ds) = Ok resp"
    and "length ds = 4" and "list_all wf_descriptor ds"
  shows "sound_enc (query_devid_response_encode resp)"
proof (rule query_devid_response.sound, rule query_devid_response_new_wf [OF assms(1)])
  show "wf_descriptor (ds ! 0)" using assms by (simp add: list_all_length)
  show "get_range (Suc 0) n ds = Some es \<Longrightarrow> list_all wf_descriptor es" for es
    using assms(3) by (auto simp: list_all_iff dest!: in_set_takeD in_set_dropD)
qed

lemma query_devid_response_new_not_Panic [simp]: "query_devid_response_new inst cc d ds \<noteq> Panic"
  by (simp add: query_devid_response_new_def Let_def)

lemma query_devid_runs:
  assumes "platform_wf ops" and "fd_inv i"
  shows "runs i (query_devid_rsp ops) (request_post QueryDeviceIdentifiers i)"
  using assms device_identifiers_wf [OF assms(1)] unfolding query_devid_rsp_def
  by (fastforce simp: request_post_refl index_at_def intro!: runs_rules intro: query_devid_response_sound)

lemma params_response_sound:
  "wf_firmware_parameters fp \<Longrightarrow>
   sound_enc (get_firmware_parameters_response_encode (get_firmware_parameters_response_new inst cc fp))"
  by (intro get_firmware_parameters_response.sound) (simp add: get_firmware_parameters_response_new_def)

lemma get_firmware_parameters_runs:
  assumes "platform_wf ops" and "fd_inv i"
  shows "runs i (get_firmware_parameters_rsp ops) (request_post GetFirmwareParameters i)"
  using assms params_wf [OF assms(1)] unfolding get_firmware_parameters_rsp_def
  by (auto simp: request_post_refl intro!: runs_rules params_response_sound)

lemma request_update_response_sound:
  "sound_enc (request_update_response_encode (request_update_response_new inst cc 0 0 None))"
  by (intro request_update_response.sound)
     (simp add: wf_request_update_response_def request_update_response_new_def)

lemma request_update_runs:
  assumes "fd_inv i"
  shows "runs i (request_update_rsp ops) (request_post RequestUpdate i)"
proof -
  have "fd_inv (set_xfer_size n j)" if "fd_inv j" for n j using that by (simp add: inv_defs)
  moreover have "request_post RequestUpdate i r (set_xfer_size n (set_fd_t1_update_ts t i))" for r n t
    using assms by (simp add: inv_defs)
  moreover have "request_post RequestUpdate i (Ok k) (set_fd_state LearnComponents (set_xfer_size n (set_fd_t1_update_ts t i)))"
    if "fi_state i = Idle" for k n t
    using assms that by (auto simp: inv_defs split: initiator_mode.splits)
  ultimately show ?thesis
    using assms unfolding request_update_rsp_def Let_def
    by (auto simp: request_post_refl request_post_ts is_update_mode_def request_update_request.dec_no_panic
        intro!: runs_rules request_update_response_sound)
qed

lemma pass_component_runs:
  assumes "fd_inv i"
  shows "runs i (pass_component_rsp ops) (request_post PassComponentTable i)"
proof -
  have "request_post PassComponentTable i (Ok k) (set_fd_state ReadyXfer (set_fd_t1_update_ts t i))"
    if "fi_state i = LearnComponents" for k t
    using assms that by (auto simp: inv_defs split: initiator_mode.splits)
  then show ?thesis
    using assms unfolding pass_component_rsp_def Let_def
    by (auto simp: request_post_refl request_post_ts pass_component_request.dec_no_panic transfer_resp_flag.no_panic
        layout intro!: runs_rules sound_enc_blanket)
qed

lemma update_component_response_sound: "sound_enc (update_component_response_encode r)"
  by (simp add: sound_enc_def update_component_response_encode_eq splice_def)

lemma update_component_runs:
  assumes "standard_codes ops" and "fd_inv i"
  shows "runs i (update_component_rsp ops) (request_post UpdateComponent i)"
proof -
  have code: "unwrap (compat_response_code_try_from (component_response_code_disc c)) \<noteq> (Panic :: (_, msg_handler_error) outcome)"
    if "handle_component ops comp fp op p = (Inr c, p')" for comp fp op p c p'
    using assms(1) that compat_of_response_code [of c] unfolding standard_codes_def by (metis fst_conv outcome.distinct(3) unwrap.simps(1))
  have "request_post UpdateComponent i r (set_update_flags fl (set_component c (set_fd_t1_update_ts t i)))" for r fl c t
    using assms(2) by (simp add: inv_defs)
  moreover have "request_post UpdateComponent i (Ok k) (start_download (set_update_flags fl (set_component c (set_fd_t1_update_ts t i))))"
    if "fi_state i = ReadyXfer" for k fl c t
    using assms(2) that by (auto simp: inv_defs start_download_def Let_def)
  ultimately show ?thesis
    using assms code unfolding update_component_rsp_def Let_def
    by (auto simp: request_post_refl request_post_ts update_component_request.dec_no_panic
        intro!: runs_rules update_component_response_sound)
qed

lemma activate_firmware_runs:
  assumes "fd_inv i"
  shows "runs i (activate_firmware_rsp ops) (request_post ActivateFirmware i)"
proof -
  have "request_post ActivateFirmware i (Ok k) (set_fd_idle ReasonActivateFw (set_fd_state Activate i))"
    if "fi_state i = ReadyXfer" for k
    using assms that by (auto simp: inv_defs split: initiator_mode.splits)
  then show ?thesis
    using assms unfolding activate_firmware_rsp_def Let_def
    by (auto simp: request_post_refl layout intro!: runs_rules sound_enc_blanket)
qed

lemma cancel_update_component_runs:
  assumes "fd_inv i"
  shows "runs i (cancel_update_component_rsp ops) (request_post CancelUpdateComponent i)"
proof -
  have "request_post CancelUpdateComponent i (Ok k) (set_fd_state ReadyXfer i)"
    if "fi_state i \<in> initiator_states" for k
    using assms that by (auto simp: inv_defs split: initiator_mode.splits)
  then show ?thesis
    using assms unfolding cancel_update_component_rsp_def Let_def
    by (auto simp: request_post_refl layout intro!: runs_rules sound_enc_blanket)
qed

lemma cancel_update_runs:
  assumes "fd_inv i"
  shows "runs i (cancel_update_rsp ops) (request_post CancelUpdate i)"
proof -
  have "request_post CancelUpdate i (Ok k) (set_fd_idle ReasonCancelUpdate (set_fd_t1_update_ts t i))"
    if "fi_state i \<in> initiator_states" for k t
    using assms that by (auto simp: inv_defs split: initiator_mode.splits)
  then show ?thesis
    using assms unfolding cancel_update_rsp_def Let_def
    by (cases "fi_state i")
       (auto simp: request_post_refl request_post_ts layout intro!: runs_rules sound_enc_blanket)
qed

lemma activate_pending_runs:
  assumes "platform_wf ops" and "fd_inv i"
  shows "runs i (activate_pending_component_image_rsp ops) (request_post ActivatePendingComponentImage i)"
  using assms unfolding activate_pending_component_image_rsp_def
  by (auto simp: request_post_refl layout intro!: runs_rules runs_params sound_enc_blanket)

lemma update_security_revision_runs:
  assumes "platform_wf ops" and "fd_inv i"
  shows "runs i (update_security_revision_rsp ops) (request_post UpdateSecurityRevision i)"
  using assms unfolding update_security_revision_rsp_def
  by (auto simp: request_post_refl layout intro!: runs_rules runs_params sound_enc_blanket)

lemma get_status_runs:
  assumes "platform_wf ops" and "fd_inv i"
  shows "runs i (get_status_rsp ops) (request_post GetStatus i)"
  using assms unfolding get_status_rsp_def
  by (auto simp: request_post_refl layout split: prod.split
      intro!: runs_rules runs_status_progress sound_enc_blanket)

lemma process_fw_update_cmd_runs:
  assumes "platform_wf ops" "standard_codes ops" "fd_inv i"
    and "fw_update_cmd_try_from op = Ok cmd"
  shows "runs i (process_fw_update_cmd ops op) (request_post cmd i)"
proof -
  have "runs i (failure cc) (request_post cmd i)" for cc
    using assms(3) by (intro runs_failure) (simp_all add: request_post_refl)
  then show ?thesis
    using assms
    by (cases cmd)
       (simp_all add: process_fw_update_cmd_def query_devid_runs get_firmware_parameters_runs request_update_runs
        pass_component_runs update_component_runs activate_firmware_runs cancel_update_component_runs
        cancel_update_runs update_security_revision_runs get_status_runs activate_pending_runs)
qed

section \<open>Edges of the responses and of progress\<close>

lemma runs_should_send:
  assumes "req_ok (fi_req i)"
    and "\<And>b. (b \<Longrightarrow> req_state (fi_req i) = ReqReady \<or> req_state (fi_req i) = ReqSent) \<Longrightarrow> runs i (f b) Q"
  shows "runs i (abind (should_send_fd_request ops) f) Q"
proof -
  have "runs i (f False) Q" using assms(2) [of False] by simp
  moreover have "runs i (f b) Q" if "req_state (fi_req i) = ReqReady \<or> req_state (fi_req i) = ReqSent" for b
    using assms(2) that by blast
  moreover have "req_sent_time (fi_req i) \<noteq> None" if "req_state (fi_req i) = ReqSent"
    using assms(1) that by (simp add: req_ok_def)
  ultimately show ?thesis
    unfolding should_send_fd_request_def abind_assoc
    by (cases "req_state (fi_req i)") (auto simp: abind_assoc intro!: runs_rules)
qed

lemma runs_alloc_instance:
  assumes "req_ok (fi_req i)"
    and "\<And>n. n < 32 \<Longrightarrow> runs (with_instance n i) (f n) Q"
  shows "runs i (abind (alloc_instance oc) f) Q"
proof -
  obtain n where n: "alloc_next_instance_id oc i = (Ok (Some n), with_instance n i)" "n < 32"
    using alloc_next_instance_id_ok [OF assms(1), of oc] by auto
  let ?alloc = "\<lambda>c. case alloc_next_instance_id oc (ctx_internal c) of (r, i) \<Rightarrow> (r, c\<lparr>ctx_internal := i\<rparr>)"
  have "wp ?alloc P E c = P (Some n) (c\<lparr>ctx_internal := with_instance n i\<rparr>)"
    if "ctx_internal c = i" for P E and c :: "'a fd_context"
    using n(1) that by (simp add: wp_def)
  then show ?thesis
    by (intro runsI) (simp add: alloc_instance_def wp_simps runsD [OF assms(2) [OF n(2)]])
qed

lemma runs_mark_sent [runs_rules]:
  "(\<And>now. runs (set_fd_req ReqSent complete result (Some inst) (Some (fw_update_cmd_disc cmd)) (Some now) i) (f ()) Q) \<Longrightarrow>
   runs i (abind (mark_sent ops complete result inst cmd) f) Q"
  unfolding mark_sent_def abind_assoc by (intro runs_rules)

lemma runs_respond_bind [runs_rules]:
  "sound_enc m \<Longrightarrow> (\<And>n. runs i (f n) Q) \<Longrightarrow> (\<And>e. Q (Err (Codec e)) i) \<Longrightarrow> runs i (abind (respond m) f) Q"
  by (rule runs_abind, rule runs_respond) simp_all

text \<open>What a call of \<open>fd_progress\<close> may do\<close>

definition progress_post ::
  "fd_internal \<Rightarrow> (nat, msg_handler_error) outcome \<Rightarrow> fd_internal \<Rightarrow> bool" where
  "progress_post i r i' \<longleftrightarrow>
     fd_inv i' \<and> fi_t1_timeout i' = fi_t1_timeout i \<and> fi_t2_retry_time i' = fi_t2_retry_time i
     \<and> (if r = Err T1Timeout
        then fi_state i \<in> initiator_states \<and> fi_state i' = Idle \<and> fi_req i' = fd_req_new
          \<and> fi_reason i' = timeout_reason (fi_state i)
        else fi_state i' = fi_state i)
     \<and> (\<forall>n. r = Ok n \<longrightarrow> 0 < n \<longrightarrow> req_state (fi_req i') = ReqSent)"

lemmas progress_defs = progress_post_def fd_inv_def req_ok_def mode_ok_def download_result_ok_def fd_setters

text \<open>\<open>same_phase i j\<close>: a step within a phase of the update went from \<open>i\<close> to \<open>j\<close>.\<close>

definition same_phase :: "fd_internal \<Rightarrow> fd_internal \<Rightarrow> bool" where
  "same_phase i j \<longleftrightarrow> fd_inv j \<and> fi_t1_timeout j = fi_t1_timeout i
     \<and> fi_t2_retry_time j = fi_t2_retry_time i \<and> fi_state j = fi_state i"

definition step_post ::
  "fd_internal \<Rightarrow> (nat, msg_handler_error) outcome \<Rightarrow> fd_internal \<Rightarrow> bool" where
  "step_post i r i' \<longleftrightarrow> same_phase i i' \<and> r \<noteq> Err T1Timeout \<and> r \<noteq> Panic
     \<and> (\<forall>n. r = Ok n \<longrightarrow> 0 < n \<longrightarrow> req_state (fi_req i') = ReqSent)"

lemma fd_inv_instance: "fd_inv i \<Longrightarrow> n < 32 \<Longrightarrow> fd_inv (with_instance n i)"
  by (simp add: fd_inv_def req_ok_def download_result_ok_def with_instance_def)

lemma with_instance_frame [simp]:
  "fi_state (with_instance n i) = fi_state i"
  "fi_mode (with_instance n i) = fi_mode i"
  "fi_t1_timeout (with_instance n i) = fi_t1_timeout i"
  "fi_t2_retry_time (with_instance n i) = fi_t2_retry_time i"
  "req_complete (fi_req (with_instance n i)) = req_complete (fi_req i)"
  "req_result (fi_req (with_instance n i)) = req_result (fi_req i)"
  "fi_update_comp (with_instance n i) = fi_update_comp i"
  by (simp_all add: with_instance_def)

lemma same_phase_refl [intro]: "fd_inv i \<Longrightarrow> same_phase i i"
  by (simp add: same_phase_def)

lemma same_phase_instance: "same_phase i j \<Longrightarrow> n < 32 \<Longrightarrow> same_phase i (with_instance n j)"
  by (simp add: same_phase_def fd_inv_instance)

lemma step_post_Err: "same_phase i j \<Longrightarrow> e \<noteq> T1Timeout \<Longrightarrow> step_post i (Err e) j"
  by (simp add: step_post_def)

lemma step_post_zero: "same_phase i j \<Longrightarrow> step_post i (Ok 0) j"
  by (simp add: step_post_def)

lemma step_post_sent:
  "same_phase i j \<Longrightarrow> fi_state j \<noteq> Download \<Longrightarrow> n < 32 \<Longrightarrow>
   step_post i (Ok m) (set_fd_req ReqSent complete res (Some n) (Some cmd) (Some now) (with_instance n j))"
  by (auto simp: step_post_def same_phase_def set_fd_req_def fd_inv_def req_ok_def download_result_ok_def)

lemma same_phase_verify_progress:
  "fd_inv i \<Longrightarrow> p \<le> 101 \<Longrightarrow> same_phase i (set_fd_verify_progress p i)"
  by (auto simp: same_phase_def inv_defs split: initiator_mode.splits)

lemma same_phase_apply_progress:
  "fd_inv i \<Longrightarrow> p \<le> 101 \<Longrightarrow> same_phase i (set_fd_apply_progress p i)"
  by (auto simp: same_phase_def inv_defs split: initiator_mode.splits)

lemma same_phase_req_ok: "same_phase i j \<Longrightarrow> req_ok (fi_req j)"
  by (simp add: same_phase_def fd_inv_def)

lemma verify_progress_frame [simp]:
  "fi_state (set_fd_verify_progress p i) = fi_state i"
  "fi_req (set_fd_verify_progress p i) = fi_req i"
  by (simp_all add: set_fd_verify_progress_def split: initiator_mode.split)

lemma apply_progress_frame [simp]:
  "fi_state (set_fd_apply_progress p i) = fi_state i"
  "fi_req (set_fd_apply_progress p i) = fi_req i"
  by (simp_all add: set_fd_apply_progress_def split: initiator_mode.split)

lemma fd_progress_download_runs:
  assumes "fd_inv i" and "fi_state i = Download"
  shows "runs i (fd_progress_download False ops) (step_post i)"
proof -
  have result: "\<exists>tr. req_result (fi_req i) = Some (transfer_result_disc tr) \<and> tr \<noteq> TransferVendorDefined"
    if "req_complete (fi_req i)"
    using assms that by (simp add: fd_inv_def download_result_ok_def)
  have transferred: "step_post i (Ok m) (set_fd_req ReqSent True (Some (transfer_result_disc tr)) (Some n)
      (Some cmd) (Some now) (with_instance n i))" if "n < 32" "tr \<noteq> TransferVendorDefined" for m tr n cmd now
    using assms that by (auto simp: step_post_def same_phase_def inv_defs)
  have requested: "step_post i (Ok m) (set_fd_req ReqSent False None (Some n)
      (Some cmd) (Some now) (set_fd_download_state off len (with_instance n i)))"
    if "n < 32" for m off len n cmd now
    using assms that by (auto simp: step_post_def same_phase_def inv_defs split: initiator_mode.splits)
  show ?thesis
    using same_phase_refl [OF assms(1)] result same_phase_req_ok [OF same_phase_refl [OF assms(1)]]
    unfolding fd_progress_download_def
    by (auto simp: transfer_result_roundtrip step_post_Err same_phase_instance transferred requested
        get_fd_download_chunk_no_checks layout
        intro!: runs_rules runs_should_send runs_alloc_instance sound_enc_blanket split: option.split)
qed

lemma progress_callbacks_ok:
  assumes "platform_wf ops"
  shows "ops_verify ops c progress_default p = (r, out, p') \<Longrightarrow> progress_value out \<le> 101"
    and "ops_apply ops c progress_default p = (r', out', p'') \<Longrightarrow> progress_value out' \<le> 101"
  using assms progress_default_ok unfolding platform_wf_def progress_ok_def
  by (metis PROGRESS_PERCENT_NOT_SUPPORTED_def fst_conv snd_conv)+

lemma pldm_fd_progress_verify_runs:
  assumes "platform_wf ops" and "fd_inv i" and "fi_state i = Verify"
  shows "runs i (pldm_fd_progress_verify False ops) (step_post i)"
  using assms progress_callbacks_ok [OF assms(1)] same_phase_refl [OF assms(2)]
    same_phase_verify_progress [OF assms(2)]
  unfolding pldm_fd_progress_verify_def Let_def
  by (auto simp: step_post_Err step_post_zero step_post_sent same_phase_instance layout
      intro: same_phase_req_ok
      intro!: runs_rules runs_should_send runs_alloc_instance sound_enc_blanket)

lemma pldm_fd_progress_apply_runs:
  assumes "platform_wf ops" and "fd_inv i" and "fi_state i = Apply"
  shows "runs i (pldm_fd_progress_apply False ops) (step_post i)"
  using assms progress_callbacks_ok [OF assms(1)] same_phase_refl [OF assms(2)]
    same_phase_apply_progress [OF assms(2)]
  unfolding pldm_fd_progress_apply_def Let_def
  by (auto simp: step_post_Err step_post_zero step_post_sent same_phase_instance layout
      intro: same_phase_req_ok
      intro!: runs_rules runs_should_send runs_alloc_instance sound_enc_blanket)

lemma abandon_update_post:
  assumes "fd_inv i" and "fi_state i \<in> initiator_states"
  shows "progress_post i (Err T1Timeout) (abandon_update i)"
  using assms by (auto simp: progress_defs abandon_update_def fd_idle_timeout_def fd_req_new_def
      split: initiator_mode.splits)

lemma fd_progress_runs:
  assumes "platform_wf ops" and "fd_inv i"
  shows "runs i (fd_progress False ops) (progress_post i)"
proof (cases "fi_state i \<in> initiator_states")
  case False
  with assms(2) show ?thesis
    by (auto simp: fd_progress_def Let_def progress_post_def intro!: runs_rules)
next
  case True
  have step: "runs i (progress_step False ops (fi_state i)) (step_post i)"
    using True assms fd_progress_download_runs pldm_fd_progress_verify_runs pldm_fd_progress_apply_runs
    by (auto simp: progress_step_def)
  have post: "progress_post i r i'" "progress_post i r (set_fd_t1_update_ts t i')" if "step_post i r i'" for r i' t
    using that by (auto simp: step_post_def same_phase_def progress_post_def set_fd_t1_update_ts_def fd_inv_def req_ok_def download_result_ok_def)
  let ?rest = "\<lambda>result. abind self_internal (\<lambda>j.
       abind (if (fi_state i = Verify \<or> fi_state i = Apply) \<and> req_state (fi_req j) \<noteq> ReqSent
              then set_fd_t1_ts ops else ret ()) (\<lambda>_. ret result))"
  have "runs i (abind (progress_step False ops (fi_state i)) ?rest) (progress_post i)"
  proof (rule runs_abind, rule runs_mono [OF step])
    fix r i' assume "step_post i r i'"
    then show "case r of Ok x \<Rightarrow> runs i' (?rest x) (progress_post i) | Err e \<Rightarrow> progress_post i (Err e) i' | Panic \<Rightarrow> False"
      by (cases r) (auto simp: step_post_def intro!: runs_rules post)
  qed
  moreover have "progress_post i (Err (FdOps e)) i" for e
    using assms(2) by (simp add: progress_post_def)
  ultimately show ?thesis
    using True abandon_update_post [OF assms(2) True]
    by (auto simp: fd_progress_def Let_def check_t1_def abind_assoc intro!: runs_rules)
qed

fun response_edge :: "firmware_device_state \<Rightarrow> firmware_device_state \<Rightarrow> bool" where
  "response_edge Download st' \<longleftrightarrow> st' = Verify"
| "response_edge Verify st' \<longleftrightarrow> st' = Apply"
| "response_edge Apply st' \<longleftrightarrow> st' = ReadyXfer"
| "response_edge _ st' \<longleftrightarrow> False"

text \<open>A phase ends on the response to its completion request, if its result was success.\<close>

definition response_post ::
  "fd_internal \<Rightarrow> (unit, msg_handler_error) outcome \<Rightarrow> fd_internal \<Rightarrow> bool" where
  "response_post i r i' \<longleftrightarrow>
     fd_inv i' \<and> fi_t1_timeout i' = fi_t1_timeout i \<and> fi_t2_retry_time i' = fi_t2_retry_time i
     \<and> (fi_state i' = fi_state i \<or>
        response_edge (fi_state i) (fi_state i') \<and> r = Ok () \<and> req_state (fi_req i) = ReqSent
        \<and> req_complete (fi_req i) \<and> req_result (fi_req i) = Some 0)"

lemma response_post_refl: "fd_inv i \<Longrightarrow> response_post i r i"
  by (simp add: response_post_def)

lemma response_post_req:
  "fd_inv i \<Longrightarrow> st \<noteq> ReqSent \<Longrightarrow> (complete \<Longrightarrow> \<exists>tr. res = Some (transfer_result_disc tr) \<and> tr \<noteq> TransferVendorDefined) \<Longrightarrow>
   response_post i r (set_fd_req st complete res None None None i)"
  by (simp add: response_post_def set_fd_req_def fd_inv_def req_ok_def download_result_ok_def)

lemma finish_phase_runs:
  assumes "fd_inv i" and "st \<noteq> Download \<or> (\<exists>tr. req_result (fi_req i) = Some (transfer_result_disc tr) \<and> tr \<noteq> TransferVendorDefined) \<or> \<not> req_complete (fi_req i)"
    and "fi_state i = st \<Longrightarrow> req_state (fi_req i) = ReqSent \<Longrightarrow> req_complete (fi_req i) \<Longrightarrow> succ i \<Longrightarrow>
      response_post i (Ok ()) (nxt i)"
  shows "runs i (finish_phase st succ nxt) (response_post i)"
proof -
  have "response_post i (Ok ()) (set_fd_req ReqFailed True (req_result (fi_req i)) None None None i)"
    if "fi_state i = st" "req_complete (fi_req i)"
    using assms(1,2) that by (auto simp: response_post_def set_fd_req_def fd_inv_def req_ok_def download_result_ok_def)
  then show ?thesis
    using assms(1,3) unfolding finish_phase_def
    by (auto simp: response_post_refl intro!: runs_rules)
qed

lemma download_result_exists:
  "fd_inv i \<Longrightarrow> fi_state i = Download \<Longrightarrow> req_complete (fi_req i) \<Longrightarrow>
   \<exists>tr. req_result (fi_req i) = Some (transfer_result_disc tr) \<and> tr \<noteq> TransferVendorDefined"
  by (simp add: fd_inv_def download_result_ok_def)

lemma process_transfer_complete_runs:
  assumes "fd_inv i" shows "runs i process_transfer_complete_rsp (response_post i)"
proof (cases "fi_state i = Download")
  case True
  then show ?thesis
    unfolding process_transfer_complete_rsp_def using assms download_result_exists [OF assms True]
    by (intro finish_phase_runs) (auto simp: response_post_def start_verify_def inv_defs)
qed (use assms in \<open>auto simp: process_transfer_complete_rsp_def finish_phase_def response_post_refl intro!: runs_rules\<close>)

lemma process_verify_complete_runs:
  assumes "fd_inv i" shows "runs i process_verify_complete_rsp (response_post i)"
  unfolding process_verify_complete_rsp_def using assms
  by (intro finish_phase_runs) (auto simp: response_post_def start_apply_def inv_defs)

lemma process_apply_complete_runs:
  assumes "fd_inv i" shows "runs i process_apply_complete_rsp (response_post i)"
  unfolding process_apply_complete_rsp_def using assms
  by (intro finish_phase_runs) (auto simp: response_post_def finish_apply_def inv_defs split: initiator_mode.splits)

lemma process_request_fw_data_runs:
  assumes "standard_codes ops" and "fd_inv i"
  shows "runs i (process_request_fw_data_rsp ops) (response_post i)"
proof -
  have mode: "\<exists>ol. get_fd_download_state i = Some ol" if "fi_state i = Download"
    using assms(2) that by (auto simp: fd_inv_def mode_ok_def get_fd_download_state_def split: initiator_mode.splits)
  have code: "tr \<noteq> TransferVendorDefined" if "download_fw_data ops off d c p = (Inr tr, p')" for off d c p tr p'
    using assms(1) that unfolding standard_codes_def by (metis fst_conv)
  have from4: "slice_from 4 b \<noteq> (Panic :: (_, msg_handler_error) outcome)"
    if "blanket_decode 4 request_fw_data_response_fixed_of b = Ok x" for b x
    using that by (auto simp: blanket_decode_def slice_from_def split: if_splits)
  have finished: "response_post i r (set_fd_req ReqReady True (Some (transfer_result_disc tr)) None None None i)"
    if "tr \<noteq> TransferVendorDefined" for r tr
    by (rule response_post_req [OF assms(2)]) (use that in auto)
  have aborted: "response_post i r (set_fd_req ReqReady True (Some 3) None None None i)" for r
    using finished [of FdAbortedTransfer r] by simp
  have success: "response_post i r (set_fd_req ReqReady True (Some 0) None None None i)" for r
    using finished [of TransferSuccess r] by simp
  have again: "response_post i r (set_fd_req ReqReady False None None None None i)" for r
    by (rule response_post_req [OF assms(2)]) simp_all
  have slice_err: "slice_from 4 b \<noteq> (Err e :: (_, msg_handler_error) outcome)" for b :: bytes and e
    by (simp add: slice_from_def)
  show ?thesis
    unfolding process_request_fw_data_rsp_def Let_def using mode code from4 assms(2)
    by (auto simp: response_post_refl finished again aborted success intro!: runs_rules)
qed

lemma response_post_ts: "response_post (set_fd_t1_update_ts t i) r i' = response_post i r i'"
  by (simp add: response_post_def set_fd_t1_update_ts_def)

lemma handle_response_runs:
  assumes "standard_codes ops" and "fd_inv i"
  shows "runs i (handle_response ops) (response_post i)"
proof -
  let ?j = "\<lambda>t. set_fd_t1_update_ts t i"
  have inv: "fd_inv (?j t)" for t using assms(2) by simp
  have sub: "runs (?j t) (process_request_fw_data_rsp ops) (response_post i)"
    "runs (?j t) process_transfer_complete_rsp (response_post i)"
    "runs (?j t) process_verify_complete_rsp (response_post i)"
    "runs (?j t) process_apply_complete_rsp (response_post i)" for t
    using process_request_fw_data_runs [OF assms(1) inv, of t] process_transfer_complete_runs [OF inv, of t]
      process_verify_complete_runs [OF inv, of t] process_apply_complete_runs [OF inv, of t]
    by (simp_all add: response_post_ts [abs_def])
  have refl: "response_post i r (?j t)" for r t using response_post_refl [OF inv, of t] by (simp add: response_post_ts)
  have dispatch: "runs (?j t) (case fw_update_cmd_try_from code of
           Ok RequestFirmwareData \<Rightarrow> process_request_fw_data_rsp ops
         | Ok TransferComplete \<Rightarrow> process_transfer_complete_rsp
         | Ok VerifyComplete \<Rightarrow> process_verify_complete_rsp
         | Ok ApplyComplete \<Rightarrow> process_apply_complete_rsp
         | _ \<Rightarrow> fail FdInitiatorModeError) (response_post i)" for t and code :: u8
    by (auto simp: sub refl intro!: runs_fail split: outcome.split fw_update_cmd.split)
  show ?thesis
    unfolding handle_response_def Let_def
    by (intro runs_rules dispatch) (auto simp: response_post_refl assms(2) hdr_decode_def)
qed

end
