(* ===== verification/Transitions.thy ===== *)
theory Transitions
  imports "HOL-Library.Sublist"
begin

text \<open>
  Runs of a transition system and the contract between a detailed system and an abstract
  one: an invariant of the detailed system, and for every detailed step an abstract step
  or none.  The runs carry the abstract states they went through.
\<close>

inductive run_of ::
  "('c \<Rightarrow> bool) \<Rightarrow> ('c \<Rightarrow> 'e \<Rightarrow> 'c \<Rightarrow> bool) \<Rightarrow> ('c \<Rightarrow> 'a) \<Rightarrow> 'c \<Rightarrow> 'a list \<Rightarrow> bool"
  for init step view where
  run_start: "init c \<Longrightarrow> run_of init step view c [view c]"
| run_step: "run_of init step view c tr \<Longrightarrow> step c e c' \<Longrightarrow> run_of init step view c' (tr @ [view c'])"

text \<open>A path of the abstract system, which may stay where it is.\<close>

fun abstract_path :: "('a \<Rightarrow> 'a \<Rightarrow> bool) \<Rightarrow> 'a list \<Rightarrow> bool" where
  "abstract_path a_step (x # y # zs) \<longleftrightarrow> (y = x \<or> a_step x y) \<and> abstract_path a_step (y # zs)"
| "abstract_path a_step _ \<longleftrightarrow> True"

lemma abstract_path_snoc:
  "abstract_path a_step (xs @ [x, y]) \<longleftrightarrow> abstract_path a_step (xs @ [x]) \<and> (y = x \<or> a_step x y)"
  by (induction a_step xs rule: abstract_path.induct) auto

locale simulation =
  fixes init :: "'c \<Rightarrow> bool"
    and step :: "'c \<Rightarrow> 'e \<Rightarrow> 'c \<Rightarrow> bool"
    and view :: "'c \<Rightarrow> 'a"
    and a_step :: "'a \<Rightarrow> 'a \<Rightarrow> bool"
    and inv :: "'c \<Rightarrow> bool"
  assumes init_inv: "init c \<Longrightarrow> inv c"
    and step_inv: "inv c \<Longrightarrow> step c e c' \<Longrightarrow> inv c'"
    and step_view: "inv c \<Longrightarrow> step c e c' \<Longrightarrow> view c' = view c \<or> a_step (view c) (view c')"
begin

lemma run_inv: "run_of init step view c tr \<Longrightarrow> inv c"
  by (induction rule: run_of.induct) (auto intro: init_inv step_inv)

lemma run_last: "run_of init step view c tr \<Longrightarrow> tr \<noteq> [] \<and> last tr = view c"
  by (induction rule: run_of.induct) simp_all

lemma run_path: "run_of init step view c tr \<Longrightarrow> abstract_path a_step tr"
proof (induction rule: run_of.induct)
  case (run_step c tr e c')
  from run_last [OF run_step.hyps(1)] obtain xs where "tr = xs @ [view c]"
    by (metis append_butlast_last_id)
  with run_step step_view [OF run_inv [OF run_step.hyps(1)] run_step.hyps(2)]
  show ?case by (simp add: abstract_path_snoc)
qed simp

text \<open>
  A milestone that every way to an abstract state has passed: if \<open>path_to\<close> grows with
  the abstract steps, the run contains it as a subsequence.
\<close>

lemma run_milestones:
  assumes "\<And>c. init c \<Longrightarrow> subseq (path_to (view c)) [view c]"
    and "\<And>a a'. a_step a a' \<Longrightarrow> path_to a' = path_to a @ [a'] \<or> subseq (path_to a') (path_to a)"
    and "run_of init step view c tr"
  shows "subseq (path_to (view c)) tr"
  using assms(3)
proof (induction rule: run_of.induct)
  case (run_step c tr e c')
  have more: "subseq p tr \<Longrightarrow> subseq p (tr @ [x])" for p x
    by (metis append_Nil2 list_emb_append_mono list_emb_Nil)
  show ?case
  proof (cases "view c' = view c")
    case False
    then have "a_step (view c) (view c')"
      using step_view [OF run_inv [OF run_step.hyps(1)] run_step.hyps(2)] by blast
    from assms(2) [OF this] run_step.IH show ?thesis
      by (metis more list_emb_append_mono subseq_order.dual_order.refl subseq_order.trans)
  qed (use run_step.IH more in simp)
qed (use assms(1) in simp)

end

end
