(* ===== verification/Fd_Machine.thy ===== *)
theory Fd_Machine
  imports Fd_Invariant Transitions
begin

text \<open>
  The firmware device as a state machine: a step is one call of the Update Agent's
  requests, of \<open>fd_progress\<close> or of \<open>handle_response\<close>, on any payload, or a change of
  the platform behind the callbacks (time passing included).  The machine refines the
  update protocol of the README, and its invariant holds in every reachable state.
\<close>

section \<open>Overflow checks\<close>

text \<open>With overflow checks the code panics or does what it does without them.\<close>

definition upto_panic :: "('s, 'a, 'e) act \<Rightarrow> ('s, 'a, 'e) act \<Rightarrow> bool" where
  "upto_panic m m' \<longleftrightarrow> (\<forall>s. fst (m s) = Panic \<or> m s = m' s)"

named_theorems upto_panic_rules \<open>agreement up to panics\<close>

lemma upto_panic_refl [upto_panic_rules]: "upto_panic m m"
  by (simp add: upto_panic_def)

lemma upto_panic_lift [upto_panic_rules]: "r = Panic \<or> r = r' \<Longrightarrow> upto_panic (lift r) (lift r')"
  by (auto simp: upto_panic_def lift_def)

lemma upto_panic_abind [upto_panic_rules]:
  assumes "upto_panic m m'" and "\<And>x. upto_panic (f x) (f' x)"
  shows "upto_panic (abind m f) (abind m' f')"
  unfolding upto_panic_def
proof
  fix s
  show "fst (abind m f s) = Panic \<or> abind m f s = abind m' f' s"
  proof (cases "fst (m s) = Panic")
    case True
    then show ?thesis by (cases "m s") (simp add: abind_def)
  next
    case False
    with assms(1) have "m s = m' s" by (auto simp: upto_panic_def)
    then show ?thesis
      using assms(2) by (auto simp: abind_def upto_panic_def split: prod.split outcome.split)
  qed
qed

lemma upto_panic_if [upto_panic_rules]:
  "upto_panic m m' \<Longrightarrow> upto_panic n n' \<Longrightarrow> upto_panic (if b then m else n) (if b then m' else n')"
  by simp

lemma add_checked_upto: "add_checked oc a b = Panic \<or> add_checked oc a b = add_checked False a b"
  by (simp add: add_checked_def)

lemma alloc_instance_upto: "upto_panic (alloc_instance oc) (alloc_instance False)"
  unfolding upto_panic_def
proof
  fix s :: "'a fd_context \<times> bytes"
  show "fst (alloc_instance oc s) = Panic \<or> alloc_instance oc s = alloc_instance False s"
    using add_checked_upto [of oc "the (req_instance_id (fi_req (ctx_internal (fst s))))" 1]
    by (cases s; cases "req_instance_id (fi_req (ctx_internal (fst s)))")
       (auto simp: alloc_instance_def alloc_next_instance_id_def abind_def on_ctx_def)
qed

lemma get_fd_download_chunk_upto:
  "get_fd_download_chunk oc off len i = Panic \<or>
   get_fd_download_chunk oc off len i = get_fd_download_chunk False off len i"
  using add_checked_upto [of oc off len]
    add_checked_upto [of oc "case fc_image_size (fi_update_comp i) of None \<Rightarrow> 0 | Some n \<Rightarrow> n" 32]
  by (auto simp: get_fd_download_chunk_def Let_def)

lemma fd_progress_upto: "upto_panic (fd_progress oc ops) (fd_progress False ops)"
proof -
  have download: "upto_panic (fd_progress_download oc ops) (fd_progress_download False ops)"
    unfolding fd_progress_download_def
    by (intro upto_panic_rules alloc_instance_upto get_fd_download_chunk_upto
        | auto intro!: upto_panic_rules alloc_instance_upto get_fd_download_chunk_upto)+
  have verify: "upto_panic (pldm_fd_progress_verify oc ops) (pldm_fd_progress_verify False ops)"
    unfolding pldm_fd_progress_verify_def Let_def
    by (auto intro!: upto_panic_rules alloc_instance_upto)
  have applying: "upto_panic (pldm_fd_progress_apply oc ops) (pldm_fd_progress_apply False ops)"
    unfolding pldm_fd_progress_apply_def Let_def
    by (auto intro!: upto_panic_rules alloc_instance_upto)
  have "upto_panic (progress_step oc ops st) (progress_step False ops st)" for st
    using download verify applying by (cases st) (simp_all add: progress_step_def upto_panic_refl)
  then show ?thesis
    unfolding fd_progress_def Let_def by (intro upto_panic_rules)
qed

section \<open>Steps\<close>

datatype fd_event =
    UaRequest u8 bytes
  | UaResponse bytes
  | DeviceProgress bytes
  | PlatformChange

inductive fd_step :: "bool \<Rightarrow> 'p fd_ops \<Rightarrow> 'p fd_context \<Rightarrow> fd_event \<Rightarrow> 'p fd_context \<Rightarrow> bool"
  for oc ops where
  request: "process_fw_update_cmd ops op (c, b) = (r, (c', b')) \<Longrightarrow> r \<noteq> Panic \<Longrightarrow>
    fd_step oc ops c (UaRequest op b) c'"
| response: "handle_response ops (c, b) = (r, (c', b')) \<Longrightarrow> r \<noteq> Panic \<Longrightarrow>
    fd_step oc ops c (UaResponse b) c'"
| progress: "fd_progress oc ops (c, b) = (r, (c', b')) \<Longrightarrow> r \<noteq> Panic \<Longrightarrow>
    fd_step oc ops c (DeviceProgress b) c'"
| platform: "fd_step oc ops c PlatformChange (c\<lparr>ctx_plat := p\<rparr>)"

inductive_cases request_stepE: "fd_step oc ops c (UaRequest op b) c'"
inductive_cases response_stepE: "fd_step oc ops c (UaResponse b) c'"
inductive_cases progress_stepE: "fd_step oc ops c (DeviceProgress b) c'"
inductive_cases platform_stepE: "fd_step oc ops c PlatformChange c'"

inductive_simps request_step_iff: "fd_step oc ops c (UaRequest op b) c'"
inductive_simps response_step_iff: "fd_step oc ops c (UaResponse b) c'"
inductive_simps progress_step_iff: "fd_step oc ops c (DeviceProgress b) c'"

section \<open>The protocol\<close>

text \<open>The update protocol between the states, with what moves it.\<close>

inductive protocol_step :: "firmware_device_state \<Rightarrow> firmware_device_state \<Rightarrow> bool" where
  update_requested: "protocol_step Idle LearnComponents"
| table_passed: "protocol_step LearnComponents ReadyXfer"
| component_accepted: "protocol_step ReadyXfer Download"
| transfer_completed: "protocol_step Download Verify"
| verify_completed: "protocol_step Verify Apply"
| apply_completed: "protocol_step Apply ReadyXfer"
| activated: "protocol_step ReadyXfer Idle"
| component_cancelled: "st \<in> initiator_states \<Longrightarrow> protocol_step st ReadyXfer"
| update_cancelled: "st \<in> initiator_states \<Longrightarrow> protocol_step st Idle"

text \<open>The states every update passes through on the way to a state.\<close>

fun way_to :: "firmware_device_state \<Rightarrow> firmware_device_state list" where
  "way_to LearnComponents = [Idle, LearnComponents]"
| "way_to ReadyXfer = [Idle, LearnComponents, ReadyXfer]"
| "way_to Download = [Idle, LearnComponents, ReadyXfer, Download]"
| "way_to Verify = [Idle, LearnComponents, ReadyXfer, Download, Verify]"
| "way_to Apply = [Idle, LearnComponents, ReadyXfer, Download, Verify, Apply]"
| "way_to _ = [Idle]"

lemma way_to_step:
  "protocol_step st st' \<Longrightarrow> way_to st' = way_to st @ [st'] \<or> subseq (way_to st') (way_to st)"
  by (induction rule: protocol_step.induct) auto

lemma request_edge_protocol: "request_edge cmd st st' \<Longrightarrow> protocol_step st st'"
  by (cases cmd) (auto simp: protocol_step.simps)

lemma response_edge_protocol: "response_edge st st' \<Longrightarrow> protocol_step st st'"
  by (cases st) (auto simp: protocol_step.simps)

section \<open>The refinement\<close>

lemma failure_runs: "fd_inv i \<Longrightarrow> runs i (failure cc) (\<lambda>r i'. i' = i)"
  by (rule runs_failure) simp_all

lemma request_step_post:
  assumes "fd_inv (ctx_internal c)" "platform_wf ops" "standard_codes ops"
    and "process_fw_update_cmd ops op (c, b) = (r, (c', b'))"
  shows "r \<noteq> Panic \<and> length b' = length b \<and>
    (case fw_update_cmd_try_from op of
       Ok cmd \<Rightarrow> request_post cmd (ctx_internal c) r (ctx_internal c')
     | _ \<Rightarrow> ctx_internal c' = ctx_internal c)"
proof (cases "fw_update_cmd_try_from op")
  case (Ok cmd)
  from runs_result [OF process_fw_update_cmd_runs [OF assms(2,3,1) Ok] refl assms(4)] Ok show ?thesis by simp
next
  case (Err e)
  then have "process_fw_update_cmd ops op = failure (base_cc_disc CC_UnsupportedPldmCmd)"
    by (simp add: process_fw_update_cmd_def)
  with runs_result [OF failure_runs [OF assms(1)] refl, of "base_cc_disc CC_UnsupportedPldmCmd" b r c' b'] assms(4) Err
  show ?thesis by simp
qed (use fw_update_cmd.no_panic in simp)

lemma response_step_post:
  assumes "fd_inv (ctx_internal c)" "standard_codes ops" and "handle_response ops (c, b) = (r, (c', b'))"
  shows "r \<noteq> Panic \<and> length b' = length b \<and> response_post (ctx_internal c) r (ctx_internal c')"
  using runs_result [OF handle_response_runs [OF assms(2,1)] refl assms(3)] by simp

lemma progress_step_post:
  assumes "fd_inv (ctx_internal c)" "platform_wf ops" and "fd_progress oc ops (c, b) = (r, (c', b'))" and "r \<noteq> Panic"
  shows "length b' = length b \<and> progress_post (ctx_internal c) r (ctx_internal c')"
proof -
  have "fd_progress False ops (c, b) = (r, (c', b'))"
    using fd_progress_upto [of oc ops] assms(3,4) unfolding upto_panic_def by (metis fst_conv)
  from runs_result [OF fd_progress_runs [OF assms(2,1)] refl this] show ?thesis by simp
qed

type_synonym 'p machine = "'p fd_ops \<times> 'p fd_context"

fun machine_init :: "'p machine \<Rightarrow> bool" where
  "machine_init (ops, c) \<longleftrightarrow> platform_wf ops \<and> standard_codes ops \<and> c = fd_context_new (ctx_plat c)"

fun machine_step :: "bool \<Rightarrow> 'p machine \<Rightarrow> fd_event \<Rightarrow> 'p machine \<Rightarrow> bool" where
  "machine_step oc (ops, c) e (ops', c') \<longleftrightarrow> ops' = ops \<and> fd_step oc ops c e c'"

fun machine_inv :: "'p machine \<Rightarrow> bool" where
  "machine_inv (ops, c) \<longleftrightarrow> platform_wf ops \<and> standard_codes ops \<and> fd_inv (ctx_internal c)"

fun machine_state :: "'p machine \<Rightarrow> firmware_device_state" where
  "machine_state (ops, c) = fi_state (ctx_internal c)"

lemma fd_step_post:
  assumes "fd_step oc ops c e c'" and "fd_inv (ctx_internal c)" "platform_wf ops" "standard_codes ops"
  shows "fd_inv (ctx_internal c') \<and>
    (fi_state (ctx_internal c') = fi_state (ctx_internal c) \<or>
     protocol_step (fi_state (ctx_internal c)) (fi_state (ctx_internal c')))"
  using assms(1)
proof cases
  case (request op b r b')
  from request_step_post [OF assms(2-4) request(2)] assms(2) show ?thesis
    by (auto simp: request_post_def request_edge_protocol split: outcome.splits)
next
  case (response b r b')
  from response_step_post [OF assms(2,4) response(2)] show ?thesis
    by (auto simp: response_post_def response_edge_protocol)
next
  case (progress b r b')
  from progress_step_post [OF assms(2,3) progress(2,3)] show ?thesis
    by (auto simp: progress_post_def protocol_step.simps split: if_splits)
next
  case (platform p)
  with assms(2) show ?thesis by simp
qed

interpretation fd: simulation machine_init "machine_step oc" machine_state protocol_step machine_inv
proof
  fix c :: "'a machine" assume "machine_init c"
  then show "machine_inv c"
    by (cases c) (auto simp: fd_context_new_def fd_inv_default dest: arg_cong [where f = ctx_internal])
next
  fix c :: "'a machine" and e c' assume "machine_inv c" "machine_step oc c e c'"
  then show "machine_inv c'" "machine_state c' = machine_state c \<or> protocol_step (machine_state c) (machine_state c')"
    by (cases c; cases c'; auto dest: fd_step_post)+
qed

section \<open>Runs of the device\<close>

text \<open>
  \<open>fd_run oc ops c tr\<close>: a device that was created on some platform state is now in
  context \<open>c\<close>, and \<open>tr\<close> are the states it went through.
\<close>

definition fd_run :: "bool \<Rightarrow> 'p fd_ops \<Rightarrow> 'p fd_context \<Rightarrow> firmware_device_state list \<Rightarrow> bool" where
  "fd_run oc ops = run_of (\<lambda>c. c = fd_context_new (ctx_plat c)) (fd_step oc ops) (\<lambda>c. fi_state (ctx_internal c))"

lemma fd_run_start: "fd_run oc ops (fd_context_new p) [Idle]"
proof -
  have "fi_state (ctx_internal (fd_context_new p)) = Idle"
    by (simp add: fd_context_new_def fd_internal_default_def fd_internal_new_def)
  then show ?thesis
    unfolding fd_run_def
    using run_of.run_start [of "\<lambda>c. c = fd_context_new (ctx_plat c)" "fd_context_new p" "fd_step oc ops" "\<lambda>c. fi_state (ctx_internal c)"]
    by (simp add: fd_context_new_def)
qed

lemma fd_run_machine:
  assumes "fd_run oc ops c tr" and "platform_wf ops" "standard_codes ops"
  shows "run_of machine_init (machine_step oc) machine_state (ops, c) tr"
  using assms(1) unfolding fd_run_def
proof (induction rule: run_of.induct)
  case (run_start c)
  with assms(2,3) have "machine_init (ops, c)" by simp
  from run_of.run_start [of machine_init, OF this, of "machine_step oc" machine_state] show ?case by simp
next
  case (run_step c tr e c')
  then have "machine_step oc (ops, c) e (ops, c')" by simp
  from run_of.run_step [of machine_init, OF run_step.IH this] show ?case by simp
qed

lemma fd_run_step:
  "fd_run oc ops c tr \<Longrightarrow> fd_step oc ops c e c' \<Longrightarrow> fd_run oc ops c' (tr @ [fi_state (ctx_internal c')])"
  unfolding fd_run_def by (rule run_of.run_step)

lemma fd_run_inv:
  assumes "fd_run oc ops c tr" "platform_wf ops" "standard_codes ops"
  shows "fd_inv (ctx_internal c)"
  using fd.run_inv [OF fd_run_machine [OF assms]] by simp

text \<open>An executable run: the events one after the other, none of which may panic.\<close>

fun fd_exec :: "bool \<Rightarrow> 'p fd_ops \<Rightarrow> fd_event \<Rightarrow> 'p fd_context \<Rightarrow> 'p fd_context option" where
  "fd_exec oc ops (UaRequest op b) c =
     (case process_fw_update_cmd ops op (c, b) of (r, (c', b')) \<Rightarrow> if r = Panic then None else Some c')"
| "fd_exec oc ops (UaResponse b) c =
     (case handle_response ops (c, b) of (r, (c', b')) \<Rightarrow> if r = Panic then None else Some c')"
| "fd_exec oc ops (DeviceProgress b) c =
     (case fd_progress oc ops (c, b) of (r, (c', b')) \<Rightarrow> if r = Panic then None else Some c')"
| "fd_exec oc ops PlatformChange c = Some c"

fun fd_drive :: "bool \<Rightarrow> 'p fd_ops \<Rightarrow> fd_event list \<Rightarrow> 'p fd_context \<Rightarrow> ('p fd_context \<times> firmware_device_state list) option" where
  "fd_drive oc ops [] c = Some (c, [])"
| "fd_drive oc ops (e # es) c =
     (case fd_exec oc ops e c of
        None \<Rightarrow> None
      | Some c1 \<Rightarrow> map_option (\<lambda>(c', tr). (c', fi_state (ctx_internal c1) # tr)) (fd_drive oc ops es c1))"

lemma fd_exec_step: "fd_exec oc ops e c = Some c' \<Longrightarrow> fd_step oc ops c e c'"
proof (cases e)
  case PlatformChange
  assume "fd_exec oc ops e c = Some c'"
  with PlatformChange fd_step.platform [of oc ops c "ctx_plat c"] show ?thesis by simp
qed (auto intro: fd_step.intros split: prod.splits if_splits)

lemma fd_drive_run:
  "fd_run oc ops c tr \<Longrightarrow> fd_drive oc ops es c = Some (c', tr') \<Longrightarrow> fd_run oc ops c' (tr @ tr')"
proof (induction es arbitrary: c tr tr')
  case (Cons e es)
  then obtain c1 tr1 where "fd_exec oc ops e c = Some c1" "fd_drive oc ops es c1 = Some (c', tr1)"
    "tr' = fi_state (ctx_internal c1) # tr1" by (auto split: option.splits)
  with Cons.IH [OF fd_run_step [OF Cons.prems(1) fd_exec_step]] show ?case by fastforce
qed simp

lemma fd_drive_from_start:
  "fd_drive oc ops es (fd_context_new p) = Some (c, tr) \<Longrightarrow> fd_run oc ops c (Idle # tr)"
  using fd_drive_run [OF fd_run_start] by fastforce

section \<open>An update on the platform of the tests\<close>

definition on_wire :: "bytes \<Rightarrow> bytes" where
  "on_wire msg = msg @ replicate (48 - length msg) 0"

text \<open>
  The Update Agent's side of an update of one component of 32 bytes with version "v1", and
  the device's calls in between.  The responses answer the device's requests, all of which
  carry instance id 1.
\<close>

definition ask_update :: fd_event where
  "ask_update = UaRequest 0x10 (on_wire [0x81, 5, 0x10, 0, 2, 0, 0, 1, 0, 1, 0, 0, 1, 2, 0x76, 0x31])"

definition pass_table :: fd_event where
  "pass_table = UaRequest 0x13 (on_wire [0x82, 5, 0x13, 5, 10, 0, 1, 0, 0, 1, 0, 0, 0, 1, 2, 0x76, 0x31])"

definition update_one :: fd_event where
  "update_one = UaRequest 0x14
     (on_wire [0x83, 5, 0x14, 10, 0, 1, 0, 0, 1, 0, 0, 0, 32, 0, 0, 0, 0, 0, 0, 0, 1, 2, 0x76, 0x31])"

definition next_request :: fd_event where
  "next_request = DeviceProgress (on_wire [])"

definition send_data :: fd_event where
  "send_data = UaResponse (on_wire [1, 5, 0x15, 0])"

definition acknowledge :: "fw_update_cmd \<Rightarrow> fd_event" where
  "acknowledge cmd = UaResponse (on_wire [1, 5, fw_update_cmd_disc cmd, 0])"

definition activate_all :: fd_event where
  "activate_all = UaRequest 0x1A (on_wire [0x84, 5, 0x1A, 0])"

definition start_of_update :: "fd_event list" where
  "start_of_update = [ask_update, pass_table, update_one]"

definition whole_update :: "fd_event list" where
  "whole_update = start_of_update @
     [next_request, send_data, next_request, acknowledge TransferComplete,
      next_request, acknowledge VerifyComplete, next_request, acknowledge ApplyComplete, activate_all]"

definition first_context :: "u64 fd_context" where
  "first_context = fd_context_new 1000"

lemma drive_last:
  "fd_drive oc ops es c = Some (c', tr) \<Longrightarrow> tr \<noteq> [] \<Longrightarrow> last tr = fi_state (ctx_internal c')"
proof (induction es arbitrary: c tr)
  case (Cons e es)
  then obtain c1 tr1 where "fd_drive oc ops es c1 = Some (c', tr1)" "tr = fi_state (ctx_internal c1) # tr1"
    by (auto split: option.splits)
  with Cons.IH [of c1 tr1] show ?case by (cases es) (auto split: option.splits)
qed simp

lemma start_of_update_run:
  obtains c where "fd_run False test_fd_ops c [Idle, LearnComponents, ReadyXfer, Download]"
    and "fi_state (ctx_internal c) = Download"
proof -
  have "map_option snd (fd_drive False test_fd_ops start_of_update first_context) = Some [LearnComponents, ReadyXfer, Download]"
    by code_simp
  then obtain c where "fd_drive False test_fd_ops start_of_update (fd_context_new 1000) = Some (c, [LearnComponents, ReadyXfer, Download])"
    by (auto simp: first_context_def)
  from that [OF fd_drive_from_start [OF this]] drive_last [OF this] show ?thesis by simp
qed

section \<open>What holds in every reachable state\<close>

text \<open>C2: a device in a reachable state does not panic: not on a request of the Update Agent,
  whatever its bytes and the platform's answers, not on a response, and not when it makes
  progress, provided the platform keeps its arrays well-formed, does not answer with
  vendor-defined codes, and integers wrap.\<close>

theorem reachable_no_panic:
  assumes "fd_run oc ops c tr" and "platform_wf ops" and "standard_codes ops"
  shows "fst (process_fw_update_cmd ops op (c, b)) \<noteq> Panic
    \<and> fst (handle_response ops (c, b)) \<noteq> Panic
    \<and> fst (fd_progress False ops (c, b)) \<noteq> Panic"
proof -
  note inv = fd_run_inv [OF assms]
  have "r \<noteq> Panic" if "process_fw_update_cmd ops op (c, b) = (r, (c', b'))" for r c' b'
    using request_step_post [OF inv assms(2,3) that] by simp
  moreover have "r \<noteq> Panic" if "handle_response ops (c, b) = (r, (c', b'))" for r c' b'
    using response_step_post [OF inv assms(3) that] by simp
  moreover have "r \<noteq> Panic" if "fd_progress False ops (c, b) = (r, (c', b'))" for r c' b'
    using runs_result [OF fd_progress_runs [OF assms(2) inv] refl that] by simp
  ultimately show ?thesis by (metis prod.collapse)
qed

theorem reachable_no_panic_witness:
  "\<exists>c :: u64 fd_context. fi_state (ctx_internal c) = Download \<and> fst (process_fw_update_cmd test_fd_ops 0x1B (c, [])) \<noteq> Panic"
proof -
  obtain c where c: "fd_run False test_fd_ops c [Idle, LearnComponents, ReadyXfer, Download]"
    "fi_state (ctx_internal c) = Download" by (rule start_of_update_run)
  from reachable_no_panic [OF c(1) test_platform_wf test_standard_codes] c(2) show ?thesis by auto
qed

text \<open>C8: on a platform that fills its arrays with well-formed values and keeps its progress a
  percentage (\<open>platform_wf\<close>) and that does not answer with vendor-defined codes
  (\<open>standard_codes\<close>), in every reachable state the request bookkeeping is consistent (a request that was
  sent has its instance id, command and time, and instance ids are below 32), the mode is
  the one of the state, the progress shown is at most 101, a finished download has a
  result that can be sent, and the device does not stay in the activation state.\<close>

theorem reachable_invariant:
  assumes "fd_run oc ops c tr" and "platform_wf ops" and "standard_codes ops"
  shows "fd_inv (ctx_internal c)"
  by (rule fd_run_inv [OF assms])

theorem reachable_invariant_witness:
  "\<exists>c :: u64 fd_context. fi_state (ctx_internal c) = Download \<and> fd_inv (ctx_internal c)"
proof -
  obtain c where c: "fd_run False test_fd_ops c [Idle, LearnComponents, ReadyXfer, Download]"
    "fi_state (ctx_internal c) = Download" by (rule start_of_update_run)
  from reachable_invariant [OF c(1) test_platform_wf test_standard_codes] c(2) show ?thesis by auto
qed

text \<open>C3: on a platform that meets \<open>platform_wf\<close> and \<open>standard_codes\<close>, the device follows the update
  protocol: it moves along the protocol's steps only, and whenever it is in a state of an update the
  sequence of its states contains every earlier state of the way there, in order: it applies only after
  it has verified, verifies only after it has downloaded, and downloads only after the component
  table was passed in an update that was requested.\<close>

theorem update_follows_protocol:
  assumes "fd_run oc ops c tr" and "platform_wf ops" and "standard_codes ops"
  shows "abstract_path protocol_step tr \<and> last tr = fi_state (ctx_internal c)
    \<and> subseq (way_to (fi_state (ctx_internal c))) tr"
proof -
  note run = fd_run_machine [OF assms]
  have "subseq (way_to (machine_state m)) [machine_state m]" if "machine_init m" for m :: "'a machine"
    using that by (cases m) (auto simp: fd_context_new_def fd_internal_default_def fd_internal_new_def
        dest: arg_cong [where f = ctx_internal])
  from fd.run_milestones [OF this way_to_step run] fd.run_path [OF run] fd.run_last [OF run]
  show ?thesis by simp
qed

theorem update_follows_protocol_witness:
  "\<exists>c :: u64 fd_context. fi_state (ctx_internal c) = Download \<and> subseq (way_to (fi_state (ctx_internal c))) [Idle, LearnComponents, ReadyXfer, Download]"
proof -
  obtain c where c: "fd_run False test_fd_ops c [Idle, LearnComponents, ReadyXfer, Download]"
    "fi_state (ctx_internal c) = Download" by (rule start_of_update_run)
  from update_follows_protocol [OF c(1) test_platform_wf test_standard_codes] c(2) show ?thesis by auto
qed

text \<open>An update can be carried through: on the platform of the tests, the Update Agent's
  requests and its answers to the requests the device makes take the device from idle
  through download, verification and application back to idle.\<close>

theorem whole_update_completes:
  "map_option snd (fd_drive oc test_fd_ops whole_update first_context) =
     Some [LearnComponents, ReadyXfer, Download, Download, Download, Download, Verify, Verify,
       Apply, Apply, ReadyXfer, Idle]"
proof -
  have "map_option snd (fd_drive True test_fd_ops whole_update first_context) =
     Some [LearnComponents, ReadyXfer, Download, Download, Download, Download, Verify, Verify,
       Apply, Apply, ReadyXfer, Idle]" by code_simp
  moreover have "map_option snd (fd_drive False test_fd_ops whole_update first_context) =
     Some [LearnComponents, ReadyXfer, Download, Download, Download, Download, Verify, Verify,
       Apply, Apply, ReadyXfer, Idle]" by code_simp
  ultimately show ?thesis by (cases oc) simp_all
qed

end
