(* ===== verification/Fd_Guards.thy ===== *)
theory Fd_Guards
  imports Fd_Machine
begin

text \<open>
  What the request handlers answer: the commands refused in each state, activation, and
  cancelling an update or a component.
\<close>

section \<open>Commands out of place\<close>

text \<open>The completion code with which a command is refused in a state.\<close>

fun refusal :: "fw_update_cmd \<Rightarrow> firmware_device_state \<Rightarrow> u8 option" where
  "refusal QueryDeviceIdentifiers st = None"
| "refusal GetFirmwareParameters st = None"
| "refusal GetStatus st = None"
| "refusal RequestUpdate st = (if st = Idle then None else Some (fw_cc_disc AlreadyInUpdateMode))"
| "refusal PassComponentTable st = (if st = LearnComponents then None else Some (fw_cc_disc InvalidStateForCommand))"
| "refusal UpdateComponent st = (if st = ReadyXfer then None else Some (fw_cc_disc InvalidStateForCommand))"
| "refusal ActivateFirmware st = (if st = ReadyXfer then None else Some (fw_cc_disc InvalidStateForCommand))"
| "refusal CancelUpdateComponent st =
     (if st = Idle then Some (fw_cc_disc NotInUpdateMode)
      else if st \<in> initiator_states then None else Some (fw_cc_disc InvalidStateForCommand))"
| "refusal CancelUpdate st = (if st = Idle then Some (fw_cc_disc NotInUpdateMode) else None)"
| "refusal ActivatePendingComponentImage st = (if st = Idle then None else Some (fw_cc_disc InvalidStateForCommand))"
| "refusal UpdateSecurityRevision st = (if st = Idle then None else Some (fw_cc_disc InvalidStateForCommand))"
| "refusal _ st = Some (base_cc_disc CC_UnsupportedPldmCmd)"

lemma guarded:
  "abind self_internal (\<lambda>i. if P i then m i else m' i) (c, b) =
     (if P (ctx_internal c) then m (ctx_internal c) (c, b) else m' (ctx_internal c) (c, b))"
  by (simp add: abind_def self_internal_def gets_def)

lemma refusal_failure:
  assumes "fw_update_cmd_try_from op = Ok cmd" and "refusal cmd (fi_state (ctx_internal c)) = Some cc"
  shows "process_fw_update_cmd ops op (c, b) = failure cc (c, b)"
  using assms
  by (cases cmd)
     (auto simp: process_fw_update_cmd_def request_update_rsp_def pass_component_rsp_def update_component_rsp_def
      activate_firmware_rsp_def cancel_update_component_rsp_def cancel_update_rsp_def
      activate_pending_component_image_rsp_def update_security_revision_rsp_def
      guarded is_update_mode_def split: if_splits)

text \<open>C18: a command that the device's state does not allow is refused with the completion
  code of that refusal in a response with the request's own header, and neither the device
  nor the platform changes; the platform is not even asked.\<close>

theorem out_of_place_refused:
  assumes "fw_update_cmd_try_from op = Ok cmd" and "refusal cmd (fi_state (ctx_internal c)) = Some cc"
    and "4 \<le> length b"
  shows "process_fw_update_cmd ops op (c, b) =
    (Ok 4, (c, hdr_bytes (into_response (hdr_of (take 3 b))) @ cc # drop 4 b))"
  using assms(3) by (simp add: refusal_failure [OF assms(1,2)] failure_eq)

theorem out_of_place_refused_witness:
  "process_fw_update_cmd test_fd_ops 0x14 (first_context, [0x81, 5, 0x14, 10, 0]) =
     (Ok 4, (first_context, [0x01, 5, 0x14, 0x84, 0]))"
proof -
  have "fw_update_cmd_try_from 0x14 = Ok UpdateComponent" by (simp add: fw_update_cmd_try_from_def)
  moreover have "refusal UpdateComponent (fi_state (ctx_internal first_context)) = Some 0x84"
    by (simp add: first_context_def fd_context_new_def fd_internal_default_def fd_internal_new_def)
  ultimately have "process_fw_update_cmd test_fd_ops 0x14 (first_context, [0x81, 5, 0x14, 10, 0]) =
     (Ok 4, (first_context, hdr_bytes (into_response (hdr_of (take 3 [0x81, 5, 0x14, 10, 0]))) @ 0x84 # drop 4 [0x81, 5, 0x14, 10, 0]))"
    by (rule out_of_place_refused) simp
  moreover have "hdr_bytes (into_response (hdr_of (take 3 [0x81, 5, 0x14, 10, 0]))) = [1, 5, 0x14]"
    by code_simp
  ultimately show ?thesis by simp
qed

section \<open>Running a handler on known answers\<close>

named_theorems exec \<open>one step of a handler, the platform's answers being known\<close>

lemma exec_self [exec]: "abind self_internal f (c, b) = f (ctx_internal c) (c, b)"
  by (simp add: abind_def self_internal_def gets_def)

lemma exec_payload [exec]: "abind (gets snd) f (c, b) = f b (c, b)"
  by (simp add: abind_def gets_def)

lemma exec_update [exec]:
  "abind (update_internal g) f (c, b) = f () (c\<lparr>ctx_internal := g (ctx_internal c)\<rparr>, b)"
  "update_internal g (c, b) = (Ok (), (c\<lparr>ctx_internal := g (ctx_internal c)\<rparr>, b))"
  by (simp_all add: abind_def update_internal_def modify_def)

lemma exec_call [exec]:
  "f (ctx_plat c) = (Inr x, p) \<Longrightarrow> abind (call f) k (c, b) = k x (c\<lparr>ctx_plat := p\<rparr>, b)"
  by (simp add: abind_def call_def)

lemma exec_call_out [exec]:
  "f out (ctx_plat c) = (Inr x, out', p) \<Longrightarrow> abind (call_out f out) k (c, b) = k (x, out') (c\<lparr>ctx_plat := p\<rparr>, b)"
  by (simp add: abind_def call_out_def call_def)

lemma exec_ask [exec]: "f (ctx_plat c) = (x, p) \<Longrightarrow> abind (ask f) k (c, b) = k x (c\<lparr>ctx_plat := p\<rparr>, b)"
  by (simp add: abind_def ask_def)

lemma exec_set_ts [exec]:
  "ops_now ops (ctx_plat c) = (now, p) \<Longrightarrow> abind (set_fd_t1_ts ops) k (c, b) =
     k () (c\<lparr>ctx_plat := p, ctx_internal := set_fd_t1_update_ts now (ctx_internal c)\<rparr>, b)"
  by (simp add: set_fd_t1_ts_def abind_assoc exec_ask exec_update)

lemma exec_with_request [exec]: "dec b = Ok x \<Longrightarrow> with_request dec k (c, b) = k x (c, b)"
  by (simp add: with_request_def)

lemma exec_respond_then [exec]:
  "m b = (Ok n, b') \<Longrightarrow> respond_then m on_ok (c, b) = abind on_ok (\<lambda>_. ret n) (c, b')"
  by (simp add: respond_then_def or_else_def on_payload_def)

lemma exec_respond [exec]: "m b = (Ok n, b') \<Longrightarrow> abind (respond m) k (c, b) = k n (c, b')"
  by (simp add: abind_def respond_def on_payload_def coding_def)

lemma exec_ret [exec]: "ret x s = (Ok x, s)"
  by (simp add: ret_def)

lemma exec_fail [exec]: "fail e s = (Err e, s)"
  by (simp add: fail_def)

lemma exec_lift [exec]: "abind (lift (Ok x)) k s = k x s"
  by (simp add: abind_def lift_def)

lemma blanket_decode_Ok: "n \<le> length b \<Longrightarrow> blanket_decode n f b = Ok (f (take n b))"
  by (simp add: blanket_decode_def)

lemma process_fw_update_cmd_disc [simp]:
  "process_fw_update_cmd ops 0x14 = update_component_rsp ops"
  "process_fw_update_cmd ops 0x1A = activate_firmware_rsp ops"
  "process_fw_update_cmd ops 0x1B = get_status_rsp ops"
  "process_fw_update_cmd ops 0x1C = cancel_update_component_rsp ops"
  "process_fw_update_cmd ops 0x1D = cancel_update_rsp ops"
  by (simp_all add: process_fw_update_cmd_def fw_update_cmd_try_from_def)

lemma request_header: "n > 3 \<Longrightarrow> hdr_of (take n b) = hdr_of (take 3 b)"
  by (simp add: hdr_of_def)

section \<open>Activation\<close>

lemma activation_step:
  assumes "fi_state (ctx_internal c) = ReadyXfer" and "6 \<le> length b" and "b ! 3 = 0 \<or> b ! 3 = 1"
    and "ops_activate ops (b ! 3) 0 (ctx_plat c) = (Inr cc, time, p)"
  shows "process_fw_update_cmd ops 0x1A (c, b) =
    (Ok 6, (c\<lparr>ctx_plat := p,
              ctx_internal := (if cc = 0 \<or> cc = fw_cc_disc ActivationNotRequired
                then (ctx_internal c)\<lparr>fi_prev_state := Activate, fi_state := Idle, fi_reason := Some ReasonActivateFw\<rparr>
                else ctx_internal c)\<rparr>,
            splice 0 (activate_firmware_response_bytes
              (activate_firmware_response_new (instance_id (hdr_of (take 3 b))) cc time)) b))"
proof -
  have "blanket_decode 4 activate_firmware_request_of b = Ok \<lparr>afq_hdr = hdr_of (take 3 b), afq_self_contained_activation_req = b ! 3\<rparr>"
    using assms(2) by (simp add: blanket_decode_Ok activate_firmware_request_of_def request_header)
  then have run: "process_fw_update_cmd ops 0x1A (c, b) =
    respond_then (blanket_encode 6 activate_firmware_response_bytes
        (activate_firmware_response_new (instance_id (hdr_of (take 3 b))) cc time))
      (if cc = base_cc_disc CC_Success \<or> cc = fw_cc_disc ActivationNotRequired
       then update_internal (\<lambda>i. set_fd_idle ReasonActivateFw (set_fd_state Activate i)) else ret ())
      (c\<lparr>ctx_plat := p\<rparr>, b)"
    using assms(1,3,4) by (auto simp: activate_firmware_rsp_def exec Let_def)
  have "set_fd_idle ReasonActivateFw (set_fd_state Activate (ctx_internal c)) =
      (ctx_internal c)\<lparr>fi_prev_state := Activate, fi_state := Idle, fi_reason := Some ReasonActivateFw\<rparr>"
    using assms(1) by (simp add: fd_setters)
  then show ?thesis
    unfolding run exec_respond_then [of "blanket_encode 6 activate_firmware_response_bytes x" for x, OF blanket_fits [OF assms(2)]]
    by (simp add: exec)
qed

text \<open>C21: \<open>ActivateFirmware\<close> with a valid activation request asks the platform and answers
  with the completion code and time it returned; if that code is success or "activation not
  required" the device is idle again, having passed the activation state, and otherwise it
  stays ready for a transfer.\<close>

theorem activation_outcome:
  assumes "fi_state (ctx_internal c) = ReadyXfer" and "6 \<le> length b" and "b ! 3 = 0 \<or> b ! 3 = 1"
    and "ops_activate ops (b ! 3) 0 (ctx_plat c) = (Inr cc, time, p)"
  shows "process_fw_update_cmd ops 0x1A (c, b) =
    (Ok 6, (c\<lparr>ctx_plat := p,
              ctx_internal := (if cc = 0 \<or> cc = fw_cc_disc ActivationNotRequired
                then (ctx_internal c)\<lparr>fi_prev_state := Activate, fi_state := Idle, fi_reason := Some ReasonActivateFw\<rparr>
                else ctx_internal c)\<rparr>,
            splice 0 (activate_firmware_response_bytes
              (activate_firmware_response_new (instance_id (hdr_of (take 3 b))) cc time)) b))"
  by (rule activation_step [OF assms])

theorem activation_outcome_witness:
  "\<exists>c :: u64 fd_context. fi_state (ctx_internal c) = ReadyXfer \<and>
     fi_state (ctx_internal (fst (snd (process_fw_update_cmd test_fd_ops 0x1A (c, [0x81, 5, 0x1A, 1, 0, 0]))))) = Idle"
proof -
  let ?c = "\<lparr>ctx_internal = set_fd_state ReadyXfer fd_internal_default, ctx_plat = 0\<rparr> :: u64 fd_context"
  have st: "fi_state (ctx_internal ?c) = ReadyXfer"
    by (simp add: set_fd_state_def fd_internal_default_def fd_internal_new_def)
  moreover have "ops_activate test_fd_ops ([0x81, 5, 0x1A, 1, 0, 0] ! 3) 0 (ctx_plat ?c) = (Inr 0, 0, 0)"
    by (simp add: test_fd_ops_def)
  ultimately show ?thesis
    using activation_outcome [of ?c "[0x81, 5, 0x1A, 1, 0, 0]" test_fd_ops 0 0 0] by (intro exI [of _ ?c]) simp
qed

section \<open>Cancelling\<close>

definition cancellable :: "fd_internal \<Rightarrow> bool" where
  "cancellable i \<longleftrightarrow> fi_state i = Download \<or> fi_state i = Verify
     \<or> fi_state i = Apply \<and> \<not> (req_complete (fi_req i) \<and> req_result (fi_req i) = Some 0)"

text \<open>C20: \<open>CancelUpdate\<close> ends the update, with the device idle for that reason, exactly while a component is
  transferred, verified, or applied without having succeeded; in the other states of an
  update, learning components and ready for a transfer, it is answered with a generic error
  and the device stays in update mode.\<close>

theorem cancel_update_outcome:
  assumes "fi_state (ctx_internal c) \<noteq> Idle" and "13 \<le> length b"
    and "ops_now ops (ctx_plat c) = (now, p1)"
    and "cancellable (ctx_internal c) \<Longrightarrow> cancel_update_component ops (fi_update_comp (ctx_internal c)) p1 = (Inr (), p2)"
    and "get_non_functional_component_info ops (if cancellable (ctx_internal c) then p2 else p1) = (Inr (ind, bitmap), p3)"
  shows "process_fw_update_cmd ops 0x1D (c, b) =
    (Ok 13, (c\<lparr>ctx_plat := p3,
               ctx_internal := (let i = set_fd_t1_update_ts now (ctx_internal c)
                 in if cancellable i
                    then i\<lparr>fi_prev_state := fi_state i, fi_state := Idle, fi_reason := Some ReasonCancelUpdate\<rparr> else i)\<rparr>,
             splice 0 (cancel_update_response_bytes (cancel_update_response_new (instance_id (hdr_of (take 3 b)))
               (if cancellable (ctx_internal c) then 0 else 1) ind bitmap)) b))"
proof -
  have dec: "blanket_decode 3 cancel_update_request_of b = Ok \<lparr>cuq_hdr = hdr_of (take 3 b)\<rparr>"
    using assms(2) by (simp add: blanket_decode_Ok cancel_update_request_of_def)
  have should: "(case fi_state (ctx_internal c) of Download \<Rightarrow> True | Verify \<Rightarrow> True
      | Apply \<Rightarrow> apply_cancellable (ctx_internal c) | _ \<Rightarrow> False) = cancellable (ctx_internal c)"
    by (cases "fi_state (ctx_internal c)") (simp_all add: cancellable_def apply_cancellable_def)
  have ts: "cancellable (set_fd_t1_update_ts now (ctx_internal c)) = cancellable (ctx_internal c)"
    by (simp add: cancellable_def set_fd_t1_update_ts_def)
  have idle: "set_fd_idle ReasonCancelUpdate (set_fd_t1_update_ts now (ctx_internal c)) =
      (set_fd_t1_update_ts now (ctx_internal c))\<lparr>fi_prev_state := fi_state (ctx_internal c), fi_state := Idle,
        fi_reason := Some ReasonCancelUpdate\<rparr>"
    using assms(1) by (simp add: fd_setters)
  show ?thesis
  proof (cases "cancellable (ctx_internal c)")
    case True
    with assms dec should ts show ?thesis
      by (simp add: cancel_update_rsp_def exec Let_def blanket_fits is_update_mode_def layout idle)
         (simp add: set_fd_t1_update_ts_def)
  next
    case False
    with assms dec should ts show ?thesis
      by (simp add: cancel_update_rsp_def exec Let_def blanket_fits is_update_mode_def layout)
  qed
qed

definition context_in :: "firmware_device_state \<Rightarrow> u64 fd_context" where
  "context_in st = \<lparr>ctx_internal = set_fd_state st fd_internal_default, ctx_plat = 7\<rparr>"

lemma context_in_simps [simp]:
  "fi_state (ctx_internal (context_in st)) = st"
  "ctx_plat (context_in st) = 7"
  by (cases st; simp add: context_in_def set_fd_state_def fd_internal_default_def fd_internal_new_def)+

text \<open>In \<open>ReadyXfer\<close> the test platform's device answers \<open>CancelUpdate\<close> with an error.\<close>

theorem cancel_update_outcome_witness:
  "fi_state (ctx_internal (fst (snd (process_fw_update_cmd test_fd_ops 0x1D (context_in ReadyXfer, replicate 13 0))))) = ReadyXfer"
proof -
  have not: "\<not> cancellable (ctx_internal (context_in ReadyXfer))"
    by (simp add: cancellable_def)
  have ts: "cancellable (set_fd_t1_update_ts t i) = cancellable i" for t i
    by (simp add: cancellable_def apply_cancellable_def set_fd_t1_update_ts_def)
  have "fi_state (set_fd_t1_update_ts t i) = fi_state i" for t i by (simp add: set_fd_t1_update_ts_def)
  with cancel_update_outcome [of "context_in ReadyXfer" "replicate 13 0" test_fd_ops 7 7 7 ComponentsFunctioning 0 7] not ts
  show ?thesis by (simp add: test_fd_ops_def)
qed

text \<open>C26: cancelling the component in transfer or verification takes the device back to
  \<open>ReadyXfer\<close> but leaves the request it had sent in place: until the next component
  update the device reports an operation in progress, although none is.\<close>

theorem cancelled_component_reports_progress:
  assumes "fi_state (ctx_internal c) = Download \<or> fi_state (ctx_internal c) = Verify"
    and "req_state (fi_req (ctx_internal c)) = ReqSent"
    and "cancel_update_component ops (fi_update_comp (ctx_internal c)) (ctx_plat c) = (Inr (), p)"
    and "4 \<le> length b" and "14 \<le> length b'"
  shows "\<exists>c' b1 r b2. process_fw_update_cmd ops 0x1C (c, b) = (Ok 4, (c', b1))
    \<and> fi_state (ctx_internal c') = ReadyXfer \<and> fi_req (ctx_internal c') = fi_req (ctx_internal c)
    \<and> process_fw_update_cmd ops 0x1B (c', b') = (Ok 14, (c', b2))
    \<and> take 14 b2 = get_status_response_bytes r
    \<and> gsr_current_state r = firmware_device_state_disc ReadyXfer
    \<and> gsr_aux_state r = aux_state_disc OperationInProgress"
proof -
  let ?i = "ctx_internal c"
  let ?c = "c\<lparr>ctx_plat := p, ctx_internal := set_fd_state ReadyXfer ?i\<rparr>"
  let ?resp = "cancel_update_component_response_bytes
      (cancel_update_component_response_new (instance_id (hdr_of (take 3 b))) (base_cc_disc CC_Success))"
  let ?r = "get_status_response_new (instance_id (hdr_of (take 3 b'))) (base_cc_disc CC_Success)
      ReadyXfer (fi_state ?i) OperationInProgress (aux_state_status_disc AuxStateInProgressOrSuccess) progress_default
      (case fi_reason ?i of Some reason \<Rightarrow> reason | None \<Rightarrow> ReasonInitialization)
      (if request_force_update (fi_update_flags ?i) then ForceUpdate else NoForceUpdate)"
  have d1: "blanket_decode 3 cancel_update_component_request_of b = Ok \<lparr>ccq_hdr = hdr_of (take 3 b)\<rparr>"
    using assms(4) by (simp add: blanket_decode_Ok cancel_update_component_request_of_def)
  have d2: "blanket_decode 3 get_status_request_of b' = Ok \<lparr>gsq_hdr = hdr_of (take 3 b')\<rparr>"
    using assms(5) by (simp add: blanket_decode_Ok get_status_request_of_def)
  have "process_fw_update_cmd ops 0x1C (c, b) = (Ok 4, (?c, splice 0 ?resp b))"
    using assms(1,3,4) d1
    by (auto simp: cancel_update_component_rsp_def is_update_mode_def exec Let_def blanket_fits)
  moreover have "process_fw_update_cmd ops 0x1B (?c, b') = (Ok 14, (?c, splice 0 (get_status_response_bytes ?r) b'))"
    using assms(1,2,5) d2
    by (auto simp: get_status_rsp_def status_progress_def status_aux_def exec blanket_fits set_fd_state_def)
  moreover have "take 14 (splice 0 (get_status_response_bytes ?r) b') = get_status_response_bytes ?r"
    by (simp add: splice_def layout)
  ultimately show ?thesis
    using assms(1)
    by (intro exI [of _ ?c] exI [of _ "splice 0 ?resp b"] exI [of _ ?r] exI [of _ "splice 0 (get_status_response_bytes ?r) b'"])
       (auto simp: set_fd_state_def get_status_response_new_def)
qed

theorem cancelled_component_reports_progress_witness:
  "\<exists>(c :: u64 fd_context) c' b1. fi_state (ctx_internal c) = Download
     \<and> process_fw_update_cmd test_fd_ops 0x1C (c, replicate 4 0) = (Ok 4, (c', b1))
     \<and> fi_state (ctx_internal c') = ReadyXfer \<and> fi_req (ctx_internal c') = fi_req (ctx_internal c)"
proof -
  let ?c = "(context_in Download)\<lparr>ctx_internal := set_fd_req ReqSent False None (Some 1) (Some 0x15) (Some 0)
    (ctx_internal (context_in Download))\<rparr>"
  have "fi_state (ctx_internal ?c) = Download" "req_state (fi_req (ctx_internal ?c)) = ReqSent"
    by (simp_all add: set_fd_req_def)
  with cancelled_component_reports_progress [of ?c test_fd_ops 7 "replicate 4 0" "replicate 14 0"]
  show ?thesis by (fastforce simp: test_fd_ops_def)
qed

end
