(* ===== verification/Fd_Timing.thy ===== *)
theory Fd_Timing
  imports Fd_Guards
begin

text \<open>
  The device as initiator: which responses it accepts and what they do, the timers
  \<open>T1\<close> and \<open>T2\<close>, the chunks it downloads, and the inputs that make it panic.
\<close>

section \<open>Responses\<close>

definition answers :: "bytes \<Rightarrow> fd_req \<Rightarrow> bool" where
  "answers b r \<longleftrightarrow> req_state r = ReqSent
     \<and> req_instance_id r = Some (instance_id (hdr_of (take 3 b)))
     \<and> req_command r = Some (cmd_code (hdr_of (take 3 b)))"

lemma hdr_decode_Ok: "3 \<le> length b \<Longrightarrow> hdr_decode b = Ok (hdr_of (take 3 b))"
  by (simp add: hdr_decode_def blanket_decode_Ok)

lemma handle_response_unsolicited:
  assumes "3 \<le> length b" and "\<not> answers b (fi_req (ctx_internal c))"
  shows "handle_response ops (c, b) = (Err FdInitiatorModeError, (c, b))"
  using assms by (auto simp: handle_response_def exec hdr_decode_Ok answers_def)

text \<open>C22: a response that does not answer the request the device has sent (none is
  outstanding, or the instance id or the command differs) is rejected and changes nothing,
  the timers included.\<close>

theorem unsolicited_response_rejected:
  assumes "3 \<le> length b" and "\<not> answers b (fi_req (ctx_internal c))"
  shows "handle_response ops (c, b) = (Err FdInitiatorModeError, (c, b))"
  by (rule handle_response_unsolicited [OF assms])

theorem unsolicited_response_rejected_witness:
  "handle_response test_fd_ops (first_context, [1, 5, 0x15, 0]) = (Err FdInitiatorModeError, (first_context, [1, 5, 0x15, 0]))"
  by (rule unsolicited_response_rejected)
     (simp_all add: answers_def first_context_def fd_context_new_def fd_internal_default_def fd_internal_new_def fd_req_new_def)

fun completion_cmd :: "firmware_device_state \<Rightarrow> fw_update_cmd" where
  "completion_cmd Download = TransferComplete"
| "completion_cmd Verify = VerifyComplete"
| "completion_cmd _ = ApplyComplete"

fun next_phase :: "firmware_device_state \<Rightarrow> fd_internal \<Rightarrow> fd_internal" where
  "next_phase Download i = start_verify i"
| "next_phase Verify i = start_apply i"
| "next_phase _ i = finish_apply i"

lemma next_phase_eq [simp]:
  "next_phase Download = start_verify" "next_phase Verify = start_apply" "next_phase Apply = finish_apply"
  by (simp_all add: fun_eq_iff)

lemma exec_set_ts_end [exec]:
  "ops_now ops (ctx_plat c) = (now, p) \<Longrightarrow> set_fd_t1_ts ops (c, b) =
     (Ok (), (c\<lparr>ctx_plat := p, ctx_internal := set_fd_t1_update_ts now (ctx_internal c)\<rparr>, b))"
  by (simp add: set_fd_t1_ts_def exec)

lemma ts_frame [simp]:
  "fi_req (set_fd_t1_update_ts t i) = fi_req i" "fi_state (set_fd_t1_update_ts t i) = fi_state i"
  by (simp_all add: set_fd_t1_update_ts_def)

lemma acknowledged_phase:
  assumes "fi_state (ctx_internal c) \<in> initiator_states" and "3 \<le> length b"
    and "answers b (fi_req (ctx_internal c))" and "req_complete (fi_req (ctx_internal c))"
    and "cmd_code (hdr_of (take 3 b)) = fw_update_cmd_disc (completion_cmd (fi_state (ctx_internal c)))"
    and "ops_now ops (ctx_plat c) = (now, p)"
  shows "handle_response ops (c, b) =
    (Ok (), (c\<lparr>ctx_plat := p,
       ctx_internal := (let i = set_fd_t1_update_ts now (ctx_internal c) in
         if req_result (fi_req i) = Some 0 then next_phase (fi_state i) i
         else set_fd_req ReqFailed True (req_result (fi_req i)) None None None i)\<rparr>, b))"
proof -
  let ?i = "set_fd_t1_update_ts now (ctx_internal c)"
  let ?c = "c\<lparr>ctx_plat := p, ctx_internal := ?i\<rparr>"
  have finish: "finish_phase (fi_state ?i) (\<lambda>i. req_result (fi_req i) = Some 0) (next_phase (fi_state ?i)) (?c, b) =
    (Ok (), (?c\<lparr>ctx_internal := if req_result (fi_req ?i) = Some 0 then next_phase (fi_state ?i) ?i
         else set_fd_req ReqFailed True (req_result (fi_req ?i)) None None None ?i\<rparr>, b))"
    using assms(3,4) by (simp add: finish_phase_def exec answers_def)
  have resp: "handle_response ops (c, b) =
    (case fi_state (ctx_internal c) of Download \<Rightarrow> process_transfer_complete_rsp
     | Verify \<Rightarrow> process_verify_complete_rsp | _ \<Rightarrow> process_apply_complete_rsp) (?c, b)"
    using assms(1-3,5,6)
    by (auto simp: handle_response_def exec hdr_decode_Ok answers_def fw_update_cmd_try_from_def)
  show ?thesis
    using finish assms(1)
    by (auto simp: resp process_transfer_complete_rsp_def process_verify_complete_rsp_def
        process_apply_complete_rsp_def Let_def cong: if_cong)
qed

text \<open>The requests of a device: ready to be made, or with a result ready to be reported; failed.\<close>

definition ready_req :: "bool \<Rightarrow> u8 option \<Rightarrow> fd_req" where
  [simp]: "ready_req complete res = \<lparr>req_state = ReqReady, req_complete = complete, req_result = res,
     req_instance_id = None, req_command = None, req_sent_time = None\<rparr>"

definition failed_req :: "u8 option \<Rightarrow> fd_req" where
  [simp]: "failed_req res = \<lparr>req_state = ReqFailed, req_complete = True, req_result = res,
     req_instance_id = None, req_command = None, req_sent_time = None\<rparr>"

lemma failed_phase_silent:
  assumes "fi_state (ctx_internal c) \<in> initiator_states" and "req_state (fi_req (ctx_internal c)) = ReqFailed"
  shows "fst (fd_progress oc ops (c, b)) = Err FdInitiatorModeError"
proof -
  obtain now p where now: "ops_now ops (ctx_plat c) = (now, p)" by fastforce
  have "abind (should_send_fd_request ops) k (c, b) = k False (c\<lparr>ctx_plat := p\<rparr>, b)" for k :: "bool \<Rightarrow> ('a, nat) fd_handler"
    using assms(2) now by (simp add: should_send_fd_request_def abind_assoc exec)
  then have "progress_step oc ops (fi_state (ctx_internal c)) (c, b) = (Err FdInitiatorModeError, (c\<lparr>ctx_plat := p\<rparr>, b))"
    using assms(1)
    by (auto simp: progress_step_def fd_progress_download_def pldm_fd_progress_verify_def pldm_fd_progress_apply_def fail_def)
  then show ?thesis
    using assms by (auto simp: fd_progress_def check_t1_def exec Let_def abind_assoc abind_def [of "progress_step oc ops st" for st])
qed

text \<open>C11: the Update Agent's acknowledgement of a completed phase takes the device on.  If the phase's
  result was success, the device goes from download to verification and from verification to
  application, at progress zero and with nothing asked or reported yet, and from application back to
  ready for the next component, with no request any more.  After any other result it stays in
  the phase with its request marked as failed, and \<open>fd_progress\<close> sends nothing from there, so that
  only the Update Agent's cancelling takes it on.  Nothing else of the device's state changes but the
  time it last heard of the Update Agent.\<close>

theorem acknowledged_phase_moves_on:
  assumes "fi_state (ctx_internal c) \<in> initiator_states" and "3 \<le> length b"
    and "answers b (fi_req (ctx_internal c))" and "req_complete (fi_req (ctx_internal c))"
    and "cmd_code (hdr_of (take 3 b)) = fw_update_cmd_disc (completion_cmd (fi_state (ctx_internal c)))"
    and "ops_now ops (ctx_plat c) = (now, p)"
  shows "let i = (ctx_internal c)\<lparr>fi_t1_update_ts := now\<rparr>;
      i' = (if req_result (fi_req i) = Some 0
        then (case fi_state i of
            Download \<Rightarrow> i\<lparr>fi_prev_state := Download, fi_state := Verify, fi_mode := ModeVerify 0, fi_req := ready_req False None\<rparr>
          | Verify \<Rightarrow> i\<lparr>fi_prev_state := Verify, fi_state := Apply, fi_mode := ModeApply 0, fi_req := ready_req False None\<rparr>
          | _ \<Rightarrow> i\<lparr>fi_prev_state := Apply, fi_state := ReadyXfer, fi_req := fd_req_new\<rparr>)
        else i\<lparr>fi_req := failed_req (req_result (fi_req i))\<rparr>);
      c' = c\<lparr>ctx_plat := p, ctx_internal := i'\<rparr>
    in handle_response ops (c, b) = (Ok (), (c', b))
      \<and> (req_result (fi_req i) \<noteq> Some 0 \<longrightarrow> fst (fd_progress oc ops (c', b')) = Err FdInitiatorModeError)"
  unfolding Let_def
  by (intro conjI impI, use assms(1) in \<open>auto simp: acknowledged_phase [OF assms] Let_def fd_setters start_verify_def
        start_apply_def finish_apply_def fd_req_new_def\<close>)[1]
     (use assms(1) in \<open>auto intro: failed_phase_silent\<close>)

text \<open>After a verification that succeeded, the acknowledgement starts the application.\<close>

theorem acknowledged_phase_moves_on_witness:
  "\<exists>c :: u64 fd_context. fi_state (ctx_internal c) = Verify \<and>
     fi_state (ctx_internal (fst (snd (handle_response test_fd_ops (c, [1, 5, 0x17, 0]))))) = Apply"
proof -
  let ?c = "(context_in Verify)\<lparr>ctx_internal := set_fd_req ReqSent True (Some 0) (Some 1) (Some 0x17) (Some 0)
    (ctx_internal (context_in Verify))\<rparr>"
  have st: "fi_state (ctx_internal ?c) = Verify" by (simp add: set_fd_req_def)
  have hdr: "hdr_of (take 3 [1, 5, 0x17, 0]) = PldmMsgHeader 1 5 0x17" by simp
  have "instance_id (PldmMsgHeader 1 5 0x17) = 1" "cmd_code (PldmMsgHeader 1 5 0x17) = 0x17" by code_simp+
  then have "answers [1, 5, 0x17, 0] (fi_req (ctx_internal ?c))"
    "cmd_code (hdr_of (take 3 [1, 5, 0x17, 0])) = fw_update_cmd_disc (completion_cmd (fi_state (ctx_internal ?c)))"
    using hdr st by (simp_all add: answers_def set_fd_req_def)
  from acknowledged_phase_moves_on [OF _ _ this(1) _ this(2), of test_fd_ops 7 7 True "[]"] st
  show ?thesis
    by (intro exI [of _ ?c]) (simp add: test_fd_ops_def set_fd_req_def Let_def)
qed

section \<open>Timers\<close>

lemma progress_expires:
  assumes "fi_state (ctx_internal c) \<in> initiator_states" and "req_state (fi_req (ctx_internal c)) = ReqSent"
    and "ops_now ops (ctx_plat c) = (now, p1)" and "t1_expired now (ctx_internal c)"
    and "cancel_update_component ops (fi_update_comp (ctx_internal c)) p1 = (Inr (), p2)"
  shows "fd_progress oc ops (c, b) =
    (Err T1Timeout, (c\<lparr>ctx_plat := p2, ctx_internal := abandon_update (ctx_internal c)\<rparr>, b))"
  using assms by (auto simp: fd_progress_def check_t1_def exec abind_assoc Let_def)

lemma abandoned:
  assumes "fi_state i \<in> initiator_states"
  shows "fi_state (abandon_update i) = Idle" "fi_prev_state (abandon_update i) = fi_state i"
    "fi_reason (abandon_update i) = timeout_reason (fi_state i)" "fi_req (abandon_update i) = fd_req_new"
  using assms by (auto simp: abandon_update_def fd_idle_timeout_def fd_setters fd_req_new_def)

text \<open>C17: when the Update Agent has not answered for longer than \<open>T1\<close>, the next call of
  \<open>fd_progress\<close> abandons the update, if the platform lets it be cancelled: the device is idle with the reason of the state it
  was in, no request is outstanding, and whatever the Update Agent sends late is rejected
  without a trace.\<close>

theorem silent_agent_times_out:
  assumes "fi_state (ctx_internal c) \<in> initiator_states" and "req_state (fi_req (ctx_internal c)) = ReqSent"
    and "ops_now ops (ctx_plat c) = (now, p1)" and "t1_expired now (ctx_internal c)"
    and "cancel_update_component ops (fi_update_comp (ctx_internal c)) p1 = (Inr (), p2)"
    and "3 \<le> length late"
  shows "\<exists>c'. fd_progress oc ops (c, b) = (Err T1Timeout, (c', b))
    \<and> fi_state (ctx_internal c') = Idle \<and> fi_prev_state (ctx_internal c') = fi_state (ctx_internal c)
    \<and> fi_reason (ctx_internal c') = timeout_reason (fi_state (ctx_internal c))
    \<and> fi_req (ctx_internal c') = fd_req_new
    \<and> handle_response ops (c', late) = (Err FdInitiatorModeError, (c', late))"
proof -
  let ?c = "c\<lparr>ctx_plat := p2, ctx_internal := abandon_update (ctx_internal c)\<rparr>"
  note i = abandoned [OF assms(1)]
  have "fd_progress oc ops (c, b) = (Err T1Timeout, (?c, b))"
    by (rule progress_expires [OF assms(1-5)])
  moreover have "\<not> answers late (fi_req (ctx_internal ?c))"
    by (simp add: i answers_def fd_req_new_def)
  from handle_response_unsolicited [OF assms(6) this, of ops]
  have "handle_response ops (?c, late) = (Err FdInitiatorModeError, (?c, late))" .
  ultimately show ?thesis
    by (intro exI [of _ ?c]) (simp add: i)
qed

theorem silent_agent_times_out_witness:
  "\<exists>(c :: u64 fd_context) c'. fd_progress True test_fd_ops (c, []) = (Err T1Timeout, (c', []))
     \<and> fi_state (ctx_internal c) = Download \<and> fi_reason (ctx_internal c') = Some ReasonDownloadTimeout"
proof -
  let ?c = "(context_in Download)\<lparr>ctx_plat := 120001,
    ctx_internal := set_fd_req ReqSent False None (Some 1) (Some 0x15) (Some 0) (ctx_internal (context_in Download))\<rparr>"
  have st: "fi_state (ctx_internal ?c) = Download" "req_state (fi_req (ctx_internal ?c)) = ReqSent"
    by (simp_all add: set_fd_req_def)
  have exp: "t1_expired 120001 (ctx_internal ?c)" by code_simp
  obtain c' where "fd_progress True test_fd_ops (?c, []) = (Err T1Timeout, (c', []))"
    "fi_reason (ctx_internal c') = timeout_reason (fi_state (ctx_internal ?c))"
    using silent_agent_times_out [of ?c test_fd_ops 120001 120001 120001 "[0, 0, 0]" True "[]"] st exp
    by (auto simp: test_fd_ops_def)
  with st show ?thesis by (intro exI [of _ ?c] exI [of _ c']) simp
qed

text \<open>Outside download, verification and application the device never times out: in
  every other state \<open>fd_progress\<close> only reports an error, however much time has passed, so
  a device whose Update Agent disappears while it learns components or waits for the next
  component stays in update mode.\<close>

theorem no_timeout_between_phases:
  "fi_state (ctx_internal c) \<notin> initiator_states \<Longrightarrow>
   fd_progress oc ops (c, b) = (Err FdInitiatorModeError, (c, b))"
  by (simp add: fd_progress_def exec Let_def)

theorem no_timeout_between_phases_witness:
  "fd_progress False test_fd_ops (context_in LearnComponents, []) = (Err FdInitiatorModeError, (context_in LearnComponents, []))"
  by (rule no_timeout_between_phases) simp

lemma exec_now:
  "ops_now ops p = (now, p) \<Longrightarrow> ctx_plat c = p \<Longrightarrow> abind (ask (ops_now ops)) k (c, b) = k now (c, b)"
  by (cases c) (simp add: exec)

lemma exec_lift_Panic [exec]: "abind (lift Panic) k s = (Panic, s)"
  by (simp add: abind_def lift_def)

lemma exec_send:
  assumes "ops_now ops (ctx_plat c) = (now, ctx_plat c)"
  shows "abind (should_send_fd_request ops) k (c, b) =
    (case req_state (fi_req (ctx_internal c)) of
       ReqReady \<Rightarrow> k True (c, b)
     | ReqSent \<Rightarrow> (case req_sent_time (fi_req (ctx_internal c)) of
          None \<Rightarrow> (Panic, (c, b))
        | Some t \<Rightarrow> k (\<not> now < t \<and> fi_t2_retry_time (ctx_internal c) \<le> now - t) (c, b))
     | _ \<Rightarrow> k False (c, b))"
  using assms
  by (auto simp: should_send_fd_request_def abind_assoc exec_now [OF assms refl] exec
      split: fd_req_state.split option.split)

lemma exec_alloc:
  assumes "req_ok (fi_req (ctx_internal c))"
  obtains n where "n < 32"
    and "\<And>k. abind (alloc_instance oc) k (c, b) = k n (c\<lparr>ctx_internal := with_instance n (ctx_internal c)\<rparr>, b)"
proof -
  obtain n where n: "alloc_next_instance_id oc (ctx_internal c) = (Ok (Some n), with_instance n (ctx_internal c))" "n < 32"
    using alloc_next_instance_id_ok [OF assms, of oc] by auto
  have "abind (alloc_instance oc) k (c, b) = k n (c\<lparr>ctx_internal := with_instance n (ctx_internal c)\<rparr>, b)" for k
    by (simp add: alloc_instance_def abind_def on_ctx_def n(1) lift_def)
  with n(2) that show ?thesis by blast
qed

text \<open>C24: a completed verification is reported with its result only once: when the Update
  Agent does not answer within the retry time, the device repeats \<open>VerifyComplete\<close> with the
  generic error instead and records that as the result, whatever the verification had
  found; the acknowledgement of the repetition then no longer starts the application: the device
  stays in verification with its request marked as failed.\<close>

theorem verify_retry_reports_error:
  assumes "fi_state (ctx_internal c) = Verify" and "req_ok (fi_req (ctx_internal c))"
    and "req_state (fi_req (ctx_internal c)) = ReqSent" and "req_complete (fi_req (ctx_internal c))"
    and "req_sent_time (fi_req (ctx_internal c)) = Some t" and "t \<le> now"
    and "fi_t2_retry_time (ctx_internal c) \<le> now - t" and "\<not> t1_expired now (ctx_internal c)"
    and "ops_now ops (ctx_plat c) = (now, ctx_plat c)" and "4 \<le> length b"
  shows "\<exists>n c' b'. fd_progress oc ops (c, b) = (Ok 4, (c', b'))
    \<and> take 4 b' = verify_complete_request_bytes (verify_complete_request_new n MsgRequest VerifyGenericError)
    \<and> fi_state (ctx_internal c') = Verify
    \<and> fi_req (ctx_internal c') = \<lparr>req_state = ReqSent, req_complete = True,
         req_result = Some (verify_result_disc VerifyGenericError), req_instance_id = Some n,
         req_command = Some (fw_update_cmd_disc VerifyComplete), req_sent_time = Some now\<rparr>
    \<and> (\<forall>r. 3 \<le> length r \<and> instance_id (hdr_of (take 3 r)) = n
        \<and> cmd_code (hdr_of (take 3 r)) = fw_update_cmd_disc VerifyComplete \<longrightarrow>
        (\<exists>c2. handle_response ops (c', r) = (Ok (), (c2, r)) \<and> fi_state (ctx_internal c2) = Verify
          \<and> fi_req (ctx_internal c2) = failed_req (Some (verify_result_disc VerifyGenericError))))"
proof -
  obtain n where n: "\<And>k :: u8 \<Rightarrow> ('a, nat) fd_handler. abind (alloc_instance oc) k (c, b) = k n (c\<lparr>ctx_internal := with_instance n (ctx_internal c)\<rparr>, b)"
    by (rule exec_alloc [OF assms(2), of oc b]) (use that in blast)
  let ?msg = "verify_complete_request_bytes (verify_complete_request_new n MsgRequest VerifyGenericError)"
  let ?c = "c\<lparr>ctx_internal := set_fd_req ReqSent True (Some (verify_result_disc VerifyGenericError)) (Some n)
      (Some (fw_update_cmd_disc VerifyComplete)) (Some now) (with_instance n (ctx_internal c))\<rparr>"
  have plat: "ctx_plat (c\<lparr>ctx_internal := i\<rparr>) = ctx_plat c" for i by simp
  have "pldm_fd_progress_verify oc ops (c, b) = (Ok 4, (?c, splice 0 ?msg b))"
    using assms
    by (simp add: exec_now [OF assms(9) plat] pldm_fd_progress_verify_def exec_send exec n blanket_fits mark_sent_def abind_assoc verify_result_default_def)
  moreover have "fd_progress oc ops (c, b) = pldm_fd_progress_verify oc ops (c, b)"
    if "pldm_fd_progress_verify oc ops (c, b) = (Ok 4, (?c, b'))" for b'
    using assms(1,3,8) that
    by (simp add: exec_now [OF assms(9) refl] fd_progress_def check_t1_def progress_step_def abind_assoc exec Let_def
        abind_def [of "pldm_fd_progress_verify oc ops"] set_fd_req_def)
  ultimately have "fd_progress oc ops (c, b) = (Ok 4, (?c, splice 0 ?msg b))" by simp
  moreover have "take 4 (splice 0 ?msg b) = ?msg" by (simp add: splice_def layout)
  moreover have st: "fi_state (ctx_internal ?c) = Verify" using assms(1) by (simp add: set_fd_req_def)
  have "\<exists>c2. handle_response ops (?c, r) = (Ok (), (c2, r)) \<and> fi_state (ctx_internal c2) = Verify
      \<and> fi_req (ctx_internal c2) = failed_req (Some (verify_result_disc VerifyGenericError))"
    if "3 \<le> length r" "instance_id (hdr_of (take 3 r)) = n" "cmd_code (hdr_of (take 3 r)) = fw_update_cmd_disc VerifyComplete" for r
  proof -
    have "answers r (fi_req (ctx_internal ?c))" using that(2,3) by (simp add: answers_def set_fd_req_def)
    moreover have "ops_now ops (ctx_plat ?c) = (now, ctx_plat c)" using assms(9) by simp
    ultimately show ?thesis
      using acknowledged_phase [OF _ that(1), of ?c ops now "ctx_plat c"] that(3) st by (simp add: Let_def set_fd_req_def)
  qed
  ultimately show ?thesis
    using st by (intro exI [of _ n] exI [of _ ?c] exI [of _ "splice 0 ?msg b"]) (simp add: set_fd_req_def)
qed

text \<open>A verification that succeeded at time 0 is reported as failed at time 5000.\<close>

theorem verify_retry_reports_error_witness:
  "\<exists>(c :: u64 fd_context) c' b'. req_result (fi_req (ctx_internal c)) = Some (verify_result_disc VerifySuccess)
     \<and> fd_progress False test_fd_ops (c, replicate 4 0) = (Ok 4, (c', b'))
     \<and> req_result (fi_req (ctx_internal c')) = Some (verify_result_disc VerifyGenericError)"
proof -
  let ?c = "(context_in Verify)\<lparr>ctx_plat := 5000,
    ctx_internal := set_fd_req ReqSent True (Some 0) (Some 1) (Some 0x17) (Some 0) (ctx_internal (context_in Verify))\<rparr>"
  have "fi_state (ctx_internal ?c) = Verify" "req_ok (fi_req (ctx_internal ?c))"
    "req_state (fi_req (ctx_internal ?c)) = ReqSent" "req_complete (fi_req (ctx_internal ?c))"
    "req_sent_time (fi_req (ctx_internal ?c)) = Some 0"
    by (simp_all add: set_fd_req_def req_ok_def)
  moreover have "fi_t2_retry_time (ctx_internal ?c) \<le> 5000 - 0" "\<not> t1_expired 5000 (ctx_internal ?c)"
    by code_simp+
  moreover have "ops_now test_fd_ops (ctx_plat ?c) = (5000, ctx_plat ?c)" by (simp add: test_fd_ops_def)
  ultimately obtain n c' b' where "fd_progress False test_fd_ops (?c, replicate 4 0) = (Ok 4, (c', b'))"
    "req_result (fi_req (ctx_internal c')) = Some (verify_result_disc VerifyGenericError)"
    using verify_retry_reports_error [of ?c 0 5000 test_fd_ops "replicate 4 0" False] by auto
  then show ?thesis by (intro exI [of _ ?c] exI [of _ c'] exI [of _ b']) (simp add: set_fd_req_def)
qed

section \<open>Chunks\<close>

abbreviation image_size :: "fd_internal \<Rightarrow> u32" where
  "image_size i \<equiv> (case fc_image_size (fi_update_comp i) of None \<Rightarrow> 0 | Some n \<Rightarrow> n)"

lemma add_checked_Ok:
  "add_checked oc a b = Ok s \<Longrightarrow> oc \<or> uint a + uint b < 2 ^ LENGTH('a) \<Longrightarrow> uint s = uint a + uint (b :: 'a::len word)"
  by (auto simp: add_checked_def not_le simp flip: uint_add_lem split: if_splits)

definition no_overflow :: "'p fd_ops \<Rightarrow> u32 \<Rightarrow> bool" where
  "no_overflow ops n \<longleftrightarrow> uint n + 32 < 2 ^ 32 \<and>
     (\<forall>fc p off len p'. query_download_offset_and_length ops fc p = (Inr (off, len), p') \<longrightarrow>
        uint (of_nat off :: u32) + uint (of_nat len :: u32) < 2 ^ 32)"

lemma chunk_within:
  assumes "get_fd_download_chunk oc off len i = Ok (Some (o', n))"
    and "oc \<or> uint off + uint len < 2 ^ 32 \<and> uint (image_size i) + 32 < 2 ^ 32"
  shows "o' = off \<and> off \<le> image_size i \<and> n \<le> len \<and> n \<le> fi_max_xfer_size i
    \<and> uint off + uint n \<le> uint (image_size i) + 32 \<and> fi_state i = Download"
proof -
  from assms(1) obtain e l where r: "fi_state i = Download" "\<not> image_size i < off"
    "add_checked oc off len = Ok e" "add_checked oc (image_size i) 32 = Ok l" "\<not> l < e"
    "o' = off" "n = min len (fi_max_xfer_size i)"
    by (auto simp: get_fd_download_chunk_def Let_def rbind_eq_Ok split: if_splits)
  have "uint e = uint off + uint len" "uint l = uint (image_size i) + uint (32 :: u32)"
    using add_checked_Ok [OF r(3)] add_checked_Ok [OF r(4)] assms(2) by auto
  moreover have "uint e \<le> uint l" using r(5) by (simp add: word_less_def)
  moreover have n: "n \<le> len" "n \<le> fi_max_xfer_size i" unfolding r(7) by (rule min.cobounded1, rule min.cobounded2)
  moreover have "uint n \<le> uint len" using n(1) by (simp add: word_le_def)
  ultimately show ?thesis using r(1,2,6) by (simp add: not_less)
qed

text \<open>What a request for data that was sent consists of, backwards from the call that sent it.\<close>

lemma abind_Ok:
  assumes "abind m f s = (Ok x, t)"
  obtains y s1 where "m s = (Ok y, s1)" "f y s1 = (Ok x, t)"
  using assms by (auto simp: abind_def split: prod.splits outcome.splits)

lemma should_send_Ok:
  assumes "should_send_fd_request ops (c, b) = (Ok v, s)"
  shows "s = (c\<lparr>ctx_plat := snd (ops_now ops (ctx_plat c))\<rparr>, b)"
proof -
  obtain now p where "ops_now ops (ctx_plat c) = (now, p)" by fastforce
  with assms show ?thesis
    by (cases "req_state (fi_req (ctx_internal c))"; cases "req_sent_time (fi_req (ctx_internal c))")
       (auto simp: should_send_fd_request_def exec split: if_splits)
qed

lemma exec_call_fails: "f (ctx_plat c) = (Inl e, p) \<Longrightarrow> abind (call f) k (c, b) = (Err (FdOps e), (c\<lparr>ctx_plat := p\<rparr>, b))"
  by (simp add: abind_def call_def)

lemma check_t1_Ok:
  assumes "check_t1 ops (c, b) = (Ok u, s)"
  obtains p where "s = (c\<lparr>ctx_plat := p\<rparr>, b)" and "req_state (fi_req (ctx_internal c)) \<noteq> ReqSent \<longrightarrow> p = ctx_plat c"
proof (cases "req_state (fi_req (ctx_internal c)) = ReqSent")
  case True
  obtain now p where now: "ops_now ops (ctx_plat c) = (now, p)" by fastforce
  obtain r p' where "cancel_update_component ops (fi_update_comp (ctx_internal c)) p = (r, p')" by fastforce
  with True assms now that [of p] show ?thesis
    by (cases r) (auto simp: check_t1_def exec exec_call_fails split: if_splits)
next
  case False
  with assms that [of "ctx_plat c"] show ?thesis by (simp add: check_t1_def exec)
qed

lemma alloc_Ok:
  assumes "alloc_instance oc (c, b) = (Ok n, s)"
  shows "s = (c\<lparr>ctx_internal := with_instance n (ctx_internal c)\<rparr>, b)
    \<and> (req_instance_id (fi_req (ctx_internal c)) = None \<longrightarrow> n = 1)"
  using assms
  by (auto simp: alloc_instance_def alloc_next_instance_id_def abind_def on_ctx_def lift_def
      split: option.splits outcome.splits prod.splits)

definition data_requested :: "u8 \<Rightarrow> u32 \<Rightarrow> u32 \<Rightarrow> u64 \<Rightarrow> fd_internal \<Rightarrow> fd_internal" where
  "data_requested n off len now i =
     set_fd_req ReqSent False None (Some n) (Some (fw_update_cmd_disc RequestFirmwareData)) (Some now)
       (set_fd_download_state off len (with_instance n i))"

lemma data_requested_fields:
  "fi_state (data_requested n off len now i) = fi_state i" "fi_update_comp (data_requested n off len now i) = fi_update_comp i"
  "fi_max_xfer_size (data_requested n off len now i) = fi_max_xfer_size i"
  "fi_t1_update_ts (data_requested n off len now i) = fi_t1_update_ts i" "fi_t1_timeout (data_requested n off len now i) = fi_t1_timeout i"
  "fi_t2_retry_time (data_requested n off len now i) = fi_t2_retry_time i"
  "fi_req (data_requested n off len now i) = \<lparr>req_state = ReqSent, req_complete = False, req_result = None,
     req_instance_id = Some n, req_command = Some (fw_update_cmd_disc RequestFirmwareData), req_sent_time = Some now\<rparr>"
  "get_fd_download_state i \<noteq> None \<Longrightarrow> get_fd_download_state (data_requested n off len now i) = Some (off, len)"
  by (simp_all add: data_requested_def fd_setters with_instance_def get_fd_download_state_def split: initiator_mode.splits)

lemma chunk_data_requested:
  "get_fd_download_chunk oc x y (data_requested n off len now i) = get_fd_download_chunk oc x y i"
  by (simp add: get_fd_download_chunk_def data_requested_fields Let_def cong: if_cong)

lemma chunk_instance [simp]: "get_fd_download_chunk oc off len (with_instance n i) = get_fd_download_chunk oc off len i"
  by (simp add: get_fd_download_chunk_def with_instance_def Let_def cong: if_cong)

lemma exec_known: "m s = (Ok x, t) \<Longrightarrow> abind m k s = k x t" "m s = (Err e, t) \<Longrightarrow> abind m k s = (Err e, t)"
  "m s = (Panic, t) \<Longrightarrow> abind m k s = (Panic, t)"
  by (simp_all add: abind_def)

lemma abind_then_self: "abind m (\<lambda>r. abind self_internal (\<lambda>_. ret r)) = m"
  by (auto simp: fun_eq_iff abind_def self_internal_def gets_def ret_def split: prod.split outcome.split)

lemma blanket_encode_Ok:
  "blanket_encode n f x b = (Ok m, b') \<Longrightarrow> length (f x) = n \<Longrightarrow> m = n \<and> n \<le> length b \<and> b' = splice 0 (f x) b"
  by (auto simp: blanket_encode_def splice_def split: if_splits)

lemma request_sent:
  assumes "fi_state (ctx_internal c) = Download" and "\<not> req_complete (fi_req (ctx_internal c))"
    and "fd_progress oc ops (c, b) = (Ok m, (c', b'))"
  obtains n off len o' l' p0 p1 p2 now p3
  where "query_download_offset_and_length ops (fi_update_comp (ctx_internal c)) p1 = (Inr (o', l'), p2)"
    and "get_fd_download_chunk oc (of_nat o') (of_nat l') (ctx_internal c) = Ok (Some (off, len))"
    and "m = 11" "11 \<le> length b"
    and "b' = splice 0 (request_fw_data_request_bytes (request_fw_data_request_new n MsgRequest off len)) b"
    and "c' = c\<lparr>ctx_plat := p3, ctx_internal := data_requested n off len now (ctx_internal c)\<rparr>"
    and "ops_now ops p2 = (now, p3)"
    and "req_instance_id (fi_req (ctx_internal c)) = None \<longrightarrow> n = 1"
    and "req_state (fi_req (ctx_internal c)) = ReqReady \<longrightarrow> p1 = snd (ops_now ops (ctx_plat c))"
proof -
  let ?i = "ctx_internal c"
  have "fd_progress oc ops (c, b) = abind (check_t1 ops) (\<lambda>_. fd_progress_download oc ops) (c, b)"
    using assms(1) by (simp add: fd_progress_def exec_self Let_def progress_step_def abind_then_self)
  with assms(3) obtain x s1 where t1: "check_t1 ops (c, b) = (Ok x, s1)" and dl: "fd_progress_download oc ops s1 = (Ok m, (c', b'))"
    by (metis abind_Ok)
  obtain p0 where s1: "s1 = (c\<lparr>ctx_plat := p0\<rparr>, b)" "req_state (fi_req ?i) \<noteq> ReqSent \<longrightarrow> p0 = ctx_plat c"
    using t1 by (rule check_t1_Ok)
  let ?p1 = "snd (ops_now ops p0)"
  obtain r s2 where "should_send_fd_request ops s1 = (r, s2)" by (metis surj_pair)
  with dl should_send_Ok [of ops "c\<lparr>ctx_plat := p0\<rparr>" b _ s2]
  have send: "should_send_fd_request ops s1 = (Ok True, (c\<lparr>ctx_plat := ?p1\<rparr>, b))"
    by (cases r) (auto simp: fd_progress_download_def exec_known s1(1) exec split: if_splits)
  let ?c1 = "c\<lparr>ctx_plat := ?p1\<rparr>"
  obtain r s3 where "alloc_instance oc (?c1, b) = (r, s3)" by (metis surj_pair)
  with dl obtain n where "r = Ok n"
    by (cases r) (auto simp: fd_progress_download_def exec_known(1) [of "should_send_fd_request ops" s1, OF send] exec_known)
  with \<open>alloc_instance oc (?c1, b) = (r, s3)\<close> alloc_Ok [of oc ?c1 b n s3]
  have alloc: "alloc_instance oc (?c1, b) = (Ok n, (c\<lparr>ctx_plat := ?p1, ctx_internal := with_instance n ?i\<rparr>, b))"
    and first: "req_instance_id (fi_req ?i) = None \<longrightarrow> n = 1" by auto
  let ?c2 = "c\<lparr>ctx_plat := ?p1, ctx_internal := with_instance n ?i\<rparr>"
  have comp: "\<not> req_complete (fi_req (with_instance n ?i))" "fi_update_comp (with_instance n ?i) = fi_update_comp ?i"
    using assms(2) by (simp_all add: with_instance_def)
  obtain q p2 where "query_download_offset_and_length ops (fi_update_comp ?i) ?p1 = (q, p2)" by fastforce
  with dl comp obtain o' l' where q: "query_download_offset_and_length ops (fi_update_comp ?i) ?p1 = (Inr (o', l'), p2)"
    by (cases q) (auto simp: fd_progress_download_def exec_known(1) [of "should_send_fd_request ops" s1, OF send] exec_known(1) [of "alloc_instance oc" "(?c1, b)", OF alloc] exec exec_call_fails)
  note steps = fd_progress_download_def exec_known(1) [of "should_send_fd_request ops" s1, OF send] exec_known(1) [of "alloc_instance oc" "(?c1, b)", OF alloc] exec comp assms(2) q
  obtain off len where chunk: "get_fd_download_chunk oc (of_nat o') (of_nat l') ?i = Ok (Some (off, len))"
  proof (cases "get_fd_download_chunk oc (of_nat o') (of_nat l') ?i")
    case (Ok chunk)
    with dl that show ?thesis by (cases chunk) (auto simp: steps)
  qed (use dl in \<open>simp_all add: steps exec_lift_Panic\<close>)
  let ?msg = "request_fw_data_request_bytes (request_fw_data_request_new n MsgRequest off len)"
  have fits: "11 \<le> length b"
  proof (rule ccontr)
    assume "\<not> 11 \<le> length b"
    then show False using dl chunk by (simp add: steps exec_known respond_def on_payload_def coding_def blanket_encode_def)
  qed
  obtain now p3 where now: "ops_now ops p2 = (now, p3)" by fastforce
  have "fd_progress_download oc ops s1 = (Ok 11, (c\<lparr>ctx_plat := p3, ctx_internal := data_requested n off len now ?i\<rparr>, splice 0 ?msg b))"
    using fits by (simp add: steps chunk now blanket_fits mark_sent_def abind_assoc data_requested_def)
  with dl have "m = 11" "c' = c\<lparr>ctx_plat := p3, ctx_internal := data_requested n off len now ?i\<rparr>" "b' = splice 0 ?msg b"
    by simp_all
  then show ?thesis using that [OF q chunk _ fits _ _ now first] s1(2) by simp
qed

lemma exec_send_ready:
  "ops_now ops (ctx_plat c) = (now, p) \<Longrightarrow> req_state (fi_req (ctx_internal c)) = ReqReady \<Longrightarrow>
   abind (should_send_fd_request ops) k (c, b) = k True (c\<lparr>ctx_plat := p\<rparr>, b)"
  by (simp add: should_send_fd_request_def abind_assoc exec)

lemma exec_alloc_first:
  "req_instance_id (fi_req (ctx_internal c)) = None \<Longrightarrow>
   abind (alloc_instance oc) k (c, b) = k 1 (c\<lparr>ctx_internal := with_instance 1 (ctx_internal c)\<rparr>, b)"
  by (simp add: alloc_instance_def alloc_next_instance_id_def abind_def on_ctx_def lift_def)

lemma ready_progress:
  assumes "fi_state (ctx_internal c) = Download" and "fi_req (ctx_internal c) = ready_req False None"
    and "ops_now ops (ctx_plat c) = (now, p1)" and "11 \<le> length b"
    and "query_download_offset_and_length ops (fi_update_comp (ctx_internal c)) p1 = (Inr (off, len), p2)"
  shows "fst (fd_progress oc ops (c, b)) =
    (case get_fd_download_chunk oc (of_nat off) (of_nat len) (ctx_internal c) of
       Ok (Some _) \<Rightarrow> Ok 11 | Ok None \<Rightarrow> Err FdInitiatorModeError | Err e \<Rightarrow> Err e | Panic \<Rightarrow> Panic)"
proof -
  obtain now2 p3 where now2: "ops_now ops p2 = (now2, p3)" by fastforce
  have query: "query_download_offset_and_length ops (fi_update_comp (with_instance 1 (ctx_internal c))) p1 = (Inr (off, len), p2)"
    using assms(5) by (simp add: with_instance_def)
  have "fd_progress oc ops (c, b) = fd_progress_download oc ops (c, b)"
    using assms(1,2) by (simp add: fd_progress_def exec_self Let_def progress_step_def abind_then_self check_t1_def abind_assoc)
  also have "fst \<dots> = (case get_fd_download_chunk oc (of_nat off) (of_nat len) (ctx_internal c) of
       Ok (Some _) \<Rightarrow> Ok 11 | Ok None \<Rightarrow> Err FdInitiatorModeError | Err e \<Rightarrow> Err e | Panic \<Rightarrow> Panic)"
    using assms(1-4) query now2
    by (cases "get_fd_download_chunk oc (of_nat off) (of_nat len) (ctx_internal c)")
       (auto simp: fd_progress_download_def exec exec_send_ready exec_alloc_first blanket_fits mark_sent_def abind_assoc
          exec_lift_Panic split: option.split)
  finally show ?thesis .
qed

text \<open>C19: whatever the platform asks for, a request for firmware data that the device sends starts at the
  offset the platform asked for, which is not behind the end of the component image, with a length
  that is at most what the platform asked for and at most the transfer size, and the data ends within
  the image and the 32 bytes of its padding; provided the overflow checks are on or the sums of
  the code fit into 32 bits (\<open>no_overflow\<close>).\<close>

theorem download_chunk_bounds:
  assumes "fi_state (ctx_internal c) = Download" and "\<not> req_complete (fi_req (ctx_internal c))"
    and "fd_progress oc ops (c, b) = (Ok m, (c', b'))"
    and "oc \<or> no_overflow ops (image_size (ctx_internal c))"
  shows "\<exists>n off len o' l' p p'. m = 11
    \<and> take 11 b' = request_fw_data_request_bytes (request_fw_data_request_new n MsgRequest off len)
    \<and> query_download_offset_and_length ops (fi_update_comp (ctx_internal c)) p = (Inr (o', l'), p')
    \<and> off = of_nat o' \<and> off \<le> image_size (ctx_internal c)
    \<and> len \<le> of_nat l' \<and> len \<le> fi_max_xfer_size (ctx_internal c)
    \<and> uint off + uint len \<le> uint (image_size (ctx_internal c)) + 32"
proof -
  obtain n off len o' l' p p' where r: "query_download_offset_and_length ops (fi_update_comp (ctx_internal c)) p = (Inr (o', l'), p')"
    "get_fd_download_chunk oc (of_nat o') (of_nat l') (ctx_internal c) = Ok (Some (off, len))" "m = 11" "11 \<le> length b"
    "b' = splice 0 (request_fw_data_request_bytes (request_fw_data_request_new n MsgRequest off len)) b"
    by (rule request_sent [OF assms(1-3)])
  have "oc \<or> uint (of_nat o' :: u32) + uint (of_nat l' :: u32) < 2 ^ 32 \<and> uint (image_size (ctx_internal c)) + 32 < 2 ^ 32"
    using assms(4) r(1) unfolding no_overflow_def by blast
  from chunk_within [OF r(2) this]
  have "off = of_nat o'" "off \<le> image_size (ctx_internal c)" "len \<le> of_nat l'" "len \<le> fi_max_xfer_size (ctx_internal c)"
    "uint off + uint len \<le> uint (image_size (ctx_internal c)) + 32" by blast+
  moreover have "take 11 b' = request_fw_data_request_bytes (request_fw_data_request_new n MsgRequest off len)"
    using r(4,5) by (simp add: splice_def layout)
  ultimately show ?thesis using r(1,3) by blast
qed

text \<open>The platform of the tests, but asking for 1024 bytes of an image of 4096.\<close>

theorem download_chunk_bounds_witness:
  "\<exists>(c :: u64 fd_context) ops c' b' n off len. fd_progress True ops (c, on_wire []) = (Ok 11, (c', b'))
     \<and> take 11 b' = request_fw_data_request_bytes (request_fw_data_request_new n MsgRequest off len)
     \<and> off \<le> 4096 \<and> len \<le> 512"
proof -
  let ?ops = "test_fd_ops\<lparr>query_download_offset_and_length := \<lambda>_ p. (Inr (0, 1024), p)\<rparr>"
  let ?c = "(context_in Download)\<lparr>ctx_internal := set_component (firmware_component_default\<lparr>fc_image_size := Some 4096\<rparr>)
      (set_fd_req ReqReady False None None None None (ctx_internal (context_in Download)))\<rparr>"
  have st: "fi_state (ctx_internal ?c) = Download" "\<not> req_complete (fi_req (ctx_internal ?c))" by (simp_all add: fd_setters)
  have "fst (fd_progress True ?ops (?c, on_wire [])) = Ok 11" by code_simp
  then obtain c' b' where run: "fd_progress True ?ops (?c, on_wire []) = (Ok 11, (c', b'))" by (metis prod.collapse)
  from download_chunk_bounds [OF st run] obtain n off len where
    "take 11 b' = request_fw_data_request_bytes (request_fw_data_request_new n MsgRequest off len)"
    "off \<le> image_size (ctx_internal ?c)" "len \<le> fi_max_xfer_size (ctx_internal ?c)" by blast
  moreover have "image_size (ctx_internal ?c) = 4096" "fi_max_xfer_size (ctx_internal ?c) = 512" by code_simp+
  ultimately show ?thesis using run by metis
qed

section \<open>Vendor-defined codes\<close>

text \<open>A platform may answer \<open>UpdateComponent\<close> with any \<open>ComponentResponseCode\<close>, the
  vendor-defined one included, but the handler panics on that one: the compatibility code of
  the response has no such value.\<close>

theorem vendor_response_code_panics:
  assumes "fi_state (ctx_internal c) = ReadyXfer" and "update_component_request_decode b = Ok req"
    and "\<And>p. get_firmware_parms ops firmware_parameters_default p = (Inr (), fp, p)"
    and "\<And>comp p. handle_component ops comp fp OpUpdateComponent p = (Inr CompVendorDefined, p)"
  shows "fst (process_fw_update_cmd ops 0x14 (c, b)) = Panic"
proof -
  have code: "compat_response_code_try_from (component_response_code_disc CompVendorDefined) = Err PE_InvalidComponentCompatibilityResponseCode"
    by code_simp
  obtain now p where now: "ops_now ops (ctx_plat c) = (now, p)" by fastforce
  show ?thesis
    using assms by (simp add: update_component_rsp_def exec now Let_def code del: component_response_code_disc.simps)
qed

theorem vendor_response_code_panics_witness:
  "fst (process_fw_update_cmd (test_fd_ops\<lparr>handle_component := \<lambda>_ _ _ p. (Inr CompVendorDefined, p)\<rparr>) 0x14
     (context_in ReadyXfer, [0x83, 5, 0x14, 10, 0, 1, 0, 0, 1, 0, 0, 0, 32, 0, 0, 0, 0, 0, 0, 0, 1, 2, 0x76, 0x31])) = Panic"
proof (rule vendor_response_code_panics)
  show "update_component_request_decode [0x83, 5, 0x14, 10, 0, 1, 0, 0, 1, 0, 0, 0, 32, 0, 0, 0, 0, 0, 0, 0, 1, 2, 0x76, 0x31] =
    Ok (case update_component_request_decode [0x83, 5, 0x14, 10, 0, 1, 0, 0, 1, 0, 0, 0, 32, 0, 0, 0, 0, 0, 0, 0, 1, 2, 0x76, 0x31] of Ok r \<Rightarrow> r)"
    by code_simp
qed (simp_all add: test_fd_ops_def)

text \<open>Likewise a platform may report a vendor-defined transfer result, but the device panics
  when it comes to tell the Update Agent.\<close>

theorem vendor_transfer_result_panics:
  assumes "fi_state (ctx_internal c) = Download" and "req_state (fi_req (ctx_internal c)) = ReqReady"
    and "req_complete (fi_req (ctx_internal c))" and "req_ok (fi_req (ctx_internal c))"
    and "req_result (fi_req (ctx_internal c)) = Some (transfer_result_disc TransferVendorDefined)"
  shows "fst (fd_progress oc ops (c, b)) = Panic"
proof -
  have code: "transfer_result_try_from (transfer_result_disc TransferVendorDefined) = Err PE_InvalidTransferResult"
    by code_simp
  obtain now p where now: "ops_now ops (ctx_plat c) = (now, p)" by fastforce
  obtain n where n: "\<And>k :: u8 \<Rightarrow> ('a, nat) fd_handler. abind (alloc_instance oc) k (c\<lparr>ctx_plat := p\<rparr>, b) =
      k n (c\<lparr>ctx_plat := p, ctx_internal := with_instance n (ctx_internal c)\<rparr>, b)"
    by (rule exec_alloc [of "c\<lparr>ctx_plat := p\<rparr>" oc b]) (use that assms(4) in auto)
  have "fd_progress_download oc ops (c, b) = (Panic, (c\<lparr>ctx_plat := p, ctx_internal := with_instance n (ctx_internal c)\<rparr>, b))"
    using assms
    by (simp add: fd_progress_download_def should_send_fd_request_def abind_assoc exec now n code
        del: transfer_result_disc.simps)
  with assms(1,2) show ?thesis
    by (simp add: fd_progress_def check_t1_def progress_step_def abind_assoc exec Let_def
        abind_def [of "fd_progress_download oc ops"])
qed

theorem vendor_transfer_result_panics_witness:
  "\<exists>c :: u64 fd_context. fst (fd_progress True test_fd_ops (c, replicate 8 0)) = Panic"
proof -
  let ?c = "(context_in Download)\<lparr>ctx_internal :=
    set_fd_req ReqReady True (Some (transfer_result_disc TransferVendorDefined)) None None None (ctx_internal (context_in Download))\<rparr>"
  have "fst (fd_progress True test_fd_ops (?c, replicate 8 0)) = Panic"
    by (rule vendor_transfer_result_panics) (simp_all add: set_fd_req_def req_ok_def)
  then show ?thesis by blast
qed

end
