(* ===== verification/Mctp.thy ===== *)
theory Mctp
  imports Base
begin

text \<open>
  MCTP framing, \<open>pldm-common/src/util/mctp_transport.rs\<close>.  Both functions return a
  mutable view of the buffer behind the type byte; the model returns the view's bytes,
  and \<open>with_pldm_msg\<close> puts a rewritten view back behind byte 0.
\<close>

definition MCTP_PLDM_MSG_TYPE :: u8 where
  "MCTP_PLDM_MSG_TYPE = 0x01"

definition MCTP_COMMON_HEADER_OFFSET :: nat where
  "MCTP_COMMON_HEADER_OFFSET = 0"

definition PLDM_MSG_OFFSET :: nat where
  "PLDM_MSG_OFFSET = 1"

definition mctp_ic :: "u8 \<Rightarrow> u8" where
  "mctp_ic h = get_bits 7 7 h"

definition mctp_msg_type :: "u8 \<Rightarrow> u8" where
  "mctp_msg_type h = get_bits 6 0 h"

definition mctp_set_ic :: "u8 \<Rightarrow> u8 \<Rightarrow> u8" where
  "mctp_set_ic v h = set_bits 7 7 v h"

definition mctp_set_msg_type :: "u8 \<Rightarrow> u8 \<Rightarrow> u8" where
  "mctp_set_msg_type v h = set_bits 6 0 v h"

definition extract_pldm_msg :: "bytes \<Rightarrow> (bytes, util_error) outcome" where
  "extract_pldm_msg mctp_payload =
     (if length mctp_payload < 1 + PLDM_MSG_HEADER_LEN then Err InvalidMctpPayloadLength
      else rbind (index_at MCTP_COMMON_HEADER_OFFSET mctp_payload) (\<lambda>h.
        if mctp_ic h \<noteq> 0 \<or> mctp_msg_type h \<noteq> MCTP_PLDM_MSG_TYPE then Err InvalidMctpMsgType
        else slice_from PLDM_MSG_OFFSET mctp_payload))"

definition construct_mctp_pldm_msg :: "bytes \<Rightarrow> (bytes, util_error) outcome \<times> bytes" where
  "construct_mctp_pldm_msg mctp_payload =
     (if length mctp_payload < 1 + PLDM_MSG_HEADER_LEN
      then (Err InvalidMctpPayloadLength, mctp_payload)
      else
        let h = mctp_set_msg_type MCTP_PLDM_MSG_TYPE (mctp_set_ic 0 0);
            mctp_payload = mctp_payload[MCTP_COMMON_HEADER_OFFSET := h]
        in (slice_from PLDM_MSG_OFFSET mctp_payload, mctp_payload))"

definition with_pldm_msg :: "bytes \<Rightarrow> bytes \<Rightarrow> bytes" where
  "with_pldm_msg msg_buf view = take PLDM_MSG_OFFSET msg_buf @ view"

lemmas mctp_consts = MCTP_PLDM_MSG_TYPE_def MCTP_COMMON_HEADER_OFFSET_def PLDM_MSG_OFFSET_def
  PLDM_MSG_HEADER_LEN_def

lemma mctp_type_byte [simp]: "mctp_set_msg_type 1 (mctp_set_ic 0 0) = 1"
  by (simp add: mctp_set_msg_type_def mctp_set_ic_def set_bits_def)

lemma mctp_type_byte_accepted [simp]: "mctp_ic 1 = 0" "mctp_msg_type 1 = MCTP_PLDM_MSG_TYPE"
  by (simp_all add: mctp_ic_def mctp_msg_type_def mctp_consts get_bits_def)

lemma construct_fits:
  "4 \<le> length buf \<Longrightarrow> construct_mctp_pldm_msg buf = (Ok (drop 1 buf), 1 # drop 1 buf)"
  by (cases buf) (auto simp: construct_mctp_pldm_msg_def Let_def mctp_consts slice_from_def)

lemma construct_short:
  "length buf < 4 \<Longrightarrow> construct_mctp_pldm_msg buf = (Err InvalidMctpPayloadLength, buf)"
  by (simp add: construct_mctp_pldm_msg_def mctp_consts)

lemma extract_not_Panic: "extract_pldm_msg buf \<noteq> Panic"
  by (auto simp: extract_pldm_msg_def mctp_consts index_at_def slice_from_def)

lemma extract_Ok:
  "extract_pldm_msg buf = Ok view \<longleftrightarrow>
     4 \<le> length buf \<and> mctp_ic (buf ! 0) = 0 \<and> mctp_msg_type (buf ! 0) = MCTP_PLDM_MSG_TYPE \<and>
     view = drop 1 buf"
  by (auto simp: extract_pldm_msg_def mctp_consts index_at_def slice_from_def split: if_splits)

text \<open>C39: whatever the sender framed, the receiver extracts: the view \<open>construct_mctp_pldm_msg\<close>
  returns is the one \<open>extract_pldm_msg\<close> finds in the framed buffer, whatever the sender
  writes into it, and nothing but the type byte of the buffer is changed by framing.\<close>

theorem mctp_frame_roundtrip:
  assumes "construct_mctp_pldm_msg buf = (Ok view, buf')" and "length msg = length view"
  shows "extract_pldm_msg (with_pldm_msg buf' msg) = Ok msg \<and> drop 1 buf' = drop 1 buf"
proof -
  from assms(1) have len: "4 \<le> length buf"
    by (cases "4 \<le> length buf") (simp_all add: construct_short)
  with assms have "buf' = 1 # drop 1 buf" and "length msg = length buf - 1"
    by (auto simp: construct_fits)
  with len show ?thesis
    by (simp add: extract_Ok with_pldm_msg_def mctp_consts)
qed

theorem mctp_frame_roundtrip_witness:
  "extract_pldm_msg (with_pldm_msg [1, 0, 0, 0, 0] [9, 8, 7, 6]) = Ok [9, 8, 7, 6]"
  using mctp_frame_roundtrip [of "[5, 0, 0, 0, 0]" "[0, 0, 0, 0]" "[1, 0, 0, 0, 0]" "[9, 8, 7, 6]"]
  by (simp add: construct_fits)

end
