(* ===== verification/Cmd_Interface.thy ===== *)
theory Cmd_Interface
  imports Control_Context Fd_Timing Mctp Version
begin

text \<open>
  The command interface, \<open>pldm-interface/src/cmd_interface.rs\<close>, with the capability table of
  \<open>config.rs\<close>: one message in a buffer behind an MCTP type byte, a busy flag, and the
  control and firmware device contexts the message is dispatched to.
\<close>

record 'p cmd_interface =
  ci_ctrl :: control_context
  ci_fd :: "'p fd_context"
  ci_busy :: bool

definition cmd_interface_new :: "protocol_capability list \<Rightarrow> 'p fd_context \<Rightarrow> 'p cmd_interface" where
  "cmd_interface_new caps fd_ctx =
     \<lparr>ci_ctrl = control_context_new caps, ci_fd = fd_ctx, ci_busy = False\<rparr>"

definition PLDM_PROTOCOL_CAPABILITIES :: "protocol_capability list" where
  "PLDM_PROTOCOL_CAPABILITIES =
     [\<lparr>cap_pldm_type = TypeBase, cap_protocol_version = 0xF1F1F000,
       cap_supported_commands = map pldm_control_cmd_disc [SetTid, GetTid, GetPldmCommands, GetPldmVersion, GetPldmTypes]\<rparr>,
      \<lparr>cap_pldm_type = TypeFwUpdate, cap_protocol_version = 0xF1F3F000,
       cap_supported_commands = map fw_update_cmd_disc
         [QueryDeviceIdentifiers, GetFirmwareParameters, RequestUpdate, PassComponentTable, UpdateComponent,
          RequestFirmwareData, TransferComplete, VerifyComplete, ApplyComplete, ActivateFirmware, GetStatus,
          CancelUpdateComponent, CancelUpdate, ActivatePendingComponentImage, UpdateSecurityRevision]\<rparr>]"

text \<open>The versions in the table are the encodings of the version strings.\<close>

lemma advertised_versions:
  "map (\<lambda>cap. Ok (cap_protocol_version cap)) PLDM_PROTOCOL_CAPABILITIES =
     map (\<lambda>v. map_ok bcd_encode_to_ver32 (version_try_from v))
       [PLDM_BASE_PROTOCOL_VERSION, PLDM_FW_UPDATE_PROTOCOL_VERSION]"
  by code_simp

section \<open>Parts of the interface\<close>

type_synonym ('p, 'a) ci_handler = "('p cmd_interface, 'a) handler"

text \<open>Running a context's handler on the interface: the rest of the interface is not touched.\<close>

definition on_part :: "('s \<Rightarrow> 'c) \<Rightarrow> ('c \<Rightarrow> 's \<Rightarrow> 's) \<Rightarrow> ('c, 'a) handler \<Rightarrow> ('s, 'a) handler" where
  "on_part get put m = (\<lambda>(self, payload). case m (get self, payload) of
     (r, (c, payload')) \<Rightarrow> (r, (put c self, payload')))"

definition on_ctrl :: "'a ctl_handler \<Rightarrow> ('p, 'a) ci_handler" where
  "on_ctrl = on_part ci_ctrl (\<lambda>c self. self\<lparr>ci_ctrl := c\<rparr>)"

definition on_fd :: "('p, 'a) fd_handler \<Rightarrow> ('p, 'a) ci_handler" where
  "on_fd = on_part ci_fd (\<lambda>c self. self\<lparr>ci_fd := c\<rparr>)"

definition set_busy :: "bool \<Rightarrow> ('p, unit) ci_handler" where
  "set_busy b = on_ctx (modify (\<lambda>self. self\<lparr>ci_busy := b\<rparr>))"

text \<open>\<open>let payload = &mut msg_buf[PLDM_MSG_OFFSET..]\<close>: the rest of the function works on the
  view, and the buffer's first byte stays in front of it.\<close>

definition on_view :: "('c, 'a) handler \<Rightarrow> ('c, 'a) handler" where
  "on_view m = (\<lambda>(self, msg_buf). case slice_from PLDM_MSG_OFFSET msg_buf :: (bytes, msg_handler_error) outcome of
     Ok payload \<Rightarrow> (case m (self, payload) of (r, (self', payload')) \<Rightarrow> (r, (self', with_pldm_msg msg_buf payload')))
   | _ \<Rightarrow> (Panic, (self, msg_buf)))"

section \<open>Requests\<close>

definition preprocess_request :: "control_context \<Rightarrow> bytes \<Rightarrow> (pldm_supported_type \<times> u8, u8) outcome" where
  "preprocess_request ctrl payload =
     (case hdr_decode payload of
        Ok header \<Rightarrow>
          if \<not> (is_request header \<and> is_hdr_ver_valid header) then Err (base_cc_disc CC_InvalidData)
          else (case pldm_supported_type_try_from (hdr_pldm_type header) of
             Ok pldm_type \<Rightarrow>
               if \<not> is_supported_type ctrl pldm_type then Err (base_cc_disc CC_InvalidPldmType)
               else if is_supported_command ctrl pldm_type (cmd_code header) then Ok (pldm_type, cmd_code header)
               else Err (base_cc_disc CC_UnsupportedPldmCmd)
           | _ \<Rightarrow> Err (base_cc_disc CC_InvalidPldmType))
      | _ \<Rightarrow> Err (base_cc_disc CC_InvalidData))"

definition dispatch_request :: "'p fd_ops \<Rightarrow> pldm_supported_type \<Rightarrow> u8 \<Rightarrow> ('p, nat) ci_handler" where
  "dispatch_request ops pldm_type cmd_opcode =
     (case pldm_type of
        TypeBase \<Rightarrow> on_ctrl (process_control_cmd cmd_opcode)
      | TypeFwUpdate \<Rightarrow> on_fd (process_fw_update_cmd ops cmd_opcode)
      | _ \<Rightarrow> lift Panic)"

definition process_request :: "'p fd_ops \<Rightarrow> ('p, nat) ci_handler" where
  "process_request ops =
     abind (gets (\<lambda>s. ci_busy (fst s))) (\<lambda>busy.
     if busy then fail NotReady
     else
       abind (set_busy True) (\<lambda>_.
       on_view (
         abind (gets (\<lambda>s. preprocess_request (ci_ctrl (fst s)) (snd s))) (\<lambda>pre.
         or_return pre
           (\<lambda>e. abind (set_busy False) (\<lambda>_. abind (failure e) (\<lambda>n. ret (PLDM_MSG_OFFSET + n))))
           (\<lambda>(pldm_type, cmd_opcode).
             or_else (dispatch_request ops pldm_type cmd_opcode)
               (\<lambda>e. abind (set_busy False) (\<lambda>_. fail e))
               (\<lambda>bytes. abind (set_busy False) (\<lambda>_. ret (PLDM_MSG_OFFSET + bytes))))))))"

definition handle_responder_msg :: "'p fd_ops \<Rightarrow> ('p, nat) ci_handler" where
  "handle_responder_msg ops = abind (process_request ops) (\<lambda>resp_len. ret resp_len)"

section \<open>The initiator's entry points\<close>

definition generate_initiator_request :: "bool \<Rightarrow> 'p fd_ops \<Rightarrow> ('p, nat option) ci_handler" where
  "generate_initiator_request oc ops = (\<lambda>(self, msg_buf).
     case construct_mctp_pldm_msg msg_buf of
       (Ok payload, msg_buf') \<Rightarrow>
         (case on_fd (fd_progress oc ops) (self, payload) of
            (r, (self', payload')) \<Rightarrow>
              (map_ok (\<lambda>pldm_len. if 0 < pldm_len then Some pldm_len else None) r,
               (self', with_pldm_msg msg_buf' payload')))
     | (Err e, msg_buf') \<Rightarrow> (Err (Util e), (self, msg_buf'))
     | (Panic, msg_buf') \<Rightarrow> (Panic, (self, msg_buf')))"

definition process_initiator_response :: "'p fd_ops \<Rightarrow> ('p, unit) ci_handler" where
  "process_initiator_response ops = (\<lambda>(self, msg_buf).
     case extract_pldm_msg msg_buf of
       Ok payload \<Rightarrow>
         (case on_fd (handle_response ops) (self, payload) of
            (r, (self', payload')) \<Rightarrow> (r, (self', with_pldm_msg msg_buf payload')))
     | Err e \<Rightarrow> (Err (Util e), (self, msg_buf))
     | Panic \<Rightarrow> (Panic, (self, msg_buf)))"

section \<open>What the interface relies on\<close>

text \<open>
  The contract of a context that requests are dispatched to: its handlers do not panic in a
  context that satisfies \<open>ok\<close>, leave such a context, and keep the payload's length.
\<close>

locale responder =
  fixes ok :: "'c \<Rightarrow> bool" and handle :: "u8 \<Rightarrow> ('c, nat) handler"
  assumes handle_safe: "safe ok (handle op)"
begin

lemma handle_wp:
  "ok c \<Longrightarrow> wp (handle op) (\<lambda>_ s. ok (fst s) \<and> length (snd s) = length b)
     (\<lambda>_ s. ok (fst s) \<and> length (snd s) = length b) (c, b)"
  using safeD [OF handle_safe, of "length b" "(c, b)"] by (simp add: holds_at_def [abs_def])

lemma on_part_wp:
  assumes "ok (get s)"
    and "\<And>c n b'. ok c \<Longrightarrow> length b' = length b \<Longrightarrow> Q n (put c s, b')"
    and "\<And>c e b'. ok c \<Longrightarrow> length b' = length b \<Longrightarrow> E e (put c s, b')"
  shows "wp (on_part get put (handle op)) Q E (s, b)"
proof -
  obtain r c b' where run: "handle op (get s, b) = (r, (c, b'))" by (metis prod.collapse)
  with handle_wp [OF assms(1), of op b] assms(2,3) show ?thesis
    by (auto simp: wp_def on_part_def split: outcome.split)
qed

end

interpretation ctrl: responder "\<lambda>c. ctl_capabilities c = caps" process_control_cmd
  by unfold_locales (rule process_control_cmd_safe, simp add: set_tid_def)

definition device_ok :: "bool \<Rightarrow> 'p fd_ops \<Rightarrow> 'p fd_context \<Rightarrow> bool" where
  "device_ok oc ops c \<longleftrightarrow> platform_wf ops \<and> standard_codes ops \<and> (\<exists>tr. fd_run oc ops c tr)"

lemma device_ok_inv: "device_ok oc ops c \<Longrightarrow> fd_inv (ctx_internal c)"
  unfolding device_ok_def using fd_run_inv by blast

lemma device_ok_step: "device_ok oc ops c \<Longrightarrow> fd_step oc ops c e c' \<Longrightarrow> device_ok oc ops c'"
  unfolding device_ok_def using fd_run_step by blast

interpretation device: responder "device_ok oc ops" "process_fw_update_cmd ops"
proof
  fix op
  show "safe (device_ok oc ops) (process_fw_update_cmd ops op)"
  proof (rule safeI)
    fix n and s :: "'a fd_context \<times> bytes"
    assume s: "holds_at (device_ok oc ops) n s"
    obtain c b r c' b' where run: "s = (c, b)" "process_fw_update_cmd ops op (c, b) = (r, (c', b'))"
      by (metis prod.collapse)
    from s run(1) have ok: "device_ok oc ops c" "length b = n" by (simp_all add: holds_at_def)
    then have "platform_wf ops" "standard_codes ops" by (simp_all add: device_ok_def)
    from request_step_post [OF device_ok_inv [OF ok(1)] this run(2)]
    have post: "r \<noteq> Panic" "length b' = n" using ok(2) by simp_all
    from device_ok_step [OF ok(1) fd_step.request [OF run(2) post(1)]] post run
    show "wp (process_fw_update_cmd ops op) (\<lambda>_. holds_at (device_ok oc ops) n) (\<lambda>_. holds_at (device_ok oc ops) n) s"
      by (cases r) (simp_all add: wp_def holds_at_def)
  qed
qed

section \<open>Requests are answered\<close>

text \<open>The protocols the interface can dispatch; an entry of another type is never served.\<close>

definition serves :: "protocol_capability list \<Rightarrow> bool" where
  "serves caps \<longleftrightarrow> list_all (\<lambda>cap. cap_pldm_type cap = TypeBase \<or> cap_pldm_type cap = TypeFwUpdate) caps"

definition interface_ok :: "bool \<Rightarrow> 'p fd_ops \<Rightarrow> 'p cmd_interface \<Rightarrow> bool" where
  "interface_ok oc ops s \<longleftrightarrow> \<not> ci_busy s \<and> serves (ctl_capabilities (ci_ctrl s)) \<and> device_ok oc ops (ci_fd s)"

lemma wp_set_busy [wp_simps]: "wp (set_busy v) Q E s = Q () ((fst s)\<lparr>ci_busy := v\<rparr>, snd s)"
  by (simp add: set_busy_def wp_simps)

lemma wp_on_view [wp_simps]:
  "wp (on_view m) Q E s \<longleftrightarrow> 1 \<le> length (snd s) \<and>
     wp m (\<lambda>x t. Q x (fst t, take 1 (snd s) @ snd t)) (\<lambda>e t. E e (fst t, take 1 (snd s) @ snd t)) (fst s, drop 1 (snd s))"
  by (cases s) (auto simp: wp_def on_view_def slice_from_def mctp_consts with_pldm_msg_def split: prod.split outcome.split)

lemma preprocess_served:
  "preprocess_request ctrl b = Ok (t, cmd) \<Longrightarrow> serves (ctl_capabilities ctrl) \<Longrightarrow> t = TypeBase \<or> t = TypeFwUpdate"
  by (auto simp: preprocess_request_def is_supported_type_def serves_def list_all_iff list_ex_iff
      split: outcome.splits if_splits)

lemma preprocess_not_Panic: "preprocess_request ctrl b \<noteq> Panic"
  by (simp add: preprocess_request_def split: outcome.split)

lemma process_request_wp:
  assumes "interface_ok oc ops s" and "1 \<le> length buf"
  shows "wp (process_request ops)
     (\<lambda>_ t. interface_ok oc ops (fst t) \<and> length (snd t) = length buf \<and> take 1 (snd t) = take 1 buf)
     (\<lambda>_ t. interface_ok oc ops (fst t) \<and> length (snd t) = length buf \<and> take 1 (snd t) = take 1 buf) (s, buf)"
proof (cases "preprocess_request (ci_ctrl s) (drop 1 buf)")
  case (Ok x)
  obtain t cmd where x: "x = (t, cmd)" by force
  note inv = assms(1) [unfolded interface_ok_def]
  from preprocess_served [OF Ok [unfolded x]] inv consider "t = TypeBase" | "t = TypeFwUpdate" by blast
  then show ?thesis
  proof cases
    case 1
    show ?thesis
      unfolding process_request_def
      using inv assms(2) Ok
      by (simp add: wp_simps x 1 dispatch_request_def on_ctrl_def,
          intro ctrl.on_part_wp [where caps = "ctl_capabilities (ci_ctrl s)"])
         (auto simp: wp_simps interface_ok_def)
  next
    case 2
    show ?thesis
      unfolding process_request_def
      using inv assms(2) Ok
      by (simp add: wp_simps x 2 dispatch_request_def on_fd_def,
          intro device.on_part_wp [where oc = oc])
         (auto simp: wp_simps interface_ok_def)
  qed
next
  case (Err e)
  then show ?thesis
    unfolding process_request_def using assms
    by (auto simp: wp_simps interface_ok_def intro!: wp_failureI)
qed (use preprocess_not_Panic in simp)

lemma wp_result:
  "wp m Q E s \<Longrightarrow> m s = (r, s') \<Longrightarrow> r \<noteq> Panic \<and> (\<forall>x. r = Ok x \<longrightarrow> Q x s') \<and> (\<forall>e. r = Err e \<longrightarrow> E e s')"
  by (auto simp: wp_def)

lemma handle_responder_msg_eq: "handle_responder_msg ops = process_request ops"
  by (auto simp: fun_eq_iff handle_responder_msg_def abind_def ret_def split: prod.split outcome.split)

lemma request_handled:
  assumes "interface_ok oc ops s" and "1 \<le> length buf"
    and "handle_responder_msg ops (s, buf) = (r, (s', buf'))"
  shows "r \<noteq> Panic \<and> interface_ok oc ops s' \<and> length buf' = length buf \<and> take 1 buf' = take 1 buf"
  using wp_result [OF process_request_wp [OF assms(1,2)]] assms(3) by (cases r) (auto simp: handle_responder_msg_eq)

text \<open>C6: an interface that is not busy, whose table offers the base and the firmware update protocol only
  (\<open>serves\<close>, as the library's own table does), and whose device is in a reachable state,
  on a platform that fills its arrays with well-formed values (\<open>platform_wf\<close>) and does not answer with
  vendor-defined codes (\<open>standard_codes\<close>), returns from every message of one byte or more, with a response
  or an error and without a panic; it is not busy afterwards, whatever happened, its device is in a
  reachable state again, and the MCTP byte and the buffer's length are kept.\<close>

theorem requests_answered:
  assumes "platform_wf ops" and "standard_codes ops" and "fd_run oc ops (ci_fd s) tr"
    and "serves (ctl_capabilities (ci_ctrl s))" and "\<not> ci_busy s" and "1 \<le> length buf"
    and "handle_responder_msg ops (s, buf) = (r, (s', buf'))"
  shows "r \<noteq> Panic \<and> \<not> ci_busy s' \<and> (\<exists>tr'. fd_run oc ops (ci_fd s') tr') \<and> serves (ctl_capabilities (ci_ctrl s'))
    \<and> length buf' = length buf \<and> take 1 buf' = take 1 buf"
proof -
  have "interface_ok oc ops s" using assms(1-5) by (auto simp: interface_ok_def device_ok_def)
  from request_handled [OF this assms(6,7)] show ?thesis by (simp add: interface_ok_def device_ok_def)
qed

text \<open>The interface of the library's own capability table, on the test platform.\<close>

definition test_interface :: "u64 cmd_interface" where
  "test_interface = cmd_interface_new PLDM_PROTOCOL_CAPABILITIES first_context"

lemma test_interface_ok: "interface_ok oc test_fd_ops test_interface"
proof -
  have "serves PLDM_PROTOCOL_CAPABILITIES" by (simp add: serves_def PLDM_PROTOCOL_CAPABILITIES_def)
  moreover have "\<exists>tr. fd_run oc test_fd_ops first_context tr"
    unfolding first_context_def by (rule exI) (rule fd_run_start)
  ultimately show ?thesis
    by (simp add: interface_ok_def test_interface_def cmd_interface_new_def control_context_new_def device_ok_def
        test_platform_wf test_standard_codes)
qed

theorem requests_answered_witness:
  "\<exists>r s' buf'. handle_responder_msg test_fd_ops (test_interface, [1, 0x81, 5]) = (r, (s', buf'))
     \<and> r \<noteq> Panic \<and> \<not> ci_busy s'"
proof -
  obtain r s' buf' where run: "handle_responder_msg test_fd_ops (test_interface, [1, 0x81, 5]) = (r, (s', buf'))"
    by (metis prod.collapse)
  have "serves (ctl_capabilities (ci_ctrl test_interface))" "\<not> ci_busy test_interface" "fd_run True test_fd_ops (ci_fd test_interface) [Idle]"
    using fd_run_start [of True test_fd_ops 1000]
    by (simp_all add: test_interface_def cmd_interface_new_def control_context_new_def serves_def PLDM_PROTOCOL_CAPABILITIES_def first_context_def)
  from requests_answered [OF test_platform_wf test_standard_codes this(3,1,2) _ run] show ?thesis
    using run by auto
qed

lemma failure_eq_view:
  "4 \<le> length v \<Longrightarrow> failure cc (c, v) =
     (Ok 4, (c, hdr_bytes (into_response (hdr_of (take 3 v))) @ cc # drop 4 v))"
  by (simp add: failure_eq)

lemma refused:
  assumes "\<not> ci_busy s" and "5 \<le> length buf"
    and "preprocess_request (ci_ctrl s) (drop 1 buf) = Err cc"
  shows "handle_responder_msg ops (s, buf) =
    (Ok 5, (s, take 1 buf @ hdr_bytes (into_response (hdr_of (take 3 (drop 1 buf)))) @ cc # drop 5 buf))"
proof -
  have "s\<lparr>ci_busy := False\<rparr> = s" using assms(1) by simp
  then show ?thesis
    using assms
    by (simp add: handle_responder_msg_def process_request_def set_busy_def on_ctx_def modify_def on_view_def
        abind_def gets_def fail_def ret_def slice_from_def mctp_consts with_pldm_msg_def failure_eq_view)
qed

text \<open>The fields of a request's header, by their bits.\<close>

lemma header_bits:
  "is_request (PldmMsgHeader a b c) \<longleftrightarrow> bit a 7"
  "is_hdr_ver_valid (PldmMsgHeader a b c) \<longleftrightarrow> b AND 0xC0 = 0"
  "hdr_pldm_type (PldmMsgHeader a b c) = b AND 0x3F"
  "cmd_code (PldmMsgHeader a b c) = c"
  "hdr_bytes (into_response (PldmMsgHeader a b c)) = [a AND 0x7F, b, c]"
proof -
  have masks: "(0xC0 :: u8) = push_bit 6 (mask 2)" "(0x3F :: u8) = mask 6" "(0x7F :: u8) = mask 7" by code_simp+
  have "get_bits 7 6 b = drop_bit 6 (b AND 0xC0)"
    unfolding masks by (rule bit_word_eqI) (auto simp: bit_get_bits bit_simps add.commute)
  moreover have "b AND 0xC0 = push_bit 6 (get_bits 7 6 b)"
    unfolding masks by (rule bit_word_eqI) (auto simp: bit_get_bits bit_simps)
  ultimately show "is_hdr_ver_valid (PldmMsgHeader a b c) \<longleftrightarrow> b AND 0xC0 = 0"
    by (metis HDR_VERSION0_def drop_bit_of_0 hdr_ver.simps is_hdr_ver_valid_def push_bit_of_0)
  show "hdr_pldm_type (PldmMsgHeader a b c) = b AND 0x3F"
    unfolding masks by simp (rule bit_word_eqI; auto simp: bit_get_bits bit_simps)
  have "set_bits 7 7 0 a = a AND 0x7F" 
    unfolding masks by (rule bit_word_eqI; auto simp: bit_set_bits bit_simps)
  then show "hdr_bytes (into_response (PldmMsgHeader a b c)) = [a AND 0x7F, b, c]"
    by (simp add: into_response_def)
  have "get_bits 7 7 a = of_bool (bit a 7)" by (rule bit_word_eqI) (auto simp: bit_get_bits bit_simps)
  then show "is_request (PldmMsgHeader a b c) \<longleftrightarrow> bit a 7" by (simp add: is_request_def)
qed (simp add: get_bits_full)

lemma type_entry:
  "find (\<lambda>cap. cap_pldm_type cap = t) caps = find (\<lambda>cap. pldm_supported_type_disc (cap_pldm_type cap) = pldm_supported_type_disc t) caps"
  by (rule arg_cong [where f = "\<lambda>P. find P caps"]) (simp add: fun_eq_iff pldm_supported_type.eq_iff)

lemma preprocess_eq:
  assumes "3 \<le> length v"
  shows "preprocess_request ctrl v =
    (if \<not> bit (v ! 0) 7 \<or> v ! 1 AND 0xC0 \<noteq> 0 then Err (base_cc_disc CC_InvalidData)
     else case find (\<lambda>cap. pldm_supported_type_disc (cap_pldm_type cap) = v ! 1 AND 0x3F) (ctl_capabilities ctrl) of
       None \<Rightarrow> Err (base_cc_disc CC_InvalidPldmType)
     | Some cap \<Rightarrow> if v ! 2 \<in> set (cap_supported_commands cap) then Ok (cap_pldm_type cap, v ! 2)
         else Err (base_cc_disc CC_UnsupportedPldmCmd))"
proof -
  let ?w = "v ! 1 AND 0x3F" and ?caps = "ctl_capabilities ctrl"
  have hdr: "hdr_decode v = Ok (PldmMsgHeader (v ! 0) (v ! 1) (v ! 2))"
    using assms by (simp add: hdr_decode_Ok hdr_of_def)
  show ?thesis
  proof (cases "pldm_supported_type_try_from ?w")
    case (Ok t)
    then have w: "pldm_supported_type_disc t = ?w" by (rule pldm_supported_type.encode_decode)
    have "is_supported_type ctrl t \<longleftrightarrow> find (\<lambda>cap. cap_pldm_type cap = t) ?caps \<noteq> None"
      by (auto simp: is_supported_type_def list_ex_iff find_None_iff)
    then show ?thesis
      using Ok unfolding preprocess_request_def hdr is_supported_command_def w [symmetric] type_entry [symmetric] 
      by (auto simp: header_bits w simp del: hdr_pldm_type.simps cmd_code.simps dest: find_Some_mem split: option.split)
  next
    case (Err e)
    then have "find (\<lambda>cap. pldm_supported_type_disc (cap_pldm_type cap) = ?w) ?caps = None"
      unfolding find_None_iff by (metis outcome.distinct(1) pldm_supported_type.decode_encode)
    with Err show ?thesis by (simp add: preprocess_request_def hdr header_bits del: hdr_pldm_type.simps cmd_code.simps)
  qed (use pldm_supported_type.no_panic in simp)
qed

text \<open>C23: a message with room for a response (five bytes or more) is refused, when the interface is not busy, for the
  first of these reasons that it gives, with the completion code of that reason: invalid data if its header is
  not that of a request or its header version is not 0, invalid type if the table has no entry for the
  protocol, and unsupported command if the protocol's (first) entry does not list the command.  The response
  has the header of the request with the request bit cleared, and the interface does not change.\<close>

theorem invalid_request_refused:
  assumes "\<not> ci_busy s" and "5 \<le> length buf"
  shows "let invalid = (\<not> bit (buf ! 1) 7 \<or> buf ! 2 AND 0xC0 \<noteq> 0);
      entry = find (\<lambda>cap. pldm_supported_type_disc (cap_pldm_type cap) = buf ! 2 AND 0x3F) (ctl_capabilities (ci_ctrl s));
      refusal = (if invalid then Some (base_cc_disc CC_InvalidData)
        else case entry of None \<Rightarrow> Some (base_cc_disc CC_InvalidPldmType)
          | Some cap \<Rightarrow> if buf ! 3 \<in> set (cap_supported_commands cap) then None else Some (base_cc_disc CC_UnsupportedPldmCmd))
    in \<forall>cc. refusal = Some cc \<longrightarrow> handle_responder_msg ops (s, buf) =
         (Ok 5, (s, take 1 buf @ [buf ! 1 AND 0x7F, buf ! 2, buf ! 3] @ cc # drop 5 buf))"
proof -
  let ?v = "drop 1 buf"
  have v: "?v ! 0 = buf ! 1" "?v ! 1 = buf ! 2" "?v ! 2 = buf ! 3" "3 \<le> length ?v" using assms(2) by (simp_all add: eval_nat_numeral)
  have "hdr_bytes (into_response (hdr_of (take 3 ?v))) = [buf ! 1 AND 0x7F, buf ! 2, buf ! 3]"
    using v by (simp add: hdr_of_def header_bits)
  with refused [OF assms, of _ ops] preprocess_eq [OF v(4), of "ci_ctrl s"] show ?thesis
    unfolding Let_def v(1-3) by (auto split: option.splits if_splits)
qed

text \<open>A request of the platform protocol, which the library does not offer.\<close>

theorem invalid_request_refused_witness:
  "handle_responder_msg test_fd_ops (test_interface, [1, 0x81, 2, 0x01, 0]) =
     (Ok 5, (test_interface, [1, 0x01, 2, 0x01, base_cc_disc CC_InvalidPldmType]))"
proof -
  have idle: "\<not> ci_busy test_interface" by (simp add: test_interface_def cmd_interface_new_def)
  have "find (\<lambda>cap. pldm_supported_type_disc (cap_pldm_type cap) = 2 AND 0x3F) (ctl_capabilities (ci_ctrl test_interface)) = None"
    by code_simp
  moreover have "bit (0x81 :: u8) 7" "(2 :: u8) AND 0xC0 = 0" "(0x81 :: u8) AND 0x7F = 1" by code_simp+
  ultimately show ?thesis
    using invalid_request_refused [OF idle, of "[1, 0x81, 2, 0x01, 0]" test_fd_ops] by (simp add: Let_def)
qed

section \<open>The initiator\<close>

text \<open>A request the device generates for the Update Agent occupies the type byte and the \<open>n\<close>
  bytes behind it, where \<open>n\<close> is the number returned: the length returned does not count
  the MCTP byte.  The device has made a step of its state machine.\<close>

theorem initiator_request_length:
  assumes "generate_initiator_request oc ops (s, buf) = (Ok (Some n), (s', buf'))"
  shows "0 < n \<and> hd buf' = 1 \<and> fd_step oc ops (ci_fd s) (DeviceProgress (drop 1 buf)) (ci_fd s')
    \<and> fd_progress oc ops (ci_fd s, drop 1 buf) = (Ok n, (ci_fd s', drop 1 buf'))"
proof -
  have len: "4 \<le> length buf"
    using assms by (cases "length buf < 4") (auto simp: generate_initiator_request_def construct_short)
  obtain r c v where run: "fd_progress oc ops (ci_fd s, drop 1 buf) = (r, (c, v))" by (metis prod.collapse)
  with assms len have "map_ok (\<lambda>m. if 0 < m then Some m else None) r = Ok (Some n)"
    "s' = s\<lparr>ci_fd := c\<rparr>" "buf' = 1 # v"
    by (auto simp: generate_initiator_request_def construct_fits on_fd_def on_part_def with_pldm_msg_def mctp_consts)
  moreover from this(1) have "r = Ok n" "0 < n" by (cases r; auto split: if_splits)+
  ultimately show ?thesis
    using run fd_step.progress [OF run] by simp
qed

text \<open>The first request for data: 12 bytes of the buffer are written, 11 is returned.\<close>

definition downloading :: "u64 cmd_interface" where
  "downloading = test_interface\<lparr>ci_fd := (context_in Download)\<lparr>ctx_internal :=
     set_component (firmware_component_default\<lparr>fc_image_size := Some 32\<rparr>)
       (set_fd_req ReqReady False None None None None (ctx_internal (context_in Download)))\<rparr>\<rparr>"

theorem initiator_request_length_witness:
  "\<exists>s' buf'. generate_initiator_request True test_fd_ops (downloading, replicate 12 0) = (Ok (Some 11), (s', buf'))
     \<and> fd_progress True test_fd_ops (ci_fd downloading, replicate 11 0) = (Ok 11, (ci_fd s', drop 1 buf'))"
proof -
  have "fst (generate_initiator_request True test_fd_ops (downloading, replicate 12 0)) = Ok (Some 11)"
    by code_simp
  then obtain s' buf' where run: "generate_initiator_request True test_fd_ops (downloading, replicate 12 0) = (Ok (Some 11), (s', buf'))"
    by (metis prod.collapse)
  have "drop 1 (replicate 12 0) = replicate 11 (0 :: u8)" by simp
  with initiator_request_length [OF run] run show ?thesis by metis
qed

text \<open>C28: the interface is not total: an empty buffer makes it panic, and so does a request of a
  protocol that the table offers but the interface does not implement; both leave the busy
  flag set, so that every later message is refused as not ready.\<close>

theorem interface_panics:
  assumes "\<not> ci_busy s"
    and "buf = [] \<or> (\<exists>t cmd. preprocess_request (ci_ctrl s) (drop 1 buf) = Ok (t, cmd) \<and> t \<noteq> TypeBase \<and> t \<noteq> TypeFwUpdate)"
  shows "\<exists>s' buf'. handle_responder_msg ops (s, buf) = (Panic, (s', buf')) \<and> ci_busy s'
    \<and> handle_responder_msg ops (s', msg) = (Err NotReady, (s', msg))"
proof -
  let ?s = "s\<lparr>ci_busy := True\<rparr>"
  have busy: "handle_responder_msg ops (?s, msg) = (Err NotReady, (?s, msg))"
    by (simp add: handle_responder_msg_def process_request_def abind_def gets_def fail_def)
  note unfold = handle_responder_msg_def process_request_def set_busy_def on_ctx_def modify_def on_view_def
    abind_def gets_def fail_def ret_def slice_from_def mctp_consts with_pldm_msg_def
  show ?thesis
  proof (cases "buf = []")
    case True
    with assms(1) have "handle_responder_msg ops (s, buf) = (Panic, (?s, []))" by (simp add: unfold)
    with busy show ?thesis by (intro exI [of _ ?s] exI [of _ "[]"]) simp
  next
    case False
    with assms(2) obtain t cmd where pre: "preprocess_request (ci_ctrl s) (drop 1 buf) = Ok (t, cmd)"
      "t \<noteq> TypeBase" "t \<noteq> TypeFwUpdate" by blast
    from pre(2,3) have "dispatch_request ops t cmd = lift Panic"
      by (cases t) (simp_all add: dispatch_request_def)
    with assms(1) False pre(1) have "handle_responder_msg ops (s, buf) = (Panic, (?s, take 1 buf @ drop 1 buf))"
      by (cases buf) (simp_all add: unfold or_else_def lift_def)
    with busy show ?thesis by (intro exI [of _ ?s] exI [of _ "take 1 buf @ drop 1 buf"]) simp
  qed
qed

theorem interface_panics_witness:
  "\<exists>s' buf'. handle_responder_msg test_fd_ops (cmd_interface_new
       [\<lparr>cap_pldm_type = TypeBios, cap_protocol_version = 0xF1F0F000, cap_supported_commands = [1]\<rparr>] first_context,
       [1, 0x81, 3, 1, 0]) = (Panic, (s', buf')) \<and> ci_busy s'"
proof -
  let ?s = "cmd_interface_new [\<lparr>cap_pldm_type = TypeBios, cap_protocol_version = 0xF1F0F000, cap_supported_commands = [1]\<rparr>] first_context"
  have pre: "preprocess_request (ci_ctrl ?s) (drop 1 [1, 0x81, 3, 1, 0]) = Ok (TypeBios, 1)" by code_simp
  have idle: "\<not> ci_busy ?s" by (simp add: cmd_interface_new_def)
  from interface_panics [OF idle, of "[1, 0x81, 3, 1, 0]" test_fd_ops "[]"] pre show ?thesis by auto
qed

end
