(* ===== verification/Fd_Requests.thy ===== *)
theory Fd_Requests
  imports Fd_Timing
begin

text \<open>
  The Update Agent's way to a download: what \<open>RequestUpdate\<close>, \<open>PassComponentTable\<close> and
  \<open>UpdateComponent\<close> do and answer in the states that allow them.
\<close>

section \<open>\<open>RequestUpdate\<close>\<close>

lemma dispatch_learning:
  "process_fw_update_cmd ops 0x10 = request_update_rsp ops" "process_fw_update_cmd ops 0x13 = pass_component_rsp ops"
  by (simp_all add: process_fw_update_cmd_def fw_update_cmd_try_from_def)


text \<open>What the device answers to an accepted \<open>RequestUpdate\<close>: no meta data, no package data command.\<close>

definition accepted_request :: "u8 \<Rightarrow> bytes" where
  "accepted_request inst = hdr_bytes (header_new inst MsgResponse TypeFwUpdate (fw_update_cmd_disc RequestUpdate)) @ [0] @ le16 0 @ [0]"

lemma request_update_step:
  assumes "fi_state (ctx_internal c) = Idle" and "request_update_request_decode b = Ok req" and "7 \<le> length b"
    and "ops_now ops (ctx_plat c) = (now, p1)"
    and "ops_get_xfer_size ops (unat (ruqf_max_transfer_size (ruq_fixed req))) p1 = (Inr n, p2)"
  shows "process_fw_update_cmd ops (fw_update_cmd_disc RequestUpdate) (c, b) =
    (let i = set_fd_t1_update_ts now (ctx_internal c) in
     if ruqf_max_transfer_size (ruq_fixed req) < 32
     then (Ok 4, (c\<lparr>ctx_plat := p1, ctx_internal := i\<rparr>,
       hdr_bytes (into_response (hdr_of (take 3 b))) @ fw_cc_disc InvalidTransferLength # drop 4 b))
     else (Ok 7, (c\<lparr>ctx_plat := p2, ctx_internal := i\<lparr>fi_state := LearnComponents, fi_prev_state := Idle,
         fi_max_xfer_size := of_nat n\<rparr>\<rparr>,
       splice 0 (accepted_request (instance_id (ruqf_hdr (ruq_fixed req)))) b)))"
proof -
  let ?r = "request_update_response_new (instance_id (ruqf_hdr (ruq_fixed req))) (base_cc_disc CC_Success) 0 0 None"
  have ser: "request_update_response_ser ?r = accepted_request (instance_id (ruqf_hdr (ruq_fixed req)))"
    by (simp add: request_update_response_ser_def request_update_response_new_def accepted_request_def opt_bytes_def
        request_update_response_fixed_bytes_def)
  have "wf_request_update_response ?r"
    by (simp add: wf_request_update_response_def request_update_response_new_def)
  from request_update_response.enc_fits [OF this, of b] assms(3) ser
  have enc: "request_update_response_encode ?r b = (Ok 7, splice 0 (accepted_request (instance_id (ruqf_hdr (ruq_fixed req)))) b)"
    by (simp add: accepted_request_def)
  show ?thesis
    using assms enc
    by (simp add: dispatch_learning request_update_rsp_def exec is_update_mode_def Let_def failure_eq fd_setters
        word_less_nat_alt cong: if_cong)
qed

text \<open>C14: \<open>RequestUpdate\<close> takes an idle device into an update: if the Update Agent can transfer at
  least the 32 bytes of the baseline, the device learns components next and transfers at most what
  its platform makes of the Update Agent's limit; otherwise it refuses with \<open>InvalidTransferLength\<close> and
  stays idle, the platform having been asked the time only.\<close>

theorem request_update_outcome:
  assumes "fi_state (ctx_internal c) = Idle" and "request_update_request_decode b = Ok req" and "7 \<le> length b"
    and "ops_now ops (ctx_plat c) = (now, p1)"
    and "ops_get_xfer_size ops (unat (ruqf_max_transfer_size (ruq_fixed req))) p1 = (Inr n, p2)"
  shows "process_fw_update_cmd ops (fw_update_cmd_disc RequestUpdate) (c, b) =
    (let i = set_fd_t1_update_ts now (ctx_internal c) in
     if ruqf_max_transfer_size (ruq_fixed req) < 32
     then (Ok 4, (c\<lparr>ctx_plat := p1, ctx_internal := i\<rparr>,
       hdr_bytes (into_response (hdr_of (take 3 b))) @ fw_cc_disc InvalidTransferLength # drop 4 b))
     else (Ok 7, (c\<lparr>ctx_plat := p2, ctx_internal := i\<lparr>fi_state := LearnComponents, fi_prev_state := Idle,
         fi_max_xfer_size := of_nat n\<rparr>\<rparr>,
       splice 0 (accepted_request (instance_id (ruqf_hdr (ruq_fixed req)))) b)))"
  by (rule request_update_step [OF assms])

text \<open>The request of the tests, which offers 512 bytes.\<close>

lemma map_ok_OkE: "map_ok f r = Ok y \<Longrightarrow> (\<And>x. r = Ok x \<Longrightarrow> f x = y \<Longrightarrow> P) \<Longrightarrow> P"
  by auto

theorem request_update_outcome_witness:
  "\<exists>c' b'. process_fw_update_cmd test_fd_ops 0x10
      (context_in Idle, on_wire [0x81, 5, 0x10, 0, 2, 0, 0, 1, 0, 1, 0, 0, 1, 2, 0x76, 0x31]) = (Ok 7, (c', b'))
    \<and> fi_state (ctx_internal c') = LearnComponents \<and> fi_max_xfer_size (ctx_internal c') = 512"
proof -
  let ?b = "on_wire [0x81, 5, 0x10, 0, 2, 0, 0, 1, 0, 1, 0, 0, 1, 2, 0x76, 0x31]"
  have "map_ok (\<lambda>req. ruqf_max_transfer_size (ruq_fixed req)) (request_update_request_decode ?b) = Ok 512" by code_simp
  then obtain req where req: "request_update_request_decode ?b = Ok req" "ruqf_max_transfer_size (ruq_fixed req) = 512"
    by (rule map_ok_OkE)
  from request_update_outcome [of "context_in Idle" ?b req test_fd_ops 7 7 512 7, OF _ req(1)] req(2)
  show ?thesis by (simp add: test_fd_ops_def on_wire_def Let_def)
qed

section \<open>\<open>PassComponentTable\<close>\<close>

definition passed_component :: "pass_component_request \<Rightarrow> firmware_component" where
  "passed_component req =
     (let f = pcq_fixed req in
      firmware_component_new (pcqf_classification f) (pcqf_identifier f) (pcqf_classification_index f)
        (pcqf_comparison_stamp f)
        \<lparr>str_type = pcqf_ver_str_type f, str_len = pcqf_ver_str_len f, str_data = pcq_ver_str req\<rparr> None None)"

lemma pass_component_step:
  assumes "fi_state (ctx_internal c) = LearnComponents" and "pass_component_request_decode b = Ok req" and "6 \<le> length b"
    and "transfer_resp_flag_try_from (pcqf_transfer_flag (pcq_fixed req)) = Ok tflag"
    and "ops_now ops (ctx_plat c) = (now, p1)"
    and "get_firmware_parms ops firmware_parameters_default p1 = (Inr (), fp, p2)"
    and "handle_component ops (passed_component req) fp OpPassComponent p2 = (Inr code, p3)"
  shows "process_fw_update_cmd ops (fw_update_cmd_disc PassComponentTable) (c, b) =
    (let i = set_fd_t1_update_ts now (ctx_internal c) in
     (Ok 6, (c\<lparr>ctx_plat := p3, ctx_internal := if tflag = FlagEnd \<or> tflag = FlagStartAndEnd
         then i\<lparr>fi_state := ReadyXfer, fi_prev_state := LearnComponents\<rparr> else i\<rparr>,
       splice 0 (hdr_bytes (header_new (instance_id (pcqf_hdr (pcq_fixed req))) MsgResponse TypeFwUpdate (fw_update_cmd_disc PassComponentTable))
         @ [base_cc_disc CC_Success, if code = CompCanBeUpdated then 0 else 1, component_response_code_disc code]) b)))"
  using assms
  by (simp add: dispatch_learning pass_component_rsp_def exec Let_def passed_component_def fd_setters
      blanket_fits layout pass_component_response_new_def)

text \<open>C15: \<open>PassComponentTable\<close> answers with the platform's verdict on the entry, whatever it is, and ends the
  learning of components exactly with the entry whose flag says that it is the last one.\<close>

theorem pass_component_outcome:
  assumes "fi_state (ctx_internal c) = LearnComponents" and "pass_component_request_decode b = Ok req" and "6 \<le> length b"
    and "transfer_resp_flag_try_from (pcqf_transfer_flag (pcq_fixed req)) = Ok tflag"
    and "ops_now ops (ctx_plat c) = (now, p1)"
    and "get_firmware_parms ops firmware_parameters_default p1 = (Inr (), fp, p2)"
    and "handle_component ops (passed_component req) fp OpPassComponent p2 = (Inr code, p3)"
  shows "process_fw_update_cmd ops (fw_update_cmd_disc PassComponentTable) (c, b) =
    (let i = set_fd_t1_update_ts now (ctx_internal c) in
     (Ok 6, (c\<lparr>ctx_plat := p3, ctx_internal := if tflag = FlagEnd \<or> tflag = FlagStartAndEnd
         then i\<lparr>fi_state := ReadyXfer, fi_prev_state := LearnComponents\<rparr> else i\<rparr>,
       splice 0 (hdr_bytes (header_new (instance_id (pcqf_hdr (pcq_fixed req))) MsgResponse TypeFwUpdate (fw_update_cmd_disc PassComponentTable))
         @ [base_cc_disc CC_Success, if code = CompCanBeUpdated then 0 else 1, component_response_code_disc code]) b)))"
  by (rule pass_component_step [OF assms])

text \<open>The only entry of the tests' table, which is its start and its end.\<close>

theorem pass_component_outcome_witness:
  "\<exists>c' b'. process_fw_update_cmd test_fd_ops 0x13
      (context_in LearnComponents, on_wire [0x82, 5, 0x13, 5, 10, 0, 1, 0, 0, 1, 0, 0, 0, 1, 2, 0x76, 0x31]) = (Ok 6, (c', b'))
    \<and> fi_state (ctx_internal c') = ReadyXfer"
proof -
  let ?b = "on_wire [0x82, 5, 0x13, 5, 10, 0, 1, 0, 0, 1, 0, 0, 0, 1, 2, 0x76, 0x31]"
  have "map_ok (\<lambda>req. transfer_resp_flag_try_from (pcqf_transfer_flag (pcq_fixed req))) (pass_component_request_decode ?b)
      = Ok (Ok FlagStartAndEnd)" by code_simp
  then obtain req where req: "pass_component_request_decode ?b = Ok req"
    "transfer_resp_flag_try_from (pcqf_transfer_flag (pcq_fixed req)) = Ok FlagStartAndEnd"
    by (rule map_ok_OkE)
  from pass_component_outcome [of "context_in LearnComponents" ?b req FlagStartAndEnd test_fd_ops 7 7 firmware_parameters_default 7
      CompCanBeUpdated 7, OF _ req(1) _ req(2)]
  show ?thesis by (simp add: test_fd_ops_def on_wire_def Let_def)
qed

section \<open>\<open>UpdateComponent\<close>\<close>

definition requested_component :: "update_component_request \<Rightarrow> firmware_component" where
  "requested_component req =
     (let f = ucq_fixed req in
      firmware_component_new (ucqf_classification f) (ucqf_identifier f) (ucqf_classification_index f)
        (ucqf_comparison_stamp f)
        \<lparr>str_type = ucqf_ver_str_type f, str_len = ucqf_ver_str_len f, str_data = ucq_ver_str req\<rparr>
        (Some (ucqf_image_size f)) (Some (ucqf_option_flags f)))"

lemma update_component_step:
  assumes "fi_state (ctx_internal c) = ReadyXfer" and "update_component_request_decode b = Ok req" and "12 \<le> length b"
    and "ops_now ops (ctx_plat c) = (now, p1)"
    and "get_firmware_parms ops firmware_parameters_default p1 = (Inr (), fp, p2)"
    and "handle_component ops (requested_component req) fp OpUpdateComponent p2 = (Inr code, p3)"
    and "code \<noteq> CompVendorDefined"
  shows "\<exists>c' b'. process_fw_update_cmd ops (fw_update_cmd_disc UpdateComponent) (c, b) = (Ok 12, (c', b'))
    \<and> take 12 b' = hdr_bytes (header_new (instance_id (ucqf_hdr (ucq_fixed req))) MsgResponse TypeFwUpdate (fw_update_cmd_disc UpdateComponent))
        @ [base_cc_disc CC_Success, if code = CompCanBeUpdated then 0 else 1, component_response_code_disc code]
        @ le32 (ucqf_option_flags (ucq_fixed req)) @ le16 0
    \<and> ctx_plat c' = p3 \<and> fi_max_xfer_size (ctx_internal c') = fi_max_xfer_size (ctx_internal c)
    \<and> fi_update_comp (ctx_internal c') = requested_component req
    \<and> (if code = CompCanBeUpdated
        then fi_state (ctx_internal c') = Download \<and> fi_req (ctx_internal c') = ready_req False None
          \<and> get_fd_download_state (ctx_internal c') = Some (0, 0)
        else fi_state (ctx_internal c') = ReadyXfer \<and> fi_req (ctx_internal c') = fi_req (ctx_internal c))"
proof -
  let ?f = "ucq_fixed req"
  obtain d where d: "compat_response_code_try_from (component_response_code_disc code) = Ok d"
    "compat_response_code_disc d = component_response_code_disc code"
    using compat_of_response_code [OF assms(7)] by blast
  let ?r = "update_component_response_new (instance_id (ucqf_hdr ?f)) (base_cc_disc CC_Success)
    (if code = CompCanBeUpdated then CompatCanBeUpdated else CompatCannotBeUpdated) d (ucqf_option_flags ?f) 0 None"
  have ser: "update_component_response_ser ?r = hdr_bytes (header_new (instance_id (ucqf_hdr ?f)) MsgResponse TypeFwUpdate (fw_update_cmd_disc UpdateComponent))
      @ [base_cc_disc CC_Success, if code = CompCanBeUpdated then 0 else 1, component_response_code_disc code]
      @ le32 (ucqf_option_flags ?f) @ le16 0"
    by (simp add: update_component_response_ser_def update_component_response_new_def d(2) opt_bytes_def)
  have enc: "update_component_response_encode ?r b = (Ok 12, splice 0 (update_component_response_ser ?r) b)"
    unfolding update_component_response_encode_eq ser using assms(3) by simp
  let ?j = "set_update_flags (ucqf_option_flags ?f) (set_component (requested_component req) (set_fd_t1_update_ts now (ctx_internal c)))"
  let ?c = "c\<lparr>ctx_plat := p3, ctx_internal := if code = CompCanBeUpdated then start_download ?j else ?j\<rparr>"
  have "process_fw_update_cmd ops (fw_update_cmd_disc UpdateComponent) (c, b) = (Ok 12, (?c, splice 0 (update_component_response_ser ?r) b))"
    using assms(1,2,4-6) enc
    by (simp add: update_component_rsp_def exec Let_def requested_component_def [symmetric] requested_component_def d(1) cong: if_cong)
  moreover have "take 12 (splice 0 (update_component_response_ser ?r) b) = update_component_response_ser ?r"
    unfolding ser by (simp add: splice_def)
  ultimately show ?thesis
    unfolding ser using assms(1)
    by (intro exI [of _ ?c] exI conjI) (assumption, simp_all add: start_download_def fd_setters get_fd_download_state_def download_state_default_def Let_def)
qed

lemma vendor_verdict_panics:
  assumes "fi_state (ctx_internal c) = ReadyXfer" and "update_component_request_decode b = Ok req"
    and "ops_now ops (ctx_plat c) = (now, p1)"
    and "get_firmware_parms ops firmware_parameters_default p1 = (Inr (), fp, p2)"
    and "handle_component ops (requested_component req) fp OpUpdateComponent p2 = (Inr code, p3)"
  shows "code = CompVendorDefined \<Longrightarrow> fst (process_fw_update_cmd ops (fw_update_cmd_disc UpdateComponent) (c, b)) = Panic"
proof -
  assume vendor: "code = CompVendorDefined"
  have "compat_response_code_try_from (component_response_code_disc CompVendorDefined) = Err PE_InvalidComponentCompatibilityResponseCode"
    by code_simp
  then show ?thesis
    using assms vendor
    by (simp add: update_component_rsp_def exec Let_def requested_component_def [symmetric] requested_component_def
        del: component_response_code_disc.simps)
qed

text \<open>C16: \<open>UpdateComponent\<close> in the ready state starts the download exactly if the platform lets the
  component be updated: the device then downloads the component of the request, of the size the
  Update Agent announced, from the start and with no request made yet; with any other standard verdict it
  stays ready.  In both cases it remembers the component, keeps the transfer size and answers with the
  platform's verdict and the option flags of the request.  The verdict \<open>VendorDefined\<close>, which the type
  of the callback allows, has no counterpart in the response and makes the handler panic.\<close>

theorem update_component_outcome:
  assumes "fi_state (ctx_internal c) = ReadyXfer" and "update_component_request_decode b = Ok req" and "12 \<le> length b"
    and "ops_now ops (ctx_plat c) = (now, p1)"
    and "get_firmware_parms ops firmware_parameters_default p1 = (Inr (), fp, p2)"
    and "handle_component ops (requested_component req) fp OpUpdateComponent p2 = (Inr code, p3)"
  shows "if code = CompVendorDefined
    then fst (process_fw_update_cmd ops (fw_update_cmd_disc UpdateComponent) (c, b)) = Panic
    else \<exists>c' b'. process_fw_update_cmd ops (fw_update_cmd_disc UpdateComponent) (c, b) = (Ok 12, (c', b'))
    \<and> take 12 b' = hdr_bytes (header_new (instance_id (ucqf_hdr (ucq_fixed req))) MsgResponse TypeFwUpdate (fw_update_cmd_disc UpdateComponent))
        @ [base_cc_disc CC_Success, if code = CompCanBeUpdated then 0 else 1, component_response_code_disc code]
        @ le32 (ucqf_option_flags (ucq_fixed req)) @ le16 0
    \<and> ctx_plat c' = p3 \<and> fi_max_xfer_size (ctx_internal c') = fi_max_xfer_size (ctx_internal c)
    \<and> fi_update_comp (ctx_internal c') = requested_component req
    \<and> (if code = CompCanBeUpdated
        then fi_state (ctx_internal c') = Download \<and> fi_req (ctx_internal c') = ready_req False None
          \<and> get_fd_download_state (ctx_internal c') = Some (0, 0)
        else fi_state (ctx_internal c') = ReadyXfer \<and> fi_req (ctx_internal c') = fi_req (ctx_internal c))"
  using update_component_step [OF assms] vendor_verdict_panics [OF assms(1,2,4-6)] by simp

definition update_request :: bytes where
  "update_request = [0x83, 5, 0x14, 10, 0, 1, 0, 0, 1, 0, 0, 0, 44, 1, 0, 0, 0, 0, 0, 0, 1, 2, 0x76, 0x31]"

text \<open>A component of 300 bytes.\<close>

lemma update_request_decodes:
  "\<exists>req. update_component_request_decode update_request = Ok req \<and> ucqf_image_size (ucq_fixed req) = 300"
proof -
  have "map_ok (\<lambda>req. ucqf_image_size (ucq_fixed req)) (update_component_request_decode update_request) = Ok 300"
    by code_simp
  then show ?thesis by (cases "update_component_request_decode update_request") simp_all
qed

theorem update_component_outcome_witness:
  "\<exists>c' b'. process_fw_update_cmd test_fd_ops 0x14 (context_in ReadyXfer, update_request) = (Ok 12, (c', b'))
    \<and> fi_state (ctx_internal c') = Download \<and> fc_image_size (fi_update_comp (ctx_internal c')) = Some 300"
proof -
  obtain req where req: "update_component_request_decode update_request = Ok req" "ucqf_image_size (ucq_fixed req) = 300"
    using update_request_decodes by blast
  from update_component_outcome [of "context_in ReadyXfer" update_request req test_fd_ops 7 7 firmware_parameters_default 7
      CompCanBeUpdated 7, OF _ req(1)] req(2)
  show ?thesis
    by (auto simp: test_fd_ops_def update_request_def requested_component_def firmware_component_new_def Let_def)
qed

section \<open>An answer that cannot be read\<close>

text \<open>C38: the device's answer to \<open>UpdateComponent\<close> echoes the option flags of the request and carries no
  transfer size, whatever they are: when they announce opaque data, which by the layout of the
  message brings a transfer size with it, the library's own decoder reports a short buffer on exactly
  the bytes the device sent; otherwise it recovers the response.\<close>

theorem update_component_answer_opaque_mismatch:
  assumes "fi_state (ctx_internal c) = ReadyXfer" and "update_component_request_decode b = Ok req" and "12 \<le> length b"
    and "ops_now ops (ctx_plat c) = (now, p1)"
    and "get_firmware_parms ops firmware_parameters_default p1 = (Inr (), fp, p2)"
    and "handle_component ops (requested_component req) fp OpUpdateComponent p2 = (Inr code, p3)"
    and "code \<noteq> CompVendorDefined"
  shows "\<exists>c' b' verdict. process_fw_update_cmd ops (fw_update_cmd_disc UpdateComponent) (c, b) = (Ok 12, (c', b'))
    \<and> compat_response_code_disc verdict = component_response_code_disc code
    \<and> update_component_response_decode (take 12 b') =
        (if component_opaque_data (ucqf_option_flags (ucq_fixed req)) then Err BufferTooShort
         else Ok (update_component_response_new (instance_id (ucqf_hdr (ucq_fixed req))) (base_cc_disc CC_Success)
           (if code = CompCanBeUpdated then CompatCanBeUpdated else CompatCannotBeUpdated) verdict
           (ucqf_option_flags (ucq_fixed req)) 0 None))"
proof -
  let ?f = "ucq_fixed req"
  obtain d where d: "compat_response_code_disc d = component_response_code_disc code"
    using compat_of_response_code [OF assms(7)] by blast
  let ?r = "update_component_response_new (instance_id (ucqf_hdr ?f)) (base_cc_disc CC_Success)
    (if code = CompCanBeUpdated then CompatCanBeUpdated else CompatCannotBeUpdated) d (ucqf_option_flags ?f) 0 None"
  have ser: "update_component_response_ser ?r = hdr_bytes (header_new (instance_id (ucqf_hdr ?f)) MsgResponse TypeFwUpdate (fw_update_cmd_disc UpdateComponent))
      @ [base_cc_disc CC_Success, if code = CompCanBeUpdated then 0 else 1, component_response_code_disc code]
      @ le32 (ucqf_option_flags ?f) @ le16 0"
    by (simp add: update_component_response_ser_def update_component_response_new_def d opt_bytes_def)
  from update_component_step [OF assms] obtain c' b'
    where "process_fw_update_cmd ops (fw_update_cmd_disc UpdateComponent) (c, b) = (Ok 12, (c', b'))"
      "take 12 b' = update_component_response_ser ?r"
    unfolding ser by metis
  with update_component_response_mismatch [of "instance_id (ucqf_hdr ?f)" "base_cc_disc CC_Success"] d show ?thesis by metis
qed

text \<open>The request of the tests, with opaque data announced.\<close>

definition opaque_request :: bytes where
  "opaque_request = [0x83, 5, 0x14, 10, 0, 1, 0, 0, 1, 0, 0, 0, 44, 1, 0, 0, 2, 0, 0, 0, 1, 2, 0x76, 0x31]"

theorem update_component_answer_opaque_mismatch_witness:
  "\<exists>c' b'. process_fw_update_cmd test_fd_ops 0x14 (context_in ReadyXfer, opaque_request) = (Ok 12, (c', b'))
    \<and> update_component_response_decode (take 12 b') = Err BufferTooShort"
proof -
  have "map_ok (\<lambda>req. component_opaque_data (ucqf_option_flags (ucq_fixed req))) (update_component_request_decode opaque_request) = Ok True"
    by code_simp
  then obtain req where req: "update_component_request_decode opaque_request = Ok req" "component_opaque_data (ucqf_option_flags (ucq_fixed req)) = True"
    by (rule map_ok_OkE)
  have ops: "ops_now test_fd_ops (ctx_plat (context_in ReadyXfer)) = (7, 7)"
    "get_firmware_parms test_fd_ops firmware_parameters_default 7 = (Inr (), firmware_parameters_default, 7)"
    "handle_component test_fd_ops (requested_component req) firmware_parameters_default OpUpdateComponent 7 = (Inr CompCanBeUpdated, 7)"
    by (simp_all add: test_fd_ops_def)
  have b: "12 \<le> length opaque_request" and v: "CompCanBeUpdated \<noteq> CompVendorDefined" by (simp_all add: opaque_request_def)
  have cmd: "fw_update_cmd_disc UpdateComponent = 0x14" by simp
  from update_component_answer_opaque_mismatch [OF context_in_simps(1) req(1) b ops v] show ?thesis
    unfolding req(2) if_True cmd by blast
qed

section \<open>An image too large\<close>




end
