(* ===== verification/Fd_Download.thy ===== *)
theory Fd_Download
  imports Fd_Requests
begin

text \<open>
  The download phase as a whole: what a chunk of firmware data does to the device, and the
  delivery of the image when an Update Agent answers the device's requests with the bytes
  they ask for.
\<close>

section \<open>One chunk\<close>

text \<open>The request after a chunk was handed to the platform.\<close>

definition after_chunk :: "transfer_result \<Rightarrow> bool \<Rightarrow> fd_internal \<Rightarrow> fd_internal" where
  "after_chunk res finished i =
     (if res = TransferSuccess \<and> \<not> finished then set_fd_req ReqReady False None None None None i
      else set_fd_req ReqReady True (Some (transfer_result_disc res)) None None None i)"

lemma handle_data_response:
  assumes "4 \<le> length b" and "answers b (fi_req (ctx_internal c))"
    and "cmd_code (hdr_of (take 3 b)) = fw_update_cmd_disc RequestFirmwareData"
    and "ops_now ops (ctx_plat c) = (now, p)"
  shows "handle_response ops (c, b) =
     process_request_fw_data_rsp ops (c\<lparr>ctx_plat := p, ctx_internal := set_fd_t1_update_ts now (ctx_internal c)\<rparr>, b)"
  using assms by (auto simp: handle_response_def exec hdr_decode_Ok answers_def fw_update_cmd_try_from_def)

lemma data_response:
  assumes "fi_state (ctx_internal c) = Download" and "answers b (fi_req (ctx_internal c))"
    and "\<not> req_complete (fi_req (ctx_internal c))"
    and "cmd_code (hdr_of (take 3 b)) = fw_update_cmd_disc RequestFirmwareData"
    and "get_fd_download_state (ctx_internal c) = Some (off, len)"
    and "4 + unat len \<le> length b" and "b ! 3 = base_cc_disc CC_Success"
    and "ops_now ops (ctx_plat c) = (now, p1)"
    and "download_fw_data ops (unat off) (take (unat len) (drop 4 b)) (fi_update_comp (ctx_internal c)) p1 = (Inr res, p2)"
    and "is_download_complete ops (fi_update_comp (ctx_internal c)) p2 = (finished, p3)"
  shows "handle_response ops (c, b) =
    (Ok (), (c\<lparr>ctx_plat := if res = TransferSuccess then p3 else p2,
       ctx_internal := after_chunk res finished (set_fd_t1_update_ts now (ctx_internal c))\<rparr>, b))"
proof -
  let ?i = "set_fd_t1_update_ts now (ctx_internal c)"
  let ?c = "c\<lparr>ctx_plat := p1, ctx_internal := ?i\<rparr>"
  have i: "get_fd_download_state ?i = Some (off, len)" "fi_update_comp ?i = fi_update_comp (ctx_internal c)"
    using assms(5) by (simp_all add: get_fd_download_state_def set_fd_t1_update_ts_def)
  have fixed: "blanket_decode 4 request_fw_data_response_fixed_of b = Ok (request_fw_data_response_fixed_of (take 4 b))"
    "rff_completion_code (request_fw_data_response_fixed_of (take 4 b)) = 0"
    using assms(6,7) by (simp_all add: blanket_decode_Ok request_fw_data_response_fixed_of_def)
  have data: "slice_from 4 b = (Ok (drop 4 b) :: (bytes, msg_handler_error) outcome)"
    "get_range 0 (unat len) (drop 4 b) = Some (take (unat len) (drop 4 b))"
    using assms(6) by (simp_all add: slice_from_def get_range_def)
  have "process_request_fw_data_rsp ops (?c, b) =
    (Ok (), (?c\<lparr>ctx_plat := if res = TransferSuccess then p3 else p2, ctx_internal := after_chunk res finished ?i\<rparr>, b))"
    using assms(1,3,9,10)
    by (simp add: process_request_fw_data_rsp_def exec fixed data i after_chunk_def Let_def)
  with handle_data_response [OF _ assms(2,4,8)] assms(6) show ?thesis by simp
qed

text \<open>C12: the Update Agent's answer to a request for firmware data reaches the platform as it is: exactly
  the requested bytes, at the offset that was requested.  What the platform makes of them decides
  how the download goes on: the device asks for more, or has a result to report, which is success
  only if the platform took the data and is complete.\<close>

theorem firmware_data_delivered:
  assumes "fi_state (ctx_internal c) = Download" and "answers b (fi_req (ctx_internal c))"
    and "\<not> req_complete (fi_req (ctx_internal c))"
    and "cmd_code (hdr_of (take 3 b)) = fw_update_cmd_disc RequestFirmwareData"
    and "get_fd_download_state (ctx_internal c) = Some (off, len)"
    and "4 + unat len \<le> length b" and "b ! 3 = base_cc_disc CC_Success"
    and "ops_now ops (ctx_plat c) = (now, p1)"
    and "download_fw_data ops (unat off) (take (unat len) (drop 4 b)) (fi_update_comp (ctx_internal c)) p1 = (Inr res, p2)"
    and "is_download_complete ops (fi_update_comp (ctx_internal c)) p2 = (finished, p3)"
  shows "handle_response ops (c, b) =
    (Ok (), (c\<lparr>ctx_plat := if res = TransferSuccess then p3 else p2,
       ctx_internal := after_chunk res finished (set_fd_t1_update_ts now (ctx_internal c))\<rparr>, b))"
  by (rule data_response [OF assms])

section \<open>The image\<close>

text \<open>
  The Update Agent's answer to a request for firmware data, made from the bytes of the request: its
  header turned into a response, success, and the bytes of the image at the offset and of the
  length that it asks for.
\<close>

definition ua_response :: "bytes \<Rightarrow> bytes \<Rightarrow> bytes" where
  "ua_response img req =
     hdr_bytes (into_response (hdr_of (take 3 req))) @ [base_cc_disc CC_Success]
     @ take (unat (u32_at 7 req)) (drop (unat (u32_at 3 req)) img)"

text \<open>Any other request, the report of a finished phase, is acknowledged.\<close>

definition ua_answer :: "bytes \<Rightarrow> bytes \<Rightarrow> bytes" where
  "ua_answer img req =
     (if cmd_code (hdr_of (take 3 req)) = fw_update_cmd_disc RequestFirmwareData then ua_response img req
      else hdr_bytes (into_response (hdr_of (take 3 req))) @ [base_cc_disc CC_Success])"

text \<open>One round: the device makes a request in a buffer, if it has one to make, and the Update Agent
  answers it.\<close>

definition update_round :: "bool \<Rightarrow> 'p fd_ops \<Rightarrow> bytes \<Rightarrow> bytes \<Rightarrow> 'p fd_context \<Rightarrow> 'p fd_context option" where
  "update_round oc ops img b c =
     (case fd_progress oc ops (c, b) of
        (Ok n, (c1, b1)) \<Rightarrow>
          if n = 0 then Some c1
          else (case handle_response ops (c1, ua_answer img (take n b1)) of
             (Ok _, (c2, _)) \<Rightarrow> Some c2
           | _ \<Rightarrow> None)
      | _ \<Rightarrow> None)"

fun update_rounds :: "bool \<Rightarrow> 'p fd_ops \<Rightarrow> bytes \<Rightarrow> bytes \<Rightarrow> nat \<Rightarrow> 'p fd_context \<Rightarrow> 'p fd_context option" where
  "update_rounds oc ops img b 0 c = Some c"
| "update_rounds oc ops img b (Suc n) c =
     (case update_round oc ops img b c of None \<Rightarrow> None | Some c' \<Rightarrow> update_rounds oc ops img b n c')"

text \<open>
  A platform that stores a component of \<open>n\<close> bytes in order: it asks for what is missing from where
  it stands, takes what it gets, and is complete when it has \<open>n\<close> bytes.  \<open>stored\<close> reads the
  stored bytes off the platform's state.
\<close>

definition stores_in_order :: "'p fd_ops \<Rightarrow> firmware_component \<Rightarrow> ('p \<Rightarrow> bytes) \<Rightarrow> nat \<Rightarrow> bool" where
  "stores_in_order ops fc stored n \<longleftrightarrow>
     (\<forall>p. stored (snd (ops_now ops p)) = stored p) \<and>
     (\<forall>p. length (stored p) < n \<longrightarrow> (\<exists>l p'. query_download_offset_and_length ops fc p
        = (Inr (length (stored p), l), p') \<and> stored p' = stored p \<and> 0 < l \<and> length (stored p) + l \<le> n)) \<and>
     (\<forall>p data. \<exists>p'. download_fw_data ops (length (stored p)) data fc p = (Inr TransferSuccess, p')
        \<and> stored p' = stored p @ data) \<and>
     (\<forall>p. \<exists>p'. is_download_complete ops fc p = (n \<le> length (stored p), p') \<and> stored p' = stored p)"

text \<open>The device in the download state, the platform having stored \<open>k\<close> bytes of the image.\<close>

definition transferring :: "firmware_component \<Rightarrow> ('p \<Rightarrow> bytes) \<Rightarrow> bytes \<Rightarrow> nat \<Rightarrow> 'p fd_context \<Rightarrow> bool" where
  "transferring fc stored img k c \<longleftrightarrow>
     fi_state (ctx_internal c) = Download \<and> fi_update_comp (ctx_internal c) = fc \<and>
     get_fd_download_state (ctx_internal c) \<noteq> None \<and> 0 < fi_max_xfer_size (ctx_internal c) \<and>
     stored (ctx_plat c) = take k img \<and> k \<le> length img \<and>
     fi_req (ctx_internal c) =
       (if k < length img then ready_req False None
        else ready_req True (Some (transfer_result_disc TransferSuccess)))"

text \<open>The request of a round.\<close>

definition chunk_request :: "u32 \<Rightarrow> u32 \<Rightarrow> bytes" where
  "chunk_request off len = request_fw_data_request_bytes (request_fw_data_request_new 1 MsgRequest off len)"

abbreviation sent_chunk :: "u32 \<Rightarrow> u32 \<Rightarrow> u64 \<Rightarrow> fd_internal \<Rightarrow> fd_internal" where
  "sent_chunk \<equiv> data_requested 1"

lemma chunk_of_request:
  assumes "fi_state i = Download" and "fc_image_size (fi_update_comp i) = Some (of_nat n)"
    and "k + l \<le> n" and "n + 32 < 2 ^ 32"
  shows "get_fd_download_chunk oc (of_nat k) (of_nat l) i = Ok (Some (of_nat k, min (of_nat l) (fi_max_xfer_size i)))"
proof -
  have small: "unat (of_nat m :: u32) = m" if "m \<le> n + 32" for m
    using that assms(4) by (simp add: unat_of_nat)
  have u: "uint (of_nat m :: u32) = int m" if "m \<le> n + 32" for m
    using small [OF that] by (metis uint_nat)
  have sums: "(of_nat k :: u32) + of_nat l = of_nat (k + l)" "(of_nat n :: u32) + 32 = of_nat (n + 32)" by simp_all
  have "add_checked oc (of_nat k :: u32) (of_nat l) = Ok (of_nat (k + l))"
    "add_checked oc (of_nat n :: u32) 32 = Ok (of_nat (n + 32))"
    using assms(3,4) u [of k] u [of l] u [of n] by (auto simp: add_checked_def)
  moreover have "\<not> (of_nat n :: u32) < of_nat k" "\<not> (of_nat (n + 32) :: u32) < of_nat (k + l)"
    using assms(3) small [of n] small [of k] small [of "n + 32"] small [of "k + l"]
    by (simp_all add: word_less_nat_alt del: of_nat_add)
  ultimately show ?thesis
    using assms(1,2) by (simp add: get_fd_download_chunk_def Let_def)
qed

lemma progress_requests_chunk:
  assumes "fi_state (ctx_internal c) = Download"
    and "fi_req (ctx_internal c) = ready_req False None"
    and "ops_now ops (ctx_plat c) = (now1, p1)"
    and "query_download_offset_and_length ops (fi_update_comp (ctx_internal c)) p1 = (Inr (o', l'), p2)"
    and "get_fd_download_chunk oc (of_nat o') (of_nat l') (with_instance 1 (ctx_internal c)) = Ok (Some (off, len))"
    and "ops_now ops p2 = (now, p3)" and "11 \<le> length b"
  shows "fd_progress oc ops (c, b) =
    (Ok 11, (c\<lparr>ctx_plat := p3, ctx_internal := sent_chunk off len now (ctx_internal c)\<rparr>, splice 0 (chunk_request off len) b))"
  using assms
  by (simp add: fd_progress_def check_t1_def progress_step_def fd_progress_download_def exec exec_send_ready
      exec_alloc_first abind_assoc Let_def blanket_fits mark_sent_def with_instance_def data_requested_def chunk_request_def)

lemma chunk_request_fields:
  "length (chunk_request off len) = 11" "u32_at 3 (chunk_request off len) = off" "u32_at 7 (chunk_request off len) = len"
  "hdr_of (take 3 (chunk_request off len)) = header_new 1 MsgRequest TypeFwUpdate (fw_update_cmd_disc RequestFirmwareData)"
  by (simp_all add: chunk_request_def request_fw_data_request_new_def layout)

lemma data_rsp_runs:
  assumes "get_fd_download_state i \<noteq> None"
  shows "runs i (process_request_fw_data_rsp ops) (\<lambda>r i'. \<exists>rq. i' = i\<lparr>fi_req := rq\<rparr>)"
proof -
  have "\<exists>rq. i = i\<lparr>fi_req := rq\<rparr>" by (rule exI [of _ "fi_req i"]) simp
  moreover have "\<exists>rq. set_fd_req st d res inst cmd t i = i\<lparr>fi_req := rq\<rparr>" for st d res inst cmd t
    by (rule exI) (simp add: set_fd_req_def)
  ultimately show ?thesis
    using assms unfolding process_request_fw_data_rsp_def Let_def
    by (auto simp: slice_from_def blanket_decode_def intro!: runs_rules split: if_splits)
qed

lemma sent_request_fields:
  assumes "length msg = 11"
  shows "u32_at 3 (splice 0 msg b) = u32_at 3 msg" "u32_at 7 (splice 0 msg b) = u32_at 7 msg"
    "hdr_of (take 3 (splice 0 msg b)) = hdr_of (take 3 msg)"
  using assms by (simp_all add: splice_def u32_at_def nth_append)

text \<open>C25: the device gives every new request for data the instance id 1, so that an answer does not say which
  request it belongs to: when the answer to a request has been taken, the device still wants data and
  has made its next request, the same answer arriving a second time is accepted for that request, and
  its bytes are handed to the platform at the new offset, provided they are enough.\<close>

theorem duplicate_data_accepted:
  assumes "fi_state (ctx_internal c) = Download" and "fi_req (ctx_internal c) = ready_req False None"
    and "get_fd_download_state (ctx_internal c) \<noteq> None"
    and "fd_progress oc ops (c, b) = (Ok m1, (c1, b1))"
    and "handle_response ops (c1, r) = (Ok (), (c2, r'))" and "fi_req (ctx_internal c2) = ready_req False None"
    and "fd_progress oc ops (c2, b2) = (Ok m2, (c3, b3))"
    and "r ! 3 = base_cc_disc CC_Success" and "4 + unat (u32_at 7 b3) \<le> length r"
    and "ops_now ops (ctx_plat c3) = (now, p1)"
    and "download_fw_data ops (unat (u32_at 3 b3)) (take (unat (u32_at 7 b3)) (drop 4 r)) (fi_update_comp (ctx_internal c)) p1
      = (Inr res, p2)"
    and "is_download_complete ops (fi_update_comp (ctx_internal c)) p2 = (finished, p3)"
  shows "instance_id (hdr_of (take 3 b1)) = 1 \<and> instance_id (hdr_of (take 3 b3)) = 1
    \<and> handle_response ops (c3, r) = (Ok (), (c3\<lparr>ctx_plat := if res = TransferSuccess then p3 else p2,
         ctx_internal := after_chunk res finished (set_fd_t1_update_ts now (ctx_internal c3))\<rparr>, r))"
proof -
  have ready: "\<not> req_complete (ready_req False None)" "req_instance_id (ready_req False None) = None" by simp_all
  obtain n1 off1 len1 now1 q1 where one: "11 \<le> length b"
    "b1 = splice 0 (request_fw_data_request_bytes (request_fw_data_request_new n1 MsgRequest off1 len1)) b"
    "c1 = c\<lparr>ctx_plat := q1, ctx_internal := data_requested n1 off1 len1 now1 (ctx_internal c)\<rparr>" "n1 = 1"
    by (rule request_sent [OF assms(1) _ assms(4)]) (use assms(2) ready in auto)
  note i1 = data_requested_fields [where n = n1 and off = off1 and len = len1 and now = now1 and i = "ctx_internal c"]
  have "answers r (fi_req (ctx_internal c1))"
    using handle_response_unsolicited [of r c1 ops] assms(5,9) by force
  then have r: "instance_id (hdr_of (take 3 r)) = 1" "cmd_code (hdr_of (take 3 r)) = fw_update_cmd_disc RequestFirmwareData"
    and ans: "answers r (fi_req (ctx_internal c1))"
    by (simp_all add: answers_def one(3,4) data_requested_fields)
  obtain t1 q2 where "ops_now ops (ctx_plat c1) = (t1, q2)" by fastforce
  from handle_data_response [OF _ ans r(2) this] assms(5,9)
  have rsp: "process_request_fw_data_rsp ops (c1\<lparr>ctx_plat := q2, ctx_internal := set_fd_t1_update_ts t1 (ctx_internal c1)\<rparr>, r) = (Ok (), (c2, r'))"
    by simp
  have dl: "get_fd_download_state (set_fd_t1_update_ts t1 (ctx_internal c1)) \<noteq> None"
    using i1(8) [OF assms(3)] by (simp add: one(3) get_fd_download_state_def set_fd_t1_update_ts_def)
  from runs_result [OF data_rsp_runs [OF dl] _ rsp]
  obtain rq where "ctx_internal c2 = (set_fd_t1_update_ts t1 (ctx_internal c1))\<lparr>fi_req := rq\<rparr>" by auto
  then have i2: "fi_state (ctx_internal c2) = Download" "fi_update_comp (ctx_internal c2) = fi_update_comp (ctx_internal c)"
    "get_fd_download_state (ctx_internal c2) = get_fd_download_state (ctx_internal c1)"
    using assms(1) by (simp_all add: one(3) i1 set_fd_t1_update_ts_def get_fd_download_state_def)
  obtain n2 off2 len2 now2 q3 where two: "11 \<le> length b2"
    "b3 = splice 0 (request_fw_data_request_bytes (request_fw_data_request_new n2 MsgRequest off2 len2)) b2"
    "c3 = c2\<lparr>ctx_plat := q3, ctx_internal := data_requested n2 off2 len2 now2 (ctx_internal c2)\<rparr>" "n2 = 1"
    by (rule request_sent [OF i2(1) _ assms(7)]) (use assms(6) ready in auto)
  note i3 = data_requested_fields [where n = n2 and off = off2 and len = len2 and now = now2 and i = "ctx_internal c2"]
  have b3: "u32_at 3 b3 = off2" "u32_at 7 b3 = len2"
    and b13: "instance_id (hdr_of (take 3 b1)) = 1" "instance_id (hdr_of (take 3 b3)) = 1"
    by (simp_all add: one(2,4) two(2,4) chunk_request_def [symmetric] sent_request_fields chunk_request_fields)
  have "get_fd_download_state (ctx_internal c3) = Some (off2, len2)"
    using i1(8) [OF assms(3)] i2(3) i3(8) by (simp add: one(3) two(3))
  moreover have "fi_state (ctx_internal c3) = Download" "answers r (fi_req (ctx_internal c3))" "\<not> req_complete (fi_req (ctx_internal c3))"
    "fi_update_comp (ctx_internal c3) = fi_update_comp (ctx_internal c)"
    using i2 r by (simp_all add: two(3,4) data_requested_fields answers_def)
  ultimately show ?thesis
    using data_response [of c3 r off2 len2 ops now p1 res p2 finished p3] r(2) assms(8-12) b3 b13 by simp
qed

lemma ua_response_fields:
  fixes off len :: u32
  assumes "unat off + unat len \<le> length img"
  defines "b \<equiv> ua_response img (chunk_request off len)"
  shows "4 + unat len \<le> length b" "b ! 3 = base_cc_disc CC_Success"
    "take (unat len) (drop 4 b) = take (unat len) (drop (unat off) img)"
    "cmd_code (hdr_of (take 3 b)) = fw_update_cmd_disc RequestFirmwareData" "instance_id (hdr_of (take 3 b)) = 1"
  using assms by (simp_all add: ua_response_def chunk_request_fields)

lemma sent_chunk_answered:
  "unat off + unat len \<le> length img \<Longrightarrow>
   answers (ua_response img (chunk_request off len)) (fi_req (sent_chunk off len now i))"
  by (simp add: answers_def data_requested_fields ua_response_fields)

lemma after_chunk_fields:
  "fi_state (after_chunk res f i) = fi_state i" "fi_update_comp (after_chunk res f i) = fi_update_comp i"
  "fi_max_xfer_size (after_chunk res f i) = fi_max_xfer_size i"
  "get_fd_download_state (after_chunk res f i) = get_fd_download_state i"
  "fi_req (after_chunk res f i) = ready_req (\<not> (res = TransferSuccess \<and> \<not> f))
     (if res = TransferSuccess \<and> \<not> f then None else Some (transfer_result_disc res))"
  by (simp_all add: after_chunk_def fd_setters get_fd_download_state_def)

lemma ts_fields:
  "fi_update_comp (set_fd_t1_update_ts t i) = fi_update_comp i"
  "fi_max_xfer_size (set_fd_t1_update_ts t i) = fi_max_xfer_size i"
  "get_fd_download_state (set_fd_t1_update_ts t i) = get_fd_download_state i"
  by (simp_all add: fd_setters get_fd_download_state_def)

lemma chunk_round:
  assumes "fi_state (ctx_internal c) = Download" and "fi_req (ctx_internal c) = ready_req False None"
    and "get_fd_download_state (ctx_internal c) \<noteq> None" and "11 \<le> length b"
    and "ops_now ops (ctx_plat c) = (now1, p1)"
    and "query_download_offset_and_length ops (fi_update_comp (ctx_internal c)) p1 = (Inr (k, l), p2)"
    and "get_fd_download_chunk oc (of_nat k) (of_nat l) (with_instance 1 (ctx_internal c)) = Ok (Some (off, len))"
    and "ops_now ops p2 = (now, p3)" and "unat off + unat len \<le> length img" and "ops_now ops p3 = (now2, p4)"
    and "download_fw_data ops (unat off) (take (unat len) (drop (unat off) img)) (fi_update_comp (ctx_internal c)) p4 = (Inr TransferSuccess, p5)"
    and "is_download_complete ops (fi_update_comp (ctx_internal c)) p5 = (finished, p6)"
  shows "update_round oc ops img b c = Some (c\<lparr>ctx_plat := p6, ctx_internal :=
    after_chunk TransferSuccess finished (set_fd_t1_update_ts now2 (sent_chunk off len now (ctx_internal c)))\<rparr>)"
proof -
  let ?s = "sent_chunk off len now (ctx_internal c)" and ?msg = "chunk_request off len"
  let ?c1 = "c\<lparr>ctx_plat := p3, ctx_internal := ?s\<rparr>" and ?rsp = "ua_response img ?msg"
  have sent: "fd_progress oc ops (c, b) = (Ok 11, (?c1, splice 0 ?msg b))"
    by (rule progress_requests_chunk [OF assms(1,2,5-8,4)])
  have msg: "take 11 (splice 0 ?msg b) = ?msg" by (simp add: splice_def chunk_request_fields)
  have answer: "ua_answer img ?msg = ?rsp" by (simp add: ua_answer_def chunk_request_fields)
  have "handle_response ops (?c1, ?rsp) = (Ok (), (?c1\<lparr>ctx_plat := p6,
     ctx_internal := after_chunk TransferSuccess finished (set_fd_t1_update_ts now2 ?s)\<rparr>, ?rsp))"
    using data_response [of ?c1 ?rsp off len ops now2 p4 TransferSuccess p5 finished p6] assms(1,3,10-12)
      sent_chunk_answered [OF assms(9)] ua_response_fields [OF assms(9)]
    by (simp add: data_requested_fields)
  then show ?thesis by (simp add: update_round_def sent msg answer)
qed

text \<open>What a platform that stores in order does in a round.\<close>

lemma stores_in_orderD:
  assumes "stores_in_order ops fc stored n"
  shows "stored (snd (ops_now ops p)) = stored p"
    and "length (stored p) < n \<Longrightarrow> \<exists>l p'. query_download_offset_and_length ops fc p = (Inr (length (stored p), l), p')
      \<and> stored p' = stored p \<and> 0 < l \<and> length (stored p) + l \<le> n"
    and "\<exists>p'. download_fw_data ops (length (stored p)) data fc p = (Inr TransferSuccess, p') \<and> stored p' = stored p @ data"
    and "\<exists>p'. is_download_complete ops fc p = (n \<le> length (stored p), p') \<and> stored p' = stored p"
  using assms unfolding stores_in_order_def by blast+

lemma transfer_round_progress:
  assumes plat: "stores_in_order ops fc stored (length img)"
    and img: "fc_image_size fc = Some (of_nat (length img))" "length img + 32 < 2 ^ 32"
    and buf: "11 \<le> length b"
    and c: "transferring fc stored img k c" and k: "k < length img"
  shows "\<exists>k' c'. update_round oc ops img b c = Some c' \<and> k < k' \<and> transferring fc stored img k' c'"
proof -
  let ?i = "ctx_internal c"
  note D = stores_in_orderD [OF plat]
  have st: "fi_state ?i = Download" "fi_update_comp ?i = fc" "get_fd_download_state ?i \<noteq> None" "0 < fi_max_xfer_size ?i"
    "stored (ctx_plat c) = take k img" "fi_req ?i = ready_req False None"
    using c k by (simp_all add: transferring_def)
  have stood: "length (take k img) = k" using k by simp
  obtain now1 p1 where now1: "ops_now ops (ctx_plat c) = (now1, p1)" by fastforce
  have p1: "stored p1 = take k img" using D(1) [of "ctx_plat c"] now1 st(5) by simp
  obtain l p2 where query: "query_download_offset_and_length ops fc p1 = (Inr (k, l), p2)"
    and p2: "stored p2 = take k img" and l: "0 < l" "k + l \<le> length img"
    using D(2) [of p1] p1 k stood by auto
  let ?len = "min (of_nat l) (fi_max_xfer_size ?i) :: u32" and ?off = "of_nat k :: u32"
  have off: "unat ?off = k" and ul: "unat (of_nat l :: u32) = l" using l img(2) by (simp_all add: unat_of_nat)
  have len: "0 < unat ?len" "unat ?len \<le> l"
    using l(1) st(4) ul by (auto simp: min_def word_le_nat_alt unat_gt_0)
  have chunk: "get_fd_download_chunk oc ?off (of_nat l) (with_instance 1 ?i) = Ok (Some (?off, ?len))"
    using chunk_of_request [of "with_instance 1 ?i" "length img" k l oc] st(1,2) img l(2) by (simp add: with_instance_def)
  obtain now p3 now2 p4 where nows: "ops_now ops p2 = (now, p3)" "ops_now ops p3 = (now2, p4)" by (metis surj_pair)
  have p4: "stored p4 = take k img" using D(1) [of p2] D(1) [of p3] nows p2 by simp
  let ?data = "take (unat ?len) (drop k img)" and ?k' = "k + unat ?len"
  obtain p5 where down: "download_fw_data ops k ?data fc p4 = (Inr TransferSuccess, p5)" "stored p5 = take k img @ ?data"
    using D(3) [of p4 ?data] p4 stood by auto
  have k': "?k' \<le> length img" using len l by simp
  have p5: "stored p5 = take ?k' img" using down(2) by (simp add: take_add)
  obtain p6 where fin: "is_download_complete ops fc p5 = (length img \<le> ?k', p6)" "stored p6 = take ?k' img"
    using D(4) [of p5] p5 k' by auto
  let ?c = "c\<lparr>ctx_plat := p6, ctx_internal :=
    after_chunk TransferSuccess (length img \<le> ?k') (set_fd_t1_update_ts now2 (sent_chunk ?off ?len now ?i))\<rparr>"
  have "update_round oc ops img b c = Some ?c"
    using chunk_round [OF st(1,6,3) buf now1 _ chunk nows(1) _ nows(2)] query down(1) fin(1) st(2) off k' by simp
  moreover have "transferring fc stored img ?k' ?c"
    using st k' fin(2) by (simp add: transferring_def after_chunk_fields ts_fields data_requested_fields)
  ultimately show ?thesis using len(1) by (metis less_add_same_cancel1)
qed

lemma update_rounds_add:
  "update_rounds oc ops img b (m + n) c =
     (case update_rounds oc ops img b m c of None \<Rightarrow> None | Some c' \<Rightarrow> update_rounds oc ops img b n c')"
  by (induction m arbitrary: c) (simp_all split: option.split)

text \<open>Rounds that come nearer to a goal reach it.\<close>

lemma rounds_until:
  fixes m :: "'p fd_context \<Rightarrow> nat"
  assumes step: "\<And>c. I c \<Longrightarrow> \<exists>c'. update_round oc ops img b c = Some c' \<and> (J c' \<or> I c' \<and> m c' < m c)"
    and pos: "\<And>c. I c \<Longrightarrow> 0 < m c"
  shows "I c \<Longrightarrow> \<exists>n c'. n \<le> m c \<and> update_rounds oc ops img b n c = Some c' \<and> J c'"
proof (induction "m c" arbitrary: c rule: less_induct)
  case less
  obtain c1 where round: "update_round oc ops img b c = Some c1" and c1: "J c1 \<or> I c1 \<and> m c1 < m c"
    using step [OF less.prems] by blast
  show ?case
  proof (cases "J c1")
    case True
    with round pos [OF less.prems] show ?thesis by (intro exI [of _ 1] exI [of _ c1]) simp
  next
    case False
    with c1 less.hyps [of c1] obtain n c' where "n \<le> m c1" "update_rounds oc ops img b n c1 = Some c'" "J c'" "m c1 < m c"
      by auto
    with round show ?thesis by (intro exI [of _ "Suc n"] exI [of _ c']) simp
  qed
qed

lemma transferring_stored:
  "transferring fc stored img k c \<Longrightarrow> length (stored (ctx_plat c)) = k \<and> k \<le> length img"
  by (simp add: transferring_def)

lemma transfer_rounds_finish:
  assumes plat: "stores_in_order ops fc stored (length img)"
    and img: "fc_image_size fc = Some (of_nat (length img))" "length img + 32 < 2 ^ 32"
    and buf: "11 \<le> length b" and c: "transferring fc stored img k c" and k: "k < length img"
  shows "\<exists>n c'. n \<le> length img - k \<and> update_rounds oc ops img b n c = Some c' \<and> transferring fc stored img (length img) c'"
proof -
  define I where "I c = (\<exists>k < length img. transferring fc stored img k c)" for c
  let ?m = "\<lambda>c. length img - length (stored (ctx_plat c))"
  have "\<exists>c'. update_round oc ops img b c = Some c' \<and> (transferring fc stored img (length img) c' \<or> I c' \<and> ?m c' < ?m c)"
    if I: "I c" for c
  proof -
    obtain k where k: "k < length img" and c: "transferring fc stored img k c" using I by (auto simp: I_def)
    obtain k' c' where "update_round oc ops img b c = Some c'" "k < k'" and c': "transferring fc stored img k' c'"
      using transfer_round_progress [OF plat img buf c k] by blast
    moreover have "?m c = length img - k" "?m c' = length img - k'" "k' \<le> length img"
      using transferring_stored [OF c] transferring_stored [OF c'] by simp_all
    moreover have "k' = length img \<or> I c'"
      using c' transferring_stored [OF c'] by (metis I_def nat_less_le)
    ultimately show ?thesis using c' k by (metis diff_less_mono2)
  qed
  moreover have "0 < ?m c" if "I c" for c using that by (auto simp: I_def dest: transferring_stored)
  moreover have "I c" "?m c = length img - k" using c k by (auto simp: I_def dest: transferring_stored)
  ultimately show ?thesis
    using rounds_until [of I oc ops img b "transferring fc stored img (length img)" ?m c] by auto
qed

text \<open>A platform that keeps the image in memory and asks for eight bytes at a time.\<close>

definition memory_fd_ops :: "nat \<Rightarrow> bytes fd_ops" where
  "memory_fd_ops n = \<lparr>
     get_device_identifiers = (\<lambda>ds p. (Inr 0, ds, p)),
     get_firmware_parms = (\<lambda>fp p. (Inr (), fp, p)),
     ops_get_xfer_size = (\<lambda>n p. (Inr n, p)),
     handle_component = (\<lambda>_ _ _ p. (Inr CompCanBeUpdated, p)),
     query_download_offset_and_length = (\<lambda>_ p. (Inr (length p, min 8 (n - length p)), p)),
     download_fw_data = (\<lambda>offset data _ p. (Inr TransferSuccess, take offset p @ data)),
     is_download_complete = (\<lambda>_ p. (n \<le> length p, p)),
     query_download_progress = (\<lambda>_ _ p. (Inr (), ProgressPercent (of_nat (100 * length p div n)), p)),
     ops_verify = (\<lambda>_ _ p. (Inr VerifySuccess, ProgressPercent 100, p)),
     ops_apply = (\<lambda>_ _ p. (Inr ApplySuccess, ProgressPercent 100, p)),
     ops_activate = (\<lambda>_ t p. (Inr (base_cc_disc CC_Success), t, p)),
     cancel_update_component = (\<lambda>_ p. (Inr (), [])),
     handle_pending_component = (\<lambda>_ _ p. (Inr (PendingActivated 100), p)),
     get_non_functional_component_info = (\<lambda>p. (Inr (ComponentsFunctioning, 0), p)),
     ops_update_security_revision = (\<lambda>_ _ p. (Inr RevisionUpdated, p)),
     ops_now = (\<lambda>p. (5, p))\<rparr>"

lemma memory_stores_in_order: "stores_in_order (memory_fd_ops n) fc (\<lambda>p. p) n"
  by (auto simp: stores_in_order_def memory_fd_ops_def min_def)

definition sized_component :: "nat \<Rightarrow> firmware_component" where
  "sized_component n = firmware_component_default\<lparr>fc_image_size := Some (of_nat n)\<rparr>"

text \<open>The device as \<open>UpdateComponent\<close> leaves it, nothing of the component stored.\<close>

definition memory_context :: "nat \<Rightarrow> bytes fd_context" where
  "memory_context n = \<lparr>ctx_internal = set_fd_req ReqReady False None None None None
     (set_fd_state Download (set_component (sized_component n) fd_internal_default)), ctx_plat = []\<rparr>"

lemma memory_context_fields:
  "ctx_plat (memory_context n) = []" "fi_state (ctx_internal (memory_context n)) = Download"
  "fi_update_comp (ctx_internal (memory_context n)) = sized_component n"
  "get_fd_download_state (ctx_internal (memory_context n)) \<noteq> None"
  "0 < fi_max_xfer_size (ctx_internal (memory_context n))"
  "fi_req (ctx_internal (memory_context n)) = ready_req False None"
  "fc_image_size (sized_component n) = Some (of_nat n)"
  by (simp_all add: memory_context_def sized_component_def fd_setters fd_internal_default_def fd_internal_new_def
      get_fd_download_state_def)

text \<open>The data of a response that carries eight bytes reaches the memory.\<close>

theorem firmware_data_delivered_witness:
  "\<exists>c c' b. handle_response (memory_fd_ops 300) (c, b) = (Ok (), (c', b)) \<and> ctx_plat c = [] \<and> ctx_plat c' = replicate 8 7"
proof -
  let ?c = "(memory_context 300)\<lparr>ctx_internal := sent_chunk 0 8 5 (ctx_internal (memory_context 300))\<rparr>"
  let ?b = "ua_response (replicate 300 7) (chunk_request 0 8)"
  note b = ua_response_fields [of 0 8 "replicate 300 7"]
  have "take 8 (drop 4 ?b) = replicate 8 7" using b(3) by simp
  then have "handle_response (memory_fd_ops 300) (?c, ?b) = (Ok (), (?c\<lparr>ctx_plat := replicate 8 7,
      ctx_internal := after_chunk TransferSuccess False (set_fd_t1_update_ts 5 (ctx_internal ?c))\<rparr>, ?b))"
    using firmware_data_delivered [of ?c ?b 0 8 "memory_fd_ops 300" 5 "[]" TransferSuccess "replicate 8 7" False "replicate 8 7"]
      sent_chunk_answered [of 0 8 "replicate 300 7" 5] b
    by (simp add: memory_context_fields data_requested_fields memory_fd_ops_def)
  then show ?thesis
    by (intro exI [of _ ?c] exI [of _ ?b] exI conjI) (assumption, simp_all add: memory_context_fields)
qed

text \<open>The bytes 7 sent for the first chunk of a component of 300 are stored as its second chunk too.\<close>

theorem duplicate_data_accepted_witness:
  "\<exists>c3 r c4. ctx_plat c3 = replicate 8 7 \<and> r = [1, 5, 0x15, 0] @ replicate 8 7
     \<and> handle_response (memory_fd_ops 300) (c3, r) = (Ok (), (c4, r)) \<and> ctx_plat c4 = replicate 16 7"
proof -
  let ?ops = "memory_fd_ops 300" and ?c = "memory_context 300" and ?r = "[1, 5, 0x15, 0] @ replicate 8 7"
  define s1 where "s1 = fd_progress True ?ops (?c, on_wire [])"
  define s2 where "s2 = handle_response ?ops (fst (snd s1), ?r)"
  define s3 where "s3 = fd_progress True ?ops (fst (snd s2), on_wire [])"
  have "fst s1 = Ok 11" "fst s2 = Ok ()" "fst s3 = Ok 11" and req: "fi_req (ctx_internal (fst (snd s2))) = ready_req False None"
    and plat: "ctx_plat (fst (snd s3)) = replicate 8 7"
    and asked: "u32_at 3 (snd (snd s3)) = 8" "u32_at 7 (snd (snd s3)) = 8"
    unfolding s3_def s2_def s1_def by code_simp+
  then have run: "fd_progress True ?ops (?c, on_wire []) = (Ok 11, (fst (snd s1), snd (snd s1)))"
    "handle_response ?ops (fst (snd s1), ?r) = (Ok (), (fst (snd s2), snd (snd s2)))"
    "fd_progress True ?ops (fst (snd s2), on_wire []) = (Ok 11, (fst (snd s3), snd (snd s3)))"
    unfolding s3_def s2_def s1_def by (metis prod.collapse)+
  have ops: "?r ! 3 = base_cc_disc CC_Success" "4 + unat (u32_at 7 (snd (snd s3))) \<le> length ?r"
    "ops_now ?ops (ctx_plat (fst (snd s3))) = (5, replicate 8 7)"
    "download_fw_data ?ops (unat (u32_at 3 (snd (snd s3)))) (take (unat (u32_at 7 (snd (snd s3)))) (drop 4 ?r))
      (fi_update_comp (ctx_internal ?c)) (replicate 8 7) = (Inr TransferSuccess, replicate 16 7)"
    "is_download_complete ?ops (fi_update_comp (ctx_internal ?c)) (replicate 16 7) = (False, replicate 16 7)"
    by (simp_all add: asked plat memory_fd_ops_def replicate_add [of 8 8 7, symmetric, simplified])
  have "handle_response ?ops (fst (snd s3), ?r) = (Ok (), ((fst (snd s3))\<lparr>ctx_plat := replicate 16 7,
      ctx_internal := after_chunk TransferSuccess False (set_fd_t1_update_ts 5 (ctx_internal (fst (snd s3))))\<rparr>, ?r))"
    using duplicate_data_accepted [OF memory_context_fields(2,6,4) run(1,2) req run(3) ops] by simp
  then show ?thesis using plat by (intro exI [of _ "fst (snd s3)"] exI [of _ ?r] exI conjI) (assumption | simp)+
qed

end
