(* ===== verification/Fd_Update.thy ===== *)
theory Fd_Update
  imports Fd_Download
begin

text \<open>
  The update of one component, from the first request for data to the acknowledged application:
  the device downloads, verifies and applies the image and is ready for the next component.
\<close>

section \<open>Reports\<close>

lemma report_round:
  assumes "fd_progress oc ops (c, b) = (Ok n, (c1, b1))" and "3 \<le> n" and "take n b1 = msg"
    and "hdr_of (take 3 msg) = header_new 1 MsgRequest TypeFwUpdate (fw_update_cmd_disc (completion_cmd st))"
    and "fi_state (ctx_internal c1) = st" and "st \<in> initiator_states"
    and "fi_req (ctx_internal c1) = \<lparr>req_state = ReqSent, req_complete = True, req_result = Some 0,
      req_instance_id = Some 1, req_command = Some (fw_update_cmd_disc (completion_cmd st)), req_sent_time = Some sent\<rparr>"
    and "ops_now ops (ctx_plat c1) = (now, p)"
  shows "update_round oc ops img b c =
    Some (c1\<lparr>ctx_plat := p, ctx_internal := next_phase st (set_fd_t1_update_ts now (ctx_internal c1))\<rparr>)"
proof -
  let ?rsp = "hdr_bytes (into_response (hdr_of (take 3 msg))) @ [base_cc_disc CC_Success]"
  have "ua_answer img msg = ?rsp"
    using assms(4,6) by (auto simp: ua_answer_def)
  moreover have "answers ?rsp (fi_req (ctx_internal c1))"
    using assms(4,7) by (simp add: answers_def)
  then have "handle_response ops (c1, ?rsp) = (Ok (), (c1\<lparr>ctx_plat := p,
      ctx_internal := next_phase st (set_fd_t1_update_ts now (ctx_internal c1))\<rparr>, ?rsp))"
    using acknowledged_phase [of c1 ?rsp ops now p] assms(4-8) by (simp add: Let_def)
  ultimately show ?thesis
    using assms(1-3) by (simp add: update_round_def)
qed

definition reported :: "u8 \<Rightarrow> fw_update_cmd \<Rightarrow> u64 \<Rightarrow> fd_internal \<Rightarrow> fd_internal" where
  "reported res cmd now i =
     set_fd_req ReqSent True (Some res) (Some 1) (Some (fw_update_cmd_disc cmd)) (Some now) (with_instance 1 i)"

lemma reported_fields:
  "fi_state (reported res cmd now i) = fi_state i" "fi_update_comp (reported res cmd now i) = fi_update_comp i"
  "fi_req (reported res cmd now i) = \<lparr>req_state = ReqSent, req_complete = True, req_result = Some res,
     req_instance_id = Some 1, req_command = Some (fw_update_cmd_disc cmd), req_sent_time = Some now\<rparr>"
  by (simp_all add: reported_def fd_setters with_instance_def)

lemma progress_reports_transfer:
  assumes "fi_state (ctx_internal c) = Download"
    and "fi_req (ctx_internal c) = ready_req True (Some (transfer_result_disc TransferSuccess))"
    and "ops_now ops (ctx_plat c) = (now1, p1)" and "ops_now ops p1 = (now, p2)" and "4 \<le> length b"
  shows "fd_progress oc ops (c, b) =
    (Ok 4, (c\<lparr>ctx_plat := p2, ctx_internal := reported 0 TransferComplete now (ctx_internal c)\<rparr>,
       splice 0 (transfer_complete_request_bytes (transfer_complete_request_new 1 MsgRequest TransferSuccess)) b))"
  using assms
  by (simp add: fd_progress_def check_t1_def progress_step_def fd_progress_download_def exec exec_send_ready
      exec_alloc_first abind_assoc Let_def blanket_fits mark_sent_def with_instance_def reported_def transfer_result_try_from_def)

lemma progress_fields [simp]:
  "fi_state (set_fd_verify_progress x i) = fi_state i" "fi_state (set_fd_apply_progress x i) = fi_state i"
  "fi_req (set_fd_verify_progress x i) = fi_req i" "fi_req (set_fd_apply_progress x i) = fi_req i"
  "fi_update_comp (set_fd_verify_progress x i) = fi_update_comp i"
  "fi_update_comp (set_fd_apply_progress x i) = fi_update_comp i"
  by (simp_all add: fd_setters split: initiator_mode.split)

lemma progress_verify:
  assumes "fi_state (ctx_internal c) = Verify" and "fi_req (ctx_internal c) = ready_req False None"
    and "ops_now ops (ctx_plat c) = (now1, p1)"
    and "ops_verify ops (fi_update_comp (ctx_internal c)) progress_default p1 = (Inr VerifySuccess, pr, p2)"
    and "ops_now ops p2 = (now, p3)" and "4 \<le> length b"
  shows "fd_progress oc ops (c, b) =
    (let i = set_fd_verify_progress (progress_value pr) (ctx_internal c) in
     if progress_value pr < 100
     then (Ok 0, (c\<lparr>ctx_plat := p3, ctx_internal := set_fd_t1_update_ts now i\<rparr>, b))
     else (Ok 4, (c\<lparr>ctx_plat := p3, ctx_internal := reported 0 VerifyComplete now i\<rparr>,
       splice 0 (verify_complete_request_bytes (verify_complete_request_new 1 MsgRequest VerifySuccess)) b)))"
  using assms
  by (simp add: fd_progress_def check_t1_def progress_step_def pldm_fd_progress_verify_def exec exec_send_ready
      exec_alloc_first abind_assoc Let_def blanket_fits mark_sent_def reported_def fd_setters(6) with_instance_def cong: if_cong)

lemma progress_apply:
  assumes "fi_state (ctx_internal c) = Apply" and "fi_req (ctx_internal c) = ready_req False None"
    and "ops_now ops (ctx_plat c) = (now1, p1)"
    and "ops_apply ops (fi_update_comp (ctx_internal c)) progress_default p1 = (Inr ApplySuccess, pr, p2)"
    and "ops_now ops p2 = (now, p3)" and "6 \<le> length b"
  shows "fd_progress oc ops (c, b) =
    (let i = set_fd_apply_progress (progress_value pr) (ctx_internal c) in
     if progress_value pr < 100
     then (Ok 0, (c\<lparr>ctx_plat := p3, ctx_internal := set_fd_t1_update_ts now i\<rparr>, b))
     else (Ok 6, (c\<lparr>ctx_plat := p3, ctx_internal := reported 0 ApplyComplete now i\<rparr>,
       splice 0 (apply_complete_request_bytes (apply_complete_request_new 1 MsgRequest ApplySuccess 0)) b)))"
  using assms
  by (simp add: fd_progress_def check_t1_def progress_step_def pldm_fd_progress_apply_def exec exec_send_ready
      exec_alloc_first abind_assoc Let_def blanket_fits mark_sent_def reported_def fd_setters(6) with_instance_def cong: if_cong)

section \<open>Checking the image\<close>

text \<open>
  A platform that verifies and applies the image it has stored: each step of the work succeeds, and
  either finishes it or leaves less of it to do, the work of a phase being less than \<open>w\<close> steps.
\<close>

definition works_on :: "(progress_percent \<Rightarrow> 'p \<Rightarrow> (fd_ops_error + 'r) \<times> progress_percent \<times> 'p) \<Rightarrow> 'r \<Rightarrow>
    ('p \<Rightarrow> bytes) \<Rightarrow> bytes \<Rightarrow> ('p \<Rightarrow> nat) \<Rightarrow> bool" where
  "works_on f success stored img left \<longleftrightarrow>
     (\<forall>p. stored p = img \<longrightarrow> (\<exists>pr p'. f progress_default p = (Inr success, pr, p') \<and> stored p' = img
        \<and> (100 \<le> progress_value pr \<or> left p' < left p)))"

definition checks_component :: "'p fd_ops \<Rightarrow> firmware_component \<Rightarrow> ('p \<Rightarrow> bytes) \<Rightarrow> bytes \<Rightarrow> ('p \<Rightarrow> nat) \<Rightarrow> nat \<Rightarrow> bool" where
  "checks_component ops fc stored img left w \<longleftrightarrow>
     (\<forall>p. stored (snd (ops_now ops p)) = stored p \<and> left (snd (ops_now ops p)) = left p \<and> left p < w) \<and>
     works_on (ops_verify ops fc) VerifySuccess stored img left \<and>
     works_on (ops_apply ops fc) ApplySuccess stored img left"

definition in_phase :: "firmware_device_state \<Rightarrow> firmware_component \<Rightarrow> ('p \<Rightarrow> bytes) \<Rightarrow> bytes \<Rightarrow> 'p fd_context \<Rightarrow> bool" where
  "in_phase st fc stored img c \<longleftrightarrow>
     fi_state (ctx_internal c) = st \<and> fi_update_comp (ctx_internal c) = fc \<and> stored (ctx_plat c) = img \<and>
     fi_req (ctx_internal c) = (if st = ReadyXfer then fd_req_new else ready_req False None)"

lemma next_phase_fields:
  "fi_state (start_verify i) = Verify" "fi_update_comp (start_verify i) = fi_update_comp i"
  "fi_req (start_verify i) = ready_req False None"
  "fi_state (start_apply i) = Apply" "fi_update_comp (start_apply i) = fi_update_comp i"
  "fi_req (start_apply i) = ready_req False None"
  "fi_state (finish_apply i) = ReadyXfer" "fi_update_comp (finish_apply i) = fi_update_comp i"
  "fi_req (finish_apply i) = fd_req_new"
  by (simp_all add: start_verify_def start_apply_def finish_apply_def fd_setters fd_req_new_def)

text \<open>
  Verification and application are one phase twice: the platform works, the device records its
  progress, and reports the phase once the work is done.
\<close>

locale checked_phase =
  fixes st nst :: firmware_device_state and cmd :: fw_update_cmd and start_next :: "fd_internal \<Rightarrow> fd_internal"
    and work :: "'p fd_ops \<Rightarrow> firmware_component \<Rightarrow> progress_percent \<Rightarrow> 'p \<Rightarrow> (fd_ops_error + 'r) \<times> progress_percent \<times> 'p"
    and success :: 'r and msg :: bytes and set_progress :: "u8 \<Rightarrow> fd_internal \<Rightarrow> fd_internal"
  assumes phase: "st \<in> initiator_states" "completion_cmd st = cmd" "next_phase st i = start_next i"
    and next_fields: "fi_state (start_next i) = nst" "fi_update_comp (start_next i) = fi_update_comp i"
      "fi_req (start_next i) = (if nst = ReadyXfer then fd_req_new else ready_req False None)"
    and progress_kept: "fi_state (set_progress x i) = fi_state i" "fi_update_comp (set_progress x i) = fi_update_comp i"
      "fi_req (set_progress x i) = fi_req i"
    and report: "3 \<le> length msg" "hdr_of (take 3 msg) = header_new 1 MsgRequest TypeFwUpdate (fw_update_cmd_disc cmd)"
    and progress: "fi_state (ctx_internal c) = st \<Longrightarrow> fi_req (ctx_internal c) = ready_req False None \<Longrightarrow>
      ops_now ops (ctx_plat c) = (now1, p1) \<Longrightarrow>
      work ops (fi_update_comp (ctx_internal c)) progress_default p1 = (Inr success, pr, p2) \<Longrightarrow>
      ops_now ops p2 = (now, p3) \<Longrightarrow> length msg \<le> length b \<Longrightarrow>
      fd_progress oc ops (c, b) =
        (let i = set_progress (progress_value pr) (ctx_internal c) in
         if progress_value pr < 100
         then (Ok 0, (c\<lparr>ctx_plat := p3, ctx_internal := set_fd_t1_update_ts now i\<rparr>, b))
         else (Ok (length msg), (c\<lparr>ctx_plat := p3, ctx_internal := reported 0 cmd now i\<rparr>, splice 0 msg b)))"
begin

lemma not_ready: "st \<noteq> ReadyXfer"
  using phase(1) by auto

lemma check_round:
  assumes plat: "works_on (work ops fc) success stored img left"
    and now: "\<And>p. stored (snd (ops_now ops p)) = stored p" "\<And>p. left (snd (ops_now ops p)) = left p"
    and c: "in_phase st fc stored img c" and b: "length msg \<le> length b"
  shows "\<exists>c'. update_round oc ops img b c = Some c' \<and>
    (in_phase nst fc stored img c' \<or> in_phase st fc stored img c' \<and> left (ctx_plat c') < left (ctx_plat c))"
proof -
  have c: "fi_state (ctx_internal c) = st" "fi_update_comp (ctx_internal c) = fc" "stored (ctx_plat c) = img"
    "fi_req (ctx_internal c) = ready_req False None"
    using c not_ready by (simp_all add: in_phase_def)
  obtain now1 p1 where now1: "ops_now ops (ctx_plat c) = (now1, p1)" by fastforce
  have p1: "stored p1 = img" "left p1 = left (ctx_plat c)" using now [of "ctx_plat c"] now1 c(3) by simp_all
  obtain pr p2 where work: "work ops fc progress_default p1 = (Inr success, pr, p2)" "stored p2 = img"
    "100 \<le> progress_value pr \<or> left p2 < left p1"
    using plat p1(1) unfolding works_on_def by metis
  obtain now2 p3 where now2: "ops_now ops p2 = (now2, p3)" by fastforce
  have p3: "stored p3 = img" "left p3 = left p2" using now [of p2] now2 work(2) by simp_all
  note step = progress [OF c(1,4) now1 _ now2 b, of pr oc]
  show ?thesis
  proof (cases "progress_value pr < 100")
    case True
    then show ?thesis
      using step c work p1(2) p3 not_ready
      by (auto simp: update_round_def in_phase_def ts_fields progress_kept Let_def not_less [symmetric])
  next
    case False
    let ?i = "reported 0 cmd now2 (set_progress (progress_value pr) (ctx_internal c))"
    obtain now3 p4 where now3: "ops_now ops p3 = (now3, p4)" by fastforce
    have p4: "stored p4 = img" using now [of p3] now3 p3(1) by simp
    have "fd_progress oc ops (c, b) = (Ok (length msg), (c\<lparr>ctx_plat := p3, ctx_internal := ?i\<rparr>, splice 0 msg b))"
      using step False c(2) work(1) by (simp add: Let_def)
    from report_round [OF this report(1), of msg st now2 now3 p4 img]
    have "update_round oc ops img b c = Some (c\<lparr>ctx_plat := p4, ctx_internal := start_next (set_fd_t1_update_ts now3 ?i)\<rparr>)"
      using c(1) now3 phase report(2) by (simp add: reported_fields progress_kept splice_def)
    then show ?thesis
      using c p4 by (simp add: in_phase_def next_fields reported_fields ts_fields progress_kept)
  qed
qed

lemma check_rounds:
  assumes "works_on (work ops fc) success stored img left"
    and "\<And>p. stored (snd (ops_now ops p)) = stored p" "\<And>p. left (snd (ops_now ops p)) = left p"
    and "length msg \<le> length b" and "in_phase st fc stored img c"
  shows "\<exists>n c'. n \<le> Suc (left (ctx_plat c)) \<and> update_rounds oc ops img b n c = Some c' \<and> in_phase nst fc stored img c'"
proof (rule rounds_until [where I = "in_phase st fc stored img" and m = "\<lambda>c. Suc (left (ctx_plat c))"])
  show "\<exists>c'. update_round oc ops img b c = Some c' \<and> (in_phase nst fc stored img c' \<or>
      in_phase st fc stored img c' \<and> Suc (left (ctx_plat c')) < Suc (left (ctx_plat c)))"
    if "in_phase st fc stored img c" for c
    using check_round [OF assms(1-3) that assms(4)] by simp
qed (simp_all add: assms(5))

end

interpretation verification: checked_phase Verify Apply VerifyComplete start_apply ops_verify VerifySuccess
  "verify_complete_request_bytes (verify_complete_request_new 1 MsgRequest VerifySuccess)" set_fd_verify_progress
  by unfold_locales
     (simp_all add: next_phase_fields progress_verify layout verify_complete_request_new_def Let_def cong: if_cong del: ready_req_def)

interpretation application: checked_phase Apply ReadyXfer ApplyComplete finish_apply ops_apply ApplySuccess
  "apply_complete_request_bytes (apply_complete_request_new 1 MsgRequest ApplySuccess 0)" set_fd_apply_progress
  by unfold_locales
     (simp_all add: next_phase_fields progress_apply layout apply_complete_request_new_def Let_def cong: if_cong del: ready_req_def)

section \<open>The component\<close>

lemma transfer_report_round:
  assumes "checks_component ops fc stored img left w" and "transferring fc stored img (length img) c" and "4 \<le> length b"
  shows "\<exists>c'. update_round oc ops img b c = Some c' \<and> in_phase Verify fc stored img c'"
proof -
  have now: "stored (snd (ops_now ops p)) = stored p" for p
    using assms(1) by (simp add: checks_component_def)
  have c: "fi_state (ctx_internal c) = Download" "fi_update_comp (ctx_internal c) = fc" "stored (ctx_plat c) = img"
    "fi_req (ctx_internal c) = ready_req True (Some (transfer_result_disc TransferSuccess))"
    using assms(2) by (simp_all add: transferring_def)
  obtain now1 p1 now2 p2 now3 p3 where nows: "ops_now ops (ctx_plat c) = (now1, p1)" "ops_now ops p1 = (now2, p2)"
    "ops_now ops p2 = (now3, p3)"
    by (metis surj_pair)
  have p3: "stored p3 = img" using nows now [of "ctx_plat c"] now [of p1] now [of p2] c(3) by simp
  let ?i = "reported 0 TransferComplete now2 (ctx_internal c)"
  have "update_round oc ops img b c = Some (c\<lparr>ctx_plat := p3, ctx_internal := start_verify (set_fd_t1_update_ts now3 ?i)\<rparr>)"
    using report_round [of oc ops c b 4 "c\<lparr>ctx_plat := p2, ctx_internal := ?i\<rparr>" _ _ Download now2 now3 p3 img, OF _ _ refl]
      progress_reports_transfer [OF c(1,4) nows(1,2) assms(3), of oc] c nows(3)
    by (simp add: Let_def reported_fields splice_def layout transfer_complete_request_new_def)
  then show ?thesis
    using c p3 by (simp add: in_phase_def next_phase_fields reported_fields ts_fields)
qed

lemma component_rounds:
  assumes plat: "stores_in_order ops fc stored (length img)" and checks: "checks_component ops fc stored img left w"
    and img: "fc_image_size fc = Some (of_nat (length img))" "length img + 32 < 2 ^ 32" "0 < length img"
    and buf: "11 \<le> length b" and c: "transferring fc stored img 0 c"
  shows "\<exists>n c'. n \<le> length img + 1 + 2 * w \<and> update_rounds oc ops img b n c = Some c' \<and> in_phase ReadyXfer fc stored img c'"
proof -
  have now: "stored (snd (ops_now ops p)) = stored p" "left (snd (ops_now ops p)) = left p" and w: "left p < w" for p
    using checks by (simp_all add: checks_component_def)
  have work: "works_on (ops_verify ops fc) VerifySuccess stored img left" "works_on (ops_apply ops fc) ApplySuccess stored img left"
    using checks by (simp_all add: checks_component_def)
  obtain n1 c1 where c1: "n1 \<le> length img" "update_rounds oc ops img b n1 c = Some c1" "transferring fc stored img (length img) c1"
    using transfer_rounds_finish [OF plat img(1,2) buf c img(3), of oc] by auto
  obtain c2 where c2: "update_round oc ops img b c1 = Some c2" "in_phase Verify fc stored img c2"
    using transfer_report_round [OF checks c1(3), of b oc] buf by auto
  obtain n3 c3 where c3: "n3 \<le> Suc (left (ctx_plat c2))" "update_rounds oc ops img b n3 c2 = Some c3" "in_phase Apply fc stored img c3"
    using verification.check_rounds [OF work(1) now _ c2(2), of b oc] buf by (auto simp: layout)
  obtain n4 c4 where c4: "n4 \<le> Suc (left (ctx_plat c3))" "update_rounds oc ops img b n4 c3 = Some c4" "in_phase ReadyXfer fc stored img c4"
    using application.check_rounds [OF work(2) now _ c3(3), of b oc] buf by (auto simp: layout)
  have "update_rounds oc ops img b (n1 + Suc (n3 + n4)) c = Some c4"
    using c1(2) c2(1) c3(2) c4(2) by (simp add: update_rounds_add del: add_Suc_right)
  moreover have "n1 + Suc (n3 + n4) \<le> length img + 1 + 2 * w"
    using c1(1) c3(1) c4(1) w [of "ctx_plat c2"] w [of "ctx_plat c3"] by linarith
  ultimately show ?thesis using c4(3) by blast
qed

text \<open>C5: the update of a component ends, with the component updated: from the start of the download, an
  Update Agent that answers requests for data with the bytes they ask for and acknowledges every
  report takes the device through download, verification and application back to ready for the next
  component, in at most as many rounds as the image has bytes, plus one for the report of the transfer
  and the steps the platform takes to verify and to apply.  The platform then holds exactly the
  image, and no request is outstanding.\<close>

theorem component_updated:
  assumes "stores_in_order ops fc stored (length img)" and "checks_component ops fc stored img left w"
    and "fc_image_size fc = Some (of_nat (length img))" and "length img + 32 < 2 ^ 32" and "0 < length img"
    and "11 \<le> length b" and "fi_state (ctx_internal c) = Download" and "fi_update_comp (ctx_internal c) = fc"
    and "get_fd_download_state (ctx_internal c) \<noteq> None" and "0 < fi_max_xfer_size (ctx_internal c)"
    and "fi_req (ctx_internal c) = ready_req False None" and "stored (ctx_plat c) = []"
  shows "\<exists>n c'. n \<le> length img + 1 + 2 * w \<and> update_rounds oc ops img b n c = Some c'
    \<and> fi_state (ctx_internal c') = ReadyXfer \<and> stored (ctx_plat c') = img \<and> fi_req (ctx_internal c') = fd_req_new"
proof -
  have "transferring fc stored img 0 c" using assms(5,7-12) by (simp add: transferring_def)
  from component_rounds [OF assms(1-6) this, of oc] show ?thesis by (auto simp: in_phase_def)
qed

lemma memory_checks: "checks_component (memory_fd_ops n) fc (\<lambda>p. p) img (\<lambda>_. 0) 1"
  by (simp add: checks_component_def works_on_def memory_fd_ops_def)

theorem component_updated_witness:
  "\<exists>n c'. n \<le> 303 \<and> update_rounds True (memory_fd_ops 300) (replicate 300 7) (replicate 16 0) n (memory_context 300) = Some c'
     \<and> fi_state (ctx_internal c') = ReadyXfer \<and> ctx_plat c' = replicate 300 7"
  using component_updated [OF memory_stores_in_order memory_checks, where b = "replicate 16 0" and img = "replicate 300 7"
      and c = "memory_context 300" and fc = "sized_component 300" and oc = True]
  by (auto simp: memory_context_fields)

end
