(* ===== verification/Interface_Machine.thy ===== *)
theory Interface_Machine
  imports Cmd_Interface Fd_Update
begin

text \<open>
  The library as a whole over time: an integrator hands the interface the messages that
  arrive, asks it for the requests of the device and passes it the responses, in any order
  and with any bytes, while the platform behind the callbacks changes.  The interface
  refines the update protocol as the device alone does, and can always be called again.
\<close>

section \<open>Steps\<close>

datatype interface_event =
    ResponderMsg bytes
  | InitiatorRequest bytes
  | InitiatorResponse bytes
  | PlatformMoves

inductive interface_step ::
  "bool \<Rightarrow> 'p fd_ops \<Rightarrow> 'p cmd_interface \<Rightarrow> interface_event \<Rightarrow> 'p cmd_interface \<Rightarrow> bool"
  for oc ops where
  message: "handle_responder_msg ops (s, b) = (r, (s', b')) \<Longrightarrow> 1 \<le> length b \<Longrightarrow>
    interface_step oc ops s (ResponderMsg b) s'"
| tick: "generate_initiator_request oc ops (s, b) = (r, (s', b')) \<Longrightarrow> r \<noteq> Panic \<Longrightarrow>
    interface_step oc ops s (InitiatorRequest b) s'"
| answer: "process_initiator_response ops (s, b) = (r, (s', b')) \<Longrightarrow>
    interface_step oc ops s (InitiatorResponse b) s'"
| moves: "interface_step oc ops s PlatformMoves (s\<lparr>ci_fd := (ci_fd s)\<lparr>ctx_plat := p\<rparr>\<rparr>)"

text \<open>What a call does to the device: nothing, or a step of its own machine.\<close>

definition device_moved :: "bool \<Rightarrow> 'p fd_ops \<Rightarrow> 'p cmd_interface \<Rightarrow> 'p cmd_interface \<Rightarrow> bool" where
  "device_moved oc ops s s' \<longleftrightarrow> ci_fd s' = ci_fd s \<or> (\<exists>e. fd_step oc ops (ci_fd s) e (ci_fd s'))"

lemma wp_on_part:
  "wp (on_part get put m) Q E (s, b) = wp m (\<lambda>x t. Q x (put (fst t) s, snd t)) (\<lambda>e t. E e (put (fst t) s, snd t)) (get s, b)"
  by (auto simp: wp_def on_part_def split: prod.split outcome.split)

lemma request_wp:
  assumes "device_ok oc ops c"
    and "\<And>c'. fd_step oc ops c (UaRequest op b) c' \<Longrightarrow> Q c' \<and> E c'"
  shows "wp (process_fw_update_cmd ops op) (\<lambda>_ t. Q (fst t)) (\<lambda>_ t. E (fst t)) (c, b)"
proof -
  obtain r c' b' where run: "process_fw_update_cmd ops op (c, b) = (r, (c', b'))" by (metis prod.collapse)
  from assms(1) have "platform_wf ops" "standard_codes ops" by (simp_all add: device_ok_def)
  from request_step_post [OF device_ok_inv [OF assms(1)] this run] have "r \<noteq> Panic" by simp
  with assms(2) [OF fd_step.request [where oc = oc, OF run this]] run show ?thesis
    by (cases r) (simp_all add: wp_def)
qed

lemma process_request_device:
  assumes "interface_ok oc ops s" and "1 \<le> length buf"
  shows "wp (process_request ops) (\<lambda>_ t. device_moved oc ops s (fst t)) (\<lambda>_ t. device_moved oc ops s (fst t)) (s, buf)"
proof (cases "preprocess_request (ci_ctrl s) (drop 1 buf)")
  case (Ok x)
  obtain t cmd where x: "x = (t, cmd)" by force
  note inv = assms(1) [unfolded interface_ok_def]
  from preprocess_served [OF Ok [unfolded x]] inv consider "t = TypeBase" | "t = TypeFwUpdate" by blast
  then show ?thesis
  proof cases
    case 1
    show ?thesis
      unfolding process_request_def
      using inv assms(2) Ok
      by (simp add: wp_simps x 1 dispatch_request_def on_ctrl_def,
          intro ctrl.on_part_wp [where caps = "ctl_capabilities (ci_ctrl s)"])
         (auto simp: wp_simps device_moved_def)
  next
    case 2
    show ?thesis
      unfolding process_request_def
      using inv assms(2) Ok
      by (simp add: wp_simps x 2 dispatch_request_def on_fd_def wp_on_part device_moved_def)
         (rule request_wp [where oc = oc], auto)
  qed
next
  case (Err e)
  then show ?thesis
    unfolding process_request_def using assms
    by (auto simp: wp_simps interface_ok_def device_moved_def intro!: wp_failureI)
qed (use preprocess_not_Panic in simp)

lemma message_device:
  assumes "interface_ok oc ops s" and "1 \<le> length buf" and "handle_responder_msg ops (s, buf) = (r, (s', buf'))"
  shows "r \<noteq> Panic \<and> interface_ok oc ops s' \<and> device_moved oc ops s s'"
proof -
  have same: "handle_responder_msg ops (s, buf) = process_request ops (s, buf)"
    by (auto simp: handle_responder_msg_def abind_def ret_def split: prod.split outcome.split)
  from wp_result [OF process_request_wp [OF assms(1,2)], of r "(s', buf')"]
    wp_result [OF process_request_device [OF assms(1,2)], of r "(s', buf')"] assms(3)
  show ?thesis unfolding same by (cases r) auto
qed

lemma progress_no_panic:
  assumes "device_ok oc ops c"
  shows "fst (fd_progress False ops (c, b)) \<noteq> Panic"
proof -
  obtain r c' b' where run: "fd_progress False ops (c, b) = (r, (c', b'))" by (metis prod.collapse)
  from assms have "platform_wf ops" by (simp add: device_ok_def)
  from runs_result [OF fd_progress_runs [OF this device_ok_inv [OF assms]] refl run] run show ?thesis by simp
qed

lemma generate_device:
  assumes "generate_initiator_request oc ops (s, buf) = (r, (s', buf'))"
  shows "ci_busy s' = ci_busy s \<and> ci_ctrl s' = ci_ctrl s \<and> (r \<noteq> Panic \<longrightarrow> device_moved oc ops s s') \<and>
    (r = Panic \<longrightarrow> fst (fd_progress oc ops (ci_fd s, drop 1 buf)) = Panic)"
proof (cases "length buf < 4")
  case True
  with assms show ?thesis by (auto simp: generate_initiator_request_def construct_short device_moved_def)
next
  case False
  obtain q c v where run: "fd_progress oc ops (ci_fd s, drop 1 buf) = (q, (c, v))" by (metis prod.collapse)
  with assms False have res: "r = map_ok (\<lambda>m. if 0 < m then Some m else None) q" "s' = s\<lparr>ci_fd := c\<rparr>"
    by (auto simp: generate_initiator_request_def construct_fits on_fd_def on_part_def)
  then show ?thesis
    using run fd_step.progress [OF run] by (auto simp: device_moved_def)
qed

lemma response_device:
  assumes "interface_ok oc ops s" and "process_initiator_response ops (s, buf) = (r, (s', buf'))"
  shows "r \<noteq> Panic \<and> ci_busy s' = ci_busy s \<and> ci_ctrl s' = ci_ctrl s \<and> device_moved oc ops s s'"
proof (cases "extract_pldm_msg buf")
  case (Ok payload)
  obtain q c v where run: "handle_response ops (ci_fd s, payload) = (q, (c, v))" by (metis prod.collapse)
  with assms(2) Ok have res: "r = q" "s' = s\<lparr>ci_fd := c\<rparr>"
    by (auto simp: process_initiator_response_def on_fd_def on_part_def)
  from assms(1) have "device_ok oc ops (ci_fd s)" by (simp add: interface_ok_def)
  then have "q \<noteq> Panic"
    using response_step_post [OF device_ok_inv _ run] by (simp add: device_ok_def)
  with res fd_step.response [where oc = oc, OF run this] show ?thesis by (auto simp: device_moved_def)
next
  case (Err e)
  with assms(2) show ?thesis by (auto simp: process_initiator_response_def device_moved_def)
qed (use extract_not_Panic in simp)

lemma interface_ok_moved:
  assumes "interface_ok oc ops s" and "device_moved oc ops s s'" and "ci_busy s' = ci_busy s" and "ci_ctrl s' = ci_ctrl s"
  shows "interface_ok oc ops s'"
  using assms device_ok_step [of oc ops "ci_fd s"] unfolding interface_ok_def device_moved_def by metis

lemma interface_step_moved:
  assumes "interface_ok oc ops s" and "interface_step oc ops s e s'"
  shows "interface_ok oc ops s' \<and> device_moved oc ops s s'"
  using assms(2)
proof cases
  case (message b r b')
  with message_device [OF assms(1) message(3,2)] show ?thesis by simp
next
  case (tick b r b')
  with generate_device [OF tick(2)] interface_ok_moved [OF assms(1)] show ?thesis by blast
next
  case (answer b r b')
  with response_device [OF assms(1) answer(2)] interface_ok_moved [OF assms(1)] show ?thesis by blast
next
  case (moves p)
  have "device_moved oc ops s s'"
    using fd_step.platform [of oc ops "ci_fd s" p] by (auto simp: device_moved_def moves)
  with interface_ok_moved [OF assms(1) this] moves show ?thesis by simp
qed

section \<open>Runs\<close>

type_synonym 'p installation = "'p fd_ops \<times> 'p cmd_interface"

fun installed :: "'p installation \<Rightarrow> bool" where
  "installed (ops, s) \<longleftrightarrow> platform_wf ops \<and> standard_codes ops \<and>
     (\<exists>caps p. serves caps \<and> s = cmd_interface_new caps (fd_context_new p))"

fun installation_step :: "bool \<Rightarrow> 'p installation \<Rightarrow> interface_event \<Rightarrow> 'p installation \<Rightarrow> bool" where
  "installation_step oc (ops, s) e (ops', s') \<longleftrightarrow> ops' = ops \<and> interface_step oc ops s e s'"

fun installation_ok :: "bool \<Rightarrow> 'p installation \<Rightarrow> bool" where
  "installation_ok oc (ops, s) \<longleftrightarrow> interface_ok oc ops s"

fun installation_state :: "'p installation \<Rightarrow> firmware_device_state" where
  "installation_state (ops, s) = fi_state (ctx_internal (ci_fd s))"

lemma new_device_ok: "platform_wf ops \<Longrightarrow> standard_codes ops \<Longrightarrow> device_ok oc ops (fd_context_new p)"
  unfolding device_ok_def using fd_run_start [of oc ops p] by blast

lemma installed_ok: "installed i \<Longrightarrow> installation_ok oc i"
  by (cases i) (auto simp: interface_ok_def cmd_interface_new_def control_context_new_def new_device_ok)

interpretation interface: simulation installed "installation_step oc" installation_state protocol_step "installation_ok oc"
proof
  fix i :: "'a installation" and e i'
  assume ok: "installation_ok oc i" and step: "installation_step oc i e i'"
  obtain ops s s' where i: "i = (ops, s)" "i' = (ops, s')" using step by (cases i; cases i') auto
  with ok step have moved: "interface_ok oc ops s'" "device_moved oc ops s s'"
    using interface_step_moved [of oc ops s e s'] by auto
  from moved(1) i show "installation_ok oc i'" by simp
  from ok i have dev: "device_ok oc ops (ci_fd s)" by (simp add: interface_ok_def)
  from moved(2) show "installation_state i' = installation_state i \<or> protocol_step (installation_state i) (installation_state i')"
    using fd_step_post [OF _ device_ok_inv [OF dev]] dev by (auto simp: device_moved_def i device_ok_def)
qed (rule installed_ok)

text \<open>
  \<open>interface_run oc ops caps s tr\<close>: an interface was created with the table \<open>caps\<close> over a
  new device, and is now \<open>s\<close>; \<open>tr\<close> are the states its device went through.
\<close>

definition interface_run ::
  "bool \<Rightarrow> 'p fd_ops \<Rightarrow> protocol_capability list \<Rightarrow> 'p cmd_interface \<Rightarrow> firmware_device_state list \<Rightarrow> bool" where
  "interface_run oc ops caps =
     run_of (\<lambda>s. \<exists>p. s = cmd_interface_new caps (fd_context_new p)) (interface_step oc ops) (\<lambda>s. fi_state (ctx_internal (ci_fd s)))"

lemma interface_run_installed:
  assumes "interface_run oc ops caps s tr" and "platform_wf ops" and "standard_codes ops" and "serves caps"
  shows "run_of installed (installation_step oc) installation_state (ops, s) tr"
  using assms(1) unfolding interface_run_def
proof (induction rule: run_of.induct)
  case (run_start s)
  with assms(2-4) have "installed (ops, s)" by auto
  from run_of.run_start [of installed, OF this, of "installation_step oc" installation_state] show ?case by simp
next
  case (run_step s tr e s')
  then have "installation_step oc (ops, s) e (ops, s')" by simp
  from run_of.run_step [of installed, OF run_step.IH this] show ?case by simp
qed

text \<open>C1: the library can be driven in any order: after any sequence of messages, requests, responses and
  platform changes, the next call does not panic, whatever it is handed (a message of one byte or
  more), the interface is not left busy, and the device has followed the update protocol all along:
  its state is one it reached through every state on the way there.  This holds for a capability
  table that offers the base and the firmware update protocol only (\<open>serves\<close>), as the library's
  own table does, on a platform that fills its arrays with well-formed values (\<open>platform_wf\<close>)
  and does not answer with vendor-defined codes (\<open>standard_codes\<close>), in a build without overflow checks.
  A table that offers another protocol is excluded with reason: a request of it panics.\<close>

theorem interface_follows_protocol:
  assumes "interface_run False ops caps s tr" and "serves caps" and "platform_wf ops" and "standard_codes ops"
  shows "abstract_path protocol_step tr \<and> subseq (way_to (fi_state (ctx_internal (ci_fd s)))) tr \<and>
    (1 \<le> length buf \<longrightarrow> (\<exists>r s' buf'. handle_responder_msg ops (s, buf) = (r, (s', buf')) \<and> r \<noteq> Panic \<and> \<not> ci_busy s')) \<and>
    fst (generate_initiator_request False ops (s, buf)) \<noteq> Panic \<and>
    fst (process_initiator_response ops (s, buf)) \<noteq> Panic"
proof -
  have run: "run_of installed (installation_step False) installation_state (ops, s) tr"
    by (rule interface_run_installed [OF assms(1,3,4,2)])
  have ok: "interface_ok False ops s" using interface.run_inv [OF run] by simp
  have path: "abstract_path protocol_step tr" by (rule interface.run_path [OF run])
  have "subseq (way_to (installation_state (ops, s))) tr"
  proof (rule interface.run_milestones [OF _ way_to_step run])
    show "subseq (way_to (installation_state i)) [installation_state i]" if "installed i" for i :: "'a installation"
      using that by (cases i) (auto simp: cmd_interface_new_def fd_context_new_def fd_internal_default_def fd_internal_new_def)
  qed
  moreover have "\<exists>r s' buf'. handle_responder_msg ops (s, buf) = (r, (s', buf')) \<and> r \<noteq> Panic \<and> \<not> ci_busy s'" if "1 \<le> length buf"
  proof -
    obtain r s' buf' where run: "handle_responder_msg ops (s, buf) = (r, (s', buf'))" by (metis prod.collapse)
    with message_device [OF ok that run] show ?thesis by (auto simp: interface_ok_def)
  qed
  moreover have "fst (generate_initiator_request False ops (s, buf)) \<noteq> Panic"
  proof -
    obtain r s' buf' where run: "generate_initiator_request False ops (s, buf) = (r, (s', buf'))" by (metis prod.collapse)
    with generate_device [OF run] progress_no_panic [of False ops "ci_fd s"] ok show ?thesis by (auto simp: interface_ok_def)
  qed
  moreover have "fst (process_initiator_response ops (s, buf)) \<noteq> Panic"
  proof -
    obtain r s' buf' where run: "process_initiator_response ops (s, buf) = (r, (s', buf'))" by (metis prod.collapse)
    with response_device [OF ok run] show ?thesis by simp
  qed
  ultimately show ?thesis using path by simp
qed

lemma interface_run_start:
  "interface_run oc ops caps (cmd_interface_new caps (fd_context_new p)) [Idle]"
proof -
  have "fi_state (ctx_internal (ci_fd (cmd_interface_new caps (fd_context_new p)))) = Idle"
    by (simp add: cmd_interface_new_def fd_context_new_def fd_internal_default_def fd_internal_new_def)
  then show ?thesis
    unfolding interface_run_def
    using run_of.run_start [of "\<lambda>s. \<exists>p. s = cmd_interface_new caps (fd_context_new p)" "cmd_interface_new caps (fd_context_new p)"
        "interface_step oc ops" "\<lambda>s. fi_state (ctx_internal (ci_fd s))"] by auto
qed

lemma interface_run_step:
  "interface_run oc ops caps s tr \<Longrightarrow> interface_step oc ops s e s' \<Longrightarrow>
   interface_run oc ops caps s' (tr @ [fi_state (ctx_internal (ci_fd s'))])"
  unfolding interface_run_def by (rule run_of.run_step)

text \<open>A request for an update, as it arrives in the buffer.\<close>

definition update_message :: bytes where
  "update_message = 1 # on_wire [0x81, 5, 0x10, 0, 2, 0, 0, 1, 0, 1, 0, 0, 1, 2, 0x76, 0x31]"

theorem interface_follows_protocol_witness:
  "\<exists>s. fi_state (ctx_internal (ci_fd s)) = LearnComponents
     \<and> interface_run False test_fd_ops PLDM_PROTOCOL_CAPABILITIES s [Idle, LearnComponents]
     \<and> subseq (way_to LearnComponents) [Idle, LearnComponents]
     \<and> fst (generate_initiator_request False test_fd_ops (s, update_message)) \<noteq> Panic"
proof -
  have caps: "serves PLDM_PROTOCOL_CAPABILITIES"
    by (simp add: serves_def PLDM_PROTOCOL_CAPABILITIES_def)
  have start: "interface_run False test_fd_ops PLDM_PROTOCOL_CAPABILITIES test_interface [Idle]"
    unfolding test_interface_def first_context_def by (rule interface_run_start)
  define t where "t = handle_responder_msg test_fd_ops (test_interface, update_message)"
  have "fi_state (ctx_internal (ci_fd (fst (snd t)))) = LearnComponents" "1 \<le> length update_message"
    unfolding t_def by code_simp+
  moreover obtain r s b where run: "t = (r, (s, b))" by (metis prod.collapse)
  ultimately have st: "fi_state (ctx_internal (ci_fd s)) = LearnComponents"
    and step: "interface_step False test_fd_ops test_interface (ResponderMsg update_message) s"
    using interface_step.message [of test_fd_ops test_interface update_message r s b False] by (simp_all add: t_def)
  from interface_run_step [OF start step]
  have "interface_run False test_fd_ops PLDM_PROTOCOL_CAPABILITIES s [Idle, LearnComponents]" by (simp add: st)
  with interface_follows_protocol [OF this caps test_platform_wf test_standard_codes, of update_message] st show ?thesis by metis
qed

end
