(* ===== verification/Fd_Frame.thy ===== *)
theory Fd_Frame
  imports Fd_Machine
begin

text \<open>
  What a handler leaves alone.  \<open>keeps I m\<close> says that \<open>m\<close> preserves a property of the context
  whatever it returns, a panic included; the rules follow the shapes handlers are written in.
  Two uses of them: the arrays of the code keep their lengths and a component under update
  is fully known, and what a device does for one component leaves alone the others.
\<close>

section \<open>The calculus\<close>

definition keeps :: "('p fd_context \<Rightarrow> bool) \<Rightarrow> ('p, 'a) fd_handler \<Rightarrow> bool" where
  "keeps I m \<longleftrightarrow> (\<forall>c b. I c \<longrightarrow> I (fst (snd (m (c, b)))))"

named_theorems keeps_rules \<open>handlers that keep a property of the context are built from such handlers\<close>

lemma keepsI: "(\<And>c b. I c \<Longrightarrow> I (fst (snd (m (c, b))))) \<Longrightarrow> keeps I m"
  by (simp add: keeps_def)

lemma keepsD: "keeps I m \<Longrightarrow> I c \<Longrightarrow> I (fst (snd (m (c, b))))"
  by (simp add: keeps_def)

lemma keepsD': "keeps I m \<Longrightarrow> I c \<Longrightarrow> m (c, b) = (r, (c', b')) \<Longrightarrow> I c'"
  using keepsD [of I m c b] by simp

lemma keeps_pure [keeps_rules]: "keeps I (ret x)" "keeps I (fail e)" "keeps I (lift r)"
  by (simp_all add: keeps_def ret_def fail_def lift_def)

lemma keeps_abind: "keeps I m \<Longrightarrow> (\<And>x. keeps I (f x)) \<Longrightarrow> keeps I (abind m f)"
  unfolding keeps_def abind_def by (auto split: prod.split outcome.split) (metis fst_conv snd_conv)+

lemma keeps_self [keeps_rules]:
  "(\<And>c. I c \<Longrightarrow> keeps I (f (ctx_internal c))) \<Longrightarrow> keeps I (abind self_internal f)"
  by (simp add: keeps_def self_internal_def abind_def gets_def)

lemma keeps_payload [keeps_rules]: "(\<And>b. keeps I (f b)) \<Longrightarrow> keeps I (abind (gets snd) f)"
  by (simp add: keeps_def abind_def gets_def)

lemma keeps_update [keeps_rules]:
  "(\<And>c. I c \<Longrightarrow> I (c\<lparr>ctx_internal := f (ctx_internal c)\<rparr>)) \<Longrightarrow> keeps I (update_internal f)"
  by (simp add: keeps_def update_internal_def modify_def)

lemma keeps_call [keeps_rules]:
  "(\<And>c. I c \<Longrightarrow> I (c\<lparr>ctx_plat := snd (f (ctx_plat c))\<rparr>)) \<Longrightarrow> keeps I (call f)"
  unfolding keeps_def call_def by (auto split: prod.split sum.split) (metis snd_conv)+

lemma keeps_ask [keeps_rules]:
  "(\<And>c. I c \<Longrightarrow> I (c\<lparr>ctx_plat := snd (f (ctx_plat c))\<rparr>)) \<Longrightarrow> keeps I (ask f)"
  unfolding keeps_def ask_def by (auto split: prod.split) (metis snd_conv)

lemma keeps_call_out [keeps_rules]:
  "(\<And>c. I c \<Longrightarrow> I (c\<lparr>ctx_plat := snd (snd (f out (ctx_plat c)))\<rparr>)) \<Longrightarrow> keeps I (call_out f out)"
  unfolding call_out_def by (rule keeps_call) (auto split: prod.split sum.split, (metis snd_conv)+)

lemma keeps_failure [keeps_rules]: "keeps I (failure cc)"
  by (simp add: keeps_def failure_def on_payload_def split: prod.split)

lemma keeps_respond [keeps_rules]: "keeps I (respond m)"
  by (simp add: keeps_def respond_def on_payload_def split: prod.split)

lemma keeps_or_return [keeps_rules]:
  "(\<And>e. keeps I (h e)) \<Longrightarrow> (\<And>x. r = Ok x \<Longrightarrow> keeps I (k x)) \<Longrightarrow> keeps I (or_return r h k)"
  by (cases r) (simp_all add: keeps_def)

lemma keeps_with_request [keeps_rules]:
  "(\<And>b x. dec b = Ok x \<Longrightarrow> keeps I (k x)) \<Longrightarrow> keeps I (with_request dec k)"
proof (rule keepsI)
  fix c b assume k: "\<And>b x. dec b = Ok x \<Longrightarrow> keeps I (k x)" and c: "I c"
  have "keeps I (or_return (dec b) (\<lambda>e. failure (decode_failure_code e)) k)"
    by (intro keeps_or_return keeps_failure k)
  from keepsD [OF this c] show "I (fst (snd (with_request dec k (c, b))))"
    by (simp add: with_request_def)
qed

lemma keeps_respond_then [keeps_rules]: "keeps I on_ok \<Longrightarrow> keeps I (respond_then m on_ok)"
proof (rule keepsI)
  fix c b assume on_ok: "keeps I on_ok" and c: "I c"
  have "I (fst (snd (abind on_ok (\<lambda>_. ret n) (c, b'))))" for n :: nat and b'
    by (rule keepsD [of I, OF keeps_abind [OF on_ok keeps_pure(1)] c])
  then show "I (fst (snd (respond_then m on_ok (c, b))))"
    using c keepsD [of I "failure (base_cc_disc CC_InvalidLength)", OF keeps_failure c]
    by (auto simp: respond_then_def or_else_def on_payload_def split: prod.split outcome.split)
qed

lemma keeps_if [keeps_rules]:
  "(b \<Longrightarrow> keeps I m) \<Longrightarrow> (\<not> b \<Longrightarrow> keeps I n) \<Longrightarrow> keeps I (if b then m else n)"
  by simp

lemma keeps_option [keeps_rules]:
  "keeps I m \<Longrightarrow> (\<And>x. keeps I (f x)) \<Longrightarrow> keeps I (case x of None \<Rightarrow> m | Some x \<Rightarrow> f x)"
  by (cases x) simp_all

lemma keeps_pair [keeps_rules]: "(\<And>x y. keeps I (f x y)) \<Longrightarrow> keeps I (case p of (x, y) \<Rightarrow> f x y)"
  by (cases p) simp

section \<open>The initiator\<close>

text \<open>What the platform does for the component \<open>fc\<close> keeps \<open>K\<close>.\<close>

definition platform_keeps :: "'p fd_ops \<Rightarrow> firmware_component \<Rightarrow> ('p \<Rightarrow> bool) \<Rightarrow> bool" where
  "platform_keeps ops fc K \<longleftrightarrow> (\<forall>p. K p \<longrightarrow>
     K (snd (ops_now ops p)) \<and> K (snd (query_download_offset_and_length ops fc p))
     \<and> (\<forall>off data. K (snd (download_fw_data ops off data fc p))) \<and> K (snd (is_download_complete ops fc p))
     \<and> (\<forall>pr. K (snd (snd (ops_verify ops fc pr p)))) \<and> (\<forall>pr. K (snd (snd (ops_apply ops fc pr p))))
     \<and> K (snd (cancel_update_component ops fc p)))"

lemma platform_kept:
  assumes "platform_keeps ops fc K" and "K p"
  shows "K (snd (ops_now ops p))" "K (snd (query_download_offset_and_length ops fc p))"
    "K (snd (download_fw_data ops off data fc p))" "K (snd (is_download_complete ops fc p))"
    "K (snd (snd (ops_verify ops fc pr p)))" "K (snd (snd (ops_apply ops fc pr p)))"
    "K (snd (cancel_update_component ops fc p))"
  using assms by (simp_all add: platform_keeps_def)

text \<open>A property of the device's own state, and one of its platform.\<close>

definition within :: "(fd_internal \<Rightarrow> bool) \<Rightarrow> ('p \<Rightarrow> bool) \<Rightarrow> 'p fd_context \<Rightarrow> bool" where
  "within P K c \<longleftrightarrow> P (ctx_internal c) \<and> K (ctx_plat c)"

text \<open>What the device does to its own state when it sends a request leaves \<open>P\<close> alone.\<close>

locale sending_frame =
  fixes ops :: "'p fd_ops" and fc :: firmware_component and K :: "'p \<Rightarrow> bool" and P :: "fd_internal \<Rightarrow> bool"
  assumes plat: "platform_keeps ops fc K" and component: "P i \<Longrightarrow> fi_update_comp i = fc"
    and sending: "P i \<Longrightarrow> P (with_instance inst i)"
      "P i \<Longrightarrow> P (set_fd_req ReqSent complete res (Some inst) (Some cmd) (Some t) i)"
      "P i \<Longrightarrow> P (set_fd_download_state off len i)"
      "P i \<Longrightarrow> P (set_fd_verify_progress x i)" "P i \<Longrightarrow> P (set_fd_apply_progress x i)"
begin

lemma keeps_alloc_instance: "keeps (within P K) (alloc_instance oc)"
  unfolding alloc_instance_def
  by (intro keeps_abind keeps_rules)
     (auto simp: keeps_def on_ctx_def within_def alloc_next_instance_id_def Let_def sending
       split: option.split outcome.split)

lemma keeps_mark_sent: "keeps (within P K) (mark_sent ops complete res inst cmd)"
  unfolding mark_sent_def by (auto simp: within_def platform_kept [OF plat] sending intro!: keeps_rules keeps_abind)

lemma keeps_should_send: "keeps (within P K) (should_send_fd_request ops)"
  unfolding should_send_fd_request_def
  by (auto simp: within_def platform_kept [OF plat] split: fd_req_state.split intro!: keeps_self keeps_rules keeps_abind)

lemmas frame_simps = within_def platform_kept [OF plat] sending component
lemmas frame_intros = keeps_self keeps_payload keeps_mark_sent keeps_alloc_instance keeps_rules keeps_abind

lemma keeps_step: "keeps (within P K) (progress_step oc ops st)"
proof -
  have "keeps (within P K) (fd_progress_download oc ops)"
    unfolding fd_progress_download_def
    by (rule keeps_abind, rule keeps_should_send) (auto simp: frame_simps intro!: frame_intros)
  moreover have "keeps (within P K) (pldm_fd_progress_verify oc ops)"
    unfolding pldm_fd_progress_verify_def Let_def
    by (rule keeps_abind, rule keeps_should_send) (auto simp: frame_simps intro!: frame_intros)
  moreover have "keeps (within P K) (pldm_fd_progress_apply oc ops)"
    unfolding pldm_fd_progress_apply_def Let_def
    by (rule keeps_abind, rule keeps_should_send) (auto simp: frame_simps intro!: frame_intros)
  ultimately show ?thesis
    by (cases st) (simp_all add: progress_step_def keeps_pure)
qed

end

lemma response_cases_keep:
  "keeps I (process_request_fw_data_rsp ops) \<Longrightarrow> keeps I process_transfer_complete_rsp \<Longrightarrow>
   keeps I process_verify_complete_rsp \<Longrightarrow> keeps I process_apply_complete_rsp \<Longrightarrow>
   keeps I (case r of Ok RequestFirmwareData \<Rightarrow> process_request_fw_data_rsp ops
      | Ok TransferComplete \<Rightarrow> process_transfer_complete_rsp | Ok VerifyComplete \<Rightarrow> process_verify_complete_rsp
      | Ok ApplyComplete \<Rightarrow> process_apply_complete_rsp | _ \<Rightarrow> fail FdInitiatorModeError)"
  by (auto intro: keeps_pure split: outcome.split fw_update_cmd.split)

text \<open>Nor does what it does when it gives up or receives a response.\<close>

locale initiator_frame = sending_frame +
  assumes receiving: "P i \<Longrightarrow> P (set_fd_t1_update_ts t i)" "P i \<Longrightarrow> P (abandon_update i)"
      "P i \<Longrightarrow> P (set_fd_req ReqReady complete res None None None i)"
      "P i \<Longrightarrow> P (set_fd_req ReqFailed complete res None None None i)"
      "P i \<Longrightarrow> fi_state i = Download \<Longrightarrow> P (start_verify i)" "P i \<Longrightarrow> fi_state i = Verify \<Longrightarrow> P (start_apply i)"
      "P i \<Longrightarrow> fi_state i = Apply \<Longrightarrow> P (finish_apply i)"
begin

lemma keeps_set_ts: "keeps (within P K) (set_fd_t1_ts ops)"
  unfolding set_fd_t1_ts_def by (auto simp: frame_simps receiving intro!: keeps_rules keeps_abind)

lemma keeps_finish_phase:
  "(\<And>i. P i \<Longrightarrow> fi_state i = st \<Longrightarrow> P (f i)) \<Longrightarrow> keeps (within P K) (finish_phase st succeeded f)"
  by (auto simp: keeps_def finish_phase_def abind_def self_internal_def gets_def update_internal_def modify_def fail_def
      within_def receiving)

lemma keeps_progress: "keeps (within P K) (fd_progress oc ops)"
proof -
  have "keeps (within P K) (check_t1 ops)"
    unfolding check_t1_def by (auto simp: frame_simps receiving intro!: frame_intros)
  then show ?thesis
    unfolding fd_progress_def Let_def
    by (auto simp: frame_simps intro!: keeps_step keeps_set_ts frame_intros)
qed

lemma keeps_response: "keeps (within P K) (handle_response ops)"
proof -
  have "keeps (within P K) (process_request_fw_data_rsp ops)"
    unfolding process_request_fw_data_rsp_def Let_def by (auto simp: frame_simps receiving intro!: frame_intros)
  moreover have "keeps (within P K) process_transfer_complete_rsp" "keeps (within P K) process_verify_complete_rsp"
    "keeps (within P K) process_apply_complete_rsp"
    unfolding process_transfer_complete_rsp_def process_verify_complete_rsp_def process_apply_complete_rsp_def
    by (intro keeps_finish_phase; simp add: receiving)+
  ultimately show ?thesis
    unfolding handle_response_def Let_def by (auto intro!: keeps_set_ts frame_intros response_cases_keep)
qed

end

section \<open>What else the platform holds\<close>

lemma kept_component [simp]:
  "fi_update_comp (set_fd_t1_update_ts t i) = fi_update_comp i" "fi_max_xfer_size (set_fd_t1_update_ts t i) = fi_max_xfer_size i"
  "fi_update_comp (set_fd_req st b r n cmd tm i) = fi_update_comp i" "fi_max_xfer_size (set_fd_req st b r n cmd tm i) = fi_max_xfer_size i"
  "fi_update_comp (set_fd_download_state off len i) = fi_update_comp i" "fi_max_xfer_size (set_fd_download_state off len i) = fi_max_xfer_size i"
  "fi_update_comp (set_fd_verify_progress x i) = fi_update_comp i" "fi_max_xfer_size (set_fd_verify_progress x i) = fi_max_xfer_size i"
  "fi_update_comp (set_fd_apply_progress x i) = fi_update_comp i" "fi_max_xfer_size (set_fd_apply_progress x i) = fi_max_xfer_size i"
  "fi_update_comp (start_verify i) = fi_update_comp i" "fi_max_xfer_size (start_verify i) = fi_max_xfer_size i"
  "fi_update_comp (start_apply i) = fi_update_comp i" "fi_max_xfer_size (start_apply i) = fi_max_xfer_size i"
  "fi_update_comp (finish_apply i) = fi_update_comp i" "fi_max_xfer_size (finish_apply i) = fi_max_xfer_size i"
  "fi_update_comp (abandon_update i) = fi_update_comp i" "fi_max_xfer_size (abandon_update i) = fi_max_xfer_size i"
  "fi_max_xfer_size (with_instance inst i) = fi_max_xfer_size i"
  by (simp_all add: fd_setters start_verify_def start_apply_def finish_apply_def abandon_update_def
      fd_idle_timeout_def with_instance_def split: initiator_mode.split option.split)

definition component_is :: "firmware_component \<Rightarrow> u32 \<Rightarrow> fd_internal \<Rightarrow> bool" where
  "component_is fc m i \<longleftrightarrow> fi_update_comp i = fc \<and> fi_max_xfer_size i = m"

abbreviation updating :: "firmware_component \<Rightarrow> u32 \<Rightarrow> ('p \<Rightarrow> bool) \<Rightarrow> 'p fd_context \<Rightarrow> bool" where
  "updating fc m K \<equiv> within (component_is fc m) K"

lemma updating_frame: "platform_keeps ops fc K \<Longrightarrow> initiator_frame ops fc K (component_is fc m)"
  by unfold_locales (simp_all add: component_is_def)

section \<open>The component under update\<close>

text \<open>
  The code holds the component in a struct with a 32-byte array and two \<open>Option\<close> fields, which
  \<open>PassComponentTable\<close> leaves empty.  A component that is downloaded, verified or applied has both.
\<close>

definition component_known :: "fd_internal \<Rightarrow> bool" where
  "component_known i \<longleftrightarrow> wf_firmware_string (fc_version (fi_update_comp i)) \<and>
     (fi_state i \<in> initiator_states \<longrightarrow> fc_image_size (fi_update_comp i) \<noteq> None
        \<and> fc_update_option_flags (fi_update_comp i) = Some (fi_update_flags i))"

definition component_requested :: "fd_internal \<Rightarrow> bool" where
  "component_requested i \<longleftrightarrow> wf_firmware_string (fc_version (fi_update_comp i)) \<and>
     fc_image_size (fi_update_comp i) \<noteq> None \<and> fc_update_option_flags (fi_update_comp i) = Some (fi_update_flags i)"

lemma requested_known: "component_requested i \<Longrightarrow> component_known i"
  by (simp add: component_known_def component_requested_def)

lemma known_no_phase:
  "component_known i \<Longrightarrow> fi_update_comp j = fi_update_comp i \<Longrightarrow> fi_update_flags j = fi_update_flags i \<Longrightarrow>
   fi_state j = fi_state i \<or> fi_state j \<notin> initiator_states \<or> fi_state i \<in> initiator_states \<Longrightarrow> component_known j"
  by (auto simp: component_known_def)

abbreviation known_ctx :: "'p fd_context \<Rightarrow> bool" where
  "known_ctx c \<equiv> component_known (ctx_internal c)"

lemma keeps_update_then:
  "(\<And>c. I c \<Longrightarrow> J (c\<lparr>ctx_internal := f (ctx_internal c)\<rparr>)) \<Longrightarrow> keeps J m \<Longrightarrow> (\<And>c. J c \<Longrightarrow> I c) \<Longrightarrow>
   keeps I (abind (update_internal f) (\<lambda>_. m))"
  by (simp add: keeps_def abind_def update_internal_def modify_def)

lemma update_component_keeps: "keeps known_ctx (update_component_rsp ops)"
proof -
  have str: "wf_firmware_string \<lparr>str_type = t, str_len = ucqf_ver_str_len (ucq_fixed req), str_data = ucq_ver_str req\<rparr>"
    if "update_component_request_decode b = Ok req" for t req b
    using that update_component_request_parts.message_decode_Ok
    by (fastforce simp: update_component_request_decode_def wf_firmware_string_def)
  have start: "component_requested i \<Longrightarrow> component_requested (start_download i)" for i
    by (simp add: component_requested_def start_download_def Let_def fd_setters)
  note I = keeps_self keeps_rules keeps_abind
  have rest: "keeps (\<lambda>c. component_requested (ctx_internal c))
      (abind (call_out (get_firmware_parms ops) firmware_parameters_default) (\<lambda>(_, fp).
       abind (call (handle_component ops comp fp OpUpdateComponent)) (\<lambda>code.
       abind (lift (unwrap (compat_response_code_try_from (component_response_code_disc code)))) (\<lambda>compat.
       respond_then (enc code compat) (if code = CompCanBeUpdated then update_internal start_download else ret ())))))"
    for comp enc
    by (auto intro!: I start)
  have ts: "known_ctx c \<Longrightarrow> known_ctx (c\<lparr>ctx_internal := set_fd_t1_update_ts t (ctx_internal c)\<rparr>)" for c :: "'a fd_context" and t
    by (auto simp: fd_setters elim!: known_no_phase)
  have asked: "keeps known_ctx (set_fd_t1_ts ops)"
    unfolding set_fd_t1_ts_def by (auto intro!: I ts)
  show ?thesis
    unfolding update_component_rsp_def Let_def
    by (rule keeps_self, rule keeps_if, rule keeps_failure, rule keeps_abind, rule asked,
        rule keeps_with_request, rule keeps_update_then [OF _ rest])
       (auto simp: component_requested_def component_known_def fd_setters firmware_component_new_def str)
qed

text \<open>Every other handler leaves the component alone and starts no phase.\<close>

lemma known_updates:
  "component_known i \<Longrightarrow> component_known (set_fd_t1_update_ts t i)"
  "component_known i \<Longrightarrow> component_known (set_xfer_size n i)"
  "component_known i \<Longrightarrow> component_known (set_fd_req rs b r m cmd tm i)"
  "component_known i \<Longrightarrow> component_known (set_fd_download_state off len i)"
  "component_known i \<Longrightarrow> component_known (set_fd_verify_progress x i)"
  "component_known i \<Longrightarrow> component_known (set_fd_apply_progress x i)"
  "component_known i \<Longrightarrow> component_known (set_fd_idle reason i)"
  "component_known i \<Longrightarrow> st \<notin> initiator_states \<Longrightarrow> component_known (set_fd_state st i)"
  "component_known i \<Longrightarrow> component_known (with_instance inst i)"
  "component_known i \<Longrightarrow> component_known (abandon_update i)"
  "component_known i \<Longrightarrow> component_known (finish_apply i)"
  "component_known i \<Longrightarrow> fi_state i \<in> initiator_states \<Longrightarrow> component_known (start_verify i)"
  "component_known i \<Longrightarrow> fi_state i \<in> initiator_states \<Longrightarrow> component_known (start_apply i)"
  by (auto simp: component_known_def fd_setters with_instance_def abandon_update_def fd_idle_timeout_def
      finish_apply_def start_verify_def start_apply_def split: initiator_mode.split option.split)

interpretation known: initiator_frame ops fc "\<lambda>_. True" "\<lambda>i. component_known i \<and> fi_update_comp i = fc"
  by unfold_locales (auto simp: platform_keeps_def known_updates)

lemma known_from:
  fixes m :: "('p, 'a) fd_handler"
  assumes "\<And>fc. keeps (within (\<lambda>i. component_known i \<and> fi_update_comp i = fc) (\<lambda>_. True)) m"
  shows "keeps known_ctx m"
proof (rule keepsI)
  fix c :: "'p fd_context" and b assume "known_ctx c"
  with keepsD [OF assms [of "fi_update_comp (ctx_internal c)"], of c b]
  show "known_ctx (fst (snd (m (c, b))))" by (simp add: within_def)
qed

lemma known_progress: "keeps known_ctx (fd_progress oc ops)"
  by (rule known_from, rule known.keeps_progress)

lemma known_response: "keeps known_ctx (handle_response ops)"
  by (rule known_from, rule known.keeps_response)

lemma known_set_ts: "keeps known_ctx (set_fd_t1_ts ops)"
  by (rule known_from, rule known.keeps_set_ts)

lemmas known_intros = keeps_self keeps_payload known_set_ts keeps_rules keeps_abind

lemma known_request: "keeps known_ctx (process_fw_update_cmd ops op)"
proof -
  note I = known_intros and U = known_updates
  have "keeps known_ctx (query_devid_rsp ops)" "keeps known_ctx (get_firmware_parameters_rsp ops)"
    "keeps known_ctx (request_update_rsp ops)" "keeps known_ctx (pass_component_rsp ops)"
    unfolding query_devid_rsp_def get_firmware_parameters_rsp_def request_update_rsp_def pass_component_rsp_def Let_def
    by (auto simp: U intro!: I)
  moreover have "keeps known_ctx (activate_firmware_rsp ops)" "keeps known_ctx (cancel_update_component_rsp ops)"
    "keeps known_ctx (cancel_update_rsp ops)"
    unfolding activate_firmware_rsp_def cancel_update_component_rsp_def cancel_update_rsp_def Let_def
    by (auto simp: U intro!: I)
  moreover have "keeps known_ctx (component_command_params ops cls)" for cls
    unfolding component_command_params_def by (auto intro!: I)
  then have "keeps known_ctx (activate_pending_component_image_rsp ops)" "keeps known_ctx (update_security_revision_rsp ops)"
    unfolding activate_pending_component_image_rsp_def update_security_revision_rsp_def Let_def
    by (auto intro!: I)
  moreover have "keeps known_ctx (status_progress ops i)" for i
    unfolding status_progress_def by (auto intro!: I split: firmware_device_state.split)
  then have "keeps known_ctx (get_status_rsp ops)"
    unfolding get_status_rsp_def by (auto intro!: I)
  ultimately show ?thesis
    unfolding process_fw_update_cmd_def
    by (auto intro!: keeps_or_return keeps_failure simp: update_component_keeps split: fw_update_cmd.split)
qed

text \<open>C10: what the code's types promise of the component under update holds of the model in every reachable
  state, on any platform: its version string is an array of 32 bytes, no longer than that and
  zero behind its length; and a component that is downloaded, verified or applied has an image size,
  so that the default the code falls back to is never used, and its option flags are the ones the
  device reports.\<close>

theorem component_typed:
  assumes "fd_run oc ops c tr"
  shows "component_known (ctx_internal c)"
  using assms unfolding fd_run_def
proof (induction rule: run_of.induct)
  case (run_start c)
  have "component_known fd_internal_default"
    by (simp add: component_known_def fd_internal_default_def fd_internal_new_def firmware_component_default_def
        wf_firmware_string_def firmware_string_default_def padded_def)
  with run_start show ?case by (metis fd_context.select_convs(1) fd_context_new_def)
next
  case (run_step c tr e c')
  from run_step.hyps(2) run_step.IH show ?case
    by cases (auto dest: keepsD' [OF known_request] keepsD' [OF known_response] keepsD' [OF known_progress])
qed

text \<open>The component of the update of the tests, while it is downloaded.\<close>

theorem component_typed_witness:
  "\<exists>c :: u64 fd_context. fi_state (ctx_internal c) = Download \<and> fc_image_size (fi_update_comp (ctx_internal c)) \<noteq> None"
proof -
  obtain c where c: "fd_run False test_fd_ops c [Idle, LearnComponents, ReadyXfer, Download]"
    "fi_state (ctx_internal c) = Download" by (rule start_of_update_run)
  from component_typed [OF c(1)] c(2) show ?thesis by (auto simp: component_known_def)
qed

end
