(* ===== verification/Fd_Builds.thy ===== *)
theory Fd_Builds
  imports Fd_Frame Fd_Timing
begin

text \<open>
  Two builds of one device.  The release build wraps where the debug build panics; where no sum
  overflows, they are the same function, and the debug build never does what the release
  build would not.
\<close>

section \<open>Agreement\<close>

definition agree :: "('p fd_context \<Rightarrow> bool) \<Rightarrow> ('p, 'a) fd_handler \<Rightarrow> ('p, 'a) fd_handler \<Rightarrow> bool" where
  "agree I m m' \<longleftrightarrow> (\<forall>c b. I c \<longrightarrow> m (c, b) = m' (c, b))"

lemma agree_refl: "agree I m m"
  by (simp add: agree_def)

lemma agree_abind:
  assumes "agree I m m'" and "keeps I m" and "\<And>x. agree I (f x) (f' x)"
  shows "agree I (abind m f) (abind m' f')"
  unfolding agree_def
proof (intro allI impI)
  fix c b assume c: "I c"
  obtain r c1 b1 where m: "m (c, b) = (r, (c1, b1))" by (metis surj_pair)
  with assms c keepsD' [OF assms(2) c m] show "abind m f (c, b) = abind m' f' (c, b)"
    by (cases r) (simp_all add: agree_def abind_def)
qed

lemma agree_before: "agree I m m' \<Longrightarrow> agree I (abind m f) (abind m' f)"
  by (simp add: agree_def abind_def)

lemma agree_self: "(\<And>c. I c \<Longrightarrow> agree I (f (ctx_internal c)) (f' (ctx_internal c))) \<Longrightarrow>
    agree I (abind self_internal f) (abind self_internal f')"
  by (simp add: agree_def self_internal_def abind_def gets_def)

lemma agree_if: "(b \<Longrightarrow> agree I m m') \<Longrightarrow> (\<not> b \<Longrightarrow> agree I n n') \<Longrightarrow>
    agree I (if b then m else n) (if b then m' else n')"
  by simp

section \<open>The initiator\<close>

text \<open>What the sums of the initiator depend on: instance ids and the image's size.\<close>

definition sized :: "u32 \<Rightarrow> 'p fd_context \<Rightarrow> bool" where
  "sized n c \<longleftrightarrow> req_ok (fi_req (ctx_internal c)) \<and> image_size (ctx_internal c) = n"

lemma sized_alloc: "agree (sized n) (alloc_instance True) (alloc_instance False)"
proof -
  have "add_checked True inst (1 :: u8) = add_checked False inst 1" if "inst < INSTANCE_ID_COUNT" for inst
    using that by (simp add: add_checked_def word_less_alt)
  then show ?thesis
    by (auto simp: agree_def sized_def req_ok_def alloc_instance_def alloc_next_instance_id_def abind_def on_ctx_def
        split: option.split)
qed

lemma sized_keeps:
  "keeps (sized n) (ask g)" "keeps (sized n) (call h)" "keeps (sized n) (call_out k out)"
  by (auto simp: sized_def intro!: keeps_rules)

lemma sized_keeps_alloc: "keeps (sized n) (alloc_instance oc)"
proof (rule keepsI)
  fix c :: "'a fd_context" and b assume c: "sized n c"
  then obtain k where k: "alloc_next_instance_id oc (ctx_internal c) = (Ok (Some k), with_instance k (ctx_internal c))" "k < 32"
    using alloc_next_instance_id_ok [of "ctx_internal c" oc] by (auto simp: sized_def)
  have "fst (snd (alloc_instance oc (c, b))) = c\<lparr>ctx_internal := with_instance k (ctx_internal c)\<rparr>"
    using k(1) by (simp add: alloc_instance_def abind_def on_ctx_def lift_def)
  with c k(2) show "sized n (fst (snd (alloc_instance oc (c, b))))"
    by (simp add: sized_def with_instance_def req_ok_def)
qed

lemma sized_keeps_should_send: "keeps (sized n) (should_send_fd_request ops)"
  unfolding should_send_fd_request_def
  by (auto split: fd_req_state.split intro!: keeps_self sized_keeps keeps_abind keeps_rules)

lemma sized_abandon: "sized n c \<Longrightarrow> sized n (c\<lparr>ctx_internal := abandon_update (ctx_internal c)\<rparr>)"
proof -
  have "req_ok (fi_req (abandon_update i))" for i
    by (simp add: abandon_update_def fd_setters req_ok_def)
  then show "sized n c \<Longrightarrow> ?thesis" by (simp add: sized_def)
qed

lemma sized_keeps_check_t1: "keeps (sized n) (check_t1 ops)"
  unfolding check_t1_def by (auto intro!: keeps_self sized_keeps sized_abandon keeps_abind keeps_rules)

lemma agree_call:
  assumes "keeps I (call g)" and "\<And>x p p'. g p = (Inr x, p') \<Longrightarrow> agree I (f x) (f' x)"
  shows "agree I (abind (call g) f) (abind (call g) f')"
  unfolding agree_def
proof (intro allI impI)
  fix c b assume c: "I c"
  obtain r p where g: "g (ctx_plat c) = (r, p)" by fastforce
  show "abind (call g) f (c, b) = abind (call g) f' (c, b)"
    using keepsD [OF assms(1) c, of b] assms(2) g by (cases r) (simp_all add: call_def abind_def agree_def)
qed

lemma chunk_agrees:
  assumes "no_overflow ops n" and "query_download_offset_and_length ops fc p = (Inr (off, len), p')" and "image_size i = n"
  shows "get_fd_download_chunk True (of_nat off) (of_nat len) i = get_fd_download_chunk False (of_nat off) (of_nat len) i"
proof -
  have "uint (of_nat off :: u32) + uint (of_nat len :: u32) < 2 ^ 32" "uint n + 32 < 2 ^ 32"
    using assms(1,2) unfolding no_overflow_def by blast+
  then show ?thesis
    using assms(3) by (simp add: get_fd_download_chunk_def add_checked_def Let_def)
qed

lemma progress_agrees:
  assumes "no_overflow ops n"
  shows "agree (sized n) (fd_progress True ops) (fd_progress False ops)"
proof -
  note send = agree_abind [OF agree_refl sized_keeps_should_send] and alloc = agree_abind [OF sized_alloc sized_keeps_alloc]
  have "keeps (sized n) (update_internal (set_fd_verify_progress x))" "keeps (sized n) (update_internal (set_fd_apply_progress x))" for x
    by (intro keeps_rules; simp add: sized_def)+
  note keep = sized_keeps this
  have "agree (sized n) (fd_progress_download True ops) (fd_progress_download False ops)"
    unfolding fd_progress_download_def
    by (rule send, rule agree_if, rule agree_refl, rule alloc, rule agree_self, rule agree_if, rule agree_refl,
        rule agree_call [OF sized_keeps(2)]) (auto simp: chunk_agrees [OF assms] sized_def agree_refl)
  moreover have "agree (sized n) (pldm_fd_progress_verify True ops) (pldm_fd_progress_verify False ops)"
    unfolding pldm_fd_progress_verify_def Let_def
    by (rule send, rule agree_if, rule agree_refl, rule agree_self, rule agree_if)
       (auto intro!: agree_abind [OF agree_refl] keep alloc agree_refl agree_if)
  moreover have "agree (sized n) (pldm_fd_progress_apply True ops) (pldm_fd_progress_apply False ops)"
    unfolding pldm_fd_progress_apply_def Let_def
    by (rule send, rule agree_if, rule agree_refl, rule agree_self, rule agree_if)
       (auto intro!: agree_abind [OF agree_refl] keep alloc agree_refl agree_if)
  ultimately have "agree (sized n) (progress_step True ops st) (progress_step False ops st)" for st
    by (cases st) (simp_all add: progress_step_def agree_refl)
  then show ?thesis
    unfolding fd_progress_def Let_def
    by (intro agree_self agree_if agree_refl agree_abind [OF agree_refl sized_keeps_check_t1] agree_before)
qed

text \<open>C9: the debug build and the release build are one program as long as no sum overflows: in every
  reachable state on a platform that meets \<open>platform_wf\<close> and \<open>standard_codes\<close>, whatever the bytes, \<open>fd_progress\<close> with overflow checks returns and does exactly
  what it does without them, if the announced image size plus the padding, and the offset plus the
  length the platform asks for, fit into 32 bits.  And whatever the sums, the debug build only
  panics where it differs: each of its runs is a run of the release build.\<close>

theorem builds_agree:
  assumes "fd_run oc ops c tr" and "platform_wf ops" and "standard_codes ops"
  shows "(no_overflow ops (image_size (ctx_internal c)) \<longrightarrow> fd_progress True ops (c, b) = fd_progress False ops (c, b))
    \<and> fd_run False ops c tr"
proof
  have "sized (image_size (ctx_internal c)) c"
    using fd_run_inv [OF assms] by (simp add: sized_def fd_inv_def)
  with progress_agrees show "no_overflow ops (image_size (ctx_internal c)) \<longrightarrow> fd_progress True ops (c, b) = fd_progress False ops (c, b)"
    by (auto simp: agree_def)
  have step: "fd_step False ops c e c'" if "fd_step oc ops c e c'" for c e c'
    using that
  proof cases
    case (progress b r b')
    then have "fd_progress False ops (c, b) = (r, (c', b'))"
      using fd_progress_upto [of oc ops] unfolding upto_panic_def by (metis fst_conv)
    with progress show ?thesis by (auto intro: fd_step.intros)
  qed (auto intro: fd_step.intros)
  show "fd_run False ops c tr"
    using assms(1) unfolding fd_run_def by (induction rule: run_of.induct) (auto intro: run_of.intros step)
qed

text \<open>The update of the tests, of a component of at most \<open>2 ^ 31\<close> bytes.\<close>

theorem builds_agree_witness:
  "\<exists>c :: u64 fd_context. fi_state (ctx_internal c) = Download \<and> no_overflow test_fd_ops (image_size (ctx_internal c))
     \<and> fd_progress True test_fd_ops (c, on_wire []) = fd_progress False test_fd_ops (c, on_wire [])"
proof -
  have "map_option (\<lambda>(c, tr). (tr, image_size (ctx_internal c))) (fd_drive False test_fd_ops start_of_update first_context) =
    Some ([LearnComponents, ReadyXfer, Download], 32)"
    by code_simp
  then obtain c where c: "fd_drive False test_fd_ops start_of_update (fd_context_new 1000) = Some (c, [LearnComponents, ReadyXfer, Download])"
    "image_size (ctx_internal c) = 32"
    by (auto simp: first_context_def)
  have "fi_state (ctx_internal c) = Download" using drive_last [OF c(1)] by simp
  moreover have "no_overflow test_fd_ops (image_size (ctx_internal c))"
    unfolding c(2) by (simp add: no_overflow_def test_fd_ops_def)
  ultimately show ?thesis
    using builds_agree [OF fd_drive_from_start [OF c(1)] test_platform_wf test_standard_codes] by blast
qed

end
