(* ===== verification/Fd_Campaign.thy ===== *)
theory Fd_Campaign
  imports Fd_Update Fd_Frame
begin

text \<open>
  A whole update: several components, one after the other, and their activation.  What the
  platform does for one component leaves the others it has stored alone, so that at the end
  it holds the image of every component.
\<close>

section \<open>Frame of a round\<close>

lemma update_round_keeps:
  assumes "platform_keeps ops fc K" and "updating fc m K c" and "update_round oc ops img b c = Some c'"
  shows "updating fc m K c'"
proof -
  obtain n c1 b1 where progress: "fd_progress oc ops (c, b) = (Ok n, (c1, b1))"
    using assms(3) by (auto simp: update_round_def split: prod.splits outcome.splits)
  have c1: "updating fc m K c1"
    by (rule keepsD' [OF initiator_frame.keeps_progress [OF updating_frame [OF assms(1)]] assms(2) progress])
  show ?thesis
  proof (cases "n = 0")
    case False
    with assms(3) progress obtain r b2 where "handle_response ops (c1, ua_answer img (take n b1)) = (r, (c', b2))"
      by (auto simp: update_round_def split: prod.splits outcome.splits)
    from keepsD' [OF initiator_frame.keeps_response [OF updating_frame [OF assms(1)]] c1 this] show ?thesis .
  qed (use assms(3) progress c1 in \<open>simp add: update_round_def\<close>)
qed

lemma update_rounds_keep:
  assumes "platform_keeps ops fc K"
  shows "updating fc m K c \<Longrightarrow> update_rounds oc ops img b n c = Some c' \<Longrightarrow> updating fc m K c'"
  by (induction n arbitrary: c) (auto split: option.splits dest: update_round_keeps [OF assms])

section \<open>The platform\<close>

text \<open>
  The Update Agent's side of one component: the message that requests its update, and its image.
\<close>

type_synonym package = "bytes \<times> bytes"

definition package_component :: "package \<Rightarrow> firmware_component" where
  "package_component u =
     (case update_component_request_decode (fst u) of Ok req \<Rightarrow> requested_component req | _ \<Rightarrow> firmware_component_default)"

definition well_packaged :: "package \<Rightarrow> bool" where
  "well_packaged u \<longleftrightarrow>
     (case update_component_request_decode (fst u) of Ok req \<Rightarrow> ucqf_image_size (ucq_fixed req) = of_nat (length (snd u)) | _ \<Rightarrow> False)
     \<and> 12 \<le> length (fst u) \<and> 0 < length (snd u) \<and> length (snd u) + 32 < 2 ^ 32"

text \<open>
  A platform that can update the components of a package: it accepts each of them, starting with
  nothing stored, stores, verifies and applies its image, and does not touch the others.
\<close>

definition accepts :: "'p fd_ops \<Rightarrow> (firmware_component \<Rightarrow> 'p \<Rightarrow> bytes) \<Rightarrow> firmware_component \<Rightarrow> bool" where
  "accepts ops stored fc \<longleftrightarrow> (\<forall>p. \<exists>fp p1 p2.
     get_firmware_parms ops firmware_parameters_default p = (Inr (), fp, p1) \<and>
     handle_component ops fc fp OpUpdateComponent p1 = (Inr CompCanBeUpdated, p2) \<and> stored fc p2 = [] \<and>
     (\<forall>other. other \<noteq> fc \<longrightarrow> stored other p2 = stored other p))"

definition updates :: "'p fd_ops \<Rightarrow> (firmware_component \<Rightarrow> 'p \<Rightarrow> bytes) \<Rightarrow> ('p \<Rightarrow> nat) \<Rightarrow> nat \<Rightarrow> package \<Rightarrow> bool" where
  "updates ops stored left w u \<longleftrightarrow>
     (let fc = package_component u in
      accepts ops stored fc \<and> stores_in_order ops fc (stored fc) (length (snd u)) \<and>
      checks_component ops fc (stored fc) (snd u) left w \<and>
      (\<forall>other x. other \<noteq> fc \<longrightarrow> platform_keeps ops fc (\<lambda>p. stored other p = x)))"

section \<open>The update\<close>

text \<open>Per component, the request and a number of rounds.\<close>

fun campaign :: "bool \<Rightarrow> 'p fd_ops \<Rightarrow> bytes \<Rightarrow> (package \<times> nat) list \<Rightarrow> 'p fd_context \<Rightarrow> 'p fd_context option" where
  "campaign oc ops b [] c = Some c"
| "campaign oc ops b (((req, img), n) # us) c =
     (case process_fw_update_cmd ops (fw_update_cmd_disc UpdateComponent) (c, req) of
        (Ok _, (c1, _)) \<Rightarrow>
          (case update_rounds oc ops img b n c1 of None \<Rightarrow> None | Some c2 \<Rightarrow> campaign oc ops b us c2)
      | _ \<Rightarrow> None)"

text \<open>Between two components\<close>

definition ready_for_next :: "'p fd_context \<Rightarrow> bool" where
  "ready_for_next c \<longleftrightarrow> fi_state (ctx_internal c) = ReadyXfer \<and> 0 < fi_max_xfer_size (ctx_internal c)"

lemma start_component:
  assumes "updates ops stored left w (req, img)" and "well_packaged (req, img)" and "ready_for_next c"
  defines "fc \<equiv> package_component (req, img)"
  shows "\<exists>c1 b1. process_fw_update_cmd ops (fw_update_cmd_disc UpdateComponent) (c, req) = (Ok 12, (c1, b1))
    \<and> transferring fc (stored fc) img 0 c1 \<and> fi_max_xfer_size (ctx_internal c1) = fi_max_xfer_size (ctx_internal c)
    \<and> fc_image_size fc = Some (of_nat (length img))
    \<and> (\<forall>other. other \<noteq> fc \<longrightarrow> stored other (ctx_plat c1) = stored other (ctx_plat c))"
proof -
  obtain r where r: "update_component_request_decode req = Ok r" "ucqf_image_size (ucq_fixed r) = of_nat (length img)"
    and wf: "12 \<le> length req" "0 < length img"
    using assms(2) by (auto simp: well_packaged_def split: outcome.splits)
  have fc: "fc = requested_component r" using r(1) by (simp add: fc_def package_component_def)
  have size: "fc_image_size fc = Some (of_nat (length img))"
    using r(2) by (simp add: fc requested_component_def firmware_component_new_def Let_def)
  have plat: "accepts ops stored fc" and kept: "\<And>other x. other \<noteq> fc \<Longrightarrow> platform_keeps ops fc (\<lambda>p. stored other p = x)"
    using assms(1) by (auto simp: updates_def fc_def Let_def)
  obtain now p1 where now: "ops_now ops (ctx_plat c) = (now, p1)" by fastforce
  have p1: "stored other p1 = stored other (ctx_plat c)" if "other \<noteq> fc" for other
    using platform_kept(1) [OF kept [OF that, of "stored other (ctx_plat c)"], of "ctx_plat c"] now by simp
  obtain fp p2 p3 where "get_firmware_parms ops firmware_parameters_default p1 = (Inr (), fp, p2)"
    "handle_component ops fc fp OpUpdateComponent p2 = (Inr CompCanBeUpdated, p3)"
    and p3: "stored fc p3 = []" "\<And>other. other \<noteq> fc \<Longrightarrow> stored other p3 = stored other p1"
    using plat unfolding accepts_def by meson
  from update_component_step [OF _ r(1) wf(1) now this(1) this(2) [unfolded fc]] assms(3)
  obtain c1 b1 where c1: "process_fw_update_cmd ops (fw_update_cmd_disc UpdateComponent) (c, req) = (Ok 12, (c1, b1))"
    "ctx_plat c1 = p3" "fi_max_xfer_size (ctx_internal c1) = fi_max_xfer_size (ctx_internal c)"
    "fi_update_comp (ctx_internal c1) = fc" "fi_state (ctx_internal c1) = Download"
    "fi_req (ctx_internal c1) = ready_req False None" "get_fd_download_state (ctx_internal c1) = Some (0, 0)"
    unfolding fc by (auto simp: ready_for_next_def simp del: ready_req_def)
  have "transferring fc (stored fc) img 0 c1"
    using c1 p3(1) wf(2) assms(3) by (simp add: transferring_def ready_for_next_def)
  with c1(1-3) p1 p3(2) size show ?thesis by auto
qed

lemma ex_other_component: "\<exists>o'. o' \<noteq> (fc :: firmware_component)"
proof -
  have "fc\<lparr>fc_identifier := fc_identifier fc + 1\<rparr> \<noteq> fc"
    by (cases fc) simp
  then show ?thesis by blast
qed

lemma component_step:
  assumes "updates ops stored left w (req, img)" and "well_packaged (req, img)" and "ready_for_next c" and "11 \<le> length b"
  defines "fc \<equiv> package_component (req, img)"
  shows "\<exists>n c'. n \<le> length img + 1 + 2 * w \<and> (\<forall>us. campaign oc ops b (((req, img), n) # us) c = campaign oc ops b us c')
    \<and> ready_for_next c' \<and> stored fc (ctx_plat c') = img
    \<and> (\<forall>other. other \<noteq> fc \<longrightarrow> stored other (ctx_plat c') = stored other (ctx_plat c))"
proof -
  obtain c1 b1 where c1: "process_fw_update_cmd ops (fw_update_cmd_disc UpdateComponent) (c, req) = (Ok 12, (c1, b1))"
    "transferring fc (stored fc) img 0 c1" "fi_max_xfer_size (ctx_internal c1) = fi_max_xfer_size (ctx_internal c)"
    "fc_image_size fc = Some (of_nat (length img))"
    "\<And>other. other \<noteq> fc \<Longrightarrow> stored other (ctx_plat c1) = stored other (ctx_plat c)"
    using start_component [OF assms(1-3)] by (auto simp: fc_def)
  have plat: "stores_in_order ops fc (stored fc) (length img)" "checks_component ops fc (stored fc) img left w"
    and kept: "\<And>other x. other \<noteq> fc \<Longrightarrow> platform_keeps ops fc (\<lambda>p. stored other p = x)"
    and img: "0 < length img" "length img + 32 < 2 ^ 32"
    using assms(1,2) by (auto simp: updates_def well_packaged_def fc_def Let_def)
  obtain n c' where c': "n \<le> length img + 1 + 2 * w" "update_rounds oc ops img b n c1 = Some c'" "in_phase ReadyXfer fc (stored fc) img c'"
    using component_rounds [OF plat c1(4) img(2,1) assms(4) c1(2), of oc] by auto
  let ?m = "fi_max_xfer_size (ctx_internal c1)"
  have other: "stored other (ctx_plat c') = stored other (ctx_plat c1) \<and> fi_max_xfer_size (ctx_internal c') = ?m"
    if "other \<noteq> fc" for other
    using update_rounds_keep [OF kept [OF that, of "stored other (ctx_plat c1)"] _ c'(2), of ?m] c1(2)
    by (simp add: within_def component_is_def transferring_def)
  obtain o' where "o' \<noteq> fc" using ex_other_component by blast
  with other have "fi_max_xfer_size (ctx_internal c') = ?m" by blast
  with c' c1 other assms(3) show ?thesis
    by (intro exI [of _ n] exI [of _ c']) (auto simp: ready_for_next_def in_phase_def)
qed

lemma campaign_completes:
  assumes "list_all (updates ops stored left w) us" and "list_all well_packaged us"
    and "distinct (map package_component us)" and "11 \<le> length b"
  shows "ready_for_next c \<Longrightarrow> \<exists>ns c'. list_all2 (\<lambda>n u. n \<le> length (snd u) + 1 + 2 * w) ns us
    \<and> campaign oc ops b (zip us ns) c = Some c' \<and> ready_for_next c'
    \<and> list_all (\<lambda>u. stored (package_component u) (ctx_plat c') = snd u) us
    \<and> (\<forall>other. other \<notin> package_component ` set us \<longrightarrow> stored other (ctx_plat c') = stored other (ctx_plat c))"
  using assms(1-3)
proof (induction us arbitrary: c)
  case Nil
  then show ?case by (intro exI [of _ "[]"] exI [of _ c]) simp
next
  case (Cons u us)
  obtain req img where u: "u = (req, img)" by (cases u)
  obtain n c1 where c1: "n \<le> length img + 1 + 2 * w" "\<And>us. campaign oc ops b (((req, img), n) # us) c = campaign oc ops b us c1"
    "ready_for_next c1" "stored (package_component u) (ctx_plat c1) = img"
    "\<And>other. other \<noteq> package_component u \<Longrightarrow> stored other (ctx_plat c1) = stored other (ctx_plat c)"
    using component_step [OF _ _ Cons.prems(1) assms(4), of ops stored left w req img oc] Cons.prems(2,3) u by auto
  obtain ns c' where c': "list_all2 (\<lambda>n u. n \<le> length (snd u) + 1 + 2 * w) ns us" "campaign oc ops b (zip us ns) c1 = Some c'"
    "ready_for_next c'" "list_all (\<lambda>u. stored (package_component u) (ctx_plat c') = snd u) us"
    "\<And>other. other \<notin> package_component ` set us \<Longrightarrow> stored other (ctx_plat c') = stored other (ctx_plat c1)"
    using Cons.IH [OF c1(3)] Cons.prems(2-4) by auto
  have "stored (package_component u) (ctx_plat c') = img"
    using c'(5) [of "package_component u"] c1(4) Cons.prems(4) by simp
  with c1 c' u show ?case
    by (intro exI [of _ "n # ns"] exI [of _ c']) simp
qed

section \<open>From idle to idle\<close>

text \<open>The component table, one entry after the other.\<close>

fun learn :: "'p fd_ops \<Rightarrow> bytes list \<Rightarrow> 'p fd_context \<Rightarrow> 'p fd_context option" where
  "learn ops [] c = Some c"
| "learn ops (e # es) c =
     (case process_fw_update_cmd ops (fw_update_cmd_disc PassComponentTable) (c, e) of
        (Ok _, (c1, _)) \<Rightarrow> learn ops es c1
      | _ \<Rightarrow> None)"

definition entry_flag :: "bytes \<Rightarrow> transfer_resp_flag option" where
  "entry_flag e =
     (case pass_component_request_decode e of
        Ok req \<Rightarrow> (case transfer_resp_flag_try_from (pcqf_transfer_flag (pcq_fixed req)) of Ok tflag \<Rightarrow> Some tflag | _ \<Rightarrow> None)
      | _ \<Rightarrow> None)"

definition last_entry :: "bytes \<Rightarrow> bool" where
  "last_entry e \<longleftrightarrow> entry_flag e = Some FlagEnd \<or> entry_flag e = Some FlagStartAndEnd"

text \<open>A table: entries that can be read, the last one and no other flagged as the last.\<close>

definition component_table :: "bytes list \<Rightarrow> bool" where
  "component_table es \<longleftrightarrow> es \<noteq> [] \<and> list_all (\<lambda>e. entry_flag e \<noteq> None \<and> 6 \<le> length e) es
     \<and> last_entry (last es) \<and> list_all (\<lambda>e. \<not> last_entry e) (butlast es)"

definition judges :: "'p fd_ops \<Rightarrow> bool" where
  "judges ops \<longleftrightarrow> (\<forall>p comp. \<exists>fp p1 code p2. get_firmware_parms ops firmware_parameters_default p = (Inr (), fp, p1) \<and>
     handle_component ops comp fp OpPassComponent p1 = (Inr code, p2))"

lemma pass_entry:
  assumes "judges ops" and "fi_state (ctx_internal c) = LearnComponents" and "entry_flag e \<noteq> None" and "6 \<le> length e"
  shows "\<exists>c1 b1. process_fw_update_cmd ops (fw_update_cmd_disc PassComponentTable) (c, e) = (Ok 6, (c1, b1))
    \<and> fi_state (ctx_internal c1) = (if last_entry e then ReadyXfer else LearnComponents)
    \<and> fi_max_xfer_size (ctx_internal c1) = fi_max_xfer_size (ctx_internal c)"
proof -
  obtain req tflag where req: "pass_component_request_decode e = Ok req"
    "transfer_resp_flag_try_from (pcqf_transfer_flag (pcq_fixed req)) = Ok tflag"
    using assms(3) by (auto simp: entry_flag_def split: outcome.splits)
  then have ends: "last_entry e \<longleftrightarrow> tflag = FlagEnd \<or> tflag = FlagStartAndEnd"
    by (simp add: last_entry_def entry_flag_def)
  obtain now p1 where now: "ops_now ops (ctx_plat c) = (now, p1)" by fastforce
  obtain fp p2 code p3 where "get_firmware_parms ops firmware_parameters_default p1 = (Inr (), fp, p2)"
    "handle_component ops (passed_component req) fp OpPassComponent p2 = (Inr code, p3)"
    using assms(1) unfolding judges_def by meson
  from pass_component_step [OF assms(2) req(1) assms(4) req(2) now this] assms(2) ends
  show ?thesis by (simp add: Let_def set_fd_t1_update_ts_def)
qed

lemma learn_completes:
  assumes "judges ops"
  shows "component_table es \<Longrightarrow> fi_state (ctx_internal c) = LearnComponents \<Longrightarrow>
    \<exists>c'. learn ops es c = Some c' \<and> fi_state (ctx_internal c') = ReadyXfer
      \<and> fi_max_xfer_size (ctx_internal c') = fi_max_xfer_size (ctx_internal c)"
proof (induction es arbitrary: c)
  case (Cons e es)
  from Cons.prems obtain c1 b1 where c1: "process_fw_update_cmd ops (fw_update_cmd_disc PassComponentTable) (c, e) = (Ok 6, (c1, b1))"
    "fi_state (ctx_internal c1) = (if last_entry e then ReadyXfer else LearnComponents)"
    "fi_max_xfer_size (ctx_internal c1) = fi_max_xfer_size (ctx_internal c)"
    using pass_entry [OF assms Cons.prems(2), of e] by (auto simp: component_table_def)
  show ?case
  proof (cases es)
    case Nil
    with Cons.prems c1 show ?thesis by (simp add: component_table_def)
  next
    case (Cons e' es')
    with Cons.prems have "component_table es" "\<not> last_entry e" by (auto simp: component_table_def)
    with Cons.IH [of c1] c1 show ?thesis by simp
  qed
qed (simp add: component_table_def)

text \<open>The whole of it: \<open>RequestUpdate\<close>, the table, the components, \<open>ActivateFirmware\<close>.\<close>

definition whole_campaign ::
  "bool \<Rightarrow> 'p fd_ops \<Rightarrow> bytes \<Rightarrow> bytes \<Rightarrow> bytes list \<Rightarrow> (package \<times> nat) list \<Rightarrow> bytes \<Rightarrow> 'p fd_context \<Rightarrow> 'p fd_context option" where
  "whole_campaign oc ops b request table us activate c =
     (case process_fw_update_cmd ops (fw_update_cmd_disc RequestUpdate) (c, request) of
        (Ok _, (c1, _)) \<Rightarrow>
          Option.bind (learn ops table c1) (\<lambda>c2.
          Option.bind (campaign oc ops b us c2) (\<lambda>c3.
            case process_fw_update_cmd ops (fw_update_cmd_disc ActivateFirmware) (c3, activate) of
              (Ok _, (c4, _)) \<Rightarrow> Some c4
            | _ \<Rightarrow> None))
      | _ \<Rightarrow> None)"

definition transfers :: "'p fd_ops \<Rightarrow> nat \<Rightarrow> bool" where
  "transfers ops limit \<longleftrightarrow> (\<forall>p. \<exists>n p'. ops_get_xfer_size ops limit p = (Inr n, p') \<and> 0 < (of_nat n :: u32))"

definition activates :: "'p fd_ops \<Rightarrow> (firmware_component \<Rightarrow> 'p \<Rightarrow> bytes) \<Rightarrow> u8 \<Rightarrow> bool" where
  "activates ops stored mode \<longleftrightarrow> (\<forall>p. \<exists>t p'. ops_activate ops mode 0 p = (Inr (base_cc_disc CC_Success), t, p')
     \<and> (\<forall>fc. stored fc p' = stored fc p))"

text \<open>C4: a whole update of any number of components can be carried through, on any platform that keeps
  its contract: from idle, an Update Agent that requests the update, passes its component table,
  requests the update of each component and answers the device's requests, in a bounded number of
  rounds per component, and activates the firmware, takes the device back to idle, with
  the activation as the reason; the platform then holds exactly the image of every component.\<close>

theorem campaign_delivers:
  assumes "list_all (updates ops stored left w) us" and "list_all well_packaged us"
    and "distinct (map package_component us)" and "11 \<le> length b"
    and "fi_state (ctx_internal c) = Idle" and "request_update_request_decode request = Ok req" and "7 \<le> length request"
    and "32 \<le> ruqf_max_transfer_size (ruq_fixed req)" and "transfers ops (unat (ruqf_max_transfer_size (ruq_fixed req)))"
    and "judges ops" and "component_table table"
    and "6 \<le> length activate" and "activate ! 3 = 0 \<or> activate ! 3 = 1" and "activates ops stored (activate ! 3)"
  shows "\<exists>ns c'. list_all2 (\<lambda>n u. n \<le> length (snd u) + 1 + 2 * w) ns us
    \<and> whole_campaign oc ops b request table (zip us ns) activate c = Some c'
    \<and> fi_state (ctx_internal c') = Idle \<and> fi_reason (ctx_internal c') = Some ReasonActivateFw
    \<and> list_all (\<lambda>u. stored (package_component u) (ctx_plat c') = snd u) us"
proof -
  obtain now p1 where now: "ops_now ops (ctx_plat c) = (now, p1)" by fastforce
  obtain n p2 where n: "ops_get_xfer_size ops (unat (ruqf_max_transfer_size (ruq_fixed req))) p1 = (Inr n, p2)"
    "0 < (of_nat n :: u32)"
    using assms(9) unfolding transfers_def by meson
  obtain c1 b1 where c1: "process_fw_update_cmd ops (fw_update_cmd_disc RequestUpdate) (c, request) = (Ok 7, (c1, b1))"
    "fi_state (ctx_internal c1) = LearnComponents" "0 < fi_max_xfer_size (ctx_internal c1)"
    using request_update_step [OF assms(5-7) now n(1)] assms(8) n(2) by (simp add: Let_def not_le [symmetric])
  obtain c2 where c2: "learn ops table c1 = Some c2" "ready_for_next c2"
    using learn_completes [OF assms(10,11) c1(2)] c1(3) by (auto simp: ready_for_next_def)
  obtain ns c3 where c3: "list_all2 (\<lambda>n u. n \<le> length (snd u) + 1 + 2 * w) ns us" "campaign oc ops b (zip us ns) c2 = Some c3"
    "ready_for_next c3" "list_all (\<lambda>u. stored (package_component u) (ctx_plat c3) = snd u) us"
    using campaign_completes [OF assms(1-4) c2(2)] by blast
  obtain t p4 where act: "ops_activate ops (activate ! 3) 0 (ctx_plat c3) = (Inr 0, t, p4)"
    "\<And>fc. stored fc p4 = stored fc (ctx_plat c3)"
    using assms(14) unfolding activates_def by (metis base_cc_disc.simps(1))
  obtain c4 b4 where c4: "process_fw_update_cmd ops (fw_update_cmd_disc ActivateFirmware) (c3, activate) = (Ok 6, (c4, b4))"
    "fi_state (ctx_internal c4) = Idle" "fi_reason (ctx_internal c4) = Some ReasonActivateFw" "ctx_plat c4 = p4"
    using activation_step [OF _ assms(12,13) act(1)] c3(3) by (simp add: ready_for_next_def)
  have "whole_campaign oc ops b request table (zip us ns) activate c = Some c4"
    using c1(1) c2(1) c3(2) c4(1) by (simp add: whole_campaign_def)
  with c3(1,4) c4 act(2) show ?thesis by auto
qed

section \<open>A platform\<close>

text \<open>Flash memory for every component, of the size that was announced for it.\<close>

definition flash_size :: "firmware_component \<Rightarrow> nat" where
  "flash_size fc = (case fc_image_size fc of None \<Rightarrow> 0 | Some n \<Rightarrow> unat n)"

definition flash_fd_ops :: "(firmware_component \<Rightarrow> bytes) fd_ops" where
  "flash_fd_ops = \<lparr>
     get_device_identifiers = (\<lambda>ds p. (Inr 0, ds, p)),
     get_firmware_parms = (\<lambda>fp p. (Inr (), fp, p)),
     ops_get_xfer_size = (\<lambda>n p. (Inr n, p)),
     handle_component = (\<lambda>fc _ op p. (Inr CompCanBeUpdated, if op = OpUpdateComponent then p(fc := []) else p)),
     query_download_offset_and_length = (\<lambda>fc p. (Inr (length (p fc), min 64 (flash_size fc - length (p fc))), p)),
     download_fw_data = (\<lambda>offset data fc p. (Inr TransferSuccess, p(fc := take offset (p fc) @ data))),
     is_download_complete = (\<lambda>fc p. (flash_size fc \<le> length (p fc), p)),
     query_download_progress = (\<lambda>_ _ p. (Inr (), progress_default, p)),
     ops_verify = (\<lambda>_ _ p. (Inr VerifySuccess, ProgressPercent 100, p)),
     ops_apply = (\<lambda>_ _ p. (Inr ApplySuccess, ProgressPercent 100, p)),
     ops_activate = (\<lambda>_ t p. (Inr (base_cc_disc CC_Success), t, p)),
     cancel_update_component = (\<lambda>fc p. (Inr (), p(fc := []))),
     handle_pending_component = (\<lambda>_ _ p. (Inr (PendingActivated 100), p)),
     get_non_functional_component_info = (\<lambda>p. (Inr (ComponentsFunctioning, 0), p)),
     ops_update_security_revision = (\<lambda>_ _ p. (Inr RevisionUpdated, p)),
     ops_now = (\<lambda>p. (5, p))\<rparr>"

lemma flash_updates:
  assumes "well_packaged u"
  shows "updates flash_fd_ops (\<lambda>fc p. p fc) (\<lambda>_. 0) 1 u"
proof -
  let ?fc = "package_component u"
  have "length (snd u) < 2 ^ 32" using assms by (auto simp: well_packaged_def)
  then have size: "flash_size ?fc = length (snd u)"
    using assms
    by (auto simp: well_packaged_def package_component_def flash_size_def requested_component_def
        firmware_component_new_def Let_def unat_of_nat split: outcome.splits)
  have "stores_in_order flash_fd_ops ?fc (\<lambda>p. p ?fc) (length (snd u))"
    by (auto simp: stores_in_order_def flash_fd_ops_def size min_def)
  moreover have "checks_component flash_fd_ops ?fc (\<lambda>p. p ?fc) (snd u) (\<lambda>_. 0) 1"
    by (simp add: checks_component_def works_on_def flash_fd_ops_def)
  moreover have "accepts flash_fd_ops (\<lambda>fc p. p fc) ?fc"
    by (simp add: accepts_def flash_fd_ops_def)
  moreover have "platform_keeps flash_fd_ops ?fc (\<lambda>p. p other = x)" if "other \<noteq> ?fc" for other x
    using that by (simp add: platform_keeps_def flash_fd_ops_def)
  ultimately show ?thesis by (simp add: updates_def Let_def)
qed

text \<open>Two components, of 300 and of 70 bytes.\<close>

definition first_package :: package where
  "first_package = (update_request, replicate 300 7)"

definition second_package :: package where
  "second_package = ([0x84, 5, 0x14, 10, 0, 2, 0, 0, 1, 0, 0, 0, 70, 0, 0, 0, 0, 0, 0, 0, 1, 2, 0x76, 0x32], replicate 70 9)"

lemma packages: "well_packaged first_package" "well_packaged second_package"
  "package_component first_package \<noteq> package_component second_package"
proof -
  have "map_ok (\<lambda>req. ucqf_image_size (ucq_fixed req)) (update_component_request_decode (fst second_package)) = Ok 70"
    by code_simp
  then obtain req where "update_component_request_decode (fst second_package) = Ok req" "ucqf_image_size (ucq_fixed req) = 70"
    by (rule map_ok_OkE)
  then show "well_packaged second_package"
    by (simp add: well_packaged_def second_package_def)
  show "well_packaged first_package"
    using update_request_decodes by (auto simp: well_packaged_def first_package_def update_request_def)
  have "fc_identifier (package_component first_package) = 1" "fc_identifier (package_component second_package) = 2"
    by code_simp+
  then show "package_component first_package \<noteq> package_component second_package" by auto
qed

theorem campaign_delivers_witness:
  "\<exists>ns c'. whole_campaign True flash_fd_ops (replicate 16 0)
       (on_wire [0x81, 5, 0x10, 0, 2, 0, 0, 1, 0, 1, 0, 0, 1, 2, 0x76, 0x31])
       [on_wire [0x82, 5, 0x13, 5, 10, 0, 1, 0, 0, 1, 0, 0, 0, 1, 2, 0x76, 0x31]]
       (zip [first_package, second_package] ns) (on_wire [0x84, 5, 0x1A, 0]) (fd_context_new (\<lambda>_. [])) = Some c'
     \<and> fi_state (ctx_internal c') = Idle
     \<and> ctx_plat c' (package_component first_package) = replicate 300 7
     \<and> ctx_plat c' (package_component second_package) = replicate 70 9"
proof -
  let ?ask = "on_wire [0x81, 5, 0x10, 0, 2, 0, 0, 1, 0, 1, 0, 0, 1, 2, 0x76, 0x31]"
  let ?entry = "on_wire [0x82, 5, 0x13, 5, 10, 0, 1, 0, 0, 1, 0, 0, 0, 1, 2, 0x76, 0x31]"
  have "map_ok (\<lambda>req. ruqf_max_transfer_size (ruq_fixed req)) (request_update_request_decode ?ask) = Ok 512" by code_simp
  then obtain req where req: "request_update_request_decode ?ask = Ok req" "ruqf_max_transfer_size (ruq_fixed req) = 512"
    by (rule map_ok_OkE)
  have "entry_flag ?entry = Some FlagStartAndEnd" by code_simp
  then have table: "component_table [?entry]" by (simp add: component_table_def last_entry_def on_wire_def)
  have idle: "fi_state (ctx_internal (fd_context_new (\<lambda>_. []))) = Idle"
    by (simp add: fd_context_new_def fd_internal_default_def fd_internal_new_def)
  have plat: "transfers flash_fd_ops 512" "judges flash_fd_ops" "activates flash_fd_ops (\<lambda>fc p. p fc) 0"
    by (simp_all add: transfers_def judges_def activates_def flash_fd_ops_def)
  from campaign_delivers [OF _ _ _ _ idle req(1) _ _ _ plat(2) table, where us = "[first_package, second_package]" and w = 1
      and stored = "\<lambda>fc p. p fc" and left = "\<lambda>_. 0" and b = "replicate 16 0" and activate = "on_wire [0x84, 5, 0x1A, 0]" and oc = True]
  show ?thesis
    using flash_updates [OF packages(1)] flash_updates [OF packages(2)] packages plat(1,3) req(2)
    by (auto simp: on_wire_def first_package_def second_package_def)
qed

end
