(* ===== verification/Fd_Silence.thy ===== *)
theory Fd_Silence
  imports Fd_Update Fd_Frame
begin

text \<open>
  What the device does when answers do not arrive: it repeats a request for data that was lost, and
  it ends the update when the Update Agent has fallen silent.
\<close>

section \<open>A lost answer\<close>

lemma next_instance:
  assumes "n < (32 :: u8)"
  shows "add_checked oc n 1 = (Ok (n + 1) :: (u8, msg_handler_error) outcome)" and "(n + 1) mod 32 \<noteq> n"
proof -
  have n: "unat n < 32" "uint n < 32" using assms by (simp add: word_less_nat_alt) (use assms in \<open>simp add: word_less_def\<close>)
  show "add_checked oc n 1 = (Ok (n + 1) :: (u8, msg_handler_error) outcome)"
    using n(2) by (simp add: add_checked_def)
  have "unat (n + 1) = unat n + 1" using n(1) by (simp add: unat_word_ariths)
  then have "unat ((n + 1) mod 32) = (unat n + 1) mod 32" by (simp add: unat_mod)
  moreover have "(unat n + 1) mod 32 \<noteq> unat n" using n(1) by (cases "unat n = 31") simp_all
  ultimately show "(n + 1) mod 32 \<noteq> n" by metis
qed

lemma exec_alloc_next:
  "req_instance_id (fi_req (ctx_internal c)) = Some n \<Longrightarrow> n < 32 \<Longrightarrow>
   abind (alloc_instance oc) k (c, b) = k ((n + 1) mod 32) (c\<lparr>ctx_internal := with_instance ((n + 1) mod 32) (ctx_internal c)\<rparr>, b)"
  by (simp add: alloc_instance_def alloc_next_instance_id_def next_instance(1) abind_def on_ctx_def lift_def)

lemma request_repeated:
  assumes "fd_run oc ops c tr" and "platform_wf ops" and "standard_codes ops"
    and "fi_state (ctx_internal c) = Download" and "req_state (fi_req (ctx_internal c)) = ReqSent"
    and "\<not> req_complete (fi_req (ctx_internal c))" and "req_instance_id (fi_req (ctx_internal c)) = Some n"
    and "req_sent_time (fi_req (ctx_internal c)) = Some t" and "t \<le> now"
    and "fi_t2_retry_time (ctx_internal c) \<le> now - t" and "\<not> t1_expired now (ctx_internal c)"
    and "ops_now ops (ctx_plat c) = (now, ctx_plat c)"
    and "query_download_offset_and_length ops (fi_update_comp (ctx_internal c)) (ctx_plat c) = (Inr (o', l'), p1)"
    and "get_fd_download_chunk oc (of_nat o') (of_nat l') (ctx_internal c) = Ok (Some (off, len))"
    and "ops_now ops p1 = (now2, p2)" and "11 \<le> length b"
  shows "\<exists>c' b'. fd_progress oc ops (c, b) = (Ok 11, (c', b'))
    \<and> take 11 b' = request_fw_data_request_bytes (request_fw_data_request_new ((n + 1) mod 32) MsgRequest off len)
    \<and> fi_req (ctx_internal c') = \<lparr>req_state = ReqSent, req_complete = False, req_result = None,
         req_instance_id = Some ((n + 1) mod 32), req_command = Some (fw_update_cmd_disc RequestFirmwareData),
         req_sent_time = Some now2\<rparr>
    \<and> fi_state (ctx_internal c') = Download \<and> get_fd_download_state (ctx_internal c') = Some (off, len)
    \<and> (n + 1) mod 32 \<noteq> n"
proof -
  have "fd_inv (ctx_internal c)" by (rule fd_run_inv [OF assms(1-3)])
  then have "n < 32" and dl: "get_fd_download_state (ctx_internal c) \<noteq> None"
    using assms(4,7) by (auto simp: fd_inv_def req_ok_def mode_ok_def get_fd_download_state_def split: initiator_mode.splits)
  let ?n = "(n + 1) mod 32"
  let ?msg = "request_fw_data_request_bytes (request_fw_data_request_new ?n MsgRequest off len)"
  let ?i = "set_fd_req ReqSent False None (Some ?n) (Some (fw_update_cmd_disc RequestFirmwareData)) (Some now2)
      (set_fd_download_state off len (with_instance ?n (ctx_internal c)))"
  let ?c = "c\<lparr>ctx_plat := p2, ctx_internal := ?i\<rparr>"
  have "fd_progress_download oc ops (c, b) = (Ok 11, (?c, splice 0 ?msg b))"
    using assms \<open>n < 32\<close>
    by (simp add: fd_progress_download_def exec_send exec_alloc_next exec abind_assoc blanket_fits mark_sent_def)
  moreover have "fd_progress oc ops (c, b) = fd_progress_download oc ops (c, b)"
    if "fd_progress_download oc ops (c, b) = (Ok 11, (?c, b'))" for b'
    using assms(4,5,11) that
    by (simp add: exec_now [OF assms(12) refl] fd_progress_def check_t1_def progress_step_def abind_assoc exec Let_def
        abind_def [of "fd_progress_download oc ops"] set_fd_req_def)
  ultimately have run: "fd_progress oc ops (c, b) = (Ok 11, (?c, splice 0 ?msg b))" by simp
  have req: "fi_req ?i = \<lparr>req_state = ReqSent, req_complete = False, req_result = None,
      req_instance_id = Some ?n, req_command = Some (fw_update_cmd_disc RequestFirmwareData), req_sent_time = Some now2\<rparr>"
    by (simp add: set_fd_req_def)
  have "take 11 (splice 0 ?msg b) = ?msg" by (simp add: splice_def layout)
  moreover have "fi_state ?i = Download" "get_fd_download_state ?i = Some (off, len)"
    using assms(4) dl by (simp_all add: fd_setters with_instance_def get_fd_download_state_def split: initiator_mode.splits)
  ultimately show ?thesis
    using run req next_instance(2) [OF \<open>n < 32\<close>] by (intro exI [of _ ?c] exI [of _ "splice 0 ?msg b"]) simp
qed

text \<open>Responses never make a request: an instance id that is not the outstanding one does not become it.\<close>

lemma response_keeps_other_id:
  "keeps (\<lambda>c. req_instance_id (fi_req (ctx_internal c)) \<noteq> Some n) (handle_response ops)"
proof -
  let ?I = "\<lambda>c. req_instance_id (fi_req (ctx_internal c)) \<noteq> Some n"
  have data: "keeps ?I (process_request_fw_data_rsp ops)"
    unfolding process_request_fw_data_rsp_def Let_def by (auto simp: fd_setters intro!: keeps_self keeps_payload keeps_rules keeps_abind)
  have finish: "keeps ?I (finish_phase st succeeded f)"
    if "\<And>i. req_instance_id (fi_req (f i)) = None" for st succeeded f
    using that by (auto simp: keeps_def finish_phase_def abind_def self_internal_def gets_def update_internal_def modify_def
        fail_def fd_setters)
  have "keeps ?I process_transfer_complete_rsp" "keeps ?I process_verify_complete_rsp" "keeps ?I process_apply_complete_rsp"
    unfolding process_transfer_complete_rsp_def process_verify_complete_rsp_def process_apply_complete_rsp_def
    by (intro finish; simp add: start_verify_def start_apply_def finish_apply_def fd_setters)+
  moreover have "keeps ?I (set_fd_t1_ts ops)"
    unfolding set_fd_t1_ts_def by (auto simp: fd_setters intro!: keeps_rules keeps_abind)
  ultimately show ?thesis
    unfolding handle_response_def Let_def
    by (auto simp: data intro!: keeps_self keeps_payload keeps_rules keeps_abind split: outcome.split fw_update_cmd.split)
qed

text \<open>C13: when the answer to a request for data is lost, the device asks again after the retry time: if the
  platform still wants the range it wanted before, the message it repeats is the first one, for the same
  offset and length, with the next instance id; the device remembers when it repeated it and what
  it asked for.  A late answer to the first request is then rejected without an effect, before the
  answer to the repetition arrives and after it or any other response has arrived, so that until the
  device makes its next request the chunk is not handed to the platform a second time.  (The clock of
  the platform does not change it while it is read for the repetition.)\<close>

theorem lost_request_repeated:
  assumes "fd_run oc ops c tr" and "platform_wf ops" and "standard_codes ops"
    and "fi_state (ctx_internal c) = Download" and "req_state (fi_req (ctx_internal c)) = ReqReady"
    and "\<not> req_complete (fi_req (ctx_internal c))"
    and "query_download_offset_and_length ops (fi_update_comp (ctx_internal c)) (snd (ops_now ops (ctx_plat c))) = (Inr rng, p1)"
    and "fd_progress oc ops (c, b) = (Ok m, (c1, b1))"
    and "ops_now ops q = (now, q)"
    and "query_download_offset_and_length ops (fi_update_comp (ctx_internal c)) q = (Inr rng, p2)"
    and "req_sent_time (fi_req (ctx_internal c1)) = Some t" and "t \<le> now"
    and "fi_t2_retry_time (ctx_internal c) \<le> now - t" and "\<not> t1_expired now (ctx_internal c)"
    and "11 \<le> length b'"
  shows "\<exists>n off len c2 b2. m = 11 \<and> req_instance_id (fi_req (ctx_internal c1)) = Some n
    \<and> take 11 b1 = request_fw_data_request_bytes (request_fw_data_request_new n MsgRequest off len)
    \<and> fd_progress oc ops (c1\<lparr>ctx_plat := q\<rparr>, b') = (Ok 11, (c2, b2))
    \<and> take 11 b2 = request_fw_data_request_bytes (request_fw_data_request_new ((n + 1) mod 32) MsgRequest off len)
    \<and> fi_req (ctx_internal c2) = \<lparr>req_state = ReqSent, req_complete = False, req_result = None,
         req_instance_id = Some ((n + 1) mod 32), req_command = Some (fw_update_cmd_disc RequestFirmwareData),
         req_sent_time = Some (fst (ops_now ops p2))\<rparr>
    \<and> fi_state (ctx_internal c2) = Download \<and> get_fd_download_state (ctx_internal c2) = Some (off, len)
    \<and> (\<forall>late. 3 \<le> length late \<and> instance_id (hdr_of (take 3 late)) = n \<longrightarrow>
         handle_response ops (c2, late) = (Err FdInitiatorModeError, (c2, late))
         \<and> (\<forall>rsp r c3 rsp'. handle_response ops (c2, rsp) = (r, (c3, rsp')) \<longrightarrow>
              handle_response ops (c3, late) = (Err FdInitiatorModeError, (c3, late))))"
proof -
  obtain o' l' where rng: "rng = (o', l')" by fastforce
  obtain n off len o0 l0 p0 p0' pq s p3 where sent:
    "query_download_offset_and_length ops (fi_update_comp (ctx_internal c)) p0' = (Inr (o0, l0), pq)"
    "get_fd_download_chunk oc (of_nat o0) (of_nat l0) (ctx_internal c) = Ok (Some (off, len))" "m = 11" "11 \<le> length b"
    "b1 = splice 0 (request_fw_data_request_bytes (request_fw_data_request_new n MsgRequest off len)) b"
    "c1 = c\<lparr>ctx_plat := p3, ctx_internal := data_requested n off len s (ctx_internal c)\<rparr>" "ops_now ops pq = (s, p3)"
    "req_state (fi_req (ctx_internal c)) = ReqReady \<longrightarrow> p0' = snd (ops_now ops (ctx_plat c))"
    by (rule request_sent [OF assms(4,6,8)])
  have asked: "o0 = o'" "l0 = l'" using sent(1,8) assms(5,7) rng by simp_all
  let ?c1 = "c1\<lparr>ctx_plat := q\<rparr>"
  have run1: "fd_run oc ops c1 (tr @ [fi_state (ctx_internal c1)])"
    using fd_run_step [OF assms(1) fd_step.progress [OF assms(8)]] by simp
  have run2: "fd_run oc ops ?c1 ((tr @ [fi_state (ctx_internal c1)]) @ [fi_state (ctx_internal ?c1)])"
    by (rule fd_run_step [OF run1 fd_step.platform])
  have i1: "fi_state (ctx_internal ?c1) = Download" "fi_req (ctx_internal ?c1) = \<lparr>req_state = ReqSent, req_complete = False,
      req_result = None, req_instance_id = Some n, req_command = Some (fw_update_cmd_disc RequestFirmwareData), req_sent_time = Some s\<rparr>"
    "fi_update_comp (ctx_internal ?c1) = fi_update_comp (ctx_internal c)" "ctx_plat ?c1 = q"
    "fi_t2_retry_time (ctx_internal ?c1) = fi_t2_retry_time (ctx_internal c)"
    "t1_expired now (ctx_internal ?c1) = t1_expired now (ctx_internal c)"
    "get_fd_download_chunk oc x y (ctx_internal ?c1) = get_fd_download_chunk oc x y (ctx_internal c)" for x y
    using assms(4) by (simp_all add: sent(6) data_requested_fields chunk_data_requested t1_expired_def)
  obtain now2 p4 where now2: "ops_now ops p2 = (now2, p4)" by fastforce
  have "s = t" using assms(11) by (simp add: sent(6) data_requested_fields)
  then have again: "req_state (fi_req (ctx_internal ?c1)) = ReqSent" "\<not> req_complete (fi_req (ctx_internal ?c1))"
    "req_instance_id (fi_req (ctx_internal ?c1)) = Some n" "req_sent_time (fi_req (ctx_internal ?c1)) = Some t"
    "fi_t2_retry_time (ctx_internal ?c1) \<le> now - t" "\<not> t1_expired now (ctx_internal ?c1)" "ops_now ops (ctx_plat ?c1) = (now, ctx_plat ?c1)"
    "query_download_offset_and_length ops (fi_update_comp (ctx_internal ?c1)) (ctx_plat ?c1) = (Inr (o', l'), p2)"
    "get_fd_download_chunk oc (of_nat o') (of_nat l') (ctx_internal ?c1) = Ok (Some (off, len))"
    unfolding i1 using assms(9,10,13,14) sent(2) asked rng by simp_all
  obtain c2 b2 where c2: "fd_progress oc ops (?c1, b') = (Ok 11, (c2, b2))"
    "take 11 b2 = request_fw_data_request_bytes (request_fw_data_request_new ((n + 1) mod 32) MsgRequest off len)"
    "fi_req (ctx_internal c2) = \<lparr>req_state = ReqSent, req_complete = False, req_result = None,
         req_instance_id = Some ((n + 1) mod 32), req_command = Some (fw_update_cmd_disc RequestFirmwareData),
         req_sent_time = Some now2\<rparr>"
    "fi_state (ctx_internal c2) = Download" "get_fd_download_state (ctx_internal c2) = Some (off, len)" "(n + 1) mod 32 \<noteq> n"
    using request_repeated [OF run2 assms(2,3) i1(1) again(1-4) assms(12) again(5-9) now2 assms(15)] by blast
  have late: "handle_response ops (d, late) = (Err FdInitiatorModeError, (d, late))"
    if "3 \<le> length late" "instance_id (hdr_of (take 3 late)) = n" "req_instance_id (fi_req (ctx_internal d)) \<noteq> Some n" for d late
    by (rule handle_response_unsolicited [OF that(1)]) (use that(2,3) in \<open>simp add: answers_def\<close>)
  have other: "req_instance_id (fi_req (ctx_internal c2)) \<noteq> Some n" using c2(3,6) by simp
  have "take 11 b1 = request_fw_data_request_bytes (request_fw_data_request_new n MsgRequest off len)"
    using sent(4,5) by (simp add: splice_def layout)
  moreover have "\<forall>late. 3 \<le> length late \<and> instance_id (hdr_of (take 3 late)) = n \<longrightarrow>
         handle_response ops (c2, late) = (Err FdInitiatorModeError, (c2, late))
         \<and> (\<forall>rsp r c3 rsp'. handle_response ops (c2, rsp) = (r, (c3, rsp')) \<longrightarrow>
              handle_response ops (c3, late) = (Err FdInitiatorModeError, (c3, late)))"
    using late other keepsD' [OF response_keeps_other_id other] by blast
  ultimately show ?thesis
    using c2(1-5) sent(3) now2 again(3)
    by (intro exI [of _ n] exI [of _ off] exI [of _ len] exI [of _ c2] exI [of _ b2]) simp
qed

text \<open>The tests' platform asks for 32 bytes at the start; the answer has not come after five seconds.\<close>

theorem lost_request_repeated_witness:
  "\<exists>(c1 :: u64 fd_context) c2 b2 off len. fd_progress True test_fd_ops (c1\<lparr>ctx_plat := 6000\<rparr>, on_wire []) = (Ok 11, (c2, b2))
     \<and> req_instance_id (fi_req (ctx_internal c1)) = Some 1
     \<and> take 11 b2 = request_fw_data_request_bytes (request_fw_data_request_new 2 MsgRequest off len)
     \<and> handle_response test_fd_ops (c2, [1, 5, 0x15, 0]) = (Err FdInitiatorModeError, (c2, [1, 5, 0x15, 0]))"
proof -
  have "map_option (\<lambda>(c, tr). (fi_state (ctx_internal c), req_state (fi_req (ctx_internal c)), req_complete (fi_req (ctx_internal c)),
      ctx_plat c, fst (fd_progress True test_fd_ops (c, on_wire [])),
      req_sent_time (fi_req (ctx_internal (fst (snd (fd_progress True test_fd_ops (c, on_wire [])))))),
      req_instance_id (fi_req (ctx_internal (fst (snd (fd_progress True test_fd_ops (c, on_wire [])))))),
      fi_t2_retry_time (ctx_internal c), t1_expired 6000 (ctx_internal c)))
    (fd_drive True test_fd_ops start_of_update first_context) = Some (Download, ReqReady, False, 1000, Ok 11, Some 1000, Some 1, 5000, False)"
    by code_simp
  then obtain c tr where c: "fd_drive True test_fd_ops start_of_update (fd_context_new 1000) = Some (c, tr)"
    "fi_state (ctx_internal c) = Download" "req_state (fi_req (ctx_internal c)) = ReqReady" "\<not> req_complete (fi_req (ctx_internal c))"
    "ctx_plat c = 1000" "fst (fd_progress True test_fd_ops (c, on_wire [])) = Ok 11"
    "req_sent_time (fi_req (ctx_internal (fst (snd (fd_progress True test_fd_ops (c, on_wire [])))))) = Some 1000"
    "req_instance_id (fi_req (ctx_internal (fst (snd (fd_progress True test_fd_ops (c, on_wire [])))))) = Some 1"
    "fi_t2_retry_time (ctx_internal c) = 5000" "\<not> t1_expired 6000 (ctx_internal c)"
    by (auto simp: map_option_case first_context_def split: option.splits)
  from c(6) obtain c1 b1 where run: "fd_progress True test_fd_ops (c, on_wire []) = (Ok 11, (c1, b1))" by (metis prod.collapse)
  have ops: "query_download_offset_and_length test_fd_ops (fi_update_comp (ctx_internal c)) (snd (ops_now test_fd_ops (ctx_plat c)))
      = (Inr (0, 32), 1000)" "ops_now test_fd_ops 6000 = (6000, 6000)"
    "query_download_offset_and_length test_fd_ops (fi_update_comp (ctx_internal c)) 6000 = (Inr (0, 32), 6000)"
    using c(5) by (simp_all add: test_fd_ops_def)
  have num: "req_sent_time (fi_req (ctx_internal c1)) = Some 1000" "(1000 :: u64) \<le> 6000"
    "fi_t2_retry_time (ctx_internal c) \<le> 6000 - 1000" "11 \<le> length (on_wire [])"
    using c(7,9) run by (simp_all add: on_wire_def)
  from lost_request_repeated [OF fd_drive_from_start [OF c(1)] test_platform_wf test_standard_codes c(2-4) ops(1) run ops(2,3)
      num(1-3) c(10) num(4)]
  obtain n off len c2 b2 where r: "fd_progress True test_fd_ops (c1\<lparr>ctx_plat := 6000\<rparr>, on_wire []) = (Ok 11, (c2, b2))"
    "req_instance_id (fi_req (ctx_internal c1)) = Some n"
    "take 11 b2 = request_fw_data_request_bytes (request_fw_data_request_new ((n + 1) mod 32) MsgRequest off len)"
    "\<And>late. 3 \<le> length late \<Longrightarrow> instance_id (hdr_of (take 3 late)) = n \<Longrightarrow>
       handle_response test_fd_ops (c2, late) = (Err FdInitiatorModeError, (c2, late))"
    by auto
  have "n = 1" using r(2) c(8) run by simp
  moreover have "instance_id (hdr_of (take 3 [1, 5, 0x15, 0])) = 1" "((1 :: u8) + 1) mod 32 = 2" by code_simp+
  ultimately show ?thesis
    using r(1-3) r(4) [of "[1, 5, 0x15, 0]"] by (intro exI [of _ c1] exI [of _ c2] exI [of _ b2] exI [of _ off] exI [of _ len]) simp
qed

section \<open>A silent Update Agent\<close>

text \<open>The device is called again and again, time passing in between, and hears nothing.\<close>

fun silence :: "bool \<Rightarrow> 'p fd_ops \<Rightarrow> ('p \<Rightarrow> 'p) \<Rightarrow> bytes \<Rightarrow> nat \<Rightarrow> 'p fd_context \<Rightarrow> 'p fd_context option" where
  "silence oc ops tick b 0 c = Some c"
| "silence oc ops tick b (Suc n) c =
     (case fd_progress oc ops (c\<lparr>ctx_plat := tick (ctx_plat c)\<rparr>, b) of
        (Panic, _) \<Rightarrow> None
      | (_, (c', _)) \<Rightarrow> silence oc ops tick b n c')"

text \<open>A platform whose clock only moves between the calls, by at least one and at most \<open>d\<close>.\<close>

definition passes_time :: "'p fd_ops \<Rightarrow> ('p \<Rightarrow> nat) \<Rightarrow> ('p \<Rightarrow> 'p) \<Rightarrow> nat \<Rightarrow> bool" where
  "passes_time ops clock tick d \<longleftrightarrow>
     (\<forall>p. fst (ops_now ops p) = of_nat (clock p)) \<and> (\<forall>fc x. platform_keeps ops fc (\<lambda>p. clock p = x)) \<and>
     (\<forall>p. clock p < clock (tick p) \<and> clock (tick p) \<le> clock p + d) \<and>
     (\<forall>fc p. \<exists>p'. cancel_update_component ops fc p = (Inr (), p'))"

text \<open>A device that waits for an answer, and has last heard of the Update Agent at time \<open>ts\<close>.\<close>

definition waiting :: "firmware_device_state \<Rightarrow> firmware_component \<Rightarrow> u64 \<Rightarrow> u64 \<Rightarrow> fd_internal \<Rightarrow> bool" where
  "waiting st fc ts t1 i \<longleftrightarrow> fi_state i = st \<and> fi_update_comp i = fc \<and> req_state (fi_req i) = ReqSent
     \<and> fi_t1_update_ts i = ts \<and> fi_t1_timeout i = t1"

lemma waiting_frame: "platform_keeps ops fc K \<Longrightarrow> sending_frame ops fc K (waiting st fc ts t1)"
  by unfold_locales (auto simp: waiting_def fd_setters with_instance_def split: initiator_mode.split)

lemma waiting_goes_on:
  assumes "platform_keeps ops fc (\<lambda>p. clock p = x)" and "st \<in> initiator_states"
    and "within (waiting st fc ts t1) (\<lambda>p. clock p = x) c"
    and "ops_now ops (ctx_plat c) = (now, p1)" and "\<not> t1_expired now (ctx_internal c)"
  shows "within (waiting st fc ts t1) (\<lambda>p. clock p = x) (fst (snd (fd_progress oc ops (c, b))))"
proof -
  let ?c = "c\<lparr>ctx_plat := p1\<rparr>"
  have c: "fi_state (ctx_internal c) = st" "req_state (fi_req (ctx_internal c)) = ReqSent" "within (waiting st fc ts t1) (\<lambda>p. clock p = x) ?c"
    using assms(3,4) platform_kept(1) [OF assms(1), of "ctx_plat c"] by (auto simp: within_def waiting_def)
  obtain r c' b' where step: "progress_step oc ops st (?c, b) = (r, (c', b'))" by (metis surj_pair)
  have c': "within (waiting st fc ts t1) (\<lambda>p. clock p = x) c'"
    by (rule keepsD' [OF sending_frame.keeps_step [OF waiting_frame [OF assms(1)]] c(3) step])
  then have "req_state (fi_req (ctx_internal c')) = ReqSent" by (simp add: within_def waiting_def)
  with c(1,2) assms(2,4,5) step have "fd_progress oc ops (c, b) = (r, (c', b'))"
    by (cases r) (auto simp: fd_progress_def check_t1_def exec abind_assoc Let_def abind_def [of "progress_step oc ops st"])
  with c' show ?thesis by simp
qed

text \<open>When the clock has passed \<open>T1\<close>\<close>

lemma expires_when:
  assumes "x < 2 ^ 64" and "unat (fi_t1_update_ts i) + unat (fi_t1_timeout i) < x"
  shows "t1_expired (of_nat x) i"
proof -
  have x: "unat (of_nat x :: u64) = x" using assms(1) by (simp add: unat_of_nat)
  then have "fi_t1_update_ts i \<le> of_nat x" using assms(2) by (simp add: word_le_nat_alt)
  then have "unat (of_nat x - fi_t1_update_ts i) = x - unat (fi_t1_update_ts i)"
    using x by (simp add: unat_sub)
  with assms(2) \<open>fi_t1_update_ts i \<le> of_nat x\<close> show ?thesis
    by (auto simp: t1_expired_def word_less_nat_alt not_less [symmetric])
qed

lemma silence_step:
  assumes time: "passes_time ops clock tick d" and plat: "platform_wf ops"
    and st: "st \<in> initiator_states" and inv: "fd_inv (ctx_internal c)" and c: "waiting st fc ts t1 (ctx_internal c)"
  defines "x \<equiv> clock (tick (ctx_plat c))"
  assumes x: "x < 2 ^ 64"
  obtains r c' b' where "fd_progress False ops (c\<lparr>ctx_plat := tick (ctx_plat c)\<rparr>, b) = (r, (c', b'))" and "r \<noteq> Panic"
    and "fi_state (ctx_internal c') = Idle \<and> fi_req (ctx_internal c') = fd_req_new \<and> fi_reason (ctx_internal c') = timeout_reason st
      \<or> fd_inv (ctx_internal c') \<and> waiting st fc ts t1 (ctx_internal c') \<and> clock (ctx_plat c') = x \<and> x \<le> unat ts + unat t1"
proof -
  let ?c = "c\<lparr>ctx_plat := tick (ctx_plat c)\<rparr>"
  have kept: "platform_keeps ops fc (\<lambda>p. clock p = x)" and now: "fst (ops_now ops p) = of_nat (clock p)"
    and cancel: "\<exists>p'. cancel_update_component ops fc p = (Inr (), p')" for p
    using time by (auto simp: passes_time_def)
  obtain p1 where p1: "ops_now ops (tick (ctx_plat c)) = (of_nat x, p1)"
    using now [of "tick (ctx_plat c)"] by (metis prod.collapse x_def)
  obtain r c' b' where run: "fd_progress False ops (?c, b) = (r, (c', b'))" by (metis surj_pair)
  have r: "r \<noteq> Panic" "progress_post (ctx_internal c) r (ctx_internal c')"
    using runs_result [OF fd_progress_runs [OF plat inv] _ run] by simp_all
  have w: "fi_state (ctx_internal c) = st" "fi_update_comp (ctx_internal c) = fc" "req_state (fi_req (ctx_internal c)) = ReqSent"
    "fi_t1_update_ts (ctx_internal c) = ts" "fi_t1_timeout (ctx_internal c) = t1"
    using c by (simp_all add: waiting_def)
  show ?thesis
  proof (cases "t1_expired (of_nat x) (ctx_internal c)")
    case True
    obtain p2 where "cancel_update_component ops fc p1 = (Inr (), p2)" using cancel by blast
    with True w p1 st run have "c' = ?c\<lparr>ctx_plat := p2, ctx_internal := abandon_update (ctx_internal c)\<rparr>"
      using progress_expires [of ?c ops "of_nat x" p1 p2 False b] by simp
    with run r(1) abandoned [of "ctx_internal c"] w(1) st show ?thesis by (intro that [OF run]) auto
  next
    case False
    have "within (waiting st fc ts t1) (\<lambda>p. clock p = x) (fst (snd (fd_progress False ops (?c, b))))"
      using waiting_goes_on [OF kept st, of ts t1 ?c "of_nat x" p1 False b] False c p1 by (simp add: within_def x_def)
    moreover have "x \<le> unat ts + unat t1"
      using expires_when [OF x, of "ctx_internal c"] False w by (meson not_less)
    ultimately show ?thesis
      using run r by (intro that [OF run]) (auto simp: within_def progress_post_def)
  qed
qed

lemma silence_ends:
  assumes time: "passes_time ops clock tick d" and plat: "platform_wf ops" and st: "st \<in> initiator_states"
  shows "fd_inv (ctx_internal c) \<Longrightarrow> waiting st fc ts t1 (ctx_internal c) \<Longrightarrow>
    unat ts + unat t1 < clock (ctx_plat c) + m \<Longrightarrow> 0 < m \<Longrightarrow> clock (ctx_plat c) + m * d < 2 ^ 64 \<Longrightarrow>
    \<exists>n c'. n \<le> m \<and> silence False ops tick b n c = Some c' \<and> fi_state (ctx_internal c') = Idle
      \<and> fi_req (ctx_internal c') = fd_req_new \<and> fi_reason (ctx_internal c') = timeout_reason st"
proof (induction m arbitrary: c)
  case (Suc m)
  let ?x = "clock (tick (ctx_plat c))"
  have x: "clock (ctx_plat c) < ?x" "?x \<le> clock (ctx_plat c) + d" using time by (auto simp: passes_time_def)
  then have "?x < 2 ^ 64" using Suc.prems(5) by (simp add: add.commute)
  from silence_step [OF time plat st Suc.prems(1,2) this] obtain r c' b'
    where run: "fd_progress False ops (c\<lparr>ctx_plat := tick (ctx_plat c)\<rparr>, b) = (r, (c', b'))" "r \<noteq> Panic"
    and ends: "fi_state (ctx_internal c') = Idle \<and> fi_req (ctx_internal c') = fd_req_new \<and> fi_reason (ctx_internal c') = timeout_reason st
      \<or> fd_inv (ctx_internal c') \<and> waiting st fc ts t1 (ctx_internal c') \<and> clock (ctx_plat c') = ?x \<and> ?x \<le> unat ts + unat t1"
    by metis
  have once: "silence False ops tick b (Suc n) c = silence False ops tick b n c'" for n
    using run by (cases r) simp_all
  from ends show ?case
  proof
    assume "fi_state (ctx_internal c') = Idle \<and> fi_req (ctx_internal c') = fd_req_new \<and> fi_reason (ctx_internal c') = timeout_reason st"
    then show ?thesis using once [of 0] by (intro exI [of _ 1] exI [of _ c']) simp
  next
    assume on: "fd_inv (ctx_internal c') \<and> waiting st fc ts t1 (ctx_internal c') \<and> clock (ctx_plat c') = ?x \<and> ?x \<le> unat ts + unat t1"
    then have "0 < m" "unat ts + unat t1 < clock (ctx_plat c') + m" "clock (ctx_plat c') + m * d < 2 ^ 64"
      using Suc.prems(3,5) x by auto
    from Suc.IH [of c'] on this obtain n c'' where "n \<le> m" "silence False ops tick b n c' = Some c''"
      "fi_state (ctx_internal c'') = Idle \<and> fi_req (ctx_internal c'') = fd_req_new \<and> fi_reason (ctx_internal c'') = timeout_reason st"
      by blast
    then show ?thesis using once by (intro exI [of _ "Suc n"] exI [of _ c'']) simp
  qed
qed simp

text \<open>C7: a device that waits for an Update Agent that has disappeared does not wait for ever: whatever it
  was doing, downloading, verifying or applying, and however often it repeats its request, after a
  bounded number of calls (as many ticks as are left until \<open>T1\<close> has passed since it last heard
  of the Update Agent) the update is over, the device is idle with the reason of the phase that timed
  out, and no request is outstanding.  The platform meets \<open>platform_wf\<close> and \<open>standard_codes\<close> and always
  lets the update be cancelled, time passes between the calls and not within them (\<open>passes_time\<close>), and the
  build has no overflow checks.\<close>

theorem silent_update_ends:
  assumes "fd_run oc ops c tr" and "platform_wf ops" and "standard_codes ops" and "passes_time ops clock tick d"
    and "fi_state (ctx_internal c) \<in> initiator_states" and "req_state (fi_req (ctx_internal c)) = ReqSent"
    and "0 < m" and "unat (fi_t1_update_ts (ctx_internal c)) + unat (fi_t1_timeout (ctx_internal c)) < clock (ctx_plat c) + m"
    and "clock (ctx_plat c) + m * d < 2 ^ 64"
  shows "\<exists>n c'. n \<le> m \<and> silence False ops tick b n c = Some c' \<and> fi_state (ctx_internal c') = Idle
    \<and> fi_req (ctx_internal c') = fd_req_new \<and> fi_reason (ctx_internal c') = timeout_reason (fi_state (ctx_internal c))"
  using silence_ends [OF assms(4,2,5) fd_run_inv [OF assms(1-3)] _ assms(8,7,9), where fc = "fi_update_comp (ctx_internal c)"]
    assms(6) by (simp add: waiting_def)

text \<open>The platform of the tests, with a clock that counts milliseconds between the calls.\<close>

definition ticking_fd_ops :: "nat fd_ops" where
  "ticking_fd_ops = \<lparr>
     get_device_identifiers = (\<lambda>ds p. (Inr 0, ds, p)),
     get_firmware_parms = (\<lambda>fp p. (Inr (), fp, p)),
     ops_get_xfer_size = (\<lambda>n p. (Inr n, p)),
     handle_component = (\<lambda>_ _ _ p. (Inr CompCanBeUpdated, p)),
     query_download_offset_and_length = (\<lambda>_ p. (Inr (0, 32), p)),
     download_fw_data = (\<lambda>_ _ _ p. (Inr TransferSuccess, p)),
     is_download_complete = (\<lambda>_ p. (False, p)),
     query_download_progress = (\<lambda>_ v p. (Inr (), v, p)),
     ops_verify = (\<lambda>_ v p. (Inr VerifySuccess, v, p)),
     ops_apply = (\<lambda>_ v p. (Inr ApplySuccess, v, p)),
     ops_activate = (\<lambda>_ t p. (Inr (base_cc_disc CC_Success), t, p)),
     cancel_update_component = (\<lambda>_ p. (Inr (), p)),
     handle_pending_component = (\<lambda>_ _ p. (Inr (PendingActivated 100), p)),
     get_non_functional_component_info = (\<lambda>p. (Inr (ComponentsFunctioning, 0), p)),
     ops_update_security_revision = (\<lambda>_ _ p. (Inr RevisionUpdated, p)),
     ops_now = (\<lambda>p. (of_nat p, p))\<rparr>"

lemma ticking_platform: "platform_wf ticking_fd_ops" "standard_codes ticking_fd_ops" "passes_time ticking_fd_ops id Suc 1"
  by (simp_all add: platform_wf_def standard_codes_def passes_time_def platform_keeps_def ticking_fd_ops_def)

text \<open>The device has asked for data at five milliseconds, and is never answered.\<close>

theorem silent_update_ends_witness:
  "\<exists>c n c'. fi_state (ctx_internal c) = Download \<and> n \<le> 120001 \<and> silence False ticking_fd_ops Suc [] n c = Some c'
     \<and> fi_state (ctx_internal c') = Idle \<and> fi_req (ctx_internal c') = fd_req_new
     \<and> fi_reason (ctx_internal c') = timeout_reason Download"
proof -
  have "map_option (\<lambda>(c, tr). (fi_state (ctx_internal c), req_state (fi_req (ctx_internal c)), fi_t1_update_ts (ctx_internal c),
      fi_t1_timeout (ctx_internal c), ctx_plat c))
    (fd_drive False ticking_fd_ops (start_of_update @ [next_request]) (fd_context_new 5)) = Some (Download, ReqSent, 5, 120000, 5)"
    by code_simp
  then obtain c tr where c: "fd_drive False ticking_fd_ops (start_of_update @ [next_request]) (fd_context_new 5) = Some (c, tr)"
    "fi_state (ctx_internal c) = Download" "req_state (fi_req (ctx_internal c)) = ReqSent" "fi_t1_update_ts (ctx_internal c) = 5"
    "fi_t1_timeout (ctx_internal c) = 120000" "ctx_plat c = 5"
    by (auto simp: map_option_case split: option.splits)
  from silent_update_ends [OF fd_drive_from_start [OF c(1)] ticking_platform, of 120001 "[]"] c(2-)
  obtain n c' where "n \<le> 120001" "silence False ticking_fd_ops Suc [] n c = Some c'" "fi_state (ctx_internal c') = Idle"
    "fi_req (ctx_internal c') = fd_req_new" "fi_reason (ctx_internal c') = timeout_reason Download"
    by auto
  with c(2) show ?thesis by blast
qed

end
