(* ===== verification/Test_Support.thy ===== *)
theory Test_Support
  imports Responder
begin

text \<open>
  How a unit test of the repository is read: as an act on the variables it mutates, a context and
  a message buffer, that panics where the test would fail, at an assertion that does not hold
  or an \<open>unwrap\<close> of an error.
\<close>

type_synonym 'c test = "('c \<times> bytes, unit, msg_handler_error) act"

text \<open>\<open>m.unwrap()\<close>, and \<open>let result = m;\<close>\<close>

definition must :: "('s, 'a, 'f) act \<Rightarrow> ('s, 'a, 'e) act" where
  "must m = (\<lambda>s. case m s of (r, s') \<Rightarrow> (unwrap r, s'))"

definition attempt :: "('s, 'a, 'f) act \<Rightarrow> ('s, ('a, 'f) outcome, 'e) act" where
  "attempt m = (\<lambda>s. case m s of (Panic, s') \<Rightarrow> (Panic, s') | (r, s') \<Rightarrow> (Ok r, s'))"

definition assert_that :: "('s \<Rightarrow> bool) \<Rightarrow> ('s, unit, 'e) act" where
  "assert_that P = (\<lambda>s. (if P s then Ok () else Panic, s))"

text \<open>\<open>x.encode(&mut buffer).unwrap()\<close>, \<open>assert!(h(&mut buffer).is_ok())\<close> and a call on \<open>&mut buffer[..n]\<close>\<close>

definition encodes :: "(bytes \<Rightarrow> (nat, codec_error) outcome \<times> bytes) \<Rightarrow> 'c test" where
  "encodes enc = abind (must (on_payload enc)) (\<lambda>_. ret ())"

definition succeeds :: "('c, 'a) handler \<Rightarrow> 'c test" where
  "succeeds h = abind (must h) (\<lambda>_. ret ())"

definition on_front :: "nat \<Rightarrow> ('c, 'a) handler \<Rightarrow> ('c, 'a) handler" where
  "on_front n h = (\<lambda>(c, buffer).
     if length buffer < n then (Panic, (c, buffer))
     else (case h (c, take n buffer) of (r, (c', front)) \<Rightarrow> (r, (c', front @ drop n buffer))))"

definition refill :: "'c test" where
  "refill = modify (\<lambda>(c, buffer). (c, replicate (length buffer) 0))"

fun steps :: "('s, unit, 'e) act list \<Rightarrow> ('s, unit, 'e) act" where
  "steps [] = ret ()"
| "steps (m # ms) = abind m (\<lambda>_. steps ms)"

definition passes :: "('s, unit, 'e) act \<Rightarrow> 's \<Rightarrow> bool" where
  "passes t s \<longleftrightarrow> fst (t s) = Ok ()"

text \<open>
  The tests of the messages build a value, encode it into a buffer of zeros and decode it.
  \<open>holds r P\<close> is \<open>P\<close> of \<open>r.unwrap()\<close>.
\<close>

definition holds :: "('a, 'e) outcome \<Rightarrow> ('a \<Rightarrow> bool) \<Rightarrow> bool" where
  "holds r P \<longleftrightarrow> (case r of Ok x \<Rightarrow> P x | _ \<Rightarrow> False)"

definition is_err :: "('a, 'e) outcome \<Rightarrow> bool" where
  "is_err r \<longleftrightarrow> (case r of Err _ \<Rightarrow> True | _ \<Rightarrow> False)"

definition round_trips ::
  "(bytes \<Rightarrow> (nat, codec_error) outcome \<times> bytes) \<Rightarrow> (bytes \<Rightarrow> ('m, codec_error) outcome) \<Rightarrow> 'm \<Rightarrow> nat \<Rightarrow> bool" where
  "round_trips enc dec m n \<longleftrightarrow> (case enc (replicate n 0) of (Ok _, buffer) \<Rightarrow> dec buffer = Ok m | _ \<Rightarrow> False)"

definition round_trips_prefix ::
  "(bytes \<Rightarrow> (nat, codec_error) outcome \<times> bytes) \<Rightarrow> (bytes \<Rightarrow> ('m, codec_error) outcome) \<Rightarrow> 'm \<Rightarrow> nat \<Rightarrow> bool" where
  "round_trips_prefix enc dec m n \<longleftrightarrow>
     (case enc (replicate n 0) of (Ok bytes, buffer) \<Rightarrow> dec (take bytes buffer) = Ok m | _ \<Rightarrow> False)"

definition round_trips_sized ::
  "(bytes \<Rightarrow> (nat, codec_error) outcome \<times> bytes) \<Rightarrow> (bytes \<Rightarrow> ('m, codec_error) outcome) \<Rightarrow> 'm \<Rightarrow> nat \<Rightarrow> nat \<Rightarrow> bool" where
  "round_trips_sized enc dec m n written \<longleftrightarrow> fst (enc (replicate n 0)) = Ok written \<and> round_trips_prefix enc dec m n"

definition too_short ::
  "(bytes \<Rightarrow> (nat, codec_error) outcome \<times> bytes) \<Rightarrow> (bytes \<Rightarrow> ('m, codec_error) outcome) \<Rightarrow> nat \<Rightarrow> bool" where
  "too_short enc dec n \<longleftrightarrow> (case enc (replicate n 0) of (r, buffer) \<Rightarrow> r = Err BufferTooShort \<and> dec buffer = Err BufferTooShort)"

lemma holds_mono: "holds r P \<Longrightarrow> (\<And>x. P x \<Longrightarrow> Q x) \<Longrightarrow> holds r Q"
  by (auto simp: holds_def split: outcome.splits)

text \<open>What the contract of a codec says of its test.\<close>

context codec_exact
begin

lemma round_trips_prefix: "wf x \<Longrightarrow> length (ser x) \<le> n \<Longrightarrow> round_trips_prefix (enc x) dec x n"
  by (simp add: round_trips_prefix_def enc_fits splice_def dec_ser)

lemma encodes_too_short: "wf x \<Longrightarrow> n < length (ser x) \<Longrightarrow> dec (replicate n 0) = Err BufferTooShort \<Longrightarrow> too_short (enc x) dec n"
  by (simp add: too_short_def enc_short)

end

context packed_struct
begin

lemma packed_round_trips:
  assumes "wf x" and "sz \<le> n"
  shows "round_trips (blanket_encode sz to_bytes x) (blanket_decode sz of_bytes) x n"
    "round_trips_prefix (blanket_encode sz to_bytes x) (blanket_decode sz of_bytes) x n"
    "round_trips_sized (blanket_encode sz to_bytes x) (blanket_decode sz of_bytes) x n sz"
    "fst (blanket_encode sz to_bytes x (replicate n 0)) = Ok sz"
  using assms
  by (simp_all add: round_trips_def round_trips_prefix_def round_trips_sized_def blanket_encode_def blanket_decode_def
      splice_def length_to_bytes of_to_bytes)

end

named_theorems tested \<open>tests that pass\<close>

end
