(* ===== verification/Common_Tests.thy ===== *)
theory Common_Tests
  imports Test_Support Mctp Version Fw_Component Control_Msgs
begin

text \<open>
  The unit tests of \<open>protocol/base.rs\<close>, \<open>protocol/version.rs\<close>, \<open>protocol/firmware_update.rs\<close>,
  \<open>util/mctp_transport.rs\<close>, \<open>util/fw_component.rs\<close>, \<open>message/control.rs\<close> and \<open>cmd_interface.rs\<close>.
\<close>

section \<open>Headers and framing\<close>

definition test_pldm_msg_header :: bool where
  "test_pldm_msg_header \<longleftrightarrow>
     (let hdr = header_new 1 MsgRequest TypeBase (pldm_control_cmd_disc GetTid); response = into_response hdr in
      hdr_bytes hdr = [0x81, 0x00, 0x02] \<and> is_request hdr \<and> hdr_bytes response = [0x01, 0x00, 0x02]
      \<and> rq response = pldm_msg_type_disc MsgResponse
      \<and> round_trips_sized (blanket_encode 3 hdr_bytes hdr) hdr_decode hdr PLDM_MSG_HEADER_LEN PLDM_MSG_HEADER_LEN)"

definition test_pldm_failure_resp :: bool where
  "test_pldm_failure_resp \<longleftrightarrow>
     (let resp = failure_response_new 1 TypeBase (pldm_control_cmd_disc GetTid) (base_cc_disc CC_Success) in
      round_trips_sized (blanket_encode 4 failure_response_bytes resp) (blanket_decode 4 failure_response_of) resp
        PLDM_FAILURE_RESP_LEN PLDM_FAILURE_RESP_LEN)"

definition test_retrieve_pldm_msg :: bool where
  "test_retrieve_pldm_msg \<longleftrightarrow>
     (let mctp_payload = replicate 8 0 in
      extract_pldm_msg mctp_payload = Err InvalidMctpMsgType \<and>
      (let mctp_payload = mctp_payload[0 := 0x01] in extract_pldm_msg mctp_payload = Ok (replicate 7 0)) \<and>
      extract_pldm_msg (replicate 3 0) = Err InvalidMctpPayloadLength)"

definition test_construct_mctp_pldm_msg :: bool where
  "test_construct_mctp_pldm_msg \<longleftrightarrow>
     (case construct_mctp_pldm_msg (replicate 10 0) of (r, mctp_payload) \<Rightarrow> r = Ok (replicate 9 0) \<and> mctp_payload ! 0 = 0x01) \<and>
     fst (construct_mctp_pldm_msg (replicate 3 0)) = Err InvalidMctpPayloadLength"

definition test_decode_failure_code :: bool where
  "test_decode_failure_code \<longleftrightarrow>
     decode_failure_code BufferTooShort = base_cc_disc CC_InvalidLength \<and>
     decode_failure_code InvalidData = base_cc_disc CC_InvalidData \<and>
     decode_failure_code Unsupported = base_cc_disc CC_InvalidData"

section \<open>Versions\<close>

definition test_pldm_version_try_from_str :: bool where
  "test_pldm_version_try_from_str \<longleftrightarrow>
     version_try_from ''3.7.10'' = Ok (version_new 0 10 7 3) \<and>
     version_try_from ''3.7'' = Ok (version_new 0 0xFF 7 3) \<and>
     version_try_from ''1.1.0'' = Ok (version_new 0 0 1 1) \<and>
     version_try_from ''1.3.0'' = Ok (version_new 0 0 3 1) \<and>
     version_try_from ''1.5.18a'' = Ok (version_new 0x61 18 5 1) \<and>
     version_try_from ''1.5a'' = Ok (version_new 0x61 0xFF 5 1)"

definition test_pldm_version_try_from_str_error :: bool where
  "test_pldm_version_try_from_str_error \<longleftrightarrow>
     is_err (version_try_from ''3.FF.10'') \<and> is_err (version_try_from ''3.7.10a.1'') \<and>
     is_err (version_try_from ''3.7.10a.1.1'') \<and> is_err (version_try_from ''3a.7.10'')"

definition test_pldm_version_bcd_encode :: bool where
  "test_pldm_version_bcd_encode \<longleftrightarrow>
     bcd_encode_to_ver32 (version_new 0x61 0x10 0x7 0x3) = 0xF3F71661 \<and>
     bcd_encode_to_ver32 (version_new 0x61 0xFF 0x1 0x3) = 0xF3F1FF61 \<and>
     bcd_encode_to_ver32 (version_new 0x61 0xFF 0xa 0x1) = 0xF110FF61"

definition test_pldm_version_bcd_decode_from_ver32 :: bool where
  "test_pldm_version_bcd_decode_from_ver32 \<longleftrightarrow>
     bcd_decode_from_ver32 0xF3F71661 = version_new 0x61 0x10 0x7 0x3 \<and>
     bcd_decode_from_ver32 0xF3F1FF61 = version_new 0x61 0xFF 0x1 0x3 \<and>
     bcd_decode_from_ver32 0xF1F0FF62 = version_new 0x62 0xFF 0x0 0x1"

definition test_pldm_version_str_to_ver32 :: bool where
  "test_pldm_version_str_to_ver32 \<longleftrightarrow>
     holds (version_try_from ''1.3.0'') (\<lambda>v. bcd_encode_to_ver32 v = 0xF1F3F000) \<and>
     holds (version_try_from ''1.1.0'') (\<lambda>v. bcd_encode_to_ver32 v = 0xF1F1F000)"

section \<open>Firmware update data\<close>

definition test_uid :: bytes where
  "test_uid = [0x01, 0x02, 0x03, 0x04, 0x05, 0x06, 0x07, 0x08, 0x09, 0x0A, 0x0B, 0x0C, 0x0D, 0x0E, 0x0F, 0x10]"

definition test_descriptor_encode_decode :: bool where
  "test_descriptor_encode_decode \<longleftrightarrow>
     holds (descriptor_new Uuid test_uid) (\<lambda>descriptor.
       desc_length descriptor = of_nat (get_descriptor_length Uuid) \<and>
       round_trips (descriptor_encode descriptor) descriptor_decode descriptor 68) \<and>
     (let raw_descriptor = [0xff, 0xff, 0x10, 0x00] @ test_uid in
      holds (descriptor_decode raw_descriptor) (\<lambda>descriptor.
        desc_type descriptor = descriptor_type_disc DescVendorDefined \<and> desc_length descriptor = 16 \<and>
        take 16 (desc_data descriptor) = take 16 (drop 4 raw_descriptor)))"

text \<open>The entry the tests build, from version strings of the type that is named\<close>

definition test_entry :: "string \<Rightarrow> (pldm_firmware_string \<times> pldm_firmware_string \<times> comp_entry, pldm_error) outcome" where
  "test_entry ty =
     rbind (firmware_string_new ty ''mcu-runtime-1.0'') (\<lambda>active.
     rbind (firmware_string_new ty ''mcu-runtime-1.5'') (\<lambda>pending.
     map_ok (\<lambda>entry. (active, pending, entry))
       (comp_entry_new ClassFirmware 1 1 (firmware_version_new 0x12345678 active (Some ''20250210''))
         (firmware_version_new 0x87654321 pending (Some ''20250213'')) 1 0x10)))"

definition test_component_parameter_entry :: bool where
  "test_component_parameter_entry \<longleftrightarrow>
     holds (test_entry ''UTF-8'') (\<lambda>(active, pending, entry).
       round_trips (comp_entry_encode entry) comp_entry_decode entry 512 \<and>
       active = get_active_fw_ver entry \<and> firmware_string_lt active pending = (Ok True :: (bool, unit) outcome))"

definition test_pldm_firmware_string_codec :: bool where
  "test_pldm_firmware_string_codec \<longleftrightarrow>
     holds (firmware_string_new ''ASCII'' ''test'') (\<lambda>fw_string.
       str_type fw_string = version_string_type_disc VstAscii \<and> str_len fw_string = of_nat (length ''test'') \<and>
       take (unat (str_len fw_string)) (str_data fw_string) = string_bytes ''test'' \<and>
       round_trips_sized (firmware_string_encode fw_string) firmware_string_decode fw_string (2 + 4) (2 + 4)) \<and>
     holds (firmware_string_new ''ASCII'' []) (\<lambda>empty.
       str_type empty = version_string_type_disc VstAscii \<and> str_len empty = 0 \<and>
       fst (firmware_string_encode empty (replicate 2 0)) = Ok 2)"

text \<open>The test expects a panic, here the \<open>unwrap\<close> of the error that \<open>encode\<close> returns.\<close>

definition test_pldm_firmware_string_codec_invalid_size :: bool where
  "test_pldm_firmware_string_codec_invalid_size \<longleftrightarrow>
     holds (firmware_string_new ''ASCII'' ''test'') (\<lambda>fw_string.
       str_type fw_string = version_string_type_disc VstAscii \<and> str_len fw_string = of_nat (length ''test'') \<and>
       take (unat (str_len fw_string)) (str_data fw_string) = string_bytes ''test'' \<and>
       unwrap (fst (firmware_string_encode fw_string [])) = (Panic :: (nat, unit) outcome))"

definition construct_firmware_params :: "string \<Rightarrow> (firmware_parameters, pldm_error) outcome" where
  "construct_firmware_params ty =
     map_ok (\<lambda>(active, pending, entry). firmware_parameters_new 0x10 8 active pending (replicate 8 entry)) (test_entry ty)"

definition evaluates_to :: "u8 \<Rightarrow> u32 \<Rightarrow> string \<Rightarrow> component_response_code \<Rightarrow> bool" where
  "evaluates_to idx comparison_stamp version response \<longleftrightarrow>
     holds (construct_firmware_params ''UTF-8'') (\<lambda>fw_params.
       holds (firmware_string_new ''UTF-8'' version) (\<lambda>version_string.
         evaluate_update_eligibility
           (firmware_component_new (component_classification_disc ClassFirmware) 1 idx comparison_stamp version_string None None)
           fw_params = Ok response))"

definition test_check_update_component :: bool where
  "test_check_update_component \<longleftrightarrow>
     evaluates_to 1 0x12345680 ''mcu-runtime-1.2'' CompCanBeUpdated \<and>
     evaluates_to 1 0x12345670 ''mcu-runtime-1.2'' CompComparisonStampLower \<and>
     evaluates_to 1 0x12345678 ''mcu-runtime-1.5'' CompComparisonStampIdentical \<and>
     evaluates_to 1 0x12345680 ''mcu-runtime-0.5'' CompVerStrLower \<and>
     evaluates_to 1 0x12345680 ''mcu-runtime-1.0'' CompVerStrIdentical \<and>
     evaluates_to 5 0x12345680 ''mcu-runtime-1.0'' CompNotSupported"

section \<open>Control messages\<close>

definition test_get_tid_request :: bool where
  "test_get_tid_request \<longleftrightarrow>
     (let request = get_tid_request_new 1 MsgRequest in
      round_trips (blanket_encode 3 get_tid_request_bytes request) (blanket_decode 3 get_tid_request_of) request 3)"

definition test_get_tid_response :: bool where
  "test_get_tid_response \<longleftrightarrow>
     (let response = get_tid_response_new 1 42 0 in
      round_trips (blanket_encode 5 get_tid_response_bytes response) (blanket_decode 5 get_tid_response_of) response 5)"

definition test_set_tid_request :: bool where
  "test_set_tid_request \<longleftrightarrow>
     (let request = set_tid_request_new 1 MsgRequest 42 in
      round_trips (blanket_encode 4 set_tid_request_bytes request) (blanket_decode 4 set_tid_request_of) request 4)"

definition test_set_tid_response :: bool where
  "test_set_tid_response \<longleftrightarrow>
     (let response = set_tid_response_new 1 0 in
      round_trips (blanket_encode 4 set_tid_response_bytes response) (blanket_decode 4 set_tid_response_of) response 4)"

definition test_get_pldm_commands_request :: bool where
  "test_get_pldm_commands_request \<longleftrightarrow>
     holds (expect (get_pldm_commands_request_new 1 MsgRequest 1 ''1.0.0'') :: (get_pldm_commands_request, unit) outcome) (\<lambda>request.
       round_trips (blanket_encode 8 get_pldm_commands_request_bytes request) (blanket_decode 8 get_pldm_commands_request_of) request 8)"

definition test_get_pldm_commands_response :: bool where
  "test_get_pldm_commands_response \<longleftrightarrow>
     holds (expect (get_pldm_commands_response_new 1 0 [1, 2, 3]) :: (get_pldm_commands_response, unit) outcome) (\<lambda>response.
       round_trips (blanket_encode 36 get_pldm_commands_response_bytes response) (blanket_decode 36 get_pldm_commands_response_of) response 36)"

definition test_get_pldm_type_request :: bool where
  "test_get_pldm_type_request \<longleftrightarrow>
     (let request = get_pldm_type_request_new 1 MsgRequest in
      round_trips (blanket_encode 3 get_pldm_type_request_bytes request) (blanket_decode 3 get_pldm_type_request_of) request 3)"

definition test_get_pldm_type_response :: bool where
  "test_get_pldm_type_response \<longleftrightarrow>
     holds (expect (get_pldm_type_response_new 1 0 [0, 5]) :: (get_pldm_type_response, unit) outcome) (\<lambda>response.
       gpr_pldm_types response = (replicate PLDM_TYPES_BITMAP_LEN 0)[0 := 33] \<and>
       round_trips (blanket_encode 12 get_pldm_type_response_bytes response) (blanket_decode 12 get_pldm_type_response_of) response 12)"

definition test_get_pldm_version_request :: bool where
  "test_get_pldm_version_request \<longleftrightarrow>
     (let request = get_pldm_version_request_new 1 MsgRequest 0 GetFirstPart TypeBase in
      round_trips (blanket_encode 9 get_pldm_version_request_bytes request) (blanket_decode 9 get_pldm_version_request_of) request 9)"

definition test_get_pldm_version_response :: bool where
  "test_get_pldm_version_response \<longleftrightarrow>
     holds (get_pldm_version_response_new 1 0 0 FlagStartAndEnd ''1.3.0'') (\<lambda>response.
       round_trips (blanket_encode 13 get_pldm_version_response_bytes response) (blanket_decode 13 get_pldm_version_response_of) response 13)"

definition test_buffer_too_short :: bool where
  "test_buffer_too_short \<longleftrightarrow> blanket_decode 3 get_tid_request_of (replicate 2 0) = Err BufferTooShort"

section \<open>They pass\<close>

definition common_tests :: "bool list" where
  "common_tests = [
     test_pldm_msg_header,
     test_pldm_failure_resp,
     test_retrieve_pldm_msg,
     test_construct_mctp_pldm_msg,
     test_decode_failure_code,
     test_pldm_version_try_from_str,
     test_pldm_version_try_from_str_error,
     test_pldm_version_bcd_encode,
     test_pldm_version_bcd_decode_from_ver32,
     test_pldm_version_str_to_ver32,
     test_descriptor_encode_decode,
     test_component_parameter_entry,
     test_pldm_firmware_string_codec,
     test_pldm_firmware_string_codec_invalid_size,
     test_check_update_component,
     test_get_tid_request,
     test_get_tid_response,
     test_set_tid_request,
     test_set_tid_response,
     test_get_pldm_commands_request,
     test_get_pldm_commands_response,
     test_get_pldm_type_request,
     test_get_pldm_type_response,
     test_get_pldm_version_request,
     test_get_pldm_version_response,
     test_buffer_too_short]"

text \<open>The structs without padding: by the contract of their codec.\<close>

lemmas common_tests_codecs =
  packed_struct.packed_round_trips [OF get_tid_request.packed_struct_axioms]
  packed_struct.packed_round_trips [OF get_tid_response.packed_struct_axioms]
  packed_struct.packed_round_trips [OF set_tid_request.packed_struct_axioms]
  packed_struct.packed_round_trips [OF set_tid_response.packed_struct_axioms]
  packed_struct.packed_round_trips [OF get_pldm_type_request.packed_struct_axioms]
  packed_struct.packed_round_trips [OF get_pldm_version_request.packed_struct_axioms]

lemma common_tests_packed [tested]:
  test_get_tid_request
  test_get_tid_response
  test_set_tid_request
  test_set_tid_response
  test_get_pldm_type_request
  test_get_pldm_version_request
  unfolding test_get_tid_request_def
    test_get_tid_response_def
    test_set_tid_request_def
    test_set_tid_response_def
    test_get_pldm_type_request_def
    test_get_pldm_version_request_def
  by (simp_all add: Let_def common_tests_codecs)

lemma common_tests_1 [tested]:
  test_pldm_msg_header
  by code_simp+

lemma common_tests_2 [tested]:
  test_pldm_failure_resp
  by code_simp+

lemma common_tests_3 [tested]:
  test_retrieve_pldm_msg
  by code_simp+

lemma common_tests_4 [tested]:
  test_construct_mctp_pldm_msg
  by code_simp+

lemma common_tests_5 [tested]:
  test_decode_failure_code
  by code_simp+

lemma common_tests_6 [tested]:
  test_pldm_version_try_from_str
  by code_simp+

lemma common_tests_7 [tested]:
  test_pldm_version_try_from_str_error
  by code_simp+

lemma common_tests_8 [tested]:
  test_pldm_version_bcd_encode
  by code_simp+

lemma common_tests_9 [tested]:
  test_pldm_version_bcd_decode_from_ver32
  by code_simp+

lemma common_tests_10 [tested]:
  test_pldm_version_str_to_ver32
  by code_simp+

lemma common_tests_11 [tested]:
  test_descriptor_encode_decode
  by code_simp+

lemma common_tests_12 [tested]:
  test_component_parameter_entry
  by code_simp+

lemma common_tests_13 [tested]:
  test_pldm_firmware_string_codec
  by code_simp+

lemma common_tests_14 [tested]:
  test_pldm_firmware_string_codec_invalid_size
  by code_simp+

lemma common_tests_15 [tested]:
  test_check_update_component
  by code_simp+

lemma common_tests_16 [tested]:
  test_get_pldm_commands_request
  by code_simp+

lemma common_tests_17 [tested]:
  test_get_pldm_commands_response
  by code_simp+

lemma common_tests_18 [tested]:
  test_get_pldm_type_response
  by code_simp+

lemma common_tests_19 [tested]:
  test_get_pldm_version_response
  by code_simp+

lemma common_tests_20 [tested]:
  test_buffer_too_short
  by code_simp+

text \<open>The model passes these tests.\<close>

lemma common_tests_pass: "list_all (\<lambda>passed. passed) common_tests"
  by (simp add: common_tests_def tested)

end
