(* ===== verification/Package_Data.thy ===== *)
theory Package_Data
  imports Fw_Data
begin

text \<open>
  The messages that transfer package data and device metadata,
  \<open>pldm-common/src/message/firmware_update/get_package_data.rs\<close>.  The responses are a
  fixed part of nine bytes and a portion that takes the rest of the message;
  \<open>GetDeviceMetaData\<close> and \<open>GetMetaData\<close> borrow the portion, \<open>GetPackageData\<close> copies it
  into an array of 255 bytes.  The firmware device of this library neither sends nor
  answers them.
\<close>

section \<open>A fixed part and a portion\<close>

text \<open>
  The encoders and decoders of the borrowing responses.  Every access of the decoder is
  checked as Rust checks it.
\<close>

definition portion_message_encode ::
  "pldm_msg_header \<Rightarrow> u8 \<Rightarrow> u32 \<Rightarrow> u8 \<Rightarrow> bytes \<Rightarrow> bytes \<Rightarrow> (nat, codec_error) outcome \<times> bytes" where
  "portion_message_encode hdr cc handle tflag portion buffer =
     (if length buffer < 9 + length portion then (Err BufferTooShort, buffer)
      else put_all [Some (hdr_bytes hdr), Some [cc], Some (le32 handle), Some [tflag], Some portion] 0 buffer)"

definition portion_message_decode ::
  "bytes \<Rightarrow> (pldm_msg_header \<Rightarrow> u8 \<Rightarrow> u32 \<Rightarrow> u8 \<Rightarrow> bytes \<Rightarrow> ('m, codec_error) outcome) \<Rightarrow> ('m, codec_error) outcome" where
  "portion_message_decode buffer mk =
     (if length buffer < 9 then Err BufferTooShort
      else rbind (slice 0 3 buffer) (\<lambda>hdr.
           rbind (index_at 3 buffer) (\<lambda>cc.
           rbind (slice 4 4 buffer) (\<lambda>handle.
           rbind (index_at 8 buffer) (\<lambda>tflag.
           rbind (slice_from 9 buffer) (\<lambda>portion.
             mk (hdr_of hdr) cc (u32_at 0 handle) tflag portion))))))"

definition portion_message_ser :: "pldm_msg_header \<Rightarrow> u8 \<Rightarrow> u32 \<Rightarrow> u8 \<Rightarrow> bytes \<Rightarrow> bytes" where
  "portion_message_ser hdr cc handle tflag portion = hdr_bytes hdr @ [cc] @ le32 handle @ [tflag] @ portion"

lemma portion_message_ser_length [simp]:
  "length (portion_message_ser hdr cc handle tflag portion) = 9 + length portion"
  by (simp add: portion_message_ser_def)

lemma portion_message_set_flag:
  "(portion_message_ser hdr cc handle tflag portion)[8 := w] = portion_message_ser hdr cc handle w portion"
  by (simp add: portion_message_ser_def le32_def list_update_append)

lemma portion_message_encode_eq:
  "portion_message_encode hdr cc handle tflag portion buf =
     (if length (portion_message_ser hdr cc handle tflag portion) \<le> length buf
      then (Ok (length (portion_message_ser hdr cc handle tflag portion)),
            splice 0 (portion_message_ser hdr cc handle tflag portion) buf)
      else (Err BufferTooShort, buf))"
proof (cases "9 + length portion \<le> length buf")
  case True
  have "put_all [Some (hdr_bytes hdr), Some [cc], Some (le32 handle), Some [tflag], Some portion] 0 buf
      = ((Ok (length (portion_message_ser hdr cc handle tflag portion)) :: (nat, codec_error) outcome),
         splice 0 (portion_message_ser hdr cc handle tflag portion) buf)"
    using True by (intro put_fields [where bss = "[hdr_bytes hdr, [cc], le32 handle, [tflag], portion]"])
      (simp_all add: portion_message_ser_def)
  with True show ?thesis by (simp add: portion_message_encode_def)
qed (simp add: portion_message_encode_def)

text \<open>A message of at least nine bytes has exactly one reading.\<close>

lemma portion_message_cases:
  assumes "9 \<le> length buf"
  obtains hdr cc handle tflag portion where "buf = portion_message_ser hdr cc handle tflag portion"
proof -
  have "buf = portion_message_ser (hdr_of buf) (buf ! 3) (u32_at 4 buf) (buf ! 8) (drop 9 buf)"
  proof -
    from assms obtain xs ys where buf: "buf = xs @ ys" and len: "length xs = 9"
      by (metis append_take_drop_id length_take min.absorb2)
    then show ?thesis
      by (auto simp: portion_message_ser_def layout length_eq_Cons length_eq_Suc_Cons)
  qed
  then show thesis by (rule that)
qed

lemma portion_message_decode_ser:
  "portion_message_decode (portion_message_ser hdr cc handle tflag portion) mk = mk hdr cc handle tflag portion"
  by (simp add: portion_message_decode_def portion_message_ser_def slice_in_range index_at_def slice_from_def
      u32_at_def le32_def)

lemma portion_message_decode_short: "length buf < 9 \<Longrightarrow> portion_message_decode buf mk = Err BufferTooShort"
  by (simp add: portion_message_decode_def)

lemma portion_message_decode_not_Panic:
  assumes "\<And>hdr cc handle tflag portion. mk hdr cc handle tflag portion \<noteq> Panic"
  shows "portion_message_decode buf mk \<noteq> Panic"
proof (cases "length buf < 9")
  case False
  then obtain hdr cc handle tflag portion where "buf = portion_message_ser hdr cc handle tflag portion"
    by (meson not_less portion_message_cases)
  with assms show ?thesis by (simp add: portion_message_decode_ser)
qed (simp add: portion_message_decode_short)

section \<open>GetPackageData\<close>

definition GET_PACKAGE_DATA_PORTION_SIZE :: nat where
  [simp]: "GET_PACKAGE_DATA_PORTION_SIZE = 1024"

record get_package_data_request =
  gpq_hdr :: pldm_msg_header
  gpq_data_transfer_handle :: u32
  gpq_transfer_operation_flag :: u8

definition get_package_data_request_bytes :: "get_package_data_request \<Rightarrow> bytes" where
  [layout]: "get_package_data_request_bytes r = hdr_bytes (gpq_hdr r) @ le32 (gpq_data_transfer_handle r) @ [gpq_transfer_operation_flag r]"

definition get_package_data_request_of :: "bytes \<Rightarrow> get_package_data_request" where
  [layout]: "get_package_data_request_of bs = \<lparr>gpq_hdr = hdr_of bs,
     gpq_data_transfer_handle = u32_at 3 bs,
     gpq_transfer_operation_flag = bs ! 7\<rparr>"

interpretation get_package_data_request: packed_struct 8 get_package_data_request_bytes get_package_data_request_of "\<lambda>_. True"
  by unfold_locales (auto simp: layout length_eq_Cons length_eq_Suc_Cons)

definition get_package_data_request_new :: "u8 \<Rightarrow> u32 \<Rightarrow> transfer_operation_flag \<Rightarrow> get_package_data_request" where
  "get_package_data_request_new inst handle op =
     \<lparr>gpq_hdr = header_new inst MsgRequest TypeFwUpdate (fw_update_cmd_disc GetPackageData),
      gpq_data_transfer_handle = handle,
      gpq_transfer_operation_flag = transfer_operation_flag_disc op\<rparr>"

definition GetPackageDataCode :: "fw_cc list" where
  "GetPackageDataCode = [CommandNotExpected, NoPackageData, InvalidTransferHandle, InvalidTransferOperationFlag]"

definition MAX_PORTION_DATA_SIZE :: nat where
  [simp]: "MAX_PORTION_DATA_SIZE = 0xff"

record get_package_data_response =
  gpr_hdr :: pldm_msg_header
  gpr_completion_code :: u8
  gpr_next_data_transfer_handle :: u32
  gpr_transfer_flag :: u8
  gpr_portion_of_package_data :: bytes
  gpr_portion_of_package_data_len :: nat

text \<open>A portion beyond the array makes the constructor panic.\<close>

definition get_package_data_response_new ::
  "u8 \<Rightarrow> cmd_cc \<Rightarrow> u32 \<Rightarrow> transfer_operation_flag \<Rightarrow> bytes \<Rightarrow> (get_package_data_response, 'e) outcome" where
  "get_package_data_response_new inst cc handle tflag portion =
     (if MAX_PORTION_DATA_SIZE < length portion then Panic
      else Ok \<lparr>
        gpr_hdr = header_new inst MsgResponse TypeFwUpdate (fw_update_cmd_disc GetPackageData),
        gpr_completion_code = cmd_cc_disc cc,
        gpr_next_data_transfer_handle = handle,
        gpr_transfer_flag = transfer_operation_flag_disc tflag,
        gpr_portion_of_package_data = pad_to MAX_PORTION_DATA_SIZE portion,
        gpr_portion_of_package_data_len = length portion\<rparr>)"

text \<open>
  The struct is \<open>repr(C)\<close> without padding, so its size less the array and the length
  field is the nine bytes of the fixed part.
\<close>

definition get_package_data_response_encode ::
  "get_package_data_response \<Rightarrow> bytes \<Rightarrow> (nat, codec_error) outcome \<times> bytes" where
  "get_package_data_response_encode r buffer =
     (if length buffer < 9 + gpr_portion_of_package_data_len r then (Err BufferTooShort, buffer)
      else put_all [Some (hdr_bytes (gpr_hdr r)), Some [gpr_completion_code r],
        Some (le32 (gpr_next_data_transfer_handle r)), Some [gpr_transfer_flag r],
        prefix_chunk (gpr_portion_of_package_data_len r) (gpr_portion_of_package_data r)] 0 buffer)"

text \<open>The decoder builds its result with the constructor, from the instance id alone.\<close>

definition get_package_data_response_decode :: "bytes \<Rightarrow> (get_package_data_response, codec_error) outcome" where
  "get_package_data_response_decode buffer =
     (if length buffer < 9 then Err BufferTooShort
      else rbind (slice 0 3 buffer) (\<lambda>hdr.
           rbind (index_at 3 buffer) (\<lambda>code.
           rbind (map_err (\<lambda>_. Unsupported) (cmd_cc_try_from GetPackageDataCode code)) (\<lambda>cc.
           rbind (slice 4 4 buffer) (\<lambda>handle.
           rbind (index_at 8 buffer) (\<lambda>op.
           rbind (map_err (\<lambda>_. Unsupported) (transfer_operation_flag_try_from op)) (\<lambda>tflag.
             let portion_len = length buffer - 9 in
             if MAX_PORTION_DATA_SIZE < portion_len then Err BufferTooShort
             else rbind (slice_from 9 buffer) (\<lambda>portion.
               get_package_data_response_new (instance_id (hdr_of hdr)) cc (u32_at 0 handle) tflag portion))))))))"

definition get_package_data_response_ser :: "get_package_data_response \<Rightarrow> bytes" where
  "get_package_data_response_ser r =
     portion_message_ser (gpr_hdr r) (gpr_completion_code r) (gpr_next_data_transfer_handle r)
       (gpr_transfer_flag r) (take (gpr_portion_of_package_data_len r) (gpr_portion_of_package_data r))"

text \<open>What the constructor builds from a completion code of the command\<close>

definition wf_get_package_data_response :: "get_package_data_response \<Rightarrow> bool" where
  "wf_get_package_data_response r \<longleftrightarrow>
     gpr_hdr r = header_new (instance_id (gpr_hdr r)) MsgResponse TypeFwUpdate (fw_update_cmd_disc GetPackageData) \<and>
     (\<exists>cc. cmd_cc_try_from GetPackageDataCode (gpr_completion_code r) = Ok cc) \<and>
     (\<exists>tflag. transfer_operation_flag_try_from (gpr_transfer_flag r) = Ok tflag) \<and>
     padded 255 (gpr_portion_of_package_data_len r) (gpr_portion_of_package_data r)"

text \<open>The completion codes of one command that its conversion knows\<close>

definition cmd_cc_of :: "fw_cc list \<Rightarrow> cmd_cc \<Rightarrow> bool" where
  "cmd_cc_of variants cc \<longleftrightarrow>
     (case cc of BaseCodes _ \<Rightarrow> True
      | FwCode c \<Rightarrow> c \<in> set variants - {NoOpaqueData, UpdateSecurityRevisionNotPermitted, DownstreamDeviceListChanged})"

lemma cmd_cc_try_from_disc: "cmd_cc_of variants cc \<Longrightarrow> cmd_cc_try_from variants (cmd_cc_disc cc) = Ok cc"
  by (cases cc) (auto simp: cmd_cc_of_def cmd_cc_try_from_def base_cc.decode_encode base_fw_disjoint fw_cc_try_from_disc)

lemma cmd_cc_try_from_Ok: "cmd_cc_try_from variants code = Ok cc \<Longrightarrow> cmd_cc_disc cc = code"
  by (auto simp: cmd_cc_try_from_def base_cc.encode_decode fw_cc_encode_decode split: outcome.splits if_splits)

lemma cmd_cc_try_from_not_Panic [simp]: "cmd_cc_try_from variants code \<noteq> Panic"
  by (auto simp: cmd_cc_try_from_def fw_cc_try_from_def split: outcome.splits)

lemma header_new_again [simp]: "header_new (take_bit 5 inst) mt pt cmd = header_new inst mt pt cmd"
proof -
  have "set_bits 4 0 (take_bit 5 inst) w = set_bits 4 0 inst w" for w
    by (rule bit_word_eqI) (auto simp: bit_set_bits bit_take_bit_iff)
  then show ?thesis by (simp add: header_new_def)
qed

lemma get_package_data_response_new_wf:
  assumes "get_package_data_response_new inst cc handle tflag portion = Ok r" and "cmd_cc_of GetPackageDataCode cc"
  shows "wf_get_package_data_response r"
  using assms by (auto simp: get_package_data_response_new_def wf_get_package_data_response_def
      cmd_cc_try_from_disc transfer_operation_flag.decode_encode padded_pad_to split: if_splits)

lemma get_package_data_response_decode_ser:
  "get_package_data_response_decode (portion_message_ser hdr code handle op portion) =
     rbind (map_err (\<lambda>_. Unsupported) (cmd_cc_try_from GetPackageDataCode code)) (\<lambda>cc.
     rbind (map_err (\<lambda>_. Unsupported) (transfer_operation_flag_try_from op)) (\<lambda>tflag.
       if 255 < length portion then Err BufferTooShort
       else get_package_data_response_new (instance_id hdr) cc handle tflag portion))"
  by (simp add: get_package_data_response_decode_def portion_message_ser_def slice_in_range index_at_def
      slice_from_def u32_at_def le32_def Let_def cong: if_cong)

lemma get_package_data_response_decode_not_Panic [simp]: "get_package_data_response_decode buf \<noteq> Panic"
proof (cases "length buf < 9")
  case False
  then obtain hdr code handle op portion where "buf = portion_message_ser hdr code handle op portion"
    by (meson not_less portion_message_cases)
  then show ?thesis
    by (simp add: get_package_data_response_decode_ser rbind_eq_Panic transfer_operation_flag.no_panic
        get_package_data_response_new_def)
qed (simp add: get_package_data_response_decode_def)

interpretation get_package_data_response: codec_exact get_package_data_response_encode
    get_package_data_response_decode get_package_data_response_ser wf_get_package_data_response
proof
  fix x :: get_package_data_response and buf :: bytes
  assume wf: "wf_get_package_data_response x"
  then have pad: "padded 255 (gpr_portion_of_package_data_len x) (gpr_portion_of_package_data x)"
    by (simp add: wf_get_package_data_response_def)
  let ?n = "gpr_portion_of_package_data_len x" and ?p = "gpr_portion_of_package_data x"
  have len: "length (get_package_data_response_ser x) = 9 + ?n"
    using pad by (simp add: get_package_data_response_ser_def padded_def)
  have enc: "get_package_data_response_encode x = portion_message_encode (gpr_hdr x) (gpr_completion_code x)
      (gpr_next_data_transfer_handle x) (gpr_transfer_flag x) (take ?n ?p)"
    using pad by (auto simp: get_package_data_response_encode_def portion_message_encode_def padded_def)
  show "length (get_package_data_response_ser x) \<le> length buf \<Longrightarrow> get_package_data_response_encode x buf =
      (Ok (length (get_package_data_response_ser x)), splice 0 (get_package_data_response_ser x) buf)"
    unfolding enc by (simp add: portion_message_encode_eq get_package_data_response_ser_def)
  show "length buf < length (get_package_data_response_ser x) \<Longrightarrow>
      get_package_data_response_encode x buf = (Err BufferTooShort, buf)"
    unfolding enc by (simp add: portion_message_encode_eq get_package_data_response_ser_def)
  from wf obtain cc tflag where
    "cmd_cc_try_from GetPackageDataCode (gpr_completion_code x) = Ok cc"
    "transfer_operation_flag_try_from (gpr_transfer_flag x) = Ok tflag"
    by (auto simp: wf_get_package_data_response_def)
  moreover from this have "cmd_cc_disc cc = gpr_completion_code x"
      "transfer_operation_flag_disc tflag = gpr_transfer_flag x"
    by (simp_all add: cmd_cc_try_from_Ok transfer_operation_flag.encode_decode)
  moreover have "header_new (instance_id (gpr_hdr x)) MsgResponse TypeFwUpdate (fw_update_cmd_disc GetPackageData) = gpr_hdr x"
    using wf by (simp add: wf_get_package_data_response_def)
  moreover have "length (take ?n ?p) = ?n" "\<not> 255 < ?n"
    using padded_length [OF pad] by simp_all
  ultimately show "get_package_data_response_decode (get_package_data_response_ser x) = Ok x"
    using padded_pad_take [OF pad]
    by (simp add: get_package_data_response_ser_def get_package_data_response_decode_ser
        get_package_data_response_new_def)
qed simp

section \<open>GetDeviceMetaData\<close>

record get_device_meta_data_request =
  gdq_hdr :: pldm_msg_header
  gdq_data_transfer_handle :: u32
  gdq_transfer_operation_flag :: u8

definition get_device_meta_data_request_bytes :: "get_device_meta_data_request \<Rightarrow> bytes" where
  [layout]: "get_device_meta_data_request_bytes r = hdr_bytes (gdq_hdr r) @ le32 (gdq_data_transfer_handle r) @ [gdq_transfer_operation_flag r]"

definition get_device_meta_data_request_of :: "bytes \<Rightarrow> get_device_meta_data_request" where
  [layout]: "get_device_meta_data_request_of bs = \<lparr>gdq_hdr = hdr_of bs,
     gdq_data_transfer_handle = u32_at 3 bs,
     gdq_transfer_operation_flag = bs ! 7\<rparr>"

interpretation get_device_meta_data_request: packed_struct 8 get_device_meta_data_request_bytes get_device_meta_data_request_of "\<lambda>_. True"
  by unfold_locales (auto simp: layout length_eq_Cons length_eq_Suc_Cons)

definition get_device_meta_data_request_new :: "u8 \<Rightarrow> u32 \<Rightarrow> transfer_operation_flag \<Rightarrow> get_device_meta_data_request" where
  "get_device_meta_data_request_new inst handle op =
     \<lparr>gdq_hdr = header_new inst MsgRequest TypeFwUpdate (fw_update_cmd_disc GetDeviceMetaData),
      gdq_data_transfer_handle = handle,
      gdq_transfer_operation_flag = transfer_operation_flag_disc op\<rparr>"

definition GetDeviceMetaDataCodes :: "fw_cc list" where
  "GetDeviceMetaDataCodes = [InvalidStateForCommand, NoDeviceMetadata, InvalidTransferHandle,
     InvalidTransferOperationFlag, PackageDataError]"

record get_device_meta_data_response =
  gdr_hdr :: pldm_msg_header
  gdr_completion_code :: u8
  gdr_next_data_transfer_handle :: u32
  gdr_transfer_flag :: u8
  gdr_portion :: bytes

definition get_device_meta_data_response_new ::
  "u8 \<Rightarrow> cmd_cc \<Rightarrow> u32 \<Rightarrow> transfer_operation_flag \<Rightarrow> bytes \<Rightarrow> get_device_meta_data_response" where
  "get_device_meta_data_response_new inst cc handle tflag portion =
     \<lparr>gdr_hdr = header_new inst MsgResponse TypeFwUpdate (fw_update_cmd_disc GetDeviceMetaData),
      gdr_completion_code = cmd_cc_disc cc,
      gdr_next_data_transfer_handle = handle,
      gdr_transfer_flag = transfer_operation_flag_disc tflag,
      gdr_portion = portion\<rparr>"

definition get_device_meta_data_response_encode :: "get_device_meta_data_response \<Rightarrow> bytes \<Rightarrow> (nat, codec_error) outcome \<times> bytes" where
  "get_device_meta_data_response_encode r =
     portion_message_encode (gdr_hdr r) (gdr_completion_code r) (gdr_next_data_transfer_handle r)
       (gdr_transfer_flag r) (gdr_portion r)"

definition get_device_meta_data_response_decode :: "bytes \<Rightarrow> (get_device_meta_data_response, codec_error) outcome" where
  "get_device_meta_data_response_decode buffer =
     portion_message_decode buffer (\<lambda>hdr cc handle tflag portion.
       Ok \<lparr>gdr_hdr = hdr, gdr_completion_code = cc, gdr_next_data_transfer_handle = handle,
           gdr_transfer_flag = tflag, gdr_portion = portion\<rparr>)"

definition get_device_meta_data_response_ser :: "get_device_meta_data_response \<Rightarrow> bytes" where
  "get_device_meta_data_response_ser r =
     portion_message_ser (gdr_hdr r) (gdr_completion_code r) (gdr_next_data_transfer_handle r)
       (gdr_transfer_flag r) (gdr_portion r)"

interpretation get_device_meta_data_response: codec_exact get_device_meta_data_response_encode get_device_meta_data_response_decode get_device_meta_data_response_ser "\<lambda>_. True"
  by unfold_locales
     (simp_all add: get_device_meta_data_response_encode_def get_device_meta_data_response_decode_def get_device_meta_data_response_ser_def
        portion_message_encode_eq portion_message_decode_ser portion_message_decode_not_Panic)

section \<open>GetMetaData\<close>

record get_meta_data_request =
  gmq_hdr :: pldm_msg_header
  gmq_data_transfer_handle :: u32
  gmq_transfer_operation_flag :: u8

definition get_meta_data_request_bytes :: "get_meta_data_request \<Rightarrow> bytes" where
  [layout]: "get_meta_data_request_bytes r = hdr_bytes (gmq_hdr r) @ le32 (gmq_data_transfer_handle r) @ [gmq_transfer_operation_flag r]"

definition get_meta_data_request_of :: "bytes \<Rightarrow> get_meta_data_request" where
  [layout]: "get_meta_data_request_of bs = \<lparr>gmq_hdr = hdr_of bs,
     gmq_data_transfer_handle = u32_at 3 bs,
     gmq_transfer_operation_flag = bs ! 7\<rparr>"

interpretation get_meta_data_request: packed_struct 8 get_meta_data_request_bytes get_meta_data_request_of "\<lambda>_. True"
  by unfold_locales (auto simp: layout length_eq_Cons length_eq_Suc_Cons)

definition get_meta_data_request_new :: "u8 \<Rightarrow> u32 \<Rightarrow> transfer_operation_flag \<Rightarrow> get_meta_data_request" where
  "get_meta_data_request_new inst handle op =
     \<lparr>gmq_hdr = header_new inst MsgRequest TypeFwUpdate (fw_update_cmd_disc GetMetaData),
      gmq_data_transfer_handle = handle,
      gmq_transfer_operation_flag = transfer_operation_flag_disc op\<rparr>"

definition GetMetaDataCode :: "fw_cc list" where
  "GetMetaDataCode = [CommandNotExpected, InvalidTransferHandle, InvalidTransferOperationFlag]"

record get_meta_data_response =
  gmr_hdr :: pldm_msg_header
  gmr_completion_code :: u8
  gmr_next_data_transfer_handle :: u32
  gmr_transfer_flag :: u8
  gmr_portion :: bytes

definition get_meta_data_response_new ::
  "u8 \<Rightarrow> cmd_cc \<Rightarrow> u32 \<Rightarrow> transfer_operation_flag \<Rightarrow> bytes \<Rightarrow> get_meta_data_response" where
  "get_meta_data_response_new inst cc handle tflag portion =
     \<lparr>gmr_hdr = header_new inst MsgResponse TypeFwUpdate (fw_update_cmd_disc GetMetaData),
      gmr_completion_code = cmd_cc_disc cc,
      gmr_next_data_transfer_handle = handle,
      gmr_transfer_flag = transfer_operation_flag_disc tflag,
      gmr_portion = portion\<rparr>"

definition get_meta_data_response_encode :: "get_meta_data_response \<Rightarrow> bytes \<Rightarrow> (nat, codec_error) outcome \<times> bytes" where
  "get_meta_data_response_encode r =
     portion_message_encode (gmr_hdr r) (gmr_completion_code r) (gmr_next_data_transfer_handle r)
       (gmr_transfer_flag r) (gmr_portion r)"

definition get_meta_data_response_decode :: "bytes \<Rightarrow> (get_meta_data_response, codec_error) outcome" where
  "get_meta_data_response_decode buffer =
     portion_message_decode buffer (\<lambda>hdr cc handle tflag portion.
       Ok \<lparr>gmr_hdr = hdr, gmr_completion_code = cc, gmr_next_data_transfer_handle = handle,
           gmr_transfer_flag = tflag, gmr_portion = portion\<rparr>)"

definition get_meta_data_response_ser :: "get_meta_data_response \<Rightarrow> bytes" where
  "get_meta_data_response_ser r =
     portion_message_ser (gmr_hdr r) (gmr_completion_code r) (gmr_next_data_transfer_handle r)
       (gmr_transfer_flag r) (gmr_portion r)"

interpretation get_meta_data_response: codec_exact get_meta_data_response_encode get_meta_data_response_decode get_meta_data_response_ser "\<lambda>_. True"
  by unfold_locales
     (simp_all add: get_meta_data_response_encode_def get_meta_data_response_decode_def get_meta_data_response_ser_def
        portion_message_encode_eq portion_message_decode_ser portion_message_decode_not_Panic)

section \<open>Properties\<close>

text \<open>C36: a package data response with a portion of up to 255 bytes is what the device decodes from the
  bytes that were sent.  The decoder reads the transfer flag as the operation flag of a request,
  though: with the flag of any portion but the first (middle, end, or start and end) the response
  is rejected, whatever else it holds.\<close>

theorem package_data_transfer:
  assumes "cmd_cc_of GetPackageDataCode cc" and "length portion \<le> 255" and "9 + length portion \<le> length buf"
    and "mark \<noteq> FlagStart"
  shows "\<exists>r buf'. get_package_data_response_new inst cc handle tflag portion = (Ok r :: (_, unit) outcome) \<and>
      get_package_data_response_encode r buf = (Ok (9 + length portion), buf') \<and>
      get_package_data_response_decode (take (9 + length portion) buf') = Ok r \<and>
      get_package_data_response_decode
        (take (9 + length portion) (buf'[8 := transfer_resp_flag_disc mark])) = Err Unsupported"
proof -
  obtain r where r: "get_package_data_response_new inst cc handle tflag portion = (Ok r :: (_, unit) outcome)"
    using assms(2) by (simp add: get_package_data_response_new_def)
  have wf: "wf_get_package_data_response r" by (rule get_package_data_response_new_wf [OF r assms(1)])
  have ser: "get_package_data_response_ser r = portion_message_ser (gpr_hdr r) (cmd_cc_disc cc) handle
      (transfer_operation_flag_disc tflag) portion"
    using r assms(2) by (auto simp: get_package_data_response_new_def get_package_data_response_ser_def)
  let ?buf = "splice 0 (get_package_data_response_ser r) buf"
  have enc: "get_package_data_response_encode r buf = (Ok (9 + length portion), ?buf)"
    using get_package_data_response.enc_fits [OF wf, of buf] assms(3) by (simp add: ser)
  have "take (9 + length portion) (?buf[8 := w])
      = portion_message_ser (gpr_hdr r) (cmd_cc_disc cc) handle w portion" for w
    by (simp add: ser take_update_swap splice_def portion_message_set_flag)
  moreover have "transfer_operation_flag_try_from (transfer_resp_flag_disc mark) = Err PE_InvalidTransferOpFlag"
    using assms(4) by (cases mark) (simp_all add: transfer_operation_flag_try_from_def)
  ultimately have "get_package_data_response_decode
        (take (9 + length portion) (?buf[8 := transfer_resp_flag_disc mark])) = Err Unsupported"
    by (simp add: get_package_data_response_decode_ser cmd_cc_try_from_disc [OF assms(1)])
  with r enc get_package_data_response.roundtrip [OF wf enc] show ?thesis by blast
qed

theorem package_data_transfer_witness:
  "\<exists>r buf'. get_package_data_response_new 3 (BaseCodes CC_Success) 7 GetFirstPart [1, 2] = (Ok r :: (_, unit) outcome) \<and>
      get_package_data_response_encode r (replicate 12 0) = (Ok 11, buf') \<and>
      get_package_data_response_decode (take 11 buf') = Ok r \<and>
      get_package_data_response_decode (take 11 (buf'[8 := 5])) = Err Unsupported"
  using package_data_transfer [of "BaseCodes CC_Success" "[1, 2]" "replicate 12 0" FlagStartAndEnd 3 7 GetFirstPart]
  by (simp add: cmd_cc_of_def)

end
