(* ===== verification/Message_Tests.thy ===== *)
theory Message_Tests
  imports Common_Tests Fw_Msgs Get_Fw_Params Var_Msgs Package_Data
begin

text \<open>
  The unit tests of \<open>message/firmware_update/\<close>, but for those of the downstream devices.
\<close>

section \<open>Messages of fixed size\<close>

definition test_request_firmware_data_request_codec :: bool where
  "test_request_firmware_data_request_codec \<longleftrightarrow>
     (let request = request_fw_data_request_new 1 MsgRequest 0 64 in
      round_trips_prefix (blanket_encode 11 request_fw_data_request_bytes request) (blanket_decode 11 request_fw_data_request_of) request 1024)"

definition test_request_firmware_data_response_codec :: bool where
  "test_request_firmware_data_response_codec \<longleftrightarrow>
     (let response = request_fw_data_response_new 1 0 (replicate 512 0) in
      round_trips_prefix (request_fw_data_response_encode response) request_fw_data_response_decode response 1024)"

definition test_get_status_request_codec :: bool where
  "test_get_status_request_codec \<longleftrightarrow>
     (let request = get_status_request_new 1 MsgRequest in
      round_trips (blanket_encode 3 get_status_request_bytes request) (blanket_decode 3 get_status_request_of) request 16 \<and>
      fst (blanket_encode 3 get_status_request_bytes request (replicate 16 0)) = Ok 3)"

definition test_get_status_response_codec :: bool where
  "test_get_status_response_codec \<longleftrightarrow>
     holds (progress_new 50) (\<lambda>progress.
       let response = get_status_response_new 1 0 Idle Idle IdleLearnComponentsReadXfer
         (aux_state_status_disc AuxStateInProgressOrSuccess) progress ReasonInitialization NoForceUpdate in
       fst (blanket_encode 14 get_status_response_bytes response (replicate 32 0)) = Ok 14 \<and>
       round_trips (blanket_encode 14 get_status_response_bytes response) (blanket_decode 14 get_status_response_of) response 32)"

definition test_update_security_revision_request :: bool where
  "test_update_security_revision_request \<longleftrightarrow>
     (let request = update_security_revision_request_new 1 MsgRequest ClassFirmware 2 0 in
      round_trips (blanket_encode 8 update_security_revision_request_bytes request) (blanket_decode 8 update_security_revision_request_of) request 8)"

definition test_update_security_revision_request_for_all_downstream_devices :: bool where
  "test_update_security_revision_request_for_all_downstream_devices \<longleftrightarrow>
     (let request = update_security_revision_request_new 1 MsgRequest ClassDownstreamDevice 3 UPDATE_SECURITY_REVISION_ALL_DEVICES in
      round_trips (blanket_encode 8 update_security_revision_request_bytes request) (blanket_decode 8 update_security_revision_request_of) request 8 \<and>
      usq_comp_classification request = component_classification_disc ClassDownstreamDevice)"

definition test_update_security_revision_request_rejects_a_short_buffer :: bool where
  "test_update_security_revision_request_rejects_a_short_buffer \<longleftrightarrow>
     (let request = update_security_revision_request_new 1 MsgRequest ClassFirmware 2 0 in
      too_short (blanket_encode 8 update_security_revision_request_bytes request) (blanket_decode 8 update_security_revision_request_of) 7)"

definition test_update_security_revision_result_completion_codes :: bool where
  "test_update_security_revision_result_completion_codes \<longleftrightarrow>
     to_completion_code RevisionUpdated = base_cc_disc CC_Success \<and>
     to_completion_code RevisionNotPermitted = fw_cc_disc UpdateSecurityRevisionNotPermitted"

definition test_update_security_revision_response :: bool where
  "test_update_security_revision_response \<longleftrightarrow>
     (let response = update_security_revision_response_new 1 0 in
      round_trips (blanket_encode 4 update_security_revision_response_bytes response) (blanket_decode 4 update_security_revision_response_of) response 4)"

definition test_cancel_update_request_codec :: bool where
  "test_cancel_update_request_codec \<longleftrightarrow>
     (let request = cancel_update_request_new 1 MsgRequest in
      round_trips (blanket_encode 3 cancel_update_request_bytes request) (blanket_decode 3 cancel_update_request_of) request 3)"

definition test_cancel_update_response_codec :: bool where
  "test_cancel_update_response_codec \<longleftrightarrow>
     (let response = cancel_update_response_new 1 0 ComponentsFunctioning 0 in
      round_trips (blanket_encode 13 cancel_update_response_bytes response) (blanket_decode 13 cancel_update_response_of) response 13)"

definition test_activate_firmware_request :: bool where
  "test_activate_firmware_request \<longleftrightarrow>
     (let request = activate_firmware_request_new 1 MsgRequest ActivateSelfContainedComponents in
      round_trips (blanket_encode 4 activate_firmware_request_bytes request) (blanket_decode 4 activate_firmware_request_of) request 4)"

definition test_activate_firmware_response :: bool where
  "test_activate_firmware_response \<longleftrightarrow>
     (let response = activate_firmware_response_new 1 0 10 in
      round_trips (blanket_encode 6 activate_firmware_response_bytes response) (blanket_decode 6 activate_firmware_response_of) response 6)"

definition test_transfer_complete_request_codec :: bool where
  "test_transfer_complete_request_codec \<longleftrightarrow>
     (let request = transfer_complete_request_new 1 MsgRequest TransferSuccess in
      round_trips (blanket_encode 4 transfer_complete_request_bytes request) (blanket_decode 4 transfer_complete_request_of) request 4)"

definition test_transfer_complete_response_codec :: bool where
  "test_transfer_complete_response_codec \<longleftrightarrow>
     (let response = transfer_complete_response_new 1 0 in
      round_trips (blanket_encode 4 transfer_complete_response_bytes response) (blanket_decode 4 transfer_complete_response_of) response 4)"

definition test_verify_complete_request_codec :: bool where
  "test_verify_complete_request_codec \<longleftrightarrow>
     (let request = verify_complete_request_new 1 MsgRequest VerifySuccess in
      round_trips (blanket_encode 4 verify_complete_request_bytes request) (blanket_decode 4 verify_complete_request_of) request 4)"

definition test_verify_complete_response_codec :: bool where
  "test_verify_complete_response_codec \<longleftrightarrow>
     (let response = verify_complete_response_new 1 0 in
      round_trips (blanket_encode 4 verify_complete_response_bytes response) (blanket_decode 4 verify_complete_response_of) response 4)"

definition test_apply_complete_request :: bool where
  "test_apply_complete_request \<longleftrightarrow>
     (let request = apply_complete_request_new 1 MsgRequest ApplySuccess 1 in
      round_trips_sized (blanket_encode 6 apply_complete_request_bytes request) (blanket_decode 6 apply_complete_request_of) request 64 6)"

definition test_apply_complete_response :: bool where
  "test_apply_complete_response \<longleftrightarrow>
     (let response = apply_complete_response_new 1 0 in
      round_trips_sized (blanket_encode 4 apply_complete_response_bytes response) (blanket_decode 4 apply_complete_response_of) response 64 4)"

definition test_activate_pending_component_image :: bool where
  "test_activate_pending_component_image \<longleftrightarrow>
     (let request = activate_pending_request_new 1 MsgRequest ClassFirmware 2 3 in
      round_trips_sized (blanket_encode 8 activate_pending_request_bytes request) (blanket_decode 8 activate_pending_request_of) request 64 8)"

definition response_fields :: "pending_component_result \<Rightarrow> u8 \<times> u16" where
  "response_fields result =
     (let resp = pending_component_result_into_response result 1 in (apr_completion_code resp, apr_estimated_time_activation resp))"

definition test_pending_component_result_into_response :: bool where
  "test_pending_component_result_into_response \<longleftrightarrow>
     response_fields (PendingActivated 42) = (base_cc_disc CC_Success, 42) \<and>
     response_fields PendingActivationNotRequired = (fw_cc_disc ActivationNotRequired, 0) \<and>
     response_fields PendingNotPermitted = (fw_cc_disc ActivatePendingImageNotPermitted, 0)"

definition test_pending_component_result_response_header :: bool where
  "test_pending_component_result_response_header \<longleftrightarrow>
     instance_id (apr_hdr (pending_component_result_into_response (PendingActivated 1) 5)) = 5"

definition test_activate_pending_component_image_response :: bool where
  "test_activate_pending_component_image_response \<longleftrightarrow>
     (let response = activate_pending_response_new 1 0 0 in
      round_trips_sized (blanket_encode 6 activate_pending_response_bytes response) (blanket_decode 6 activate_pending_response_of) response 64 6)"

section \<open>Messages with a version string or an optional part\<close>

definition test_request_update_request_codec :: bool where
  "test_request_update_request_codec \<longleftrightarrow>
     holds (firmware_string_new ''ASCII'' ''mcu-1.0.0'') (\<lambda>version_string.
       let request = request_update_request_new 0 MsgRequest 512 2 1 256 version_string in
       round_trips_sized (request_update_request_encode request) request_update_request_decode request 512
         (request_update_request_codec_size request))"

definition test_request_update_response_codec :: bool where
  "test_request_update_response_codec \<longleftrightarrow>
     (let response = request_update_response_new 1 0 128 0x02 (Some 2048) in
      round_trips_sized (request_update_response_encode response) request_update_response_decode response 512
        (request_update_response_codec_size response))"

definition test_update_component_request_codec :: bool where
  "test_update_component_request_codec \<longleftrightarrow>
     holds (firmware_string_new ''UTF-8'' ''mcu-fw-1.2.0'') (\<lambda>version_string.
       let request = update_component_request_new 0 MsgRequest ClassFirmware 1 1 1 1 2 version_string in
       round_trips_sized (update_component_request_encode request) update_component_request_decode request 512
         (update_component_request_codec_size request))"

definition test_update_component_response_codec :: bool where
  "test_update_component_response_codec \<longleftrightarrow>
     (let response = update_component_response_new 0 0 CompatCanBeUpdated CompatNoResponseCode 2 1 (Some 0x100) in
      round_trips_sized (update_component_response_encode response) update_component_response_decode response 512
        (update_component_response_codec_size response))"

definition test_pass_component_table_request_codec :: bool where
  "test_pass_component_table_request_codec \<longleftrightarrow>
     holds (firmware_string_new ''UTF-8'' ''bmc-fw-1.2.0'') (\<lambda>version_string.
       let request = pass_component_request_new 1 MsgRequest FlagStartAndEnd ClassFirmware 2 3 4 version_string in
       round_trips_prefix (pass_component_request_encode request) pass_component_request_decode request 1024)"

definition test_pass_component_table_response_codec :: bool where
  "test_pass_component_table_response_codec \<longleftrightarrow>
     (let response = pass_component_response_new 0 0 RespCompCanBeUpdated CompCanBeUpdated in
      round_trips_prefix (blanket_encode 6 pass_component_response_bytes response)
        (blanket_decode 6 pass_component_response_of) response 1024)"

definition test_query_device_identifiers_resp_codec :: bool where
  "test_query_device_identifiers_resp_codec \<longleftrightarrow>
     holds (descriptor_new Uuid test_uid) (\<lambda>initial_descriptor.
     holds (descriptor_new Uuid test_uid) (\<lambda>additional_descriptor.
     holds (query_devid_response_new 0 0 initial_descriptor (Some [additional_descriptor])) (\<lambda>resp.
       qdr_descriptor_count resp = 2 \<and>
       qdr_device_identifiers_len resp =
         of_nat (descriptor_codec_size initial_descriptor + descriptor_codec_size additional_descriptor) \<and>
       fst (query_devid_response_encode resp (replicate 256 0)) = query_devid_response_codec_size resp \<and>
       round_trips (query_devid_response_encode resp) query_devid_response_decode resp 256)))"

section \<open>Firmware parameters\<close>

definition test_get_firmware_parameters_request_codec :: bool where
  "test_get_firmware_parameters_request_codec \<longleftrightarrow>
     (let request = get_firmware_parameters_request_new 0 MsgRequest;
        enc = blanket_encode 3 get_firmware_parameters_request_bytes request;
        dec = blanket_decode 3 get_firmware_parameters_request_of in
      round_trips enc dec request PLDM_MSG_HEADER_LEN \<and> too_short enc dec (PLDM_MSG_HEADER_LEN - 1))"

definition test_get_firmware_parameters_codec :: bool where
  "test_get_firmware_parameters_codec \<longleftrightarrow>
     holds (construct_firmware_params ''ASCII'') (\<lambda>params.
       fst (firmware_parameters_encode params (replicate 1024 0)) = firmware_parameters_codec_size params \<and>
       round_trips_prefix (firmware_parameters_encode params) firmware_parameters_decode params 1024 \<and>
       too_short (firmware_parameters_encode params) firmware_parameters_decode 1)"

definition test_get_firmware_parameters_response_codec :: bool where
  "test_get_firmware_parameters_response_codec \<longleftrightarrow>
     holds (construct_firmware_params ''ASCII'') (\<lambda>params.
       let response = get_firmware_parameters_response_new 0 0 params in
       fst (get_firmware_parameters_response_encode response (replicate 1024 0)) = get_firmware_parameters_response_codec_size response \<and>
       round_trips_prefix (get_firmware_parameters_response_encode response) get_firmware_parameters_response_decode response 1024 \<and>
       too_short (get_firmware_parameters_response_encode response) get_firmware_parameters_response_decode 1)"

section \<open>Package data and metadata\<close>

definition test_get_package_data_request_codec :: bool where
  "test_get_package_data_request_codec \<longleftrightarrow>
     (let request = get_package_data_request_new 1 0x12345678 GetFirstPart in
      round_trips (blanket_encode 8 get_package_data_request_bytes request) (blanket_decode 8 get_package_data_request_of) request 8)"

text \<open>The buffer is the struct without its array, its length field, and with the bytes of the portion.\<close>

definition test_get_package_data_response_codec :: bool where
  "test_get_package_data_response_codec \<longleftrightarrow>
     holds (get_package_data_response_new 1 (BaseCodes CC_Success) 0x12345678 GetFirstPart (replicate 10 22)
         :: (get_package_data_response, unit) outcome) (\<lambda>resp.
       round_trips (get_package_data_response_encode resp) get_package_data_response_decode resp (9 + 10))"

definition test_get_metadata_request_codec :: bool where
  "test_get_metadata_request_codec \<longleftrightarrow>
     (let request = get_meta_data_request_new 1 0x12345678 GetFirstPart in
      round_trips (blanket_encode 8 get_meta_data_request_bytes request) (blanket_decode 8 get_meta_data_request_of) request 8)"

definition test_get_meta_data_response_codec :: bool where
  "test_get_meta_data_response_codec \<longleftrightarrow>
     (let resp = get_meta_data_response_new 1 (BaseCodes CC_Success) 0x12345678 GetFirstPart (replicate 20 11) in
      round_trips (get_meta_data_response_encode resp) get_meta_data_response_decode resp (9 + 20))"

definition test_get_device_meta_data_request_codec :: bool where
  "test_get_device_meta_data_request_codec \<longleftrightarrow>
     (let request = get_device_meta_data_request_new 1 0x12345678 GetFirstPart in
      round_trips (blanket_encode 8 get_device_meta_data_request_bytes request) (blanket_decode 8 get_device_meta_data_request_of) request 8)"

definition test_get_device_meta_data_response_codec :: bool where
  "test_get_device_meta_data_response_codec \<longleftrightarrow>
     (let resp = get_device_meta_data_response_new 1 (BaseCodes CC_Success) 0x12345678 GetFirstPart (replicate 20 11) in
      round_trips (get_device_meta_data_response_encode resp) get_device_meta_data_response_decode resp (9 + 20))"

section \<open>Completion codes\<close>

definition test_pldm_completion_code_macro :: bool where
  "test_pldm_completion_code_macro \<longleftrightarrow>
     (let base = BaseCodes CC_Success in case base of BaseCodes i \<Rightarrow> i = CC_Success | FwCode _ \<Rightarrow> True)"

section \<open>They pass\<close>

definition message_tests :: "bool list" where
  "message_tests = [
     test_request_firmware_data_request_codec,
     test_request_firmware_data_response_codec,
     test_get_status_request_codec,
     test_get_status_response_codec,
     test_update_security_revision_request,
     test_update_security_revision_request_for_all_downstream_devices,
     test_update_security_revision_request_rejects_a_short_buffer,
     test_update_security_revision_result_completion_codes,
     test_update_security_revision_response,
     test_cancel_update_request_codec,
     test_cancel_update_response_codec,
     test_activate_firmware_request,
     test_activate_firmware_response,
     test_transfer_complete_request_codec,
     test_transfer_complete_response_codec,
     test_verify_complete_request_codec,
     test_verify_complete_response_codec,
     test_apply_complete_request,
     test_apply_complete_response,
     test_activate_pending_component_image,
     test_pending_component_result_into_response,
     test_pending_component_result_response_header,
     test_activate_pending_component_image_response,
     test_request_update_request_codec,
     test_request_update_response_codec,
     test_update_component_request_codec,
     test_update_component_response_codec,
     test_pass_component_table_request_codec,
     test_pass_component_table_response_codec,
     test_query_device_identifiers_resp_codec,
     test_get_firmware_parameters_request_codec,
     test_get_firmware_parameters_codec,
     test_get_firmware_parameters_response_codec,
     test_get_package_data_request_codec,
     test_get_package_data_response_codec,
     test_get_metadata_request_codec,
     test_get_meta_data_response_codec,
     test_get_device_meta_data_request_codec,
     test_get_device_meta_data_response_codec,
     test_pldm_completion_code_macro]"

lemma test_entry_wf:
  assumes "ty = ''ASCII'' \<or> ty = ''UTF-8''"
  shows "holds (test_entry ty) (\<lambda>(active, pending, entry).
    length (str_data active) = 32 \<and> drop 15 (str_data active) = replicate 17 0 \<and> str_len active = 15 \<and>
    length (str_data pending) = 32 \<and> drop 15 (str_data pending) = replicate 17 0 \<and> str_len pending = 15 \<and>
    wf_comp_entry entry \<and> length (comp_entry_ser entry) = 69)"
  using assms by (elim disjE; simp only:; code_simp)

lemma construct_firmware_params_wf:
  "holds (construct_firmware_params ''ASCII'') (\<lambda>params. wf_firmware_parameters params \<and> length (firmware_parameters_ser params) = 592)"
proof -
  obtain active pending entry where entry: "test_entry ''ASCII'' = Ok (active, pending, entry)"
    "padded 32 15 (str_data active)" "str_len active = 15" "padded 32 15 (str_data pending)" "str_len pending = 15"
    "wf_comp_entry entry" "length (comp_entry_ser entry) = 69"
    using test_entry_wf [of "''ASCII''"] by (auto simp: holds_def padded_def split: outcome.splits)
  let ?params = "firmware_parameters_new 0x10 8 active pending (replicate 8 entry)"
  have "wf_firmware_parameters ?params"
    using entry(2-6) by (auto simp: wf_firmware_parameters_def firmware_parameters_new_def list_all_length)
  moreover have "length (firmware_parameters_ser ?params) = 592"
    using entry(2-7) by (simp add: firmware_parameters_ser_def firmware_parameters_new_def padded_def upt_rec)
  ultimately show ?thesis by (simp add: construct_firmware_params_def entry(1) holds_def)
qed

lemma firmware_parameters_tests [tested]:
  test_get_firmware_parameters_codec
  test_get_firmware_parameters_response_codec
proof -
  have "firmware_parameters_decode (replicate 1 0) = Err BufferTooShort"
    "get_firmware_parameters_response_decode (replicate 1 0) = Err BufferTooShort"
    by code_simp+
  then show test_get_firmware_parameters_codec test_get_firmware_parameters_response_codec
    unfolding test_get_firmware_parameters_codec_def test_get_firmware_parameters_response_codec_def
    by (auto intro!: holds_mono [OF construct_firmware_params_wf]
        codec_exact.round_trips_prefix [OF firmware_parameters.codec_exact_axioms]
        codec_exact.encodes_too_short [OF firmware_parameters.codec_exact_axioms]
        codec_exact.round_trips_prefix [OF get_firmware_parameters_response.codec_exact_axioms]
        codec_exact.encodes_too_short [OF get_firmware_parameters_response.codec_exact_axioms]
      simp: Let_def firmware_parameters.enc_fits firmware_parameters_size get_firmware_parameters_response.enc_fits
        get_firmware_parameters_response_size get_firmware_parameters_response_ser_def get_firmware_parameters_response_new_def)
qed

lemma data_response_test [tested]: test_request_firmware_data_response_codec
  by (simp add: test_request_firmware_data_response_codec_def Let_def request_fw_data_response_new_def
      request_fw_data_response_ser_def codec_exact.round_trips_prefix [OF request_fw_data_response.codec_exact_axioms])

text \<open>The structs without padding: by the contract of their codec.\<close>

lemmas message_tests_codecs =
  packed_struct.packed_round_trips [OF request_fw_data_request.packed_struct_axioms]
  packed_struct.packed_round_trips [OF get_status_request.packed_struct_axioms]
  packed_struct.packed_round_trips [OF update_security_revision_request.packed_struct_axioms]
  packed_struct.packed_round_trips [OF update_security_revision_response.packed_struct_axioms]
  packed_struct.packed_round_trips [OF cancel_update_request.packed_struct_axioms]
  packed_struct.packed_round_trips [OF cancel_update_response.packed_struct_axioms]
  packed_struct.packed_round_trips [OF activate_firmware_request.packed_struct_axioms]
  packed_struct.packed_round_trips [OF activate_firmware_response.packed_struct_axioms]
  packed_struct.packed_round_trips [OF transfer_complete_request.packed_struct_axioms]
  packed_struct.packed_round_trips [OF transfer_complete_response.packed_struct_axioms]
  packed_struct.packed_round_trips [OF verify_complete_request.packed_struct_axioms]
  packed_struct.packed_round_trips [OF verify_complete_response.packed_struct_axioms]
  packed_struct.packed_round_trips [OF apply_complete_request.packed_struct_axioms]
  packed_struct.packed_round_trips [OF apply_complete_response.packed_struct_axioms]
  packed_struct.packed_round_trips [OF activate_pending_request.packed_struct_axioms]
  packed_struct.packed_round_trips [OF activate_pending_response.packed_struct_axioms]
  packed_struct.packed_round_trips [OF get_package_data_request.packed_struct_axioms]
  packed_struct.packed_round_trips [OF get_meta_data_request.packed_struct_axioms]
  packed_struct.packed_round_trips [OF get_device_meta_data_request.packed_struct_axioms]

lemma message_tests_packed [tested]:
  test_request_firmware_data_request_codec
  test_get_status_request_codec
  test_update_security_revision_request
  test_update_security_revision_request_for_all_downstream_devices
  test_update_security_revision_response
  test_cancel_update_request_codec
  test_cancel_update_response_codec
  test_activate_firmware_request
  test_activate_firmware_response
  test_transfer_complete_request_codec
  test_transfer_complete_response_codec
  test_verify_complete_request_codec
  test_verify_complete_response_codec
  test_apply_complete_request
  test_apply_complete_response
  test_activate_pending_component_image
  test_activate_pending_component_image_response
  test_get_package_data_request_codec
  test_get_metadata_request_codec
  test_get_device_meta_data_request_codec
  unfolding test_request_firmware_data_request_codec_def
    test_get_status_request_codec_def
    test_update_security_revision_request_def
    test_update_security_revision_request_for_all_downstream_devices_def
    test_update_security_revision_response_def
    test_cancel_update_request_codec_def
    test_cancel_update_response_codec_def
    test_activate_firmware_request_def
    test_activate_firmware_response_def
    test_transfer_complete_request_codec_def
    test_transfer_complete_response_codec_def
    test_verify_complete_request_codec_def
    test_verify_complete_response_codec_def
    test_apply_complete_request_def
    test_apply_complete_response_def
    test_activate_pending_component_image_def
    test_activate_pending_component_image_response_def
    test_get_package_data_request_codec_def
    test_get_metadata_request_codec_def
    test_get_device_meta_data_request_codec_def
  by (simp_all add: Let_def message_tests_codecs update_security_revision_request_new_def)

lemma message_tests_1 [tested]:
  test_get_status_response_codec
  by code_simp+

lemma message_tests_2 [tested]:
  test_update_security_revision_request_rejects_a_short_buffer
  by code_simp+

lemma message_tests_3 [tested]:
  test_update_security_revision_result_completion_codes
  by code_simp+

lemma message_tests_4 [tested]:
  test_pending_component_result_into_response
  by code_simp+

lemma message_tests_5 [tested]:
  test_pending_component_result_response_header
  by code_simp+

lemma message_tests_6 [tested]:
  test_request_update_request_codec
  by code_simp+

lemma message_tests_7 [tested]:
  test_request_update_response_codec
  by code_simp+

lemma message_tests_8 [tested]:
  test_update_component_request_codec
  by code_simp+

lemma message_tests_9 [tested]:
  test_update_component_response_codec
  by code_simp+

lemma message_tests_10 [tested]:
  test_pass_component_table_request_codec
  by code_simp+

lemma message_tests_11 [tested]:
  test_pass_component_table_response_codec
  by code_simp+

lemma message_tests_12 [tested]:
  test_query_device_identifiers_resp_codec
  by code_simp+

lemma message_tests_13 [tested]:
  test_get_firmware_parameters_request_codec
  by code_simp+

lemma message_tests_14 [tested]:
  test_get_package_data_response_codec
  by code_simp+

lemma message_tests_15 [tested]:
  test_get_meta_data_response_codec
  by code_simp+

lemma message_tests_16 [tested]:
  test_get_device_meta_data_response_codec
  by code_simp+

lemma message_tests_17 [tested]:
  test_pldm_completion_code_macro
  by code_simp+

text \<open>The model passes these tests.\<close>

lemma message_tests_pass: "list_all (\<lambda>passed. passed) message_tests"
  by (simp add: message_tests_def tested)

end
