(* ===== verification/Downstream.thy ===== *)
theory Downstream
  imports Package_Data
begin

text \<open>
  The queries for downstream devices and their identifiers,
  \<open>pldm-common/src/message/firmware_update/query_downstream.rs\<close>.  The response with
  the identifiers borrows its variable part and is an iterator over the devices in it;
  a device borrows its descriptors and is an iterator over them.  An iterator is its
  state and its \<open>next\<close>, an effect on the state that answers an option.
\<close>

section \<open>QueryDownstreamDevices\<close>

record query_downstream_devices_request =
  qdd_hdr :: pldm_msg_header

definition query_downstream_devices_request_bytes :: "query_downstream_devices_request \<Rightarrow> bytes" where
  [layout]: "query_downstream_devices_request_bytes r = hdr_bytes (qdd_hdr r)"

definition query_downstream_devices_request_of :: "bytes \<Rightarrow> query_downstream_devices_request" where
  [layout]: "query_downstream_devices_request_of bs = \<lparr>qdd_hdr = hdr_of bs\<rparr>"

interpretation query_downstream_devices_request: packed_struct 3 query_downstream_devices_request_bytes query_downstream_devices_request_of "\<lambda>_. True"
  by unfold_locales (auto simp: layout length_eq_Cons length_eq_Suc_Cons)

definition query_downstream_devices_request_new :: "u8 \<Rightarrow> query_downstream_devices_request" where
  "query_downstream_devices_request_new inst =
     \<lparr>qdd_hdr = header_new inst MsgRequest TypeFwUpdate (fw_update_cmd_disc QueryDownstreamDevices)\<rparr>"

text \<open>\<open>QueryDownstreamDevicesCapability\<close>, a word of flags\<close>

definition dynamic_attach :: "u32 \<Rightarrow> bool" where
  "dynamic_attach caps = flag 0 caps"

definition dynamic_remove :: "u32 \<Rightarrow> bool" where
  "dynamic_remove caps = flag 1 caps"

definition update_simultaneous :: "u32 \<Rightarrow> bool" where
  "update_simultaneous caps = flag 2 caps"

definition set_dynamic_attach :: "bool \<Rightarrow> u32 \<Rightarrow> u32" where
  "set_dynamic_attach b caps = set_flag 0 b caps"

definition set_dynamic_remove :: "bool \<Rightarrow> u32 \<Rightarrow> u32" where
  "set_dynamic_remove b caps = set_flag 1 b caps"

definition set_update_simultaneous :: "bool \<Rightarrow> u32 \<Rightarrow> u32" where
  "set_update_simultaneous b caps = set_flag 2 b caps"

record query_downstream_device_response =
  qds_hdr :: pldm_msg_header
  qds_completion_code :: u8
  qds_update_supported :: u8
  qds_number_of_downstream_devices :: u16
  qds_max_number_of_downstream_devices :: u16
  qds_capabilities :: u32

definition query_downstream_device_response_bytes :: "query_downstream_device_response \<Rightarrow> bytes" where
  [layout]: "query_downstream_device_response_bytes r = hdr_bytes (qds_hdr r) @ [qds_completion_code r] @ [qds_update_supported r] @ le16 (qds_number_of_downstream_devices r) @ le16 (qds_max_number_of_downstream_devices r) @ le32 (qds_capabilities r)"

definition query_downstream_device_response_of :: "bytes \<Rightarrow> query_downstream_device_response" where
  [layout]: "query_downstream_device_response_of bs = \<lparr>qds_hdr = hdr_of bs,
     qds_completion_code = bs ! 3,
     qds_update_supported = bs ! 4,
     qds_number_of_downstream_devices = u16_at 5 bs,
     qds_max_number_of_downstream_devices = u16_at 7 bs,
     qds_capabilities = u32_at 9 bs\<rparr>"

interpretation query_downstream_device_response: packed_struct 13 query_downstream_device_response_bytes query_downstream_device_response_of "\<lambda>_. True"
  by unfold_locales (auto simp: layout length_eq_Cons length_eq_Suc_Cons)

definition query_downstream_device_response_new ::
  "u8 \<Rightarrow> base_cc \<Rightarrow> u8 \<Rightarrow> u16 \<Rightarrow> u16 \<Rightarrow> query_downstream_device_response" where
  "query_downstream_device_response_new inst cc supported number max_number =
     \<lparr>qds_hdr = header_new inst MsgResponse TypeFwUpdate (fw_update_cmd_disc QueryDownstreamDevices),
      qds_completion_code = base_cc_disc cc,
      qds_update_supported = supported,
      qds_number_of_downstream_devices = number,
      qds_max_number_of_downstream_devices = max_number,
      qds_capabilities = 0\<rparr>"

section \<open>QueryDownstreamIdentifiers\<close>

record query_downstream_identifiers_request =
  qiq_hdr :: pldm_msg_header
  qiq_downstream_data_device_handle :: u32
  qiq_transfer_op_flag :: u8

definition query_downstream_identifiers_request_bytes :: "query_downstream_identifiers_request \<Rightarrow> bytes" where
  [layout]: "query_downstream_identifiers_request_bytes r = hdr_bytes (qiq_hdr r) @ le32 (qiq_downstream_data_device_handle r) @ [qiq_transfer_op_flag r]"

definition query_downstream_identifiers_request_of :: "bytes \<Rightarrow> query_downstream_identifiers_request" where
  [layout]: "query_downstream_identifiers_request_of bs = \<lparr>qiq_hdr = hdr_of bs,
     qiq_downstream_data_device_handle = u32_at 3 bs,
     qiq_transfer_op_flag = bs ! 7\<rparr>"

interpretation query_downstream_identifiers_request: packed_struct 8 query_downstream_identifiers_request_bytes query_downstream_identifiers_request_of "\<lambda>_. True"
  by unfold_locales (auto simp: layout length_eq_Cons length_eq_Suc_Cons)

definition query_downstream_identifiers_request_new :: "u8 \<Rightarrow> u32 \<Rightarrow> transfer_operation_flag \<Rightarrow> query_downstream_identifiers_request" where
  "query_downstream_identifiers_request_new inst handle op =
     \<lparr>qiq_hdr = header_new inst MsgRequest TypeFwUpdate (fw_update_cmd_disc QueryDownstreamIdentifiers),
      qiq_downstream_data_device_handle = handle,
      qiq_transfer_op_flag = transfer_operation_flag_disc op\<rparr>"

definition DOWNSTREAM_DEVICE_PORTION_COUNT :: nat where
  "DOWNSTREAM_DEVICE_PORTION_COUNT = 4"

definition DOWNSTREAM_DEVICE_COUNT :: nat where
  "DOWNSTREAM_DEVICE_COUNT = 8"

definition DOWNSTREAM_DESCRIPTOR_COUNT :: nat where
  "DOWNSTREAM_DESCRIPTOR_COUNT = 4"

definition QueryDownstreamIdentifiersResponseCode :: "fw_cc list" where
  "QueryDownstreamIdentifiersResponseCode =
     [InvalidTransferHandle, InvalidTransferOperationFlag, DownstreamDeviceListChanged]"

record query_downstream_identifiers_response =
  qir_hdr :: pldm_msg_header
  qir_completion_code :: u8
  qir_next_data_transfer_handle :: u32
  qir_transfer_flag :: u8
  qir_portion :: bytes
  qir_portion_iter_current :: nat
  qir_portion_offset_next :: nat

definition query_downstream_identifiers_response_new ::
  "u8 \<Rightarrow> cmd_cc \<Rightarrow> u32 \<Rightarrow> u8 \<Rightarrow> bytes \<Rightarrow> query_downstream_identifiers_response" where
  "query_downstream_identifiers_response_new inst cc handle tflag portion =
     \<lparr>qir_hdr = header_new inst MsgResponse TypeFwUpdate (fw_update_cmd_disc QueryDownstreamIdentifiers),
      qir_completion_code = cmd_cc_disc cc,
      qir_next_data_transfer_handle = handle,
      qir_transfer_flag = tflag,
      qir_portion = portion,
      qir_portion_iter_current = 0,
      qir_portion_offset_next = 0\<rparr>"

definition query_downstream_identifiers_response_encode ::
  "query_downstream_identifiers_response \<Rightarrow> bytes \<Rightarrow> (nat, codec_error) outcome \<times> bytes" where
  "query_downstream_identifiers_response_encode r =
     portion_message_encode (qir_hdr r) (qir_completion_code r) (qir_next_data_transfer_handle r)
       (qir_transfer_flag r) (qir_portion r)"

definition query_downstream_identifiers_response_decode ::
  "bytes \<Rightarrow> (query_downstream_identifiers_response, codec_error) outcome" where
  "query_downstream_identifiers_response_decode buffer =
     portion_message_decode buffer (\<lambda>hdr cc handle tflag portion.
       Ok \<lparr>qir_hdr = hdr, qir_completion_code = cc, qir_next_data_transfer_handle = handle,
           qir_transfer_flag = tflag, qir_portion = portion,
           qir_portion_iter_current = 0, qir_portion_offset_next = 0\<rparr>)"

definition query_downstream_identifiers_response_ser :: "query_downstream_identifiers_response \<Rightarrow> bytes" where
  "query_downstream_identifiers_response_ser r =
     portion_message_ser (qir_hdr r) (qir_completion_code r) (qir_next_data_transfer_handle r)
       (qir_transfer_flag r) (qir_portion r)"

text \<open>A response before its first \<open>next\<close>, and after its last\<close>

definition rewound :: "query_downstream_identifiers_response \<Rightarrow> query_downstream_identifiers_response" where
  "rewound r = r\<lparr>qir_portion_iter_current := 0, qir_portion_offset_next := 0\<rparr>"

interpretation query_downstream_identifiers_response: codec_exact query_downstream_identifiers_response_encode
    query_downstream_identifiers_response_decode query_downstream_identifiers_response_ser "\<lambda>r. rewound r = r"
proof
  fix x :: query_downstream_identifiers_response and buf
  assume "rewound x = x"
  then show "query_downstream_identifiers_response_decode (query_downstream_identifiers_response_ser x) = Ok x"
    by (cases x) (simp add: query_downstream_identifiers_response_decode_def rewound_def
        query_downstream_identifiers_response_ser_def portion_message_decode_ser)
qed (simp_all add: query_downstream_identifiers_response_encode_def query_downstream_identifiers_response_decode_def
    query_downstream_identifiers_response_ser_def portion_message_encode_eq portion_message_decode_not_Panic)

record portion_header =
  ph_downstream_devices_length :: u32
  ph_number_of_downstream_devices :: u16

definition portion_header_bytes :: "portion_header \<Rightarrow> bytes" where
  [layout]: "portion_header_bytes r = le32 (ph_downstream_devices_length r) @ le16 (ph_number_of_downstream_devices r)"

definition portion_header_of :: "bytes \<Rightarrow> portion_header" where
  [layout]: "portion_header_of bs = \<lparr>ph_downstream_devices_length = u32_at 0 bs,
     ph_number_of_downstream_devices = u16_at 4 bs\<rparr>"

interpretation portion_header: packed_struct 6 portion_header_bytes portion_header_of "\<lambda>_. True"
  by unfold_locales (auto simp: layout length_eq_Cons length_eq_Suc_Cons)

record downstream_devices_header =
  ddh_downstream_devices_index :: u16
  ddh_downstream_descriptor_count :: u8

definition downstream_devices_header_bytes :: "downstream_devices_header \<Rightarrow> bytes" where
  [layout]: "downstream_devices_header_bytes r = le16 (ddh_downstream_devices_index r) @ [ddh_downstream_descriptor_count r]"

definition downstream_devices_header_of :: "bytes \<Rightarrow> downstream_devices_header" where
  [layout]: "downstream_devices_header_of bs = \<lparr>ddh_downstream_devices_index = u16_at 0 bs,
     ddh_downstream_descriptor_count = bs ! 2\<rparr>"

interpretation downstream_devices_header: packed_struct 3 downstream_devices_header_bytes downstream_devices_header_of "\<lambda>_. True"
  by unfold_locales (auto simp: layout length_eq_Cons length_eq_Suc_Cons)

definition try_get_portion_header :: "query_downstream_identifiers_response \<Rightarrow> (portion_header, pldm_error) outcome" where
  "try_get_portion_header r =
     map_err (\<lambda>_. PE_InvalidData) (blanket_decode 6 portion_header_of (qir_portion r))"

definition try_get_downstream_device_header :: "bytes \<Rightarrow> (downstream_devices_header, pldm_error) outcome" where
  "try_get_downstream_device_header buf =
     map_err (\<lambda>_. PE_InvalidData) (blanket_decode 3 downstream_devices_header_of buf)"

section \<open>A downstream device\<close>

text \<open>\<open>DownstreamDeviceIndex\<close> is a \<open>u16\<close> below \<open>FIRST_RESERVED\<close>; the conversion checks it.\<close>

definition FIRST_RESERVED :: u16 where
  "FIRST_RESERVED = 0x1000"

definition LAST_RESERVED :: u16 where
  "LAST_RESERVED = 0xFFFF"

definition downstream_device_index_try_from :: "u16 \<Rightarrow> (u16, unit) outcome" where
  "downstream_device_index_try_from value = (if value < FIRST_RESERVED then Ok value else Err ())"

record downstream_device =
  dd_index :: u16
  dd_descriptor_count :: u8
  dd_descriptors :: bytes
  dd_iter_dev_count :: nat
  dd_iter_offset :: nat

text \<open>The constructor takes the number of bytes, cut to a \<open>u8\<close>, for the number of descriptors.\<close>

definition downstream_device_new :: "u16 \<Rightarrow> bytes \<Rightarrow> downstream_device" where
  "downstream_device_new idx descriptors =
     \<lparr>dd_index = idx, dd_descriptor_count = of_nat (length descriptors), dd_descriptors = descriptors,
      dd_iter_dev_count = 0, dd_iter_offset = 0\<rparr>"

definition downstream_device_next :: "(downstream_device, descriptor option, pldm_error) act" where
  "downstream_device_next d =
     (if dd_descriptor_count d = 0 then (Ok None, d)
      else if unat (dd_descriptor_count d) \<le> dd_iter_dev_count d
      then (Ok None, d\<lparr>dd_iter_dev_count := 0, dd_iter_offset := 0\<rparr>)
      else abind (lift (slice (dd_iter_offset d + 2) 2 (dd_descriptors d))) (\<lambda>len_bytes.
        let descriptor_length = unat (u16_at 0 len_bytes) in
        if length (dd_descriptors d) < dd_iter_offset d + 2 * 2 + descriptor_length then ret None
        else abind (lift (slice (dd_iter_offset d) (2 * 2 + descriptor_length) (dd_descriptors d))) (\<lambda>bs.
          or_return (descriptor_decode bs) (\<lambda>_. ret None) (\<lambda>desc.
          abind (modify (\<lambda>d. d\<lparr>dd_iter_offset := dd_iter_offset d + 2 * 2 + descriptor_length,
                               dd_iter_dev_count := dd_iter_dev_count d + 1\<rparr>)) (\<lambda>_.
            ret (Some desc))))) d)"

text \<open>
  \<open>d.encode(&mut [])\<close> of a byte never succeeds, so the size the encoder checks is that
  of the header alone; the bytes are then encoded one by one.
\<close>

definition byte_encode :: "u8 \<Rightarrow> bytes \<Rightarrow> (nat, codec_error) outcome \<times> bytes" where
  "byte_encode = blanket_encode 1 (\<lambda>b. [b])"

definition encoded_size_or_0 :: "u8 \<Rightarrow> nat" where
  "encoded_size_or_0 b = (case fst (byte_encode b []) of Ok n \<Rightarrow> n | _ \<Rightarrow> 0)"

definition downstream_device_encode :: "downstream_device \<Rightarrow> (bytes, nat, codec_error) act" where
  "downstream_device_encode d buffer =
     (if length buffer < 2 + 1 + sum_list (map encoded_size_or_0 (dd_descriptors d)) then (Err BufferTooShort, buffer)
      else abind (put_all [Some (le16 (dd_index d)), Some [dd_descriptor_count d]] 0)
        (encode_list byte_encode (dd_descriptors d)) buffer)"

definition downstream_device_decode :: "bytes \<Rightarrow> (downstream_device, codec_error) outcome" where
  "downstream_device_decode buffer =
     (if length buffer < 2 + 1 then Err BufferTooShort
      else rbind (slice 0 2 buffer) (\<lambda>idx.
           rbind (index_at 2 buffer) (\<lambda>count.
           rbind (slice_from 3 buffer) (\<lambda>descriptors.
             Ok \<lparr>dd_index = u16_at 0 idx, dd_descriptor_count = count, dd_descriptors = descriptors,
                 dd_iter_dev_count = 0, dd_iter_offset = 0\<rparr>))))"

section \<open>The devices of a response\<close>

definition identifiers_next :: "(query_downstream_identifiers_response, downstream_device option, pldm_error) act" where
  "identifiers_next r =
     or_return (try_get_portion_header r) (\<lambda>_. ret None) (\<lambda>portion_hdr.
       if unat (ph_number_of_downstream_devices portion_hdr) \<le> qir_portion_iter_current r
       then abind (modify (\<lambda>r. r\<lparr>qir_portion_iter_current := 0, qir_portion_offset_next := 0\<rparr>)) (\<lambda>_. ret None)
       else let offset = (if qir_portion_iter_current r = 0 then 6 else qir_portion_offset_next r) in
         if length (qir_portion r) \<le> offset then ret None
         else abind (lift (slice_from offset (qir_portion r))) (\<lambda>rest.
           or_return (try_get_downstream_device_header rest) (\<lambda>_. ret None) (\<lambda>hdr.
           abind (lift (slice_from (offset + 3) (qir_portion r))) (\<lambda>blob.
           or_return (try_get_descriptor_length_from_blob blob (unat (ddh_downstream_descriptor_count hdr)))
             (\<lambda>_. ret None) (\<lambda>desc_size.
           let next_offset = offset + 3 + desc_size in
           if length (qir_portion r) < next_offset
           then abind (modify (\<lambda>r. r\<lparr>qir_portion_iter_current := 0, qir_portion_offset_next := 0\<rparr>)) (\<lambda>_. ret None)
           else abind (modify (\<lambda>r. r\<lparr>qir_portion_offset_next := next_offset,
                                    qir_portion_iter_current := qir_portion_iter_current r + 1\<rparr>)) (\<lambda>_.
             abind (lift (slice (offset + 3) desc_size (qir_portion r))) (\<lambda>descriptors.
             ret (Some \<lparr>dd_index = ddh_downstream_devices_index hdr,
               dd_descriptor_count = ddh_downstream_descriptor_count hdr,
               dd_descriptors = descriptors,
               dd_iter_dev_count = 0, dd_iter_offset = 0\<rparr>)))))))) r"

subsection \<open>What \<open>next\<close> does\<close>

text \<open>The device that starts at an offset of the portion, and the offset behind it.\<close>

definition device_at :: "bytes \<Rightarrow> nat \<Rightarrow> (downstream_device \<times> nat) option" where
  "device_at portion offset =
     (if length portion < offset + 3 then None
      else case try_get_descriptor_length_from_blob (drop (offset + 3) portion) (unat (portion ! (offset + 2))) of
          Ok n \<Rightarrow> Some (\<lparr>dd_index = u16_at offset portion, dd_descriptor_count = portion ! (offset + 2),
              dd_descriptors = take n (drop (offset + 3) portion), dd_iter_dev_count = 0, dd_iter_offset = 0\<rparr>,
            offset + 3 + n)
        | _ \<Rightarrow> None)"

lemma descriptor_length_from_blob:
  "try_get_descriptor_length_from_blob blob n \<noteq> Panic"
  "try_get_descriptor_length_from_blob blob n = Ok k \<Longrightarrow> k \<le> length blob"
  using descriptor_length_loop_no_panic [of 0 blob n] descriptor_length_loop_bounds [of blob n 0]
  by (auto simp: try_get_descriptor_length_from_blob_def)

lemma portion_header_at:
  "try_get_portion_header r =
     (if length (qir_portion r) < 6 then Err PE_InvalidData
      else Ok (portion_header_of (take 6 (qir_portion r))))"
  by (simp add: try_get_portion_header_def blanket_decode_def)

lemma portion_header_count:
  "6 \<le> length bs \<Longrightarrow> ph_number_of_downstream_devices (portion_header_of (take 6 bs)) = u16_at 4 bs"
  by (simp add: portion_header_of_def u16_at_def)

lemma identifiers_next_eq:
  "identifiers_next r =
     (if length (qir_portion r) < 6 then (Ok None, r)
      else if unat (u16_at 4 (qir_portion r)) \<le> qir_portion_iter_current r then (Ok None, rewound r)
      else case device_at (qir_portion r)
              (if qir_portion_iter_current r = 0 then 6 else qir_portion_offset_next r) of
          None \<Rightarrow> (Ok None, r)
        | Some (d, next_offset) \<Rightarrow> (Ok (Some d),
            r\<lparr>qir_portion_offset_next := next_offset, qir_portion_iter_current := qir_portion_iter_current r + 1\<rparr>))"
proof -
  let ?p = "qir_portion r" and ?off = "if qir_portion_iter_current r = 0 then 6 else qir_portion_offset_next r"
  consider "length ?p < 6" | "6 \<le> length ?p" "unat (u16_at 4 ?p) \<le> qir_portion_iter_current r"
    | "6 \<le> length ?p" "qir_portion_iter_current r < unat (u16_at 4 ?p)" "length ?p < ?off + 3"
    | "6 \<le> length ?p" "qir_portion_iter_current r < unat (u16_at 4 ?p)" "?off + 3 \<le> length ?p"
    by linarith
  then show ?thesis
  proof cases
    case 4
    let ?hdr = "downstream_devices_header_of (take 3 (drop ?off ?p))"
    have hdr: "try_get_downstream_device_header (drop ?off ?p) = Ok ?hdr"
      using 4(3) by (simp add: try_get_downstream_device_header_def blanket_decode_def)
    have f: "ddh_downstream_devices_index ?hdr = u16_at ?off ?p"
        "ddh_downstream_descriptor_count ?hdr = ?p ! (?off + 2)"
      using 4(3) by (simp_all add: downstream_devices_header_of_def u16_at_def)
    show ?thesis
    proof (cases "try_get_descriptor_length_from_blob (drop (?off + 3) ?p) (unat (?p ! (?off + 2)))")
      case (Ok n)
      with descriptor_length_from_blob(2) [OF this] 4 hdr f show ?thesis
        by (simp add: identifiers_next_def portion_header_at portion_header_count Let_def abind_def lift_def
            ret_def modify_def slice_from_in_range slice_in_range device_at_def)
    next
      case (Err e)
      with 4 hdr f show ?thesis
        by (simp add: identifiers_next_def portion_header_at portion_header_count Let_def abind_def lift_def
            ret_def modify_def slice_from_in_range device_at_def)
    qed (simp add: descriptor_length_from_blob(1))
  qed (auto simp: identifiers_next_def portion_header_at portion_header_count Let_def abind_def lift_def
         ret_def modify_def slice_from_def device_at_def rewound_def try_get_downstream_device_header_def
         blanket_decode_def)
qed

lemma identifiers_next_no_panic: "fst (identifiers_next r) \<noteq> Panic" "fst (identifiers_next r) \<noteq> Err e"
  by (simp_all add: identifiers_next_eq split: option.split)

lemma u16_less: "unat (w :: u16) < 65536"
  using unsigned_less [of w, where 'a = nat] by simp

lemma u8_less: "unat (w :: u8) < 256"
  using unsigned_less [of w, where 'a = nat] by simp

lemma identifiers_next_Some:
  assumes "identifiers_next r = (Ok (Some d), r')"
  obtains next_offset where "device_at (qir_portion r) (if qir_portion_iter_current r = 0 then 6 else qir_portion_offset_next r)
      = Some (d, next_offset)"
    and "qir_portion_iter_current r < unat (u16_at 4 (qir_portion r))"
    and "r' = r\<lparr>qir_portion_offset_next := next_offset, qir_portion_iter_current := qir_portion_iter_current r + 1\<rparr>"
  using assms by (auto simp: identifiers_next_eq split: if_splits option.splits)

lemma identifiers_next_measure:
  "(Ok (Some d), r') = identifiers_next r \<Longrightarrow> 65536 - qir_portion_iter_current r' < 65536 - qir_portion_iter_current r"
  by (drule sym, erule identifiers_next_Some) (use u16_less [of "u16_at 4 (qir_portion r)"] in simp)

text \<open>
  \<open>try_at\<close> walks a clone of the response, which starts where the iterator stands; every
  \<open>next\<close> that answers a device advances the count, a \<open>u16\<close> bounds it.
\<close>

function try_at_loop :: "nat \<Rightarrow> nat \<Rightarrow> query_downstream_identifiers_response \<Rightarrow> (downstream_device, pldm_error) outcome" where
  "try_at_loop idx device_index r =
     (case identifiers_next r of
        (Ok (Some device), r') \<Rightarrow> if device_index = idx then Ok device else try_at_loop idx (device_index + 1) r'
      | (Ok None, _) \<Rightarrow> Err PE_InvalidData
      | (Err e, _) \<Rightarrow> Err e
      | (Panic, _) \<Rightarrow> Panic)"
  by pat_completeness auto
termination
  by (relation "measure (\<lambda>(_, _, r). 65536 - qir_portion_iter_current r)")
     (simp_all add: identifiers_next_measure)

declare try_at_loop.simps [simp del]

definition try_at :: "nat \<Rightarrow> query_downstream_identifiers_response \<Rightarrow> (downstream_device, pldm_error) outcome" where
  "try_at idx r = try_at_loop idx 0 r"

text \<open>The answers of the next \<open>n\<close> calls of an iterator, what a \<open>for\<close> loop sees.\<close>

fun next_n :: "nat \<Rightarrow> ('s, 'a option, 'e) act \<Rightarrow> ('s, 'a option list, 'e) act" where
  "next_n 0 nx = ret []"
| "next_n (Suc n) nx = abind nx (\<lambda>x. abind (next_n n nx) (\<lambda>xs. ret (x # xs)))"

lemma next_n_step: "nx s = (Ok x, s') \<Longrightarrow> next_n n nx s' = (Ok xs, s'') \<Longrightarrow> next_n (Suc n) nx s = (Ok (x # xs), s'')"
  by (simp add: abind_def ret_def)

lemma next_n_end: "nx s = (Ok None, s') \<Longrightarrow> next_n (Suc 0) nx s = (Ok [None], s')"
  by (simp add: abind_def ret_def)

lemma next_n_SucD:
  assumes "next_n (Suc n) nx s = (Ok (x # xs), s'')"
  obtains s' where "nx s = (Ok x, s')" and "next_n n nx s' = (Ok xs, s'')"
  using assms by (auto simp: abind_def ret_def split: prod.splits outcome.splits)

lemma next_n_Panic: "fst (nx s) = Panic \<Longrightarrow> fst (next_n (Suc n) nx s) = Panic"
  by (auto simp: abind_def split: prod.split)

lemma next_n_later_Panic:
  "nx s = (Ok x, s') \<Longrightarrow> fst (next_n n nx s') = Panic \<Longrightarrow> fst (next_n (Suc n) nx s) = Panic"
  by (auto simp: abind_def split: prod.split)

declare next_n.simps [simp del]

subsection \<open>The descriptors of a device\<close>

lemma descriptor_decode_bytes:
  assumes "descriptor_decode bs = Ok d"
  shows "take (descriptor_codec_size d) bs = descriptor_ser d"
proof -
  have "4 \<le> length bs" using descriptor_decode_Ok [OF assms] by (simp add: descriptor_codec_size_def)
  then obtain a b c e rest where bs: "bs = a # b # c # e # rest"
    by (auto simp: numeral_eq_Suc Suc_le_length_iff)
  from assms show ?thesis
    unfolding bs by (auto simp: descriptor_decode_def descriptor_ser_def descriptor_codec_size_def u16_at_def
        pad_to_def numeral_eq_Suc split: if_splits)
qed

lemma descriptor_length_loop_parts:
  "descriptor_length_loop blob n off = Ok len \<Longrightarrow> off \<le> length blob \<Longrightarrow>
   \<exists>ds. length ds = n \<and> list_all wf_descriptor ds \<and> take (len - off) (drop off blob) = concat (map descriptor_ser ds)"
proof (induction n arbitrary: off)
  case 0
  then show ?case by simp
next
  case (Suc n)
  then obtain d where d: "descriptor_decode (drop off blob) = Ok d"
    and rest: "descriptor_length_loop blob n (off + descriptor_codec_size d) = Ok len"
    by (auto simp: slice_from_def)
  have le: "off + descriptor_codec_size d \<le> length blob"
    using descriptor_decode_Ok [OF d] Suc.prems(2) by (simp add: le_diff_conv2 add.commute)
  from Suc.IH [OF rest le] obtain ds where ds: "length ds = n" "list_all wf_descriptor ds"
    "take (len - (off + descriptor_codec_size d)) (drop (off + descriptor_codec_size d) blob) = concat (map descriptor_ser ds)"
    by blast
  have "off + descriptor_codec_size d \<le> len"
    using descriptor_length_loop_bounds [OF rest le] by simp
  then have "len - off = descriptor_codec_size d + (len - (off + descriptor_codec_size d))" by simp
  then have "take (len - off) (drop off blob) = descriptor_ser d @ concat (map descriptor_ser ds)"
    using descriptor_decode_bytes [OF d] ds(3) by (simp add: take_add add.commute)
  with ds descriptor_decode_Ok [OF d] show ?case by (intro exI [of _ "d # ds"]) simp
qed

lemma descriptor_length_loop_ser:
  "list_all wf_descriptor ds \<Longrightarrow>
   descriptor_length_loop (pre @ concat (map descriptor_ser ds) @ post) (length ds) (length pre)
     = Ok (length pre + length (concat (map descriptor_ser ds)))"
proof (induction ds arbitrary: pre)
  case (Cons d ds)
  have "descriptor_length_loop ((pre @ descriptor_ser d) @ concat (map descriptor_ser ds) @ post) (length ds)
      (length (pre @ descriptor_ser d)) = Ok (length (pre @ descriptor_ser d) + length (concat (map descriptor_ser ds)))"
    using Cons.prems by (intro Cons.IH) simp
  with Cons.prems show ?case by (simp add: slice_from_in_range descriptor_decode_append add.assoc)
qed simp

lemma descriptor_ser_length_field:
  "u16_at 0 (take 2 (drop 2 (descriptor_ser d @ post))) = desc_length d"
  by (simp add: descriptor_ser_def le16_def u16_at_def)

lemma downstream_device_next_ser:
  assumes "dd_descriptors d = pre @ descriptor_ser x @ post" and "dd_iter_offset d = length pre"
    and "dd_iter_dev_count d < unat (dd_descriptor_count d)" and wf: "wf_descriptor x"
  shows "downstream_device_next d = (Ok (Some x),
    d\<lparr>dd_iter_offset := length (pre @ descriptor_ser x), dd_iter_dev_count := dd_iter_dev_count d + 1\<rparr>)"
proof -
  have len: "length (descriptor_ser x) = 2 * 2 + unat (desc_length x)"
    using wf by (simp add: descriptor_codec_size_def)
  have nz: "dd_descriptor_count d \<noteq> 0" using assms(3) by auto
  have field: "u16_at 0 (take 2 (drop (length pre + 2) (pre @ descriptor_ser x @ post))) = desc_length x"
    using descriptor_ser_length_field [of x post] by simp
  have bs: "take (2 * 2 + unat (desc_length x)) (drop (length pre) (pre @ descriptor_ser x @ post)) = descriptor_ser x"
    unfolding len [symmetric] by simp
  have dec: "descriptor_decode (descriptor_ser x) = Ok x"
    using descriptor_decode_append [OF wf, of "[]"] by simp
  from assms nz show ?thesis
    by (simp only: downstream_device_next_def abind_def lift_def slice_in_range field bs dec Let_def if_False
        prod.case outcome.case or_return.simps modify_def ret_def len length_append not_less not_le split: if_splits)
       (simp add: len)
qed

lemma downstream_device_next_list:
  "dd_descriptors d = pre @ concat (map descriptor_ser ds) @ post \<Longrightarrow> dd_iter_offset d = length pre \<Longrightarrow>
   unat (dd_descriptor_count d) = dd_iter_dev_count d + length ds \<Longrightarrow> dd_descriptor_count d \<noteq> 0 \<Longrightarrow>
   list_all wf_descriptor ds \<Longrightarrow>
   next_n (Suc (length ds)) downstream_device_next d
     = (Ok (map Some ds @ [None]), d\<lparr>dd_iter_dev_count := 0, dd_iter_offset := 0\<rparr>)"
proof (induction ds arbitrary: d pre)
  case Nil
  then show ?case by (simp add: downstream_device_next_def next_n_end)
next
  case (Cons x ds)
  let ?d = "d\<lparr>dd_iter_offset := length (pre @ descriptor_ser x), dd_iter_dev_count := dd_iter_dev_count d + 1\<rparr>"
  have first: "downstream_device_next d = (Ok (Some x), ?d)"
    using Cons.prems by (intro downstream_device_next_ser [where post = "concat (map descriptor_ser ds) @ post"]) simp_all
  have "next_n (Suc (length ds)) downstream_device_next ?d
     = (Ok (map Some ds @ [None]), ?d\<lparr>dd_iter_dev_count := 0, dd_iter_offset := 0\<rparr>)"
    using Cons.prems by (intro Cons.IH [of _ "pre @ descriptor_ser x"]) simp_all
  from next_n_step [of downstream_device_next, OF first this] show ?case by simp
qed

text \<open>A device with its descriptors, and what it looks like in a portion.\<close>

definition device_of :: "u16 \<times> descriptor list \<Rightarrow> downstream_device" where
  "device_of = (\<lambda>(idx, ds). \<lparr>dd_index = idx, dd_descriptor_count = of_nat (length ds),
     dd_descriptors = concat (map descriptor_ser ds), dd_iter_dev_count = 0, dd_iter_offset = 0\<rparr>)"

definition device_ser :: "u16 \<times> descriptor list \<Rightarrow> bytes" where
  "device_ser = (\<lambda>(idx, ds). downstream_devices_header_bytes
       \<lparr>ddh_downstream_devices_index = idx, ddh_downstream_descriptor_count = of_nat (length ds)\<rparr>
     @ concat (map descriptor_ser ds))"

definition wf_device :: "u16 \<times> descriptor list \<Rightarrow> bool" where
  "wf_device = (\<lambda>(idx, ds). length ds < 256 \<and> list_all wf_descriptor ds)"

lemma downstream_device_yields:
  assumes "length ds < 256" and "list_all wf_descriptor ds"
  shows "next_n (Suc (length ds)) downstream_device_next (device_of (idx, ds))
     = (Ok (map Some ds @ [None]), device_of (idx, ds))"
proof (cases "ds = []")
  case True
  then show ?thesis by (simp add: device_of_def downstream_device_next_def next_n_end)
next
  case False
  have n: "unat (of_nat (length ds) :: u8) = length ds"
    using assms(1) by (simp add: unat_of_nat)
  with False have "(of_nat (length ds) :: u8) \<noteq> 0" by (metis length_0_conv unat_0)
  with downstream_device_next_list [of "device_of (idx, ds)" "[]" ds "[]"] assms n show ?thesis
    by (simp add: device_of_def)
qed

lemma device_at_ser:
  assumes "wf_device x"
  shows "device_at (pre @ device_ser x @ post) (length pre) = Some (device_of x, length (pre @ device_ser x))"
proof -
  obtain idx ds where x: "x = (idx, ds)" by (cases x)
  let ?b = "concat (map descriptor_ser ds)"
  have b: "device_ser x = [byte_at 0 idx, byte_at 1 idx, of_nat (length ds)] @ ?b"
    by (simp add: x device_ser_def downstream_devices_header_bytes_def le16_def)
  have n: "unat (of_nat (length ds) :: u8) = length ds"
    using assms by (simp add: x wf_device_def unat_of_nat)
  have "try_get_descriptor_length_from_blob (?b @ post) (length ds) = Ok (length ?b)"
    using descriptor_length_loop_ser [of ds "[]" post] assms
    by (simp add: x wf_device_def try_get_descriptor_length_from_blob_def)
  then show ?thesis
    unfolding b by (simp add: device_at_def x device_of_def n nth_append u16_at_def)
qed

text \<open>Conversely, any device found in a portion is one of well-formed descriptors.\<close>

lemma device_at_Some:
  assumes "device_at portion off = Some (d, next_offset)"
  obtains ds where "length ds = unat (dd_descriptor_count d)" and "list_all wf_descriptor ds"
    and "d = device_of (dd_index d, ds)"
proof -
  let ?blob = "drop (off + 3) portion" and ?c = "portion ! (off + 2)"
  from assms obtain n where n: "descriptor_length_loop ?blob (unat ?c) 0 = Ok n"
    and d: "d = \<lparr>dd_index = u16_at off portion, dd_descriptor_count = ?c,
              dd_descriptors = take n ?blob, dd_iter_dev_count = 0, dd_iter_offset = 0\<rparr>"
    by (auto simp: device_at_def try_get_descriptor_length_from_blob_def split: if_splits outcome.splits)
  from descriptor_length_loop_parts [OF n] obtain ds where ds: "length ds = unat ?c"
    "list_all wf_descriptor ds" "take n ?blob = concat (map descriptor_ser ds)" by auto
  from ds(1) have "of_nat (length ds) = ?c" by simp
  with ds d show thesis by (intro that [of ds]) (simp_all add: device_of_def)
qed

subsection \<open>The devices of a portion\<close>

lemma identifiers_next_list:
  "qir_portion r = pre @ concat (map device_ser devs) @ post \<Longrightarrow> 6 \<le> length (qir_portion r) \<Longrightarrow>
   unat (u16_at 4 (qir_portion r)) = qir_portion_iter_current r + length devs \<Longrightarrow>
   (if qir_portion_iter_current r = 0 then 6 else qir_portion_offset_next r) = length pre \<Longrightarrow>
   list_all wf_device devs \<Longrightarrow>
   next_n (Suc (length devs)) identifiers_next r = (Ok (map (Some \<circ> device_of) devs @ [None]), rewound r)"
proof (induction devs arbitrary: r pre)
  case Nil
  then show ?case by (simp add: identifiers_next_eq next_n_end)
next
  case (Cons x devs)
  let ?r = "r\<lparr>qir_portion_offset_next := length (pre @ device_ser x),
      qir_portion_iter_current := qir_portion_iter_current r + 1\<rparr>"
  have "device_at (qir_portion r) (if qir_portion_iter_current r = 0 then 6 else qir_portion_offset_next r)
      = Some (device_of x, length (pre @ device_ser x))"
    unfolding Cons.prems(1,4)
    using device_at_ser [of x pre "concat (map device_ser devs) @ post"] Cons.prems(5) by simp
  then have first: "identifiers_next r = (Ok (Some (device_of x)), ?r)"
    using Cons.prems(2,3) by (simp add: identifiers_next_eq)
  have "next_n (Suc (length devs)) identifiers_next ?r
      = (Ok (map (Some \<circ> device_of) devs @ [None]), rewound ?r)"
    using Cons.prems by (intro Cons.IH [of _ "pre @ device_ser x"]) simp_all
  from next_n_step [of identifiers_next, OF first this] show ?case by (simp add: rewound_def)
qed

text \<open>\<open>try_at\<close> answers from the same sequence.\<close>

lemma try_at_loop_list:
  "next_n (Suc (length ds)) identifiers_next r = (Ok (map Some ds @ [None]), r') \<Longrightarrow> i \<le> idx \<Longrightarrow>
   try_at_loop idx i r = (if idx - i < length ds then Ok (ds ! (idx - i)) else Err PE_InvalidData)"
proof (induction ds arbitrary: i r)
  case Nil
  from next_n_SucD [of 0 identifiers_next r None "[]"] Nil.prems(1)
  obtain s where "identifiers_next r = (Ok None, s)" by (metis append_Nil list.simps(8) list.size(3))
  then show ?case by (simp add: try_at_loop.simps [of idx i r])
next
  case (Cons d ds)
  from Cons.prems(1) have "next_n (Suc (Suc (length ds))) identifiers_next r
      = (Ok (Some d # (map Some ds @ [None])), r')" by simp
  then obtain s where first: "identifiers_next r = (Ok (Some d), s)"
    and rest: "next_n (Suc (length ds)) identifiers_next s = (Ok (map Some ds @ [None]), r')"
    by (rule next_n_SucD)
  show ?case
  proof (cases "i = idx")
    case True
    with first show ?thesis by (simp add: try_at_loop.simps [of idx idx r])
  next
    case False
    with Cons.prems(2) obtain k where k: "idx = Suc (i + k)"
      using less_imp_Suc_add [of i idx] by auto
    from Cons.IH [OF rest, of "Suc i"] first show ?thesis
      by (simp add: try_at_loop.simps [of "Suc (i + k)" i r] k)
  qed
qed

text \<open>Whatever the portion holds, an iteration ends after at most the announced number of devices.\<close>

lemma identifiers_iteration:
  "\<exists>ds r'. length ds \<le> unat (u16_at 4 (qir_portion r)) - qir_portion_iter_current r \<and>
     next_n (Suc (length ds)) identifiers_next r = (Ok (map Some ds @ [None]), r') \<and>
     list_all (\<lambda>d. \<exists>x. wf_device x \<and> d = device_of x) ds"
proof (induction "unat (u16_at 4 (qir_portion r)) - qir_portion_iter_current r" arbitrary: r rule: less_induct)
  case less
  obtain x s where x: "identifiers_next r = (Ok x, s)"
    using identifiers_next_no_panic by (metis outcome.exhaust prod.collapse)
  show ?case
  proof (cases x)
    case None
    with x next_n_end [of identifiers_next r s] show ?thesis by (intro exI [of _ "[]"]) auto
  next
    case (Some d)
    with x have next': "identifiers_next r = (Ok (Some d), s)" by simp
    from next' obtain off where "device_at (qir_portion r) off = Some (d, qir_portion_offset_next s)"
      by (auto elim!: identifiers_next_Some)
    then have d: "\<exists>x. wf_device x \<and> d = device_of x"
      by (rule device_at_Some) (use u8_less [of "dd_descriptor_count d"] in
        \<open>force simp: wf_device_def intro: exI [of _ "(dd_index d, _)"]\<close>)
    from next' have s: "qir_portion s = qir_portion r" "qir_portion_iter_current s = Suc (qir_portion_iter_current r)"
      "qir_portion_iter_current r < unat (u16_at 4 (qir_portion r))"
      by (auto elim!: identifiers_next_Some)
    with less [of s] obtain ds r' where ds: "length ds \<le> unat (u16_at 4 (qir_portion r)) - Suc (qir_portion_iter_current r)"
      "next_n (Suc (length ds)) identifiers_next s = (Ok (map Some ds @ [None]), r')"
      "list_all (\<lambda>d. \<exists>x. wf_device x \<and> d = device_of x) ds"
      by (auto simp: diff_less_mono2)
    from next_n_step [of identifiers_next, OF next' ds(2)] ds(1,3) s(3) d show ?thesis
      by (intro exI [of _ "d # ds"] exI [of _ r']) simp
  qed
qed

lemma downstream_device_new_count:
  assumes "wf_descriptor x"
  shows "unat (dd_descriptor_count (downstream_device_new idx (descriptor_ser x))) = 4 + unat (desc_length x)"
proof -
  have "4 + unat (desc_length x) < 2 ^ LENGTH(8)"
    using assms padded_length [of 64 "unat (desc_length x)" "desc_data x"] by (simp add: wf_descriptor_def)
  then have "unat (of_nat (4 + unat (desc_length x)) :: u8) = 4 + unat (desc_length x)"
    by (simp only: unat_of_nat mod_less)
  then show ?thesis
    using assms by (simp only: downstream_device_new_def downstream_device.simps length_descriptor_ser descriptor_codec_size_def) simp
qed

subsection \<open>A device on the wire\<close>

interpretation byte: packed_struct 1 "\<lambda>b. [b]" hd "\<lambda>_. True"
  by unfold_locales (auto simp: length_eq_Suc_Cons)

lemma encoded_sizes [simp]: "sum_list (map encoded_size_or_0 bs) = 0"
  by (induction bs) (simp_all add: encoded_size_or_0_def byte_encode_def blanket_encode_def)

lemma byte_list_concat [simp]: "concat (map (\<lambda>b. [b]) bs) = bs"
  by (induction bs) simp_all

lemma byte_encode_list_short:
  "off \<le> length buf \<Longrightarrow> length buf < off + length bs \<Longrightarrow> fst (encode_list byte_encode bs off buf) = Err BufferTooShort"
proof (induction bs arbitrary: off buf)
  case (Cons b bs)
  show ?case
  proof (cases "off < length buf")
    case True
    then have "encode_at byte_encode b off buf = (Ok (off + 1), splice off [b] buf)"
      by (simp add: encode_at_def byte_encode_def blanket_encode_def slice_from_def splice_def)
    with Cons True show ?thesis by (simp add: abind_def)
  next
    case False
    with Cons.prems show ?thesis
      by (simp add: abind_def encode_at_def byte_encode_def blanket_encode_def slice_from_def)
  qed
qed simp

text \<open>
  The encoder reports a short buffer whenever the device does not fit, if only after it
  has written a part of it, and otherwise the device decodes from what was written.
\<close>

lemma downstream_device_wire:
  assumes "dd_iter_dev_count d = 0" and "dd_iter_offset d = 0"
  shows "length buf < 3 + length (dd_descriptors d) \<Longrightarrow> fst (downstream_device_encode d buf) = Err BufferTooShort"
    and "3 + length (dd_descriptors d) \<le> length buf \<Longrightarrow>
      \<exists>buf'. downstream_device_encode d buf = (Ok (3 + length (dd_descriptors d)), buf') \<and>
        downstream_device_decode (take (3 + length (dd_descriptors d)) buf') = Ok d"
proof -
  let ?hdr = "le16 (dd_index d) @ [dd_descriptor_count d]"
  have put: "3 \<le> length buf \<Longrightarrow> put_all [Some (le16 (dd_index d)), Some [dd_descriptor_count d]] 0 buf
      = ((Ok (length ?hdr) :: (nat, codec_error) outcome), splice 0 ?hdr buf)"
    by (intro put_fields [where bss = "[le16 (dd_index d), [dd_descriptor_count d]]"]) simp_all
  have hdr: "length ?hdr = 3" by simp
  show "fst (downstream_device_encode d buf) = Err BufferTooShort" if "length buf < 3 + length (dd_descriptors d)"
  proof (cases "length buf < 3")
    case False
    then have "fst (encode_list byte_encode (dd_descriptors d) 3 (splice 0 ?hdr buf)) = Err BufferTooShort"
      using that by (intro byte_encode_list_short) simp_all
    with False put hdr show ?thesis by (simp add: downstream_device_encode_def abind_def)
  qed (simp add: downstream_device_encode_def)
  assume fits: "3 + length (dd_descriptors d) \<le> length buf"
  have "encode_list byte_encode (dd_descriptors d) (length ?hdr) (splice 0 ?hdr buf)
      = (Ok (length (?hdr @ dd_descriptors d)), splice 0 (?hdr @ dd_descriptors d) buf)"
    using byte.encode_list_fits [of "dd_descriptors d" ?hdr buf] fits by (simp add: byte_encode_def list_all_iff)
  with put fits have enc: "downstream_device_encode d buf
      = (Ok (3 + length (dd_descriptors d)), splice 0 (?hdr @ dd_descriptors d) buf)"
    by (simp add: downstream_device_encode_def abind_def)
  have "downstream_device_decode (?hdr @ dd_descriptors d) = Ok d"
    using assms by (cases d) (simp add: downstream_device_decode_def le16_def slice_in_range index_at_def
        slice_from_def u16_at_def cong: if_cong)
  then show "\<exists>buf'. downstream_device_encode d buf = (Ok (3 + length (dd_descriptors d)), buf') \<and>
        downstream_device_decode (take (3 + length (dd_descriptors d)) buf') = Ok d"
    using enc by (simp add: splice_def)
qed

section \<open>Properties\<close>

text \<open>C34: a device that sends its list of downstream devices in a response is understood: from the portion
  built of them, the iterator yields exactly these devices in order, ends and is back at its start;
  \<open>try_at\<close> finds each by its index and no other; and iterating over a device yields its descriptors.\<close>

theorem downstream_devices_enumerated:
  assumes "length devs < 65536" and "list_all wf_device devs"
    and r: "r = query_downstream_identifiers_response_new inst cc handle tflag
      (portion_header_bytes \<lparr>ph_downstream_devices_length = len, ph_number_of_downstream_devices = of_nat (length devs)\<rparr>
       @ concat (map device_ser devs))"
  shows "next_n (Suc (length devs)) identifiers_next r = (Ok (map (Some \<circ> device_of) devs @ [None]), r) \<and>
    (\<forall>i. try_at i r = (if i < length devs then Ok (device_of (devs ! i)) else Err PE_InvalidData)) \<and>
    (\<forall>(idx, ds) \<in> set devs. next_n (Suc (length ds)) downstream_device_next (device_of (idx, ds))
       = (Ok (map Some ds @ [None]), device_of (idx, ds)))"
proof -
  let ?hdr = "portion_header_bytes \<lparr>ph_downstream_devices_length = len, ph_number_of_downstream_devices = of_nat (length devs)\<rparr>"
  have hdr: "length ?hdr = 6" "u16_at 4 (?hdr @ xs) = of_nat (length devs)" for xs
    by (simp_all add: portion_header_bytes_def le32_def le16_def u16_at_def)
  have all: "next_n (Suc (length devs)) identifiers_next r = (Ok (map (Some \<circ> device_of) devs @ [None]), r)"
    using identifiers_next_list [of r ?hdr devs "[]"] hdr assms(1,2)
    by (simp add: r query_downstream_identifiers_response_new_def unat_of_nat rewound_def)
  then have "next_n (Suc (length (map device_of devs))) identifiers_next r = (Ok (map Some (map device_of devs) @ [None]), r)"
    by simp
  from try_at_loop_list [OF this, of 0] have "try_at i r = (if i < length devs then Ok (device_of (devs ! i)) else Err PE_InvalidData)" for i
    by (simp add: try_at_def)
  with all assms(2) show ?thesis
    by (auto simp: list_all_iff wf_device_def downstream_device_yields)
qed

theorem downstream_devices_enumerated_witness:
  "next_n 2 identifiers_next (query_downstream_identifiers_response_new 1 (BaseCodes CC_Success) 0 5
      [13, 0, 0, 0, 1, 0, 7, 0, 1, 0, 0, 2, 0, 0x86, 0x80])
    = (Ok [Some (device_of (7, [\<lparr>desc_type = 0, desc_length = 2, desc_data = 0x86 # 0x80 # replicate 62 0\<rparr>])), None],
       query_downstream_identifiers_response_new 1 (BaseCodes CC_Success) 0 5
      [13, 0, 0, 0, 1, 0, 7, 0, 1, 0, 0, 2, 0, 0x86, 0x80])"
proof -
  let ?d = "\<lparr>desc_type = 0, desc_length = 2, desc_data = 0x86 # 0x80 # replicate 62 0\<rparr> :: descriptor"
  have wf: "list_all wf_device [(7, [?d])]" by (simp add: wf_device_def wf_descriptor_def padded_def)
  have ser: "portion_header_bytes \<lparr>ph_downstream_devices_length = 13, ph_number_of_downstream_devices = of_nat (length [(7 :: u16, [?d])])\<rparr>
       @ concat (map device_ser [(7, [?d])]) = [13, 0, 0, 0, 1, 0, 7, 0, 1, 0, 0, 2, 0, 0x86, 0x80]"
    by code_simp
  have "next_n (Suc (length [(7, [?d])])) identifiers_next (query_downstream_identifiers_response_new 1 (BaseCodes CC_Success) 0 5
      [13, 0, 0, 0, 1, 0, 7, 0, 1, 0, 0, 2, 0, 0x86, 0x80])
    = (Ok (map (Some \<circ> device_of) [(7, [?d])] @ [None]),
       query_downstream_identifiers_response_new 1 (BaseCodes CC_Success) 0 5
      [13, 0, 0, 0, 1, 0, 7, 0, 1, 0, 0, 2, 0, 0x86, 0x80])"
    using downstream_devices_enumerated [OF _ wf refl, of 1 "BaseCodes CC_Success" 0 5 13] unfolding ser by simp
  then show ?thesis by (simp add: numeral_2_eq_2)
qed

text \<open>C33: whatever bytes a response carries, iterating over its devices does not panic and ends after at
  most the announced number of devices; \<open>try_at\<close> does not panic either; and every device yields
  exactly as many descriptors as it claims, all well-formed, without a panic.\<close>

theorem downstream_iteration_safe:
  fixes r :: query_downstream_identifiers_response
  shows "\<exists>devs r'. length devs \<le> unat (u16_at 4 (qir_portion r)) \<and>
    next_n (Suc (length devs)) identifiers_next r = (Ok (map Some devs @ [None]), r') \<and>
    (\<forall>i. try_at i r = (if i < length devs then Ok (devs ! i) else Err PE_InvalidData)) \<and>
    (\<forall>d \<in> set devs. \<exists>ds. length ds = unat (dd_descriptor_count d) \<and> list_all wf_descriptor ds \<and>
       next_n (Suc (length ds)) downstream_device_next d = (Ok (map Some ds @ [None]), d))"
proof -
  obtain devs r' where devs: "length devs \<le> unat (u16_at 4 (qir_portion r)) - qir_portion_iter_current r"
    "next_n (Suc (length devs)) identifiers_next r = (Ok (map Some devs @ [None]), r')"
    and wf: "list_all (\<lambda>d. \<exists>x. wf_device x \<and> d = device_of x) devs"
    using identifiers_iteration [of r] by blast
  have at: "try_at i r = (if i < length devs then Ok (devs ! i) else Err PE_InvalidData)" for i
    using try_at_loop_list [OF devs(2), of 0 i] by (simp add: try_at_def)
  have "\<exists>ds. length ds = unat (dd_descriptor_count d) \<and> list_all wf_descriptor ds \<and>
       next_n (Suc (length ds)) downstream_device_next d = (Ok (map Some ds @ [None]), d)" if "d \<in> set devs" for d
  proof -
    from wf that obtain idx ds where x: "length ds < 256" "list_all wf_descriptor ds" "d = device_of (idx, ds)"
      by (auto simp: list_all_iff wf_device_def)
    then show ?thesis
      using downstream_device_yields [OF x(1,2), of idx]
      by (intro exI [of _ ds]) (simp add: device_of_def unat_of_nat)
  qed
  with devs at show ?thesis by (intro exI [of _ devs] exI [of _ r']) auto
qed

theorem downstream_iteration_safe_witness:
  "\<exists>devs. length devs \<le> 3 \<and> (\<forall>i. try_at i
     (query_downstream_identifiers_response_new 1 (BaseCodes CC_Success) 0 5 [9, 9, 9, 9, 3, 0, 7, 0, 1, 0, 0, 2, 0, 0x86])
       = (if i < length devs then Ok (devs ! i) else Err PE_InvalidData))"
proof -
  let ?r = "query_downstream_identifiers_response_new 1 (BaseCodes CC_Success) 0 5 [9, 9, 9, 9, 3, 0, 7, 0, 1, 0, 0, 2, 0, 0x86]"
  have "unat (u16_at 4 (qir_portion ?r)) = 3"
    by (simp add: query_downstream_identifiers_response_new_def u16_at_def le_word.simps)
  with downstream_iteration_safe [of ?r] show ?thesis by metis
qed

text \<open>The devices \<open>try_at\<close> counts are those that are left: what a \<open>next\<close> has taken before is skipped.\<close>

theorem try_at_after_next:
  assumes "identifiers_next r = (Ok (Some d), r')"
  shows "try_at 0 r = Ok d \<and> (\<forall>i. try_at i r' = try_at (Suc i) r)"
proof -
  have shift: "try_at_loop (Suc idx) (Suc i) s = try_at_loop idx i s" for idx i s
  proof (induction idx i s rule: try_at_loop.induct)
    case (1 idx i s)
    then show ?case
      by (simp add: try_at_loop.simps [of idx i s] try_at_loop.simps [of "Suc idx" "Suc i" s] split: prod.split outcome.split option.split)
  qed
  with assms show ?thesis by (simp add: try_at_def try_at_loop.simps [of 0 0 r] try_at_loop.simps [of "Suc _" 0 r])
qed

theorem try_at_after_next_witness:
  "\<exists>d r'. identifiers_next
      (query_downstream_identifiers_response_new 1 (BaseCodes CC_Success) 0 5 [0, 0, 0, 0, 2, 0, 7, 0, 0, 8, 0, 0])
        = (Ok (Some d), r') \<and> dd_index d = 7 \<and> map_ok dd_index (try_at 0 r') = Ok 8"
proof -
  let ?r = "query_downstream_identifiers_response_new 1 (BaseCodes CC_Success) 0 5 [0, 0, 0, 0, 2, 0, 7, 0, 0, 8, 0, 0]"
  have "case identifiers_next ?r of (Ok (Some d), r') \<Rightarrow> dd_index d = 7 | _ \<Rightarrow> False" by code_simp
  then obtain d r' where d: "identifiers_next ?r = (Ok (Some d), r')" "dd_index d = 7"
    by (auto split: prod.splits outcome.splits option.splits)
  have "map_ok dd_index (try_at 1 ?r) = Ok 8" by code_simp
  with d try_at_after_next [OF d(1)] show ?thesis by (metis One_nat_def)
qed

text \<open>C37: \<open>DownstreamDevice::new\<close> counts the bytes of the descriptors it is given, not the descriptors: the
  device it builds of any single descriptor claims several, and after the first one its iterator
  panics.\<close>

theorem downstream_device_new_miscounts:
  assumes "wf_descriptor x" and dev: "dev = downstream_device_new idx (descriptor_ser x)"
  shows "unat (dd_descriptor_count dev) = 4 + unat (desc_length x) \<and>
    (\<exists>dev'. downstream_device_next dev = (Ok (Some x), dev') \<and> fst (downstream_device_next dev') = Panic)"
proof -
  let ?dev' = "dev\<lparr>dd_iter_offset := length ([] @ descriptor_ser x), dd_iter_dev_count := dd_iter_dev_count dev + 1\<rparr>"
  have count: "unat (dd_descriptor_count dev) = 4 + unat (desc_length x)"
    using downstream_device_new_count [OF assms(1)] dev by simp
  have parts: "dd_descriptors dev = descriptor_ser x" "dd_iter_offset dev = 0" "dd_iter_dev_count dev = 0"
    using dev by (simp_all add: downstream_device_new_def)
  have "downstream_device_next dev = (Ok (Some x), ?dev')"
    using assms(1) count parts by (intro downstream_device_next_ser [where post = "[]"]) simp_all
  moreover have "fst (downstream_device_next ?dev') = Panic"
  proof -
    have "dd_descriptor_count dev \<noteq> 0" "\<not> unat (dd_descriptor_count dev) \<le> 1" using count by auto
    with parts show ?thesis
      by (simp add: downstream_device_next_def abind_def lift_def slice_def expect.simps get_range_def)
  qed
  ultimately show ?thesis using count by blast
qed

theorem downstream_device_new_miscounts_witness:
  "fst (next_n 2 downstream_device_next (downstream_device_new 1 (descriptor_ser
     \<lparr>desc_type = 0, desc_length = 2, desc_data = 0x86 # 0x80 # replicate 62 0\<rparr>))) = Panic"
proof -
  let ?d = "\<lparr>desc_type = 0, desc_length = 2, desc_data = 0x86 # 0x80 # replicate 62 0\<rparr> :: descriptor"
  have "wf_descriptor ?d" by (simp add: wf_descriptor_def padded_def)
  from downstream_device_new_miscounts [OF this refl] obtain dev' where
    "downstream_device_next (downstream_device_new 1 (descriptor_ser ?d)) = (Ok (Some ?d), dev')"
    "fst (downstream_device_next dev') = Panic" by blast
  then show ?thesis
    unfolding numeral_2_eq_2 by (intro next_n_later_Panic next_n_Panic)
qed

end
