(* ===== verification/Downstream_Params.thy ===== *)
theory Downstream_Params
  imports Downstream
begin

text \<open>
  The firmware parameters of downstream devices and the request to update one, the
  second half of \<open>query_downstream.rs\<close>.  A parameter table carries two version strings
  of variable length behind its fixed part; a portion is a header and one table, a
  response a header and a portion.
\<close>

section \<open>GetDownstreamFirmwareParameters\<close>

record get_downstream_firmware_parameters_request =
  gfq_hdr :: pldm_msg_header
  gfq_data_transfer_handle :: u32
  gfq_transfer_op_flag :: u8

definition get_downstream_firmware_parameters_request_bytes :: "get_downstream_firmware_parameters_request \<Rightarrow> bytes" where
  [layout]: "get_downstream_firmware_parameters_request_bytes r = hdr_bytes (gfq_hdr r) @ le32 (gfq_data_transfer_handle r) @ [gfq_transfer_op_flag r]"

definition get_downstream_firmware_parameters_request_of :: "bytes \<Rightarrow> get_downstream_firmware_parameters_request" where
  [layout]: "get_downstream_firmware_parameters_request_of bs = \<lparr>gfq_hdr = hdr_of bs,
     gfq_data_transfer_handle = u32_at 3 bs,
     gfq_transfer_op_flag = bs ! 7\<rparr>"

interpretation get_downstream_firmware_parameters_request: packed_struct 8 get_downstream_firmware_parameters_request_bytes get_downstream_firmware_parameters_request_of "\<lambda>_. True"
  by unfold_locales (auto simp: layout length_eq_Cons length_eq_Suc_Cons)

definition get_downstream_firmware_parameters_request_new :: "u8 \<Rightarrow> u32 \<Rightarrow> transfer_operation_flag \<Rightarrow> get_downstream_firmware_parameters_request" where
  "get_downstream_firmware_parameters_request_new inst handle op =
     \<lparr>gfq_hdr = header_new inst MsgRequest TypeFwUpdate (fw_update_cmd_disc GetDownstreamFirmwareParameters),
      gfq_data_transfer_handle = handle,
      gfq_transfer_op_flag = transfer_operation_flag_disc op\<rparr>"

definition GetDownstreamFirmwareParametersResponseCode :: "fw_cc list" where
  "GetDownstreamFirmwareParametersResponseCode =
     [InvalidTransferHandle, InvalidTransferOperationFlag, DownstreamDeviceListChanged]"

text \<open>\<open>PldmTimeStamp\<close>: eight bytes, which the constructor requires to be digits.\<close>

definition pldm_time_stamp_new :: "string \<Rightarrow> (bytes, pldm_error) outcome" where
  "pldm_time_stamp_new timestamp =
     (let ts_bytes = string_bytes timestamp in
      if length ts_bytes \<noteq> 8 then Err PE_InvalidData
      else if list_all (\<lambda>b. 0x30 \<le> b \<and> b \<le> 0x39) ts_bytes then Ok ts_bytes
      else Err PE_InvalidData)"

text \<open>\<open>CapabilitiesDuringUpdate\<close>, a word of flags\<close>

definition downstream_apply_state :: "u32 \<Rightarrow> bool" where
  "downstream_apply_state caps = flag 0 caps"

definition downstream_updateable :: "u32 \<Rightarrow> bool" where
  "downstream_updateable caps = flag 1 caps"

definition component_downgrade_capability :: "u32 \<Rightarrow> bool" where
  "component_downgrade_capability caps = flag 2 caps"

definition security_revision_number_updateable :: "u32 \<Rightarrow> bool" where
  "security_revision_number_updateable caps = flag 3 caps"

definition component_security_level_latest :: "u32 \<Rightarrow> bool" where
  "component_security_level_latest caps = flag 4 caps"

definition set_downstream_apply_state :: "bool \<Rightarrow> u32 \<Rightarrow> u32" where
  "set_downstream_apply_state b caps = set_flag 0 b caps"

definition set_downstream_updateable :: "bool \<Rightarrow> u32 \<Rightarrow> u32" where
  "set_downstream_updateable b caps = set_flag 1 b caps"

definition set_component_downgrade_capability :: "bool \<Rightarrow> u32 \<Rightarrow> u32" where
  "set_component_downgrade_capability b caps = set_flag 2 b caps"

definition set_security_revision_number_updateable :: "bool \<Rightarrow> u32 \<Rightarrow> u32" where
  "set_security_revision_number_updateable b caps = set_flag 3 b caps"

definition set_component_security_level_latest :: "bool \<Rightarrow> u32 \<Rightarrow> u32" where
  "set_component_security_level_latest b caps = set_flag 4 b caps"

record downstream_device_parameter_table =
  dpt_downstream_device_index :: u16
  dpt_active_comparison_stamp :: u32
  dpt_active_release_date :: bytes
  dpt_pending_comparison_stamp :: u32
  dpt_pending_release_date :: bytes
  dpt_activation_methods :: u16
  dpt_capabilities_during_update :: u32
  dpt_active_ver_str :: pldm_firmware_string
  dpt_pending_ver_str :: pldm_firmware_string

definition downstream_device_parameter_table_new ::
  "u16 \<Rightarrow> u32 \<Rightarrow> pldm_firmware_string \<Rightarrow> pldm_firmware_string \<Rightarrow> string \<Rightarrow> u32 \<Rightarrow> u16 \<Rightarrow> u32 \<Rightarrow> string
     \<Rightarrow> (downstream_device_parameter_table, pldm_error) outcome" where
  "downstream_device_parameter_table_new idx active_stamp active_str pending_str active_date
      pending_stamp methods caps pending_date =
     rbind (pldm_time_stamp_new active_date) (\<lambda>active_ts.
     rbind (pldm_time_stamp_new pending_date) (\<lambda>pending_ts.
       Ok \<lparr>dpt_downstream_device_index = idx,
           dpt_active_comparison_stamp = active_stamp,
           dpt_active_release_date = active_ts,
           dpt_pending_comparison_stamp = pending_stamp,
           dpt_pending_release_date = pending_ts,
           dpt_activation_methods = methods,
           dpt_capabilities_during_update = caps,
           dpt_active_ver_str = active_str,
           dpt_pending_ver_str = pending_str\<rparr>))"

definition downstream_device_parameter_table_size :: "downstream_device_parameter_table \<Rightarrow> nat" where
  "downstream_device_parameter_table_size t =
     2 + 4 + 1 + 1 + 8 + 4 + 1 + 1 + 8 + 2 + 4
     + unat (str_len (dpt_active_ver_str t)) + unat (str_len (dpt_pending_ver_str t))"

definition downstream_device_parameter_table_encode ::
  "downstream_device_parameter_table \<Rightarrow> bytes \<Rightarrow> (nat, codec_error) outcome \<times> bytes" where
  "downstream_device_parameter_table_encode t buffer =
     (if length buffer < downstream_device_parameter_table_size t then (Err BufferTooShort, buffer)
      else put_all
        [Some (le16 (dpt_downstream_device_index t)),
         Some (le32 (dpt_active_comparison_stamp t)),
         Some [str_type (dpt_active_ver_str t)],
         Some [str_len (dpt_active_ver_str t)],
         Some (dpt_active_release_date t),
         Some (le32 (dpt_pending_comparison_stamp t)),
         Some [str_type (dpt_pending_ver_str t)],
         Some [str_len (dpt_pending_ver_str t)],
         Some (dpt_pending_release_date t),
         Some (le16 (dpt_activation_methods t)),
         Some (le32 (dpt_capabilities_during_update t)),
         prefix_chunk (unat (str_len (dpt_active_ver_str t))) (str_data (dpt_active_ver_str t)),
         prefix_chunk (unat (str_len (dpt_pending_ver_str t))) (str_data (dpt_pending_ver_str t))] 0 buffer)"

text \<open>
  A version string of the claimed length at the offset: an error, not a panic, when the
  length exceeds the array or the buffer.
\<close>

definition take_ver_str :: "u8 \<Rightarrow> u8 \<Rightarrow> nat \<Rightarrow> bytes \<Rightarrow> (pldm_firmware_string, codec_error) outcome" where
  "take_ver_str ty len offset buffer =
     (if PLDM_FWUP_IMAGE_SET_VER_STR_MAX_LEN < unat len then Err InvalidData
      else rbind (ok_or BufferTooShort (get_range offset (unat len) buffer)) (\<lambda>data.
        Ok \<lparr>str_type = ty, str_len = len, str_data = pad_to PLDM_FWUP_IMAGE_SET_VER_STR_MAX_LEN data\<rparr>))"

text \<open>
  The length check leaves out the four bytes of the strings' types and lengths; on a
  buffer that is too short by these the slice of the capabilities is in range and its
  decoder reports the error.
\<close>

definition downstream_device_parameter_table_decode ::
  "bytes \<Rightarrow> (downstream_device_parameter_table, codec_error) outcome" where
  "downstream_device_parameter_table_decode buffer =
     (if length buffer < 2 + 4 + 8 + 4 + 8 + 2 + 4 then Err BufferTooShort
      else rbind (slice 0 2 buffer) (\<lambda>idx.
           rbind (slice 2 4 buffer) (\<lambda>active_stamp.
           rbind (index_at 6 buffer) (\<lambda>active_type.
           rbind (index_at 7 buffer) (\<lambda>active_len.
           rbind (slice 8 8 buffer) (\<lambda>active_date.
           rbind (slice 16 4 buffer) (\<lambda>pending_stamp.
           rbind (index_at 20 buffer) (\<lambda>pending_type.
           rbind (index_at 21 buffer) (\<lambda>pending_len.
           rbind (slice 22 8 buffer) (\<lambda>pending_date.
           rbind (slice_from 30 buffer) (\<lambda>b30.
           rbind (blanket_decode 2 (u16_at 0) b30) (\<lambda>methods.
           rbind (slice_from 32 buffer) (\<lambda>b32.
           rbind (blanket_decode 4 (u32_at 0) b32) (\<lambda>caps.
           rbind (take_ver_str active_type active_len 36 buffer) (\<lambda>active_str.
           rbind (take_ver_str pending_type pending_len (36 + unat active_len) buffer) (\<lambda>pending_str.
             Ok \<lparr>dpt_downstream_device_index = u16_at 0 idx,
                 dpt_active_comparison_stamp = u32_at 0 active_stamp,
                 dpt_active_release_date = active_date,
                 dpt_pending_comparison_stamp = u32_at 0 pending_stamp,
                 dpt_pending_release_date = pending_date,
                 dpt_activation_methods = methods,
                 dpt_capabilities_during_update = caps,
                 dpt_active_ver_str = active_str,
                 dpt_pending_ver_str = pending_str\<rparr>))))))))))))))))"

record get_downstream_firmware_parameters_portion =
  dfp_capability :: u32
  dfp_downstream_device_count :: u16
  dfp_parameter_table :: downstream_device_parameter_table

definition get_downstream_firmware_parameters_portion_new ::
  "u32 \<Rightarrow> u16 \<Rightarrow> downstream_device_parameter_table \<Rightarrow> get_downstream_firmware_parameters_portion" where
  "get_downstream_firmware_parameters_portion_new capability count table =
     \<lparr>dfp_capability = capability, dfp_downstream_device_count = count, dfp_parameter_table = table\<rparr>"

definition get_downstream_firmware_parameters_portion_size :: "get_downstream_firmware_parameters_portion \<Rightarrow> nat" where
  "get_downstream_firmware_parameters_portion_size p =
     4 + 2 + downstream_device_parameter_table_size (dfp_parameter_table p)"

definition get_downstream_firmware_parameters_portion_encode ::
  "get_downstream_firmware_parameters_portion \<Rightarrow> (bytes, nat, codec_error) act" where
  "get_downstream_firmware_parameters_portion_encode p buffer =
     (if length buffer < get_downstream_firmware_parameters_portion_size p then (Err BufferTooShort, buffer)
      else abind (put_all [Some (le32 (dfp_capability p)), Some (le16 (dfp_downstream_device_count p))] 0)
        (encode_at downstream_device_parameter_table_encode (dfp_parameter_table p)) buffer)"

definition get_downstream_firmware_parameters_portion_decode ::
  "bytes \<Rightarrow> (get_downstream_firmware_parameters_portion, codec_error) outcome" where
  "get_downstream_firmware_parameters_portion_decode buffer =
     (if length buffer < 4 + 2 then Err BufferTooShort
      else rbind (slice 0 4 buffer) (\<lambda>capability.
           rbind (slice 4 2 buffer) (\<lambda>count.
           rbind (slice_from 6 buffer) (\<lambda>rest.
           rbind (downstream_device_parameter_table_decode rest) (\<lambda>table.
             Ok \<lparr>dfp_capability = u32_at 0 capability, dfp_downstream_device_count = u16_at 0 count,
                 dfp_parameter_table = table\<rparr>)))))"

record get_downstream_firmware_parameters_response =
  gfr_hdr :: pldm_msg_header
  gfr_completion_code :: u8
  gfr_next_data_transfer_handle :: u32
  gfr_transfer_flag :: u8
  gfr_portion :: get_downstream_firmware_parameters_portion

definition get_downstream_firmware_parameters_response_new ::
  "u8 \<Rightarrow> cmd_cc \<Rightarrow> u32 \<Rightarrow> u8 \<Rightarrow> get_downstream_firmware_parameters_portion
     \<Rightarrow> get_downstream_firmware_parameters_response" where
  "get_downstream_firmware_parameters_response_new inst cc handle tflag portion =
     \<lparr>gfr_hdr = header_new inst MsgResponse TypeFwUpdate (fw_update_cmd_disc GetDownstreamFirmwareParameters),
      gfr_completion_code = cmd_cc_disc cc,
      gfr_next_data_transfer_handle = handle,
      gfr_transfer_flag = tflag,
      gfr_portion = portion\<rparr>"

definition get_downstream_firmware_parameters_response_encode ::
  "get_downstream_firmware_parameters_response \<Rightarrow> (bytes, nat, codec_error) act" where
  "get_downstream_firmware_parameters_response_encode r buffer =
     (if length buffer < 3 + 1 + 4 + 1 + get_downstream_firmware_parameters_portion_size (gfr_portion r)
      then (Err BufferTooShort, buffer)
      else abind (put_all [Some (hdr_bytes (gfr_hdr r)), Some [gfr_completion_code r],
          Some (le32 (gfr_next_data_transfer_handle r)), Some [gfr_transfer_flag r]] 0)
        (encode_at get_downstream_firmware_parameters_portion_encode (gfr_portion r)) buffer)"

definition get_downstream_firmware_parameters_response_decode ::
  "bytes \<Rightarrow> (get_downstream_firmware_parameters_response, codec_error) outcome" where
  "get_downstream_firmware_parameters_response_decode buffer =
     (if length buffer < 3 + 1 + 4 + 1 + 4 + 2 then Err BufferTooShort
      else rbind (slice 0 3 buffer) (\<lambda>hdr.
           rbind (index_at 3 buffer) (\<lambda>cc.
           rbind (slice 4 4 buffer) (\<lambda>handle.
           rbind (index_at 8 buffer) (\<lambda>tflag.
           rbind (slice_from 9 buffer) (\<lambda>rest.
           rbind (get_downstream_firmware_parameters_portion_decode rest) (\<lambda>portion.
             Ok \<lparr>gfr_hdr = hdr_of hdr, gfr_completion_code = cc,
                 gfr_next_data_transfer_handle = u32_at 0 handle,
                 gfr_transfer_flag = tflag, gfr_portion = portion\<rparr>)))))))"

text \<open>What the constructor builds of version strings that it was given well-formed.\<close>

definition wf_parameter_table :: "downstream_device_parameter_table \<Rightarrow> bool" where
  "wf_parameter_table t \<longleftrightarrow>
     length (dpt_active_release_date t) = 8 \<and> length (dpt_pending_release_date t) = 8 \<and>
     wf_firmware_string (dpt_active_ver_str t) \<and> wf_firmware_string (dpt_pending_ver_str t)"

definition parameter_table_ser :: "downstream_device_parameter_table \<Rightarrow> bytes" where
  "parameter_table_ser t =
     le16 (dpt_downstream_device_index t) @ le32 (dpt_active_comparison_stamp t)
     @ [str_type (dpt_active_ver_str t), str_len (dpt_active_ver_str t)] @ dpt_active_release_date t
     @ le32 (dpt_pending_comparison_stamp t)
     @ [str_type (dpt_pending_ver_str t), str_len (dpt_pending_ver_str t)] @ dpt_pending_release_date t
     @ le16 (dpt_activation_methods t) @ le32 (dpt_capabilities_during_update t)
     @ take (unat (str_len (dpt_active_ver_str t))) (str_data (dpt_active_ver_str t))
     @ take (unat (str_len (dpt_pending_ver_str t))) (str_data (dpt_pending_ver_str t))"

lemma parameter_table_ser_length [simp]:
  "wf_parameter_table t \<Longrightarrow> length (parameter_table_ser t) = downstream_device_parameter_table_size t"
  by (simp add: wf_parameter_table_def wf_firmware_string_def padded_def parameter_table_ser_def
      downstream_device_parameter_table_size_def)

lemma u32_at_0_le32: "u32_at 0 (le32 w) = w"
  by (simp add: u32_at_def le32_def)

lemma take_ver_str_not_Panic [simp]: "take_ver_str ty len off buf \<noteq> Panic"
  by (simp add: take_ver_str_def rbind_eq_Panic)

lemma take_ver_str_append:
  assumes "wf_firmware_string s" and "length pre = off"
  shows "take_ver_str (str_type s) (str_len s) off (pre @ take (unat (str_len s)) (str_data s) @ rest) = Ok s"
  using assms padded_pad_take [of 32 "unat (str_len s)" "str_data s"]
  by (cases s) (simp add: take_ver_str_def wf_firmware_string_def padded_def get_range_def)

lemma parameter_table_encode_fits:
  assumes wf: "wf_parameter_table t" and fits: "length (parameter_table_ser t) \<le> length buf"
  shows "downstream_device_parameter_table_encode t buf
     = (Ok (length (parameter_table_ser t)), splice 0 (parameter_table_ser t) buf)"
proof -
  let ?a = "dpt_active_ver_str t" and ?p = "dpt_pending_ver_str t"
  have chunks: "prefix_chunk (unat (str_len ?a)) (str_data ?a) = Some (take (unat (str_len ?a)) (str_data ?a))"
    "prefix_chunk (unat (str_len ?p)) (str_data ?p) = Some (take (unat (str_len ?p)) (str_data ?p))"
    using wf by (simp_all add: wf_parameter_table_def wf_firmware_string_def padded_def)
  have enough: "\<not> length buf < downstream_device_parameter_table_size t"
    using wf fits by simp
  show ?thesis
    unfolding downstream_device_parameter_table_encode_def chunks if_not_P [OF enough]
    by (rule put_fields [where bss = "[le16 (dpt_downstream_device_index t), le32 (dpt_active_comparison_stamp t),
          [str_type ?a], [str_len ?a], dpt_active_release_date t, le32 (dpt_pending_comparison_stamp t),
          [str_type ?p], [str_len ?p], dpt_pending_release_date t, le16 (dpt_activation_methods t),
          le32 (dpt_capabilities_during_update t), take (unat (str_len ?a)) (str_data ?a),
          take (unat (str_len ?p)) (str_data ?p)]"])
       (use fits in \<open>simp_all add: parameter_table_ser_def\<close>)
qed

lemma parameter_table_decode_append:
  assumes wf: "wf_parameter_table t"
  shows "downstream_device_parameter_table_decode (parameter_table_ser t @ rest) = Ok t"
proof -
  let ?a = "dpt_active_ver_str t" and ?p = "dpt_pending_ver_str t"
  obtain fa fp where f: "length fa = 8" "length fp = 8" "dpt_active_release_date t = fa" "dpt_pending_release_date t = fp"
    using wf that [OF _ _ refl refl] by (simp add: wf_parameter_table_def)
  let ?pre = "le16 (dpt_downstream_device_index t) @ le32 (dpt_active_comparison_stamp t)
     @ [str_type ?a, str_len ?a] @ fa @ le32 (dpt_pending_comparison_stamp t)
     @ [str_type ?p, str_len ?p] @ fp @ le16 (dpt_activation_methods t) @ le32 (dpt_capabilities_during_update t)"
  let ?as = "take (unat (str_len ?a)) (str_data ?a)" and ?ps = "take (unat (str_len ?p)) (str_data ?p)"
  define B where "B = ?pre @ ?as @ ?ps @ rest"
  have ser: "parameter_table_ser t @ rest = B" by (simp add: B_def parameter_table_ser_def f)
  have len: "36 \<le> length B" using f by (simp add: B_def)
  have fields: "take 2 B = le16 (dpt_downstream_device_index t)" "take 4 (drop 2 B) = le32 (dpt_active_comparison_stamp t)"
    "B ! 6 = str_type ?a" "B ! 7 = str_len ?a" "take 8 (drop 8 B) = fa" "take 4 (drop 16 B) = le32 (dpt_pending_comparison_stamp t)"
    "B ! 20 = str_type ?p" "B ! 21 = str_len ?p" "take 8 (drop 22 B) = fp" "take 2 (drop 30 B) = le16 (dpt_activation_methods t)"
    "take 4 (drop 32 B) = le32 (dpt_capabilities_during_update t)"
    using f(1,2) by (simp_all add: B_def le16_def le32_def nth_append)
  have sa: "take_ver_str (str_type ?a) (str_len ?a) 36 B = Ok ?a"
    unfolding B_def using f wf by (intro take_ver_str_append) (simp_all add: wf_parameter_table_def)
  have la: "length ?as = unat (str_len ?a)"
    using wf by (simp add: wf_parameter_table_def wf_firmware_string_def padded_def)
  have "take_ver_str (str_type ?p) (str_len ?p) (36 + unat (str_len ?a)) ((?pre @ ?as) @ ?ps @ rest) = Ok ?p"
    using f wf la by (intro take_ver_str_append) (simp_all add: wf_parameter_table_def)
  then have sp: "take_ver_str (str_type ?p) (str_len ?p) (36 + unat (str_len ?a)) B = Ok ?p"
    by (simp add: B_def)
  have enough: "\<not> length B - 30 < 2" "\<not> length B - 32 < 4" using len by simp_all
  have "downstream_device_parameter_table_decode B = Ok t"
    using len f sa sp enough by (cases t) (simp add: downstream_device_parameter_table_decode_def slice_in_range
        index_at_def slice_from_def blanket_decode_def fields u32_at_0_le32 cong: if_cong)
  then show ?thesis by (simp add: ser)
qed

lemma parameter_table_decode_not_Panic [simp]: "downstream_device_parameter_table_decode buf \<noteq> Panic"
  by (auto simp: downstream_device_parameter_table_decode_def rbind_eq_Panic index_at_def slice_from_def)

interpretation parameter_table: codec downstream_device_parameter_table_encode
    downstream_device_parameter_table_decode parameter_table_ser wf_parameter_table
  using parameter_table_decode_append [where rest = "[]"]
  by unfold_locales
     (simp_all add: parameter_table_encode_fits parameter_table_decode_append,
      simp add: downstream_device_parameter_table_encode_def)

subsection \<open>Portions and responses\<close>

definition portion_ser :: "get_downstream_firmware_parameters_portion \<Rightarrow> bytes" where
  "portion_ser p = le32 (dfp_capability p) @ le16 (dfp_downstream_device_count p) @ parameter_table_ser (dfp_parameter_table p)"

definition wf_portion :: "get_downstream_firmware_parameters_portion \<Rightarrow> bool" where
  "wf_portion p \<longleftrightarrow> wf_parameter_table (dfp_parameter_table p)"

lemma portion_ser_length [simp]:
  "wf_portion p \<Longrightarrow> length (portion_ser p) = get_downstream_firmware_parameters_portion_size p"
  by (simp add: wf_portion_def portion_ser_def get_downstream_firmware_parameters_portion_size_def)

lemma portion_encode_fits:
  assumes wf: "wf_portion p" and fits: "length (portion_ser p) \<le> length buf"
  shows "get_downstream_firmware_parameters_portion_encode p buf = (Ok (length (portion_ser p)), splice 0 (portion_ser p) buf)"
proof -
  let ?bss = "[le32 (dfp_capability p), le16 (dfp_downstream_device_count p)]"
  have ser: "portion_ser p = concat ?bss @ parameter_table_ser (dfp_parameter_table p)"
    by (simp add: portion_ser_def)
  have enough: "\<not> length buf < get_downstream_firmware_parameters_portion_size p"
    using wf fits by simp
  have put: "put_all [Some (le32 (dfp_capability p)), Some (le16 (dfp_downstream_device_count p))] 0 buf
      = ((Ok (length (concat ?bss)) :: (nat, codec_error) outcome), splice 0 (concat ?bss) buf)"
    using fits unfolding ser by (intro put_fields [where bss = ?bss]) simp_all
  have table: "encode_at downstream_device_parameter_table_encode (dfp_parameter_table p) (length (concat ?bss))
        (splice 0 (concat ?bss) buf) = (Ok (length (portion_ser p)), splice 0 (portion_ser p) buf)"
    using fits wf unfolding ser by (intro parameter_table.encode_at_fits) (simp_all add: wf_portion_def)
  show ?thesis
    unfolding get_downstream_firmware_parameters_portion_encode_def if_not_P [OF enough] abind_def put
    by (simp only: prod.case outcome.case table)
qed

lemma portion_decode_append:
  "wf_portion p \<Longrightarrow> get_downstream_firmware_parameters_portion_decode (portion_ser p @ rest) = Ok p"
  by (cases p) (simp add: get_downstream_firmware_parameters_portion_decode_def portion_ser_def wf_portion_def
      slice_in_range slice_from_def parameter_table_decode_append le32_def le16_def u32_at_def u16_at_def cong: if_cong)

lemma portion_decode_not_Panic [simp]: "get_downstream_firmware_parameters_portion_decode buf \<noteq> Panic"
  by (auto simp: get_downstream_firmware_parameters_portion_decode_def rbind_eq_Panic slice_from_def)

interpretation portion: codec get_downstream_firmware_parameters_portion_encode
    get_downstream_firmware_parameters_portion_decode portion_ser wf_portion
  using portion_decode_append [where rest = "[]"]
  by unfold_locales
     (simp_all add: portion_encode_fits portion_decode_append,
      simp add: get_downstream_firmware_parameters_portion_encode_def)

definition parameters_response_ser :: "get_downstream_firmware_parameters_response \<Rightarrow> bytes" where
  "parameters_response_ser r = hdr_bytes (gfr_hdr r) @ [gfr_completion_code r]
     @ le32 (gfr_next_data_transfer_handle r) @ [gfr_transfer_flag r] @ portion_ser (gfr_portion r)"

definition wf_parameters_response :: "get_downstream_firmware_parameters_response \<Rightarrow> bool" where
  "wf_parameters_response r \<longleftrightarrow> wf_portion (gfr_portion r)"

lemma parameters_response_ser_length [simp]:
  "wf_parameters_response r \<Longrightarrow>
   length (parameters_response_ser r) = 9 + get_downstream_firmware_parameters_portion_size (gfr_portion r)"
  by (simp add: wf_parameters_response_def parameters_response_ser_def)

lemma parameters_response_encode_fits:
  assumes wf: "wf_parameters_response r" and fits: "length (parameters_response_ser r) \<le> length buf"
  shows "get_downstream_firmware_parameters_response_encode r buf
     = (Ok (length (parameters_response_ser r)), splice 0 (parameters_response_ser r) buf)"
proof -
  let ?bss = "[hdr_bytes (gfr_hdr r), [gfr_completion_code r], le32 (gfr_next_data_transfer_handle r), [gfr_transfer_flag r]]"
  have ser: "parameters_response_ser r = concat ?bss @ portion_ser (gfr_portion r)"
    by (simp add: parameters_response_ser_def)
  have enough: "\<not> length buf < 3 + 1 + 4 + 1 + get_downstream_firmware_parameters_portion_size (gfr_portion r)"
    using wf fits by simp
  have put: "put_all [Some (hdr_bytes (gfr_hdr r)), Some [gfr_completion_code r],
          Some (le32 (gfr_next_data_transfer_handle r)), Some [gfr_transfer_flag r]] 0 buf
      = ((Ok (length (concat ?bss)) :: (nat, codec_error) outcome), splice 0 (concat ?bss) buf)"
    using fits unfolding ser by (intro put_fields [where bss = ?bss]) simp_all
  have portion: "encode_at get_downstream_firmware_parameters_portion_encode (gfr_portion r) (length (concat ?bss))
        (splice 0 (concat ?bss) buf) = (Ok (length (parameters_response_ser r)), splice 0 (parameters_response_ser r) buf)"
    using fits wf unfolding ser by (intro portion.encode_at_fits) (simp_all add: wf_parameters_response_def)
  show ?thesis
    unfolding get_downstream_firmware_parameters_response_encode_def if_not_P [OF enough] abind_def put
    by (simp only: prod.case outcome.case portion)
qed

lemma parameters_response_decode_append:
  assumes wf: "wf_parameters_response r"
  shows "get_downstream_firmware_parameters_response_decode (parameters_response_ser r @ rest) = Ok r"
proof -
  have len: "6 \<le> length (portion_ser (gfr_portion r))" by (simp add: portion_ser_def)
  have dec: "get_downstream_firmware_parameters_portion_decode (portion_ser (gfr_portion r) @ rest) = Ok (gfr_portion r)"
    using wf by (intro portion_decode_append) (simp add: wf_parameters_response_def)
  show ?thesis
    using len dec by (cases r) (simp add: get_downstream_firmware_parameters_response_decode_def parameters_response_ser_def
        slice_in_range index_at_def slice_from_def le32_def u32_at_def cong: if_cong)
qed

interpretation parameters_response: codec get_downstream_firmware_parameters_response_encode
    get_downstream_firmware_parameters_response_decode parameters_response_ser wf_parameters_response
  using parameters_response_decode_append [where rest = "[]"]
  by unfold_locales
     (simp_all add: parameters_response_encode_fits parameters_response_decode_append,
      simp add: get_downstream_firmware_parameters_response_encode_def,
      auto simp: get_downstream_firmware_parameters_response_decode_def rbind_eq_Panic slice_from_def index_at_def)

lemma downstream_device_parameter_table_new_wf:
  assumes "downstream_device_parameter_table_new idx astamp astr pstr adate pstamp methods caps pdate = Ok t"
    and "wf_firmware_string astr" and "wf_firmware_string pstr"
  shows "wf_parameter_table t"
  using assms by (auto simp: downstream_device_parameter_table_new_def pldm_time_stamp_new_def wf_parameter_table_def Let_def
      split: if_splits)

section \<open>RequestDownstreamDeviceUpdate\<close>

record request_downstream_device_update_request =
  rdq_hdr :: pldm_msg_header
  rdq_max_transfer_size :: u32
  rdq_max_outstanding_transfer_requests :: u8
  rdq_pkg_data_length :: u16

definition request_downstream_device_update_request_bytes :: "request_downstream_device_update_request \<Rightarrow> bytes" where
  [layout]: "request_downstream_device_update_request_bytes r = hdr_bytes (rdq_hdr r) @ le32 (rdq_max_transfer_size r) @ [rdq_max_outstanding_transfer_requests r] @ le16 (rdq_pkg_data_length r)"

definition request_downstream_device_update_request_of :: "bytes \<Rightarrow> request_downstream_device_update_request" where
  [layout]: "request_downstream_device_update_request_of bs = \<lparr>rdq_hdr = hdr_of bs,
     rdq_max_transfer_size = u32_at 3 bs,
     rdq_max_outstanding_transfer_requests = bs ! 7,
     rdq_pkg_data_length = u16_at 8 bs\<rparr>"

interpretation request_downstream_device_update_request: packed_struct 10 request_downstream_device_update_request_bytes request_downstream_device_update_request_of "\<lambda>_. True"
  by unfold_locales (auto simp: layout length_eq_Cons length_eq_Suc_Cons)

definition request_downstream_device_update_request_new ::
  "u8 \<Rightarrow> u32 \<Rightarrow> u8 \<Rightarrow> u16 \<Rightarrow> request_downstream_device_update_request" where
  "request_downstream_device_update_request_new inst max_size outstanding pkg_len =
     \<lparr>rdq_hdr = header_new inst MsgRequest TypeFwUpdate (fw_update_cmd_disc RequestDownstreamDeviceUpdate),
      rdq_max_transfer_size = max_size,
      rdq_max_outstanding_transfer_requests = outstanding,
      rdq_pkg_data_length = pkg_len\<rparr>"

datatype dd_will_send_get_package_data_command =
    FDPShouldObtainUALimited
  | FDPShouldObtainLearn
  | FDPNoSupport

fun dd_will_send_get_package_data_command_disc :: "dd_will_send_get_package_data_command \<Rightarrow> u8" where
  "dd_will_send_get_package_data_command_disc FDPShouldObtainUALimited = 0x02"
| "dd_will_send_get_package_data_command_disc FDPShouldObtainLearn = 0x01"
| "dd_will_send_get_package_data_command_disc FDPNoSupport = 0x00"

definition dd_will_send_get_package_data_command_try_from ::
  "u8 \<Rightarrow> (dd_will_send_get_package_data_command, unit) outcome" where
  "dd_will_send_get_package_data_command_try_from value =
    (if value = 0x02 then Ok FDPShouldObtainUALimited
     else if value = 0x01 then Ok FDPShouldObtainLearn
     else if value = 0x00 then Ok FDPNoSupport
     else Err ())"

interpretation dd_will_send_get_package_data_command: wire_enum dd_will_send_get_package_data_command_disc
    dd_will_send_get_package_data_command_try_from
proof
  fix x show "dd_will_send_get_package_data_command_try_from (dd_will_send_get_package_data_command_disc x) = Ok x"
    by (cases x) (simp_all add: dd_will_send_get_package_data_command_try_from_def)
next
  fix w x assume "dd_will_send_get_package_data_command_try_from w = Ok x"
  then show "dd_will_send_get_package_data_command_disc x = w"
    by (auto simp: dd_will_send_get_package_data_command_try_from_def split: if_splits)
next
  fix w show "dd_will_send_get_package_data_command_try_from w \<noteq> Panic"
    by (simp add: dd_will_send_get_package_data_command_try_from_def)
qed

definition RequestDownstreamDeviceUpdateCode :: "fw_cc list" where
  "RequestDownstreamDeviceUpdateCode = [AlreadyInUpdateMode, UnableToInitiateUpdate, RetryRequestUpdate]"

record request_downstream_device_update_response =
  rdr_hdr :: pldm_msg_header
  rdr_completion_code :: u8
  rdr_metadata_length :: u16
  rdr_pkg_data_command :: u8
  rdr_get_pkg_data_max_transfer_size :: u16

definition request_downstream_device_update_response_bytes :: "request_downstream_device_update_response \<Rightarrow> bytes" where
  [layout]: "request_downstream_device_update_response_bytes r = hdr_bytes (rdr_hdr r) @ [rdr_completion_code r] @ le16 (rdr_metadata_length r) @ [rdr_pkg_data_command r] @ le16 (rdr_get_pkg_data_max_transfer_size r)"

definition request_downstream_device_update_response_of :: "bytes \<Rightarrow> request_downstream_device_update_response" where
  [layout]: "request_downstream_device_update_response_of bs = \<lparr>rdr_hdr = hdr_of bs,
     rdr_completion_code = bs ! 3,
     rdr_metadata_length = u16_at 4 bs,
     rdr_pkg_data_command = bs ! 6,
     rdr_get_pkg_data_max_transfer_size = u16_at 7 bs\<rparr>"

interpretation request_downstream_device_update_response: packed_struct 9 request_downstream_device_update_response_bytes request_downstream_device_update_response_of "\<lambda>_. True"
  by unfold_locales (auto simp: layout length_eq_Cons length_eq_Suc_Cons)

definition request_downstream_device_update_response_new ::
  "u8 \<Rightarrow> cmd_cc \<Rightarrow> u16 \<Rightarrow> dd_will_send_get_package_data_command \<Rightarrow> u16 \<Rightarrow> request_downstream_device_update_response" where
  "request_downstream_device_update_response_new inst cc meta_len cmd max_size =
     \<lparr>rdr_hdr = header_new inst MsgResponse TypeFwUpdate (fw_update_cmd_disc RequestDownstreamDeviceUpdate),
      rdr_completion_code = cmd_cc_disc cc,
      rdr_metadata_length = meta_len,
      rdr_pkg_data_command = dd_will_send_get_package_data_command_disc cmd,
      rdr_get_pkg_data_max_transfer_size = max_size\<rparr>"

section \<open>Properties\<close>

text \<open>C35: the parameters of a downstream device, built from version strings and dates that their
  constructors accept, are what the Update Agent decodes from any buffer they were encoded into,
  and the bytes behind the response are left alone.  No bytes make the decoder panic.\<close>

theorem downstream_parameters_roundtrip:
  assumes "firmware_string_new aty aver = Ok astr" and "firmware_string_new pty pver = Ok pstr"
    and "downstream_device_parameter_table_new idx astamp astr pstr adate pstamp methods caps pdate = Ok t"
    and "51 + length aver + length pver \<le> length buf"
    and r: "r = get_downstream_firmware_parameters_response_new inst cc handle tflag
      (get_downstream_firmware_parameters_portion_new capability count t)"
  shows "\<exists>buf'. get_downstream_firmware_parameters_response_encode r buf = (Ok (51 + length aver + length pver), buf') \<and>
      get_downstream_firmware_parameters_response_decode buf' = Ok r \<and>
      drop (51 + length aver + length pver) buf' = drop (51 + length aver + length pver) buf \<and>
      (\<forall>bs. get_downstream_firmware_parameters_response_decode bs \<noteq> Panic)"
proof -
  have wf_str: "wf_firmware_string astr" "wf_firmware_string pstr"
    using firmware_string_new_wf assms(1,2) by blast+
  have wf: "wf_parameters_response r"
    using downstream_device_parameter_table_new_wf [OF assms(3) wf_str]
    by (simp add: r get_downstream_firmware_parameters_response_new_def get_downstream_firmware_parameters_portion_new_def
        wf_parameters_response_def wf_portion_def)
  have strs: "unat (str_len astr) = length aver" "unat (str_len pstr) = length pver"
    using assms(1,2) by (auto simp: firmware_string_new_def string_bytes_def unat_of_nat split: if_splits)
  have "dpt_active_ver_str t = astr" "dpt_pending_ver_str t = pstr"
    using assms(3) by (auto simp: downstream_device_parameter_table_new_def)
  with strs wf have len: "length (parameters_response_ser r) = 51 + length aver + length pver"
    by (simp add: r get_downstream_firmware_parameters_response_new_def get_downstream_firmware_parameters_portion_new_def
        get_downstream_firmware_parameters_portion_size_def downstream_device_parameter_table_size_def)
  have enc: "get_downstream_firmware_parameters_response_encode r buf
      = (Ok (51 + length aver + length pver), splice 0 (parameters_response_ser r) buf)"
    using parameters_response.enc_fits [OF wf, of buf] assms(4) len by simp
  show ?thesis
    using enc parameters_response.roundtrip_whole [OF wf enc] parameters_response.enc_frame [OF wf enc]
      parameters_response.dec_no_panic by blast
qed

theorem downstream_parameters_roundtrip_witness:
  "\<exists>astr t. firmware_string_new ''ASCII'' ''1.0'' = Ok astr \<and>
     downstream_device_parameter_table_new 1 7 astr astr ''20250101'' 8 0 0 ''20250202'' = Ok t \<and>
     (\<exists>buf'. get_downstream_firmware_parameters_response_encode (get_downstream_firmware_parameters_response_new 1
        (BaseCodes CC_Success) 0 5 (get_downstream_firmware_parameters_portion_new 0 1 t)) (replicate 60 9) = (Ok 57, buf')
      \<and> drop 57 buf' = [9, 9, 9])"
proof -
  have ex: "\<exists>astr. firmware_string_new ''ASCII'' ''1.0'' = Ok astr"
    by (simp add: firmware_string_new_def version_string_type_try_from_def string_bytes_def)
  then obtain astr where a: "firmware_string_new ''ASCII'' ''1.0'' = Ok astr" by blast
  have ts: "pldm_time_stamp_new ''20250101'' = Ok (string_bytes ''20250101'')"
      "pldm_time_stamp_new ''20250202'' = Ok (string_bytes ''20250202'')"
    by code_simp+
  then obtain t where t: "downstream_device_parameter_table_new 1 7 astr astr ''20250101'' 8 0 0 ''20250202'' = Ok t"
    by (simp add: downstream_device_parameter_table_new_def)
  have n: "51 + length ''1.0'' + length ''1.0'' = (57 :: nat)" by simp
  from downstream_parameters_roundtrip [OF a a t _ refl, of "replicate 60 9" 1 "BaseCodes CC_Success" 0 5 0 1, unfolded n] a t
  show ?thesis by (force simp: numeral_eq_Suc)
qed

end
