(* ===== verification/Downstream_Tests.thy ===== *)
theory Downstream_Tests
  imports Common_Tests Downstream_Params
begin

text \<open>The unit tests of \<open>query_downstream.rs\<close>.\<close>

section \<open>Messages\<close>

definition test_query_downstream_devices_request_codec :: bool where
  "test_query_downstream_devices_request_codec \<longleftrightarrow>
     (let req = query_downstream_devices_request_new 1 in
      round_trips (blanket_encode 3 query_downstream_devices_request_bytes req) (blanket_decode 3 query_downstream_devices_request_of) req 3)"

definition test_query_downstream_devices_response_codec :: bool where
  "test_query_downstream_devices_response_codec \<longleftrightarrow>
     (let resp = query_downstream_device_response_new 1 CC_Success 1 1 1 in
      round_trips (blanket_encode 13 query_downstream_device_response_bytes resp) (blanket_decode 13 query_downstream_device_response_of) resp 13)"

definition test_query_downstream_identifiers_request_codec :: bool where
  "test_query_downstream_identifiers_request_codec \<longleftrightarrow>
     (let req = query_downstream_identifiers_request_new 1 0x12345678 GetFirstPart in
      round_trips (blanket_encode 8 query_downstream_identifiers_request_bytes req) (blanket_decode 8 query_downstream_identifiers_request_of) req 8)"

definition test_query_downstream_identifiers_response_codec :: bool where
  "test_query_downstream_identifiers_response_codec \<longleftrightarrow>
     (let resp = query_downstream_identifiers_response_new 1 (BaseCodes CC_Success) 0x12345678
        (transfer_operation_flag_disc GetFirstPart) (replicate 16 0) in
      round_trips_prefix (query_downstream_identifiers_response_encode resp) query_downstream_identifiers_response_decode resp 128)"

definition test_get_downstream_firmware_parameters_request_codec :: bool where
  "test_get_downstream_firmware_parameters_request_codec \<longleftrightarrow>
     (let req = get_downstream_firmware_parameters_request_new 1 0x12345678 GetFirstPart in
      round_trips (blanket_encode 8 get_downstream_firmware_parameters_request_bytes req) (blanket_decode 8 get_downstream_firmware_parameters_request_of) req 8)"

definition test_request_downstream_device_update_request_codec :: bool where
  "test_request_downstream_device_update_request_codec \<longleftrightarrow>
     (let req = request_downstream_device_update_request_new 1 1024 4 512 in
      round_trips (blanket_encode 10 request_downstream_device_update_request_bytes req) (blanket_decode 10 request_downstream_device_update_request_of) req 10)"

definition test_request_downstream_device_update_response_codec :: bool where
  "test_request_downstream_device_update_response_codec \<longleftrightarrow>
     (let resp = request_downstream_device_update_response_new 1 (BaseCodes CC_Success) 256 FDPShouldObtainLearn 512 in
      round_trips (blanket_encode 9 request_downstream_device_update_response_bytes resp) (blanket_decode 9 request_downstream_device_update_response_of) resp 9)"

section \<open>Parameters of a downstream device\<close>

text \<open>The table that three tests build\<close>

definition parameter_table_of_tests :: "(downstream_device_parameter_table, pldm_error) outcome" where
  "parameter_table_of_tests =
     rbind (map_err (\<lambda>_. PE_InvalidData) (downstream_device_index_try_from 1)) (\<lambda>downstream_device_index.
     rbind (firmware_string_new ''ascii'' ''test'') (\<lambda>acvs.
     rbind (firmware_string_new ''ascii'' ''test'') (\<lambda>pcvs.
       downstream_device_parameter_table_new downstream_device_index 12345 acvs pcvs ''20250101'' 12346 0 0 ''20250202'')))"

definition STR_DATA_OFFSET :: nat where
  "STR_DATA_OFFSET = 2 + 4 + 2 * 1 + 8 + 4 + 2 * 1 + 8 + 2 + 4"

definition test_device_parameter_table_codec :: bool where
  "test_device_parameter_table_codec \<longleftrightarrow>
     holds parameter_table_of_tests (\<lambda>table.
       (case downstream_device_parameter_table_encode table (replicate (STR_DATA_OFFSET + 4 + 4) 0) of
          (Ok bytes_written, buffer) \<Rightarrow>
            take 4 (drop STR_DATA_OFFSET buffer) = string_bytes ''test'' \<and>
            take 4 (drop (STR_DATA_OFFSET + 4) buffer) = string_bytes ''test'' \<and>
            downstream_device_parameter_table_decode (take bytes_written buffer) = Ok table
        | _ \<Rightarrow> False))"

definition test_get_downstream_firmware_parameters_portion_codec :: bool where
  "test_get_downstream_firmware_parameters_portion_codec \<longleftrightarrow>
     holds parameter_table_of_tests (\<lambda>table.
       let portion = \<lparr>dfp_capability = 0, dfp_downstream_device_count = 1, dfp_parameter_table = table\<rparr> in
       round_trips_prefix (get_downstream_firmware_parameters_portion_encode portion)
         get_downstream_firmware_parameters_portion_decode portion 0xff0)"

definition test_get_downstream_firmware_parameters_response_codec :: bool where
  "test_get_downstream_firmware_parameters_response_codec \<longleftrightarrow>
     holds parameter_table_of_tests (\<lambda>table.
       let portion = \<lparr>dfp_capability = 0, dfp_downstream_device_count = 1, dfp_parameter_table = table\<rparr>;
         resp = get_downstream_firmware_parameters_response_new 1 (BaseCodes CC_Success) 0x12345678
           (transfer_operation_flag_disc GetFirstPart) portion in
       round_trips_prefix (get_downstream_firmware_parameters_response_encode resp)
         get_downstream_firmware_parameters_response_decode resp 0xff0)"

section \<open>Devices and their descriptors\<close>

definition test_downstream_device_codec :: bool where
  "test_downstream_device_codec \<longleftrightarrow>
     (let descriptor = \<lparr>desc_type = 0xff, desc_length = 2, desc_data = replicate 64 0\<rparr> in
      case encode_list descriptor_encode [descriptor, descriptor, descriptor] 0 (replicate (68 * 3) 0) of
        (Ok _, descriptor_bytes_max) \<Rightarrow>
          holds (downstream_device_index_try_from 1) (\<lambda>downstream_device_index.
            let downstream_device = downstream_device_new downstream_device_index descriptor_bytes_max in
            round_trips_prefix (downstream_device_encode downstream_device) downstream_device_decode downstream_device 256)
      | _ \<Rightarrow> False)"

text \<open>\<open>it.next()\<close> is \<open>Some\<close>, and the rest goes on with the value and the iterator.\<close>

definition yields :: "('s, 'x option, 'e) act \<Rightarrow> 's \<Rightarrow> ('x \<Rightarrow> 's \<Rightarrow> bool) \<Rightarrow> bool" where
  "yields next_of it rest \<longleftrightarrow> (case next_of it of (Ok (Some x), it') \<Rightarrow> rest x it' | _ \<Rightarrow> False)"

definition test_iterator_query_downstream_identifiers_response :: bool where
  "test_iterator_query_downstream_identifiers_response \<longleftrightarrow>
     (let ph = \<lparr>ph_downstream_devices_length = 1, ph_number_of_downstream_devices = 1\<rparr>;
        dsdh = \<lparr>ddh_downstream_devices_index = 1, ddh_downstream_descriptor_count = 3\<rparr>;
        dsc_0 = \<lparr>desc_type = descriptor_type_disc DescVendorDefined, desc_length = 16, desc_data = replicate 64 0\<rparr>;
        dsc_1 = dsc_0\<lparr>desc_data := splice 0 (replicate 16 1) (desc_data dsc_0)\<rparr>;
        dsc_2 = dsc_0\<lparr>desc_data := splice 0 (replicate 16 2) (desc_data dsc_0)\<rparr>;
        portion = replicate (6 + 3 + 3 * (2 * 2 + 16)) 0;
        portion = splice 0 (portion_header_bytes ph) portion;
        portion = splice 6 (downstream_devices_header_bytes dsdh) portion in
      case encode_list descriptor_encode [dsc_0, dsc_1, dsc_2] (6 + 3) portion of
        (Ok _, portion) \<Rightarrow>
          (let qdir = query_downstream_identifiers_response_new 1 (BaseCodes CC_Success) 0x12345678 0 portion in
           yields identifiers_next qdir (\<lambda>qdir_iter qdir.
             yields downstream_device_next qdir_iter (\<lambda>d qdir_iter. dsc_0 = d \<and>
               yields downstream_device_next qdir_iter (\<lambda>d qdir_iter. dsc_1 = d \<and>
                 yields downstream_device_next qdir_iter (\<lambda>d _. dsc_2 = d))) \<and>
             (case identifiers_next qdir of
                (Ok None, qdir) \<Rightarrow> holds (try_at 0 qdir) (\<lambda>_. True) \<and> is_err (try_at 1 qdir)
              | _ \<Rightarrow> False)))
      | _ \<Rightarrow> False)"

section \<open>They pass\<close>

definition downstream_tests :: "bool list" where
  "downstream_tests = [
     test_query_downstream_devices_request_codec,
     test_query_downstream_devices_response_codec,
     test_query_downstream_identifiers_request_codec,
     test_query_downstream_identifiers_response_codec,
     test_get_downstream_firmware_parameters_request_codec,
     test_request_downstream_device_update_request_codec,
     test_request_downstream_device_update_response_codec,
     test_device_parameter_table_codec,
     test_get_downstream_firmware_parameters_portion_codec,
     test_get_downstream_firmware_parameters_response_codec,
     test_downstream_device_codec,
     test_iterator_query_downstream_identifiers_response]"

lemma parameter_table_of_tests_wf:
  "holds parameter_table_of_tests (\<lambda>table. wf_parameter_table table \<and> length (parameter_table_ser table) = 44)"
  by code_simp

lemma parameter_tests [tested]:
  test_get_downstream_firmware_parameters_portion_codec
  test_get_downstream_firmware_parameters_response_codec
  unfolding test_get_downstream_firmware_parameters_portion_codec_def test_get_downstream_firmware_parameters_response_codec_def
  by (auto intro!: holds_mono [OF parameter_table_of_tests_wf] codec_exact.round_trips_prefix [OF portion.codec_exact_axioms]
      codec_exact.round_trips_prefix [OF parameters_response.codec_exact_axioms]
    simp: Let_def wf_portion_def portion_ser_def wf_parameters_response_def parameters_response_ser_def
      get_downstream_firmware_parameters_response_new_def)

lemma device_round_trips:
  assumes "3 + length descriptors \<le> n"
  shows "round_trips_prefix (downstream_device_encode (downstream_device_new idx descriptors)) downstream_device_decode
    (downstream_device_new idx descriptors) n"
  using downstream_device_wire(2) [of "downstream_device_new idx descriptors" "replicate n 0"] assms
  by (auto simp: round_trips_prefix_def downstream_device_new_def)

lemma device_test [tested]: test_downstream_device_codec
proof -
  let ?d = "\<lparr>desc_type = 0xff, desc_length = 2, desc_data = replicate 64 0\<rparr>"
  have "case encode_list descriptor_encode [?d, ?d, ?d] 0 (replicate (68 * 3) 0) of
      (Ok _, buffer) \<Rightarrow> length buffer = 204 | _ \<Rightarrow> False"
    by code_simp
  moreover have "downstream_device_index_try_from 1 = Ok 1" by code_simp
  ultimately show ?thesis
    by (auto simp: test_downstream_device_codec_def Let_def holds_def split: prod.splits outcome.splits intro!: device_round_trips)
qed

text \<open>The structs without padding: by the contract of their codec.\<close>

lemmas downstream_tests_codecs =
  packed_struct.packed_round_trips [OF query_downstream_devices_request.packed_struct_axioms]
  packed_struct.packed_round_trips [OF query_downstream_device_response.packed_struct_axioms]
  packed_struct.packed_round_trips [OF query_downstream_identifiers_request.packed_struct_axioms]
  packed_struct.packed_round_trips [OF get_downstream_firmware_parameters_request.packed_struct_axioms]
  packed_struct.packed_round_trips [OF request_downstream_device_update_request.packed_struct_axioms]
  packed_struct.packed_round_trips [OF request_downstream_device_update_response.packed_struct_axioms]

lemma downstream_tests_packed [tested]:
  test_query_downstream_devices_request_codec
  test_query_downstream_devices_response_codec
  test_query_downstream_identifiers_request_codec
  test_get_downstream_firmware_parameters_request_codec
  test_request_downstream_device_update_request_codec
  test_request_downstream_device_update_response_codec
  unfolding test_query_downstream_devices_request_codec_def
    test_query_downstream_devices_response_codec_def
    test_query_downstream_identifiers_request_codec_def
    test_get_downstream_firmware_parameters_request_codec_def
    test_request_downstream_device_update_request_codec_def
    test_request_downstream_device_update_response_codec_def
  by (simp_all add: Let_def downstream_tests_codecs)

lemma downstream_tests_1 [tested]:
  test_query_downstream_identifiers_response_codec
  by code_simp+

lemma downstream_tests_2 [tested]:
  test_device_parameter_table_codec
  by code_simp+

lemma downstream_tests_3 [tested]:
  test_iterator_query_downstream_identifiers_response
  by code_simp+

text \<open>The model passes these tests.\<close>

lemma downstream_tests_pass: "list_all (\<lambda>passed. passed) downstream_tests"
  by (simp add: downstream_tests_def tested)

end
