(* ===== verification/Control_Tests.thy ===== *)
theory Control_Tests
  imports Test_Support Control_Context Fw_Types
begin

text \<open>The unit tests of \<open>control_context.rs\<close>.\<close>

definition PAY_LOAD_BUFFER_LEN :: nat where
  "PAY_LOAD_BUFFER_LEN = 256"

definition SUPPORTED_CTRL_CMDS :: "u8 list" where
  "SUPPORTED_CTRL_CMDS = map pldm_control_cmd_disc [SetTid, GetTid, GetPldmCommands, GetPldmVersion, GetPldmTypes]"

definition SUPPORTED_FW_UDPATE_CMDS :: "u8 list" where
  "SUPPORTED_FW_UDPATE_CMDS = map fw_update_cmd_disc [QueryDeviceIdentifiers, GetFirmwareParameters, RequestUpdate,
     PassComponentTable, UpdateComponent, RequestFirmwareData, TransferComplete, VerifyComplete, ApplyComplete,
     ActivateFirmware, GetStatus, CancelUpdate]"

definition TEST_PROTOCOL_CAPABILITIES :: "protocol_capability list" where
  "TEST_PROTOCOL_CAPABILITIES =
    [\<lparr>cap_pldm_type = TypeBase, cap_protocol_version = 0xF1F1F000, cap_supported_commands = SUPPORTED_CTRL_CMDS\<rparr>,
     \<lparr>cap_pldm_type = TypeFwUpdate, cap_protocol_version = 0xF1F3F000, cap_supported_commands = SUPPORTED_FW_UDPATE_CMDS\<rparr>]"

definition construct_request :: "(bytes \<Rightarrow> (nat, codec_error) outcome \<times> bytes) \<Rightarrow> control_context test" where
  "construct_request enc = encodes enc"

text \<open>\<open>let resp_len = h(&mut msg_buf).unwrap(); validate_response(&mut msg_buf[..resp_len], expected)\<close>\<close>

definition validate_response ::
  "(bytes \<Rightarrow> ('m, codec_error) outcome) \<Rightarrow> 'm \<Rightarrow> nat ctl_handler \<Rightarrow> control_context test" where
  "validate_response dec expected_rsp_msg h =
     abind (must h) (\<lambda>resp_len. assert_that (\<lambda>(_, msg_buf). dec (take resp_len msg_buf) = Ok expected_rsp_msg))"

definition refuses :: "u8 \<Rightarrow> pldm_control_cmd \<Rightarrow> u8 \<Rightarrow> nat ctl_handler \<Rightarrow> control_context test" where
  "refuses inst cmd cc = validate_response (blanket_decode 4 failure_response_of)
     (failure_response_new inst TypeBase (pldm_control_cmd_disc cmd) cc)"

definition ctl_test :: "control_context test \<Rightarrow> bool" where
  "ctl_test t = passes t (control_context_new TEST_PROTOCOL_CAPABILITIES, replicate PAY_LOAD_BUFFER_LEN 0)"

section \<open>The capability table\<close>

definition test_protocol_capability :: bool where
  "test_protocol_capability \<longleftrightarrow>
     holds (protocol_capability_new TypeBase ''1.1.0'' SUPPORTED_CTRL_CMDS) (\<lambda>cap.
       cap_pldm_type cap = TypeBase \<and> cap_protocol_version cap = 0xF1F1F000 \<and> cap_supported_commands cap = SUPPORTED_CTRL_CMDS) \<and>
     holds (protocol_capability_new TypeFwUpdate ''1.3.0'' SUPPORTED_FW_UDPATE_CMDS) (\<lambda>cap.
       cap_pldm_type cap = TypeFwUpdate \<and> cap_protocol_version cap = 0xF1F3F000 \<and> cap_supported_commands cap = SUPPORTED_FW_UDPATE_CMDS)"

definition four_capabilities :: "(protocol_capability list, pldm_error) outcome" where
  "four_capabilities =
     rbind (protocol_capability_new TypeBase ''1.1.0'' SUPPORTED_CTRL_CMDS) (\<lambda>a.
     rbind (protocol_capability_new TypeBase ''1.0.0'' SUPPORTED_CTRL_CMDS) (\<lambda>b.
     rbind (protocol_capability_new TypeFwUpdate ''1.3.0'' SUPPORTED_FW_UDPATE_CMDS) (\<lambda>c.
     map_ok (\<lambda>d. [a, b, c, d]) (protocol_capability_new TypeFwUpdate ''1.2.0'' SUPPORTED_FW_UDPATE_CMDS))))"

definition test_control_context :: bool where
  "test_control_context \<longleftrightarrow>
     holds four_capabilities (\<lambda>protocol_capabilities.
       let ctrl_cxt = control_context_new protocol_capabilities; assigned = set_tid 1 ctrl_cxt in
       get_tid ctrl_cxt = UNASSIGNED_TID \<and> get_tid assigned = 1 \<and>
       (case get_supported_types assigned (replicate 6 0) of (count, types) \<Rightarrow>
          count = 2 \<and> take count types = [pldm_supported_type_disc TypeBase, pldm_supported_type_disc TypeFwUpdate]) \<and>
       (case get_protocol_versions assigned TypeBase (replicate 4 0) of (count, versions) \<Rightarrow>
          count = 2 \<and> take count versions = [0xF1F1F000, 0xF1F0F000]) \<and>
       (case get_protocol_versions assigned TypeFwUpdate (replicate 4 0) of (count, versions) \<Rightarrow>
          count = 2 \<and> take count versions = [0xF1F3F000, 0xF1F2F000]) \<and>
       is_supported_type assigned TypeBase \<and> is_supported_type assigned TypeFwUpdate \<and> \<not> is_supported_type assigned TypeFru \<and>
       is_supported_version assigned TypeBase 0xF1F1F000 \<and> is_supported_version assigned TypeBase 0xF1F0F000 \<and>
       is_supported_version assigned TypeFwUpdate 0xF1F3F000 \<and>
       get_supported_commands assigned TypeBase 0xF1F1F000 = Some SUPPORTED_CTRL_CMDS \<and>
       get_supported_commands assigned TypeFwUpdate 0xF1F3F000 = Some SUPPORTED_FW_UDPATE_CMDS \<and>
       list_all (\<lambda>cmd. is_supported_command assigned TypeBase (pldm_control_cmd_disc cmd))
         [SetTid, GetTid, GetPldmCommands, GetPldmVersion, GetPldmTypes] \<and>
       list_all (\<lambda>cmd. is_supported_command assigned TypeFwUpdate (fw_update_cmd_disc cmd))
         [QueryDeviceIdentifiers, GetFirmwareParameters, RequestUpdate, PassComponentTable, UpdateComponent,
          RequestFirmwareData, TransferComplete, VerifyComplete, ApplyComplete, ActivateFirmware, GetStatus, CancelUpdate] \<and>
       \<not> is_supported_command assigned TypeBase 0x06 \<and> \<not> is_supported_command assigned TypeFwUpdate 0x1E)"

section \<open>The responders\<close>

definition asks_tid :: "u8 \<Rightarrow> u8 \<Rightarrow> control_context test" where
  "asks_tid inst tid =
     steps [construct_request (blanket_encode 3 get_tid_request_bytes (get_tid_request_new inst MsgRequest)),
       validate_response (blanket_decode 5 get_tid_response_of)
         (get_tid_response_new inst tid (base_cc_disc CC_Success)) get_tid_rsp]"

definition test_get_tid_responder :: "control_context test" where
  "test_get_tid_responder = asks_tid 1 UNASSIGNED_TID"

definition test_set_tid_responder :: "control_context test" where
  "test_set_tid_responder =
     steps [construct_request (blanket_encode 4 set_tid_request_bytes (set_tid_request_new 2 MsgRequest 2)),
       validate_response (blanket_decode 4 set_tid_response_of) (set_tid_response_new 2 (base_cc_disc CC_Success)) set_tid_rsp,
       assert_that (\<lambda>(ctrl_cxt, _). get_tid ctrl_cxt = 2), refill, asks_tid 3 2]"

definition test_get_pldm_types_responder :: "control_context test" where
  "test_get_pldm_types_responder =
     abind (must (lift (expect (get_pldm_type_response_new 4 (base_cc_disc CC_Success)
         [pldm_supported_type_disc TypeBase, pldm_supported_type_disc TypeFwUpdate]) :: (_, unit) outcome))) (\<lambda>expected.
       steps [construct_request (blanket_encode 3 get_pldm_type_request_bytes (get_pldm_type_request_new 4 MsgRequest)),
         validate_response (blanket_decode 12 get_pldm_type_response_of) expected get_pldm_types_rsp])"

definition request_commands :: "u8 \<Rightarrow> pldm_supported_type \<Rightarrow> string \<Rightarrow> control_context test" where
  "request_commands inst ptype version =
     abind (must (lift (expect (get_pldm_commands_request_new inst MsgRequest (pldm_supported_type_disc ptype) version)
         :: (_, unit) outcome))) (\<lambda>request.
       construct_request (blanket_encode 8 get_pldm_commands_request_bytes request))"

definition lists_commands :: "u8 \<Rightarrow> u8 list \<Rightarrow> control_context test" where
  "lists_commands inst cmds =
     abind (must (lift (expect (get_pldm_commands_response_new inst (base_cc_disc CC_Success) cmds) :: (_, unit) outcome)))
       (\<lambda>expected. validate_response (blanket_decode 36 get_pldm_commands_response_of) expected get_pldm_commands_rsp)"

definition test_get_pldm_commands_responder :: "control_context test" where
  "test_get_pldm_commands_responder =
     steps [request_commands 5 TypeBase ''1.1.0'',
       lists_commands 5 (map pldm_control_cmd_disc [SetTid, GetTid, GetPldmCommands, GetPldmVersion, GetPldmTypes]),
       refill, request_commands 6 TypeFwUpdate ''1.3.0'',
       lists_commands 6 (map fw_update_cmd_disc [QueryDeviceIdentifiers, GetFirmwareParameters, RequestUpdate,
         PassComponentTable, UpdateComponent, RequestFirmwareData, TransferComplete, VerifyComplete, ApplyComplete,
         ActivateFirmware, GetStatus, CancelUpdate]),
       refill, request_commands 9 TypeFru ''1.3.5'',
       refuses 9 GetPldmCommands (control_cc_disc CC_InvalidPldmTypeInRequestData) get_pldm_commands_rsp,
       refill, request_commands 0x0A TypeBase ''1.2.0'',
       refuses 0x0A GetPldmCommands (control_cc_disc CC_InvalidPldmVersionInRequestData) get_pldm_commands_rsp,
       refill, request_commands 0x0A TypeBase ''1.1.0'',
       abind (must (on_front (PLDM_FAILURE_RESP_LEN + 1) get_pldm_commands_rsp)) (\<lambda>resp_len.
         steps [assert_that (\<lambda>_. resp_len = PLDM_FAILURE_RESP_LEN),
           refuses 0x0A GetPldmCommands (base_cc_disc CC_InvalidLength) (ret resp_len)])]"

definition request_version :: "u8 \<Rightarrow> transfer_operation_flag \<Rightarrow> pldm_supported_type \<Rightarrow> control_context test" where
  "request_version inst op ptype =
     construct_request (blanket_encode 9 get_pldm_version_request_bytes (get_pldm_version_request_new inst MsgRequest 0 op ptype))"

definition reports_version :: "u8 \<Rightarrow> string \<Rightarrow> control_context test" where
  "reports_version inst version =
     abind (must (lift (get_pldm_version_response_new inst (base_cc_disc CC_Success) 0 FlagStartAndEnd version))) (\<lambda>expected.
       validate_response (blanket_decode 13 get_pldm_version_response_of) expected get_pldm_version_rsp)"

definition test_get_version_responder :: "control_context test" where
  "test_get_version_responder =
     steps [request_version 7 GetFirstPart TypeBase, reports_version 7 ''1.1.0'',
       refill, request_version 8 GetFirstPart TypeFwUpdate, reports_version 8 ''1.3.0'',
       refill, request_version 0x0B GetNextPart TypeBase,
       refuses 0x0B GetPldmVersion (control_cc_disc CC_InvalidTransferOperationFlag) get_pldm_version_rsp]"

section \<open>They pass\<close>

definition control_context_tests :: "control_context test list" where
  "control_context_tests = [test_get_tid_responder, test_set_tid_responder, test_get_pldm_types_responder,
     test_get_pldm_commands_responder, test_get_version_responder]"

lemma capability_tests [tested]: test_protocol_capability test_control_context
  by code_simp+

lemma responder_tests [tested]: "ctl_test test_get_tid_responder" "ctl_test test_set_tid_responder"
  "ctl_test test_get_pldm_types_responder" "ctl_test test_get_version_responder"
  by code_simp+

lemma commands_test [tested]: "ctl_test test_get_pldm_commands_responder"
  by code_simp

text \<open>The model passes the unit tests of the control context: the lookups in the capability table, and
  each of the requests that the tests make of the five responders, on a context that serves the
  two protocols, with the responses they expect.\<close>

lemma control_context_tests_pass:
  "test_protocol_capability \<and> test_control_context \<and> list_all ctl_test control_context_tests"
  by (simp add: control_context_tests_def tested)

end
