(* ===== verification/Fd_Tests.thy ===== *)
theory Fd_Tests
  imports Test_Support Fd_Progress
begin

text \<open>
  The unit tests of \<open>firmware_device/fd_context.rs\<close>, each a definition of its own, run on the model
  of the handlers.
\<close>

section \<open>The platform of the tests\<close>

text \<open>
  What \<open>TestFdOps\<close> answers is fixed but for four fields.  Its clock stands still, just past \<open>T1\<close>,
  so that a device that has not heard of the Update Agent since time 0 has timed out.
\<close>

record test_config =
  tc_devid_count :: nat
  tc_progress_fails :: bool
  tc_pending_result :: pending_component_result
  tc_security_revision_result :: security_revision_result

definition TEST_PENDING_ACTIVATION_SECS :: u16 where
  "TEST_PENDING_ACTIVATION_SECS = 100"

definition TEST_FD_OPS :: test_config where
  "TEST_FD_OPS = \<lparr>tc_devid_count = 1, tc_progress_fails = False,
     tc_pending_result = PendingActivated TEST_PENDING_ACTIVATION_SECS, tc_security_revision_result = RevisionUpdated\<rparr>"

definition TEST_FD_OPS_NO_SECURITY_REVISION :: test_config where
  "TEST_FD_OPS_NO_SECURITY_REVISION = TEST_FD_OPS\<lparr>tc_security_revision_result := RevisionNotPermitted\<rparr>"

definition TEST_FD_OPS_NO_DEVID :: test_config where
  "TEST_FD_OPS_NO_DEVID = TEST_FD_OPS\<lparr>tc_devid_count := 0\<rparr>"

definition TEST_FD_OPS_EXTRA_DEVID :: test_config where
  "TEST_FD_OPS_EXTRA_DEVID = TEST_FD_OPS\<lparr>tc_devid_count := MAX_DESCRIPTORS_COUNT + 1\<rparr>"

definition TEST_FD_OPS_PROGRESS_FAILS :: test_config where
  "TEST_FD_OPS_PROGRESS_FAILS = TEST_FD_OPS\<lparr>tc_progress_fails := True\<rparr>"

definition TEST_FD_OPS_REJECT_PENDING :: test_config where
  "TEST_FD_OPS_REJECT_PENDING = TEST_FD_OPS\<lparr>tc_pending_result := PendingNotPermitted\<rparr>"

definition TEST_FD_OPS_NO_PENDING_IMAGE :: test_config where
  "TEST_FD_OPS_NO_PENDING_IMAGE = TEST_FD_OPS\<lparr>tc_pending_result := PendingActivationNotRequired\<rparr>"

definition fd_ops_for_test :: "test_config \<Rightarrow> unit fd_ops" where
  "fd_ops_for_test self = \<lparr>
     get_device_identifiers =
       (\<lambda>ds p. (Inr (tc_devid_count self), (case ds of [] \<Rightarrow> [] | d # ds \<Rightarrow> descriptor_default # ds), p)),
     get_firmware_parms = (\<lambda>fp p. (Inr (), fp, p)),
     ops_get_xfer_size = (\<lambda>n p. (Inr n, p)),
     handle_component = (\<lambda>_ _ _ p. (Inr CompCanBeUpdated, p)),
     query_download_offset_and_length = (\<lambda>_ p. (Inr (0, 32), p)),
     download_fw_data = (\<lambda>_ _ _ p. (Inr TransferSuccess, p)),
     is_download_complete = (\<lambda>_ p. (True, p)),
     query_download_progress = (\<lambda>_ _ p. (if tc_progress_fails self then Inl FwDownloadError else Inr (), ProgressPercent 100, p)),
     ops_verify = (\<lambda>_ _ p. (Inr VerifySuccess, ProgressPercent 100, p)),
     ops_apply = (\<lambda>_ _ p. (Inr ApplySuccess, ProgressPercent 100, p)),
     ops_activate = (\<lambda>_ t p. (Inr (base_cc_disc CC_Success), t, p)),
     cancel_update_component = (\<lambda>_ p. (Inr (), p)),
     handle_pending_component = (\<lambda>_ _ p. (Inr (tc_pending_result self), p)),
     get_non_functional_component_info = (\<lambda>p. (Inr (ComponentsFunctioning, 0), p)),
     ops_update_security_revision = (\<lambda>_ _ p. (Inr (tc_security_revision_result self), p)),
     ops_now = (\<lambda>p. (DEFAULT_FD_T1_TIMEOUT + 1, p))\<rparr>"

abbreviation test_ops :: "unit fd_ops" where
  "test_ops \<equiv> fd_ops_for_test TEST_FD_OPS"

definition new_test_fd_ctx :: "unit fd_context" where
  "new_test_fd_ctx = fd_context_new ()"

text \<open>A test starts with a new device and a buffer of 256 zeros.\<close>

definition fd_test :: "unit fd_context test \<Rightarrow> bool" where
  "fd_test t = passes t (new_test_fd_ctx, replicate 256 0)"

definition internal_is :: "(fd_internal \<Rightarrow> bool) \<Rightarrow> unit fd_context test" where
  "internal_is P = assert_that (\<lambda>(c, _). P (ctx_internal c))"

definition completed_with :: "u8 \<Rightarrow> unit fd_context test" where
  "completed_with cc = assert_that (\<lambda>(_, buffer). buffer ! 3 = cc)"

definition header_is :: "(pldm_msg_header \<Rightarrow> bool) \<Rightarrow> unit fd_context test" where
  "header_is P = abind (must (abind (gets snd) (\<lambda>buffer. lift (hdr_decode buffer)))) (\<lambda>hdr. assert_that (\<lambda>_. P hdr))"

definition no_version :: pldm_firmware_string where
  "no_version = \<lparr>str_type = version_string_type_disc VstUnspecified, str_len = 0,
     str_data = replicate PLDM_FWUP_IMAGE_SET_VER_STR_MAX_LEN 0\<rparr>"

section \<open>Requests\<close>

definition test_firmware_device_context_new :: "unit fd_context test" where
  "test_firmware_device_context_new =
     steps [internal_is (\<lambda>i. fi_state i = Idle), internal_is (\<lambda>i. \<not> is_update_mode i)]"

definition query_devid :: "test_config \<Rightarrow> (unit fd_context \<times> bytes, (nat, msg_handler_error) outcome, msg_handler_error) act" where
  "query_devid config =
     abind (encodes (blanket_encode 3 query_devid_request_bytes (query_devid_request_new 1 MsgRequest))) (\<lambda>_.
       attempt (query_devid_rsp (fd_ops_for_test config)))"

definition test_query_devid_rsp_basic :: "unit fd_context test" where
  "test_query_devid_rsp_basic =
     abind (query_devid TEST_FD_OPS) (\<lambda>result. assert_that (\<lambda>_. case result of Ok _ \<Rightarrow> True | Err _ \<Rightarrow> True | Panic \<Rightarrow> False))"

definition request_update :: "u8 \<Rightarrow> u32 \<Rightarrow> u16 \<Rightarrow> pldm_firmware_string \<Rightarrow> unit fd_context test" where
  "request_update inst max_transfer_size pkg_data_len version_string =
     encodes (request_update_request_encode (request_update_request_new inst MsgRequest max_transfer_size 1 5 pkg_data_len version_string))"

definition test_request_update_already_in_update_mode :: "unit fd_context test" where
  "test_request_update_already_in_update_mode =
     abind (request_update 1 256 7 no_version) (\<lambda>_.
     abind (attempt (request_update_rsp test_ops)) (\<lambda>result.
       case result of
         Ok _ \<Rightarrow> steps [internal_is (\<lambda>i. fi_state i = LearnComponents),
           refill, request_update 1 256 7 no_version, succeeds (request_update_rsp test_ops),
           header_is (\<lambda>h. \<not> is_request h), completed_with (fw_cc_disc AlreadyInUpdateMode)]
       | _ \<Rightarrow> ret ()))"

definition test_request_update_invalid_transfer_size :: "unit fd_context test" where
  "test_request_update_invalid_transfer_size =
     steps [request_update 2 16 7 no_version, succeeds (request_update_rsp test_ops),
       completed_with (fw_cc_disc InvalidTransferLength)]"

definition returns_len :: "nat \<Rightarrow> (unit fd_context, nat) handler \<Rightarrow> unit fd_context test" where
  "returns_len n h = abind (must h) (\<lambda>len. assert_that (\<lambda>_. len = n))"

definition test_request_update_truncated_request_gets_invalid_length :: "unit fd_context test" where
  "test_request_update_truncated_request_gets_invalid_length =
     abind (must (lift (firmware_string_new ''ASCII'' ''mcu-1.0.0''))) (\<lambda>version_string.
       steps [request_update 3 256 0 version_string,
         returns_len PLDM_FAILURE_RESP_LEN (on_front PLDM_FAILURE_RESP_LEN (request_update_rsp test_ops)),
         header_is (\<lambda>h. \<not> is_request h), header_is (\<lambda>h. instance_id h = 3),
         completed_with (base_cc_disc CC_InvalidLength), internal_is (\<lambda>i. fi_state i = Idle)])"

definition test_request_update_oversized_version_string_gets_invalid_data :: "unit fd_context test" where
  "test_request_update_oversized_version_string_gets_invalid_data =
     abind (must (lift (firmware_string_new ''ASCII'' ''mcu-1.0.0''))) (\<lambda>version_string.
       steps [request_update 3 256 0 version_string,
         modify (\<lambda>(c, buffer). (c, buffer[14 - 1 := of_nat (PLDM_FWUP_IMAGE_SET_VER_STR_MAX_LEN + 1)])),
         returns_len PLDM_FAILURE_RESP_LEN (request_update_rsp test_ops),
         header_is (\<lambda>h. \<not> is_request h), header_is (\<lambda>h. instance_id h = 3),
         completed_with (base_cc_disc CC_InvalidData), internal_is (\<lambda>i. fi_state i = Idle)])"

definition test_pass_component_invalid_state :: "unit fd_context test" where
  "test_pass_component_invalid_state =
     steps [encodes (pass_component_request_encode (pass_component_request_new 3 MsgRequest FlagStart
         ClassApplicationSoftware 1 0 0x12345678 no_version)),
       succeeds (pass_component_rsp test_ops), completed_with (fw_cc_disc InvalidStateForCommand)]"

definition test_update_component_invalid_state :: "unit fd_context test" where
  "test_update_component_invalid_state =
     steps [encodes (update_component_request_encode (update_component_request_new 4 MsgRequest
         ClassApplicationSoftware 1 0 0x12345678 0x1000 0 no_version)),
       succeeds (update_component_rsp test_ops), completed_with (fw_cc_disc InvalidStateForCommand)]"

definition test_activate_firmware_invalid_state :: "unit fd_context test" where
  "test_activate_firmware_invalid_state =
     steps [encodes (blanket_encode 4 activate_firmware_request_bytes
         (activate_firmware_request_new 5 MsgRequest ActivateSelfContainedComponents)),
       succeeds (activate_firmware_rsp test_ops), completed_with (fw_cc_disc InvalidStateForCommand)]"

definition activate_pending_request :: "component_classification \<Rightarrow> unit fd_context test" where
  "activate_pending_request classification =
     encodes (blanket_encode 8 activate_pending_request_bytes (activate_pending_request_new 1 MsgRequest classification 2 3))"

definition test_activate_pending_component_image_invalid_state :: "unit fd_context test" where
  "test_activate_pending_component_image_invalid_state =
     steps [update_internal (set_fd_state Download), activate_pending_request ClassFirmware,
       succeeds (activate_pending_component_image_rsp test_ops), completed_with (fw_cc_disc InvalidStateForCommand)]"

section \<open>Security revisions\<close>

definition UPDATE_SECURITY_REVISION_INSTANCE_ID :: u8 where
  "UPDATE_SECURITY_REVISION_INSTANCE_ID = 7"

definition security_revision_request :: "component_classification \<Rightarrow> unit fd_context test" where
  "security_revision_request classification =
     encodes (blanket_encode 8 update_security_revision_request_bytes
       (update_security_revision_request_new UPDATE_SECURITY_REVISION_INSTANCE_ID MsgRequest classification 2 3))"

definition update_security_revision_answer ::
  "test_config \<Rightarrow> component_classification \<Rightarrow> (unit fd_context \<times> bytes, nat \<times> u8 \<times> u8, msg_handler_error) act" where
  "update_security_revision_answer config classification =
     abind (modify (\<lambda>(c, buffer). (c, replicate 256 0))) (\<lambda>_.
     abind (security_revision_request classification) (\<lambda>_.
     abind (must (update_security_revision_rsp (fd_ops_for_test config))) (\<lambda>bytes.
     abind (must (abind (gets snd) (\<lambda>buffer. lift (rbind (slice 0 bytes buffer)
       (blanket_decode 4 update_security_revision_response_of))))) (\<lambda>resp.
       ret (bytes, usr_completion_code resp, instance_id (usr_hdr resp))))))"

definition update_security_revision_cc ::
  "test_config \<Rightarrow> component_classification \<Rightarrow> (unit fd_context \<times> bytes, u8, msg_handler_error) act" where
  "update_security_revision_cc config classification =
     abind (update_security_revision_answer config classification) (\<lambda>(_, cc, _). ret cc)"

definition test_update_security_revision_committed :: "unit fd_context test" where
  "test_update_security_revision_committed =
     abind (update_security_revision_answer TEST_FD_OPS ClassFirmware) (\<lambda>(bytes, cc, inst).
       steps [assert_that (\<lambda>_. bytes = 4), assert_that (\<lambda>_. cc = base_cc_disc CC_Success),
         assert_that (\<lambda>_. inst = UPDATE_SECURITY_REVISION_INSTANCE_ID), internal_is (\<lambda>i. fi_state i = Idle)])"

definition test_update_security_revision_not_permitted :: "unit fd_context test" where
  "test_update_security_revision_not_permitted =
     abind (update_security_revision_cc TEST_FD_OPS_NO_SECURITY_REVISION ClassFirmware) (\<lambda>cc.
       assert_that (\<lambda>_. cc = fw_cc_disc UpdateSecurityRevisionNotPermitted))"

definition test_update_security_revision_invalid_state :: "unit fd_context test" where
  "test_update_security_revision_invalid_state =
     abind (update_internal (set_fd_state Download)) (\<lambda>_.
     abind (update_security_revision_cc TEST_FD_OPS ClassFirmware) (\<lambda>cc.
       assert_that (\<lambda>_. cc = fw_cc_disc InvalidStateForCommand)))"

definition test_update_security_revision_downstream_device_refused :: "unit fd_context test" where
  "test_update_security_revision_downstream_device_refused =
     abind (update_security_revision_cc TEST_FD_OPS ClassDownstreamDevice) (\<lambda>cc.
       assert_that (\<lambda>_. cc = base_cc_disc CC_InvalidData))"

definition test_update_security_revision_truncated_request_gets_invalid_length :: "unit fd_context test" where
  "test_update_security_revision_truncated_request_gets_invalid_length =
     steps [security_revision_request ClassFirmware,
       returns_len PLDM_FAILURE_RESP_LEN (on_front PLDM_FAILURE_RESP_LEN (update_security_revision_rsp test_ops)),
       header_is (\<lambda>h. \<not> is_request h), header_is (\<lambda>h. instance_id h = UPDATE_SECURITY_REVISION_INSTANCE_ID),
       completed_with (base_cc_disc CC_InvalidLength), internal_is (\<lambda>i. fi_state i = Idle)]"

section \<open>Cancelling, identifiers, status\<close>

definition test_cancel_update_component_not_in_update_mode :: "unit fd_context test" where
  "test_cancel_update_component_not_in_update_mode =
     steps [encodes (blanket_encode 3 cancel_update_component_request_bytes (cancel_update_component_request_new 6 MsgRequest)),
       succeeds (cancel_update_component_rsp test_ops), completed_with (fw_cc_disc NotInUpdateMode)]"

definition test_query_devid_rsp_rejects_zero_descriptor_count :: "unit fd_context test" where
  "test_query_devid_rsp_rejects_zero_descriptor_count =
     abind (query_devid TEST_FD_OPS_NO_DEVID) (\<lambda>result. assert_that (\<lambda>_. result = Err (FdOps DeviceIdentifiersError)))"

definition test_query_devid_rsp_rejects_descriptor_count_above_slice_len :: "unit fd_context test" where
  "test_query_devid_rsp_rejects_descriptor_count_above_slice_len =
     abind (query_devid TEST_FD_OPS_EXTRA_DEVID) (\<lambda>result. assert_that (\<lambda>_. result = Err (FdOps DeviceIdentifiersError)))"

definition t1_timeout_fires :: "u64 \<Rightarrow> unit fd_context test" where
  "t1_timeout_fires sent_time =
     steps [update_internal (set_fd_state Download),
       update_internal (set_fd_req ReqSent True (Some (transfer_result_disc TransferSuccess)) (Some 0)
         (Some (fw_update_cmd_disc TransferComplete)) (Some sent_time)),
       update_internal (set_fd_t1_update_ts 0),
       abind (attempt (fd_progress True test_ops)) (\<lambda>result. assert_that (\<lambda>_. result = Err T1Timeout)),
       internal_is (\<lambda>i. fi_state i = Idle), internal_is (\<lambda>i. fi_reason i = Some ReasonDownloadTimeout),
       internal_is (\<lambda>i. req_state (fi_req i) = ReqUnused)]"

definition test_fd_progress_t1_timeout_fires_while_t2_retry_pending :: "unit fd_context test" where
  "test_fd_progress_t1_timeout_fires_while_t2_retry_pending = t1_timeout_fires (DEFAULT_FD_T1_TIMEOUT + 1)"

definition get_status :: "unit fd_context test" where
  "get_status = encodes (blanket_encode 3 get_status_request_bytes (get_status_request_new 0x0A MsgRequest))"

definition test_get_status_drops_progress_when_callback_fails :: "unit fd_context test" where
  "test_get_status_drops_progress_when_callback_fails =
     steps [update_internal (set_fd_state Download), get_status,
       succeeds (get_status_rsp (fd_ops_for_test TEST_FD_OPS_PROGRESS_FAILS)),
       abind (must (abind (gets snd) (\<lambda>buffer. lift (blanket_decode 14 get_status_response_of buffer)))) (\<lambda>resp.
         assert_that (\<lambda>_. gsr_progress_percent resp = PROGRESS_PERCENT_NOT_SUPPORTED))]"

definition test_get_status_initial_state :: "unit fd_context test" where
  "test_get_status_initial_state =
     steps [get_status, succeeds (get_status_rsp test_ops), header_is (\<lambda>h. \<not> is_request h),
       completed_with (base_cc_disc CC_Success)]"

section \<open>The device's state\<close>

definition moves_to :: "firmware_device_state \<Rightarrow> unit fd_context test" where
  "moves_to st = steps [update_internal (set_fd_state st), internal_is (\<lambda>i. fi_state i = st), internal_is is_update_mode]"

definition test_state_transitions :: "unit fd_context test" where
  "test_state_transitions =
     steps [internal_is (\<lambda>i. fi_state i = Idle), internal_is (\<lambda>i. \<not> is_update_mode i),
       moves_to LearnComponents, moves_to ReadyXfer, moves_to Download, moves_to Verify, moves_to Apply,
       update_internal (set_fd_idle ReasonActivateFw),
       internal_is (\<lambda>i. fi_state i = Idle), internal_is (\<lambda>i. \<not> is_update_mode i)]"

definition sends_request :: "bool \<Rightarrow> unit fd_context test" where
  "sends_request b = abind (should_send_fd_request test_ops) (\<lambda>send. assert_that (\<lambda>_. send = b))"

definition test_should_send_fd_request_unused :: "unit fd_context test" where
  "test_should_send_fd_request_unused = sends_request False"

definition test_should_send_fd_request_ready :: "unit fd_context test" where
  "test_should_send_fd_request_ready =
     steps [update_internal (set_fd_req ReqReady False None None None None), sends_request True]"

definition test_should_send_fd_request_failed :: "unit fd_context test" where
  "test_should_send_fd_request_failed =
     steps [update_internal (set_fd_req ReqFailed False None None None None), sends_request False]"

definition test_transfer_size_management :: "unit fd_context test" where
  "test_transfer_size_management =
     steps [update_internal (set_xfer_size 1024), internal_is (\<lambda>i. get_xfer_size i = 1024)]"

definition test_update_flags_management :: "unit fd_context test" where
  "test_update_flags_management =
     (let flags = 0; flags = set_request_force_update True flags; flags = set_component_opaque_data True flags in
      steps [update_internal (set_update_flags flags), internal_is (\<lambda>i. request_force_update (fi_update_flags i)),
        internal_is (\<lambda>i. component_opaque_data (fi_update_flags i))])"

definition test_component_storage :: "unit fd_context test" where
  "test_component_storage =
     abind (must (lift (firmware_string_new ''ASCII'' ''v1.0.0''))) (\<lambda>version_string.
       steps [update_internal (set_component
           (firmware_component_new 0x0A 1 0 0x12345678 version_string (Some 0x1000) (Some 0))),
         internal_is (\<lambda>i. fc_identifier (fi_update_comp i) = 1),
         internal_is (\<lambda>i. fc_comparison_stamp (fi_update_comp i) = 0x12345678)])"

definition test_fd_progress_t1_timeout_cancels_update :: "unit fd_context test" where
  "test_fd_progress_t1_timeout_cancels_update = t1_timeout_fires 0"

section \<open>Pending images\<close>

definition activate_pending_component_image ::
  "test_config \<Rightarrow> (unit fd_context \<times> bytes, nat \<times> u8 \<times> u16, msg_handler_error) act" where
  "activate_pending_component_image config =
     abind (activate_pending_request ClassFirmware) (\<lambda>_.
     abind (must (activate_pending_component_image_rsp (fd_ops_for_test config))) (\<lambda>bytes.
     abind (must (abind (gets snd) (\<lambda>buffer. lift (rbind (slice 0 bytes buffer)
       (blanket_decode 6 activate_pending_response_of))))) (\<lambda>resp.
       ret (bytes, apr_completion_code resp, apr_estimated_time_activation resp))))"

definition activates_pending :: "test_config \<Rightarrow> u8 \<Rightarrow> u16 \<Rightarrow> unit fd_context test" where
  "activates_pending config cc time =
     abind (activate_pending_component_image config) (\<lambda>(bytes, completion_code, estimated_time).
       steps [assert_that (\<lambda>_. bytes = 6), assert_that (\<lambda>_. completion_code = cc), assert_that (\<lambda>_. estimated_time = time)])"

definition test_activate_pending_component_image_success :: "unit fd_context test" where
  "test_activate_pending_component_image_success =
     activates_pending TEST_FD_OPS (base_cc_disc CC_Success) TEST_PENDING_ACTIVATION_SECS"

definition test_activate_pending_component_image_not_required :: "unit fd_context test" where
  "test_activate_pending_component_image_not_required =
     activates_pending TEST_FD_OPS_NO_PENDING_IMAGE (fw_cc_disc ActivationNotRequired) 0"

definition test_activate_pending_component_image_downstream_device_refused :: "unit fd_context test" where
  "test_activate_pending_component_image_downstream_device_refused =
     steps [activate_pending_request ClassDownstreamDevice,
       succeeds (activate_pending_component_image_rsp (fd_ops_for_test TEST_FD_OPS_REJECT_PENDING)),
       completed_with (base_cc_disc CC_InvalidData)]"

definition test_activate_pending_component_image_rejected :: "unit fd_context test" where
  "test_activate_pending_component_image_rejected =
     activates_pending TEST_FD_OPS_REJECT_PENDING (fw_cc_disc ActivatePendingImageNotPermitted) 0"

section \<open>They pass\<close>

definition fd_context_tests :: "unit fd_context test list" where
  "fd_context_tests = [
     test_firmware_device_context_new,
     test_query_devid_rsp_basic,
     test_request_update_already_in_update_mode,
     test_request_update_invalid_transfer_size,
     test_request_update_truncated_request_gets_invalid_length,
     test_request_update_oversized_version_string_gets_invalid_data,
     test_pass_component_invalid_state,
     test_update_component_invalid_state,
     test_activate_firmware_invalid_state,
     test_activate_pending_component_image_invalid_state,
     test_update_security_revision_committed,
     test_update_security_revision_not_permitted,
     test_update_security_revision_invalid_state,
     test_update_security_revision_downstream_device_refused,
     test_update_security_revision_truncated_request_gets_invalid_length,
     test_cancel_update_component_not_in_update_mode,
     test_query_devid_rsp_rejects_zero_descriptor_count,
     test_query_devid_rsp_rejects_descriptor_count_above_slice_len,
     test_fd_progress_t1_timeout_fires_while_t2_retry_pending,
     test_get_status_drops_progress_when_callback_fails,
     test_get_status_initial_state,
     test_state_transitions,
     test_should_send_fd_request_unused,
     test_should_send_fd_request_ready,
     test_should_send_fd_request_failed,
     test_transfer_size_management,
     test_update_flags_management,
     test_component_storage,
     test_fd_progress_t1_timeout_cancels_update,
     test_activate_pending_component_image_success,
     test_activate_pending_component_image_not_required,
     test_activate_pending_component_image_downstream_device_refused,
     test_activate_pending_component_image_rejected]"

lemma fd_tests_1 [tested]:
  "fd_test test_firmware_device_context_new"
  "fd_test test_query_devid_rsp_basic"
  "fd_test test_request_update_already_in_update_mode"
  "fd_test test_request_update_invalid_transfer_size"
  by code_simp+

lemma fd_tests_2 [tested]:
  "fd_test test_request_update_truncated_request_gets_invalid_length"
  "fd_test test_request_update_oversized_version_string_gets_invalid_data"
  "fd_test test_pass_component_invalid_state"
  "fd_test test_update_component_invalid_state"
  by code_simp+

lemma fd_tests_3 [tested]:
  "fd_test test_activate_firmware_invalid_state"
  "fd_test test_activate_pending_component_image_invalid_state"
  "fd_test test_update_security_revision_committed"
  "fd_test test_update_security_revision_not_permitted"
  by code_simp+

lemma fd_tests_4 [tested]:
  "fd_test test_update_security_revision_invalid_state"
  "fd_test test_update_security_revision_downstream_device_refused"
  "fd_test test_update_security_revision_truncated_request_gets_invalid_length"
  "fd_test test_cancel_update_component_not_in_update_mode"
  by code_simp+

lemma fd_tests_5 [tested]:
  "fd_test test_query_devid_rsp_rejects_zero_descriptor_count"
  "fd_test test_query_devid_rsp_rejects_descriptor_count_above_slice_len"
  "fd_test test_fd_progress_t1_timeout_fires_while_t2_retry_pending"
  "fd_test test_get_status_drops_progress_when_callback_fails"
  by code_simp+

lemma fd_tests_6 [tested]:
  "fd_test test_get_status_initial_state"
  "fd_test test_state_transitions"
  "fd_test test_should_send_fd_request_unused"
  "fd_test test_should_send_fd_request_ready"
  by code_simp+

lemma fd_tests_7 [tested]:
  "fd_test test_should_send_fd_request_failed"
  "fd_test test_transfer_size_management"
  "fd_test test_update_flags_management"
  "fd_test test_component_storage"
  by code_simp+

lemma fd_tests_8 [tested]:
  "fd_test test_fd_progress_t1_timeout_cancels_update"
  "fd_test test_activate_pending_component_image_success"
  "fd_test test_activate_pending_component_image_not_required"
  "fd_test test_activate_pending_component_image_downstream_device_refused"
  by code_simp+

lemma fd_tests_9 [tested]:
  "fd_test test_activate_pending_component_image_rejected"
  by code_simp+

text \<open>The model passes the unit tests of the firmware device: each of the tests of \<open>fd_context.rs\<close>, run on
  the handlers of the model with the answers of the tests' platform, meets every one of its
  assertions.\<close>

lemma fd_context_tests_pass: "list_all fd_test fd_context_tests"
  by (simp add: fd_context_tests_def tested)

end
