(* ===== verification/Spec2Isabelle.thy ===== *)
theory Spec2Isabelle
  imports Interface_Machine Fd_Builds Fd_Campaign Fd_Silence Message_Tests Downstream_Tests Control_Tests Fd_Tests
begin

text \<open>
  A verification development for pldm-lib, a PLDM (DSP0240, DSP0267) responder in Rust for
  platform firmware that can be updated over MCTP.

  \<^bold>\<open>The program.\<close>  \<open>pldm-common\<close> holds the protocol: enums, message headers, the codec layer, one
  file per message.  \<open>pldm-interface\<close> holds the device: \<open>control_context.rs\<close> answers the
  discovery commands, \<open>firmware_device/fd_context.rs\<close> with its state in \<open>fd_internal.rs\<close> is
  the firmware device of an update, and \<open>cmd_interface.rs\<close> receives one message in a buffer
  behind an MCTP type byte, validates its header against the capability table of \<open>config.rs\<close>
  and dispatches it to one of the two.  The device is a responder to the Update Agent's requests
  and an initiator as well: once a component update was accepted, \<open>fd_progress\<close> asks the Update
  Agent for firmware data and reports the ends of transfer, verification and application, and
  \<open>handle_response\<close> takes the answers.  Everything a platform decides is behind the callbacks of
  the trait \<open>FdOps\<close> (\<open>fd_ops.rs\<close>).

  \<^bold>\<open>How it is modelled.\<close>  A \<open>Result\<close> with the possibility of a panic is \<open>outcome\<close>: a value, an
  error, or \<open>Panic\<close>, which an index or slice out of range, an \<open>unwrap\<close> of an error,
  \<open>unreachable!\<close> and an overflow in a build with overflow checks lead to.  A method with \<open>&mut\<close>
  arguments is an \<open>act\<close> on the state it may change, here a context and the payload buffer, and
  keeps the state it had reached when it returns early.  Integers are words of their width;
  \<open>usize\<close> is \<open>nat\<close>, since every size is bounded by a buffer or a constant.  A buffer is a list of
  bytes.  An \<open>enum\<close> is a datatype with its discriminants and its checked conversion; a
  \<open>repr(C, packed)\<close> struct is a record with the byte layout that zerocopy derives, the fields in
  order, little-endian, without padding; the accessors of \<open>bitfield!\<close> are \<open>get_bits\<close> and
  \<open>set_bits\<close> at the declared positions.  Where the code adds without a check,
  \<open>add_checked\<close> takes the parameter \<open>oc\<close>: with overflow checks the sum panics, without them it
  wraps.  The platform is a record of functions on an arbitrary platform state, the parameter
  \<open>ops\<close> of every definition that calls out.  What the code takes for granted of what it fills in is
  the hypothesis \<open>platform_wf\<close> (what it writes into the arrays it is lent is well-formed, at most eight components,
  it keeps their lengths, and its progress is a percentage).  The hypothesis \<open>standard_codes\<close> is a duty the
  code has without stating it: the types of \<open>handle_component\<close> and \<open>download_fw_data\<close> allow a
  vendor-defined answer, and the device panics on one (\<open>vendor_response_code_panics\<close>,
  \<open>vendor_transfer_result_panics\<close>), so that whatever holds of every reachable state holds for platforms
  that do not give it.  \<open>test_fd_ops\<close> is a platform that meets both.

  \<^bold>\<open>The theories, in the order of the code.\<close>
  \<^item> \<open>Prelude\<close>: outcomes, acts and their weakest preconditions, slices and writes, little-endian words.
  \<^item> \<open>Codec\<close> (\<open>codec.rs\<close>): the blanket codec of zerocopy structs and the contracts of the layer as
    locales: \<open>wire_enum\<close>, \<open>packed_struct\<close>, \<open>codec_exact\<close> and \<open>codec\<close>.  Every enum, struct and
    hand-written codec of the library interprets one of them, which gives it its round trip,
    its behaviour on short buffers, the frame of what it writes and the absence of panics.
  \<^item> \<open>Base\<close>, \<open>Version\<close>, \<open>Mctp\<close> (\<open>protocol/base.rs\<close>, \<open>protocol/version.rs\<close>, \<open>util/mctp_transport.rs\<close>):
    header, base enums and failure response; version strings and their BCD encoding; framing.
  \<^item> \<open>Fw_Types\<close>, \<open>Fw_Data\<close>, \<open>Fw_Params\<close> (\<open>protocol/firmware_update.rs\<close>): enums and flag words;
    descriptors and version strings with their order; component parameter entries.
  \<^item> \<open>Control_Msgs\<close> (\<open>message/control.rs\<close>), \<open>Fw_Msgs\<close>, \<open>Var_Msgs\<close>, \<open>Get_Fw_Params\<close>,
    \<open>Package_Data\<close>, \<open>Downstream\<close>, \<open>Downstream_Params\<close> (\<open>message/firmware_update/\<close>): the messages.  The
    device does not handle those of the last three theories; \<open>Downstream\<close> holds the iterators over
    the downstream devices of a response and over the descriptors of a device.
  \<^item> \<open>Fw_Component\<close> (\<open>util/fw_component.rs\<close>): whether an offered component is eligible.
  \<^item> \<open>Responder\<close>, \<open>Control_Context\<close> (\<open>control_context.rs\<close>): the idioms of the handlers, the failure
    response they fall back to, and the control responder over the terminus id and the table.
  \<^item> \<open>Fd_Internal\<close>, \<open>Fd_Ops\<close>, \<open>Fd_Context\<close>, \<open>Fd_Progress\<close>: the device's state, the callbacks, the
    eleven request handlers with their dispatcher, and the initiator, one definition per method.
  \<^item> \<open>Cmd_Interface\<close>: the interface, with the busy flag that its entry point holds.

  \<^bold>\<open>What is shown.\<close>  \<open>Fd_Invariant\<close> proves the device's invariant (the bookkeeping of the outstanding
  request, the agreement of the initiator's mode with the state, the bound of the progress) with a
  precondition and an edge of the state diagram for every handler.  \<open>Transitions\<close> states what a run
  is and, as the locale \<open>simulation\<close>, what it means to refine an abstract system; \<open>Fd_Machine\<close>
  interprets it with the device as the detailed system and the update protocol as the abstract
  one, so that in every reachable state of the device no call panics, the invariant holds and the
  device has gone through every state on the way.  \<open>Interface_Machine\<close> interprets it once more
  for the whole library, the interface with both contexts, driven by any sequence of messages,
  requests, responses and platform changes, over a table of the two protocols the library has (\<open>serves\<close>).  \<open>Fd_Guards\<close> holds what each command does in the states
  that refuse or allow it, \<open>Fd_Timing\<close> the behaviour over time: responses out of turn, the
  timeouts, and what a request for data that was sent consists of (\<open>request_sent\<close>).
  \<open>Fd_Requests\<close> says what the three requests that lead to a download do, with the response they
  are answered with, and what becomes of an image whose size is extreme; \<open>Fd_Download\<close> and \<open>Fd_Update\<close> compose the steps: an Update Agent that answers every
  request takes a component from the accepted \<open>UpdateComponent\<close> to its applied image in a bounded number
  of rounds, on any platform that keeps the contracts \<open>stores_in_order\<close> and \<open>checks_component\<close>; the
  phases of verification and application are two interpretations of the locale \<open>checked_phase\<close>.
  \<open>Fd_Frame\<close> is a calculus of what handlers leave alone (\<open>keeps\<close>, with the locales \<open>sending_frame\<close> and
  \<open>initiator_frame\<close>); it shows that the arrays of the state keep their lengths and that a component
  under update is fully known.  \<open>Fd_Campaign\<close> uses it to compose the updates of several components
  into the whole of an update, from \<open>RequestUpdate\<close> to \<open>ActivateFirmware\<close>, the images of the
  components that are done left alone (\<open>updates\<close>).  \<open>Fd_Silence\<close> shows that a request whose answer
  is lost is repeated and a late answer to the first refused, and that an update ends when the Update
  Agent does not answer any more, on a clock that moves (\<open>passes_time\<close>); \<open>Fd_Builds\<close> shows that
  builds with and without overflow checks behave alike as long as the image and the platform's
  offsets leave room for the sums (\<open>no_overflow\<close>).
  \<open>Control_Context\<close> relates the answers to discovery commands to the table; the message theories
  show the round trips of what their constructors build and that no bytes make a decoder panic.

  \<^bold>\<open>The tests.\<close>  \<open>Common_Tests\<close>, \<open>Message_Tests\<close>, \<open>Downstream_Tests\<close>, \<open>Control_Tests\<close> and \<open>Fd_Tests\<close> hold
  the unit tests of the repository, each a definition, over the vocabulary of \<open>Test_Support\<close>: a
  test panics where an assertion fails.  They run on the model, in the kernel, or follow from
  the contract of a codec where the buffer is large: what the authors expect of the code at the
  points they test is what the model does.

  \<^bold>\<open>Totality.\<close>  No definition needs fuel.  The loops of the code run over a list, over a count that a
  message claims, or over the devices of a portion; the last is a \<open>function\<close> whose measure is what is
  left of the 16-bit count.  \<open>fd_progress\<close> is one step of the initiator, and its repetition is a
  run of the machine; \<open>update_rounds\<close> counts its rounds with the Update Agent's answers, \<open>campaign\<close> takes
  such a count for every component, and \<open>silence\<close> counts the calls that hear nothing.

  \<^bold>\<open>What is not modelled.\<close>  The crates zerocopy and bitfield, beyond the layouts and accessors they
  document, and big-endian targets (the code mixes native and little-endian accesses); alignment
  of the structs that are not packed, which are only ever encoded by hand.  The atomics of the
  control context and of the busy flag are plain cells: every entry point takes an exclusive
  borrow.  \<open>Debug\<close> and \<open>Display\<close> output, the \<open>mod.rs\<close> files, and the
  integration tests under \<open>pldm-common/tests\<close>, whose samples the message theories cover for all inputs.
\<close>

text \<open>The tests, all of them.\<close>

lemma unit_tests_pass:
  "list_all fd_test fd_context_tests \<and> test_protocol_capability \<and> test_control_context
   \<and> list_all ctl_test control_context_tests
   \<and> list_all (\<lambda>passed. passed) (common_tests @ message_tests @ downstream_tests)"
  by (simp add: fd_context_tests_pass control_context_tests_pass common_tests_pass message_tests_pass downstream_tests_pass)

end
